(* ===== verification/Prelude.thy ===== *)
theory Prelude
  imports Complex_Main
begin

text \<open>
  What every component of the development shares.

  \<^item> The exceptions the Python code raises or lets through, as a datatype.
  \<^item> A state-and-exception monad, \<open>prog\<close>: a method call takes the state and gives a
    result or an exception, and the state it leaves. The state survives an exception, as the
    effects of a Python method that raises do.
  \<^item> A weakest-precondition calculus for it (\<open>wp\<close>, collected in \<open>wp_rules\<close>) and
    predicates for the facts most proofs share: \<open>keeps\<close> (an invariant of the state) in the
    collection \<open>keeps_rules\<close>.
  \<^item> Python dictionaries with insertion order, as association lists.
\<close>

section \<open>Exceptions\<close>

datatype exn =
    HTTPException int string      \<comment> \<open>fastapi.HTTPException(status, detail)\<close>
  | HTTPStatusError int           \<comment> \<open>httpx: raise_for_status on this status code\<close>
  | HTTPTransportError string     \<comment> \<open>any other httpx.HTTPError\<close>
  | RuntimeError string
  | ValueError string
  | KeyError string
  | IndexError
  | TypeError
  | AttributeError
  | OSError string
  | OtherError string string      \<comment> \<open>any other class, with its message\<close>

text \<open>\<open>except httpx.HTTPError\<close> catches these two.\<close>

fun is_httpx_error :: "exn \<Rightarrow> bool" where
  "is_httpx_error (HTTPStatusError _) = True"
| "is_httpx_error (HTTPTransportError _) = True"
| "is_httpx_error _ = False"

text \<open>
  \<open>str(e)\<close>. The wording httpx gives a status error is not modelled beyond the code; the number
  in an HTTPException's text is left to its reader.
\<close>

fun exn_str :: "exn \<Rightarrow> string" where
  "exn_str (HTTPException _ d) = d"
| "exn_str (HTTPStatusError _) = ''HTTP status error''"
| "exn_str (HTTPTransportError m) = m"
| "exn_str (RuntimeError m) = m"
| "exn_str (ValueError m) = m"
| "exn_str (KeyError k) = [CHR 0x27] @ k @ [CHR 0x27]"
| "exn_str IndexError = ''list index out of range''"
| "exn_str TypeError = ''type error''"
| "exn_str AttributeError = ''attribute error''"
| "exn_str (OSError m) = m"
| "exn_str (OtherError _ m) = m"

text \<open>\<open>type(e).__name__\<close>.\<close>

fun type_name :: "exn \<Rightarrow> string" where
  "type_name (HTTPException _ _) = ''HTTPException''"
| "type_name (HTTPStatusError _) = ''HTTPStatusError''"
| "type_name (HTTPTransportError _) = ''HTTPError''"
| "type_name (RuntimeError _) = ''RuntimeError''"
| "type_name (ValueError _) = ''ValueError''"
| "type_name (KeyError _) = ''KeyError''"
| "type_name IndexError = ''IndexError''"
| "type_name TypeError = ''TypeError''"
| "type_name AttributeError = ''AttributeError''"
| "type_name (OSError _) = ''OSError''"
| "type_name (OtherError c _) = c"

text \<open>The built-in subclasses of \<open>OSError\<close> a file operation raises.\<close>

definition is_os_error :: "exn \<Rightarrow> bool" where
  "is_os_error e = (case e of OSError _ \<Rightarrow> True
     | OtherError c _ \<Rightarrow> c \<in> {''FileNotFoundError'', ''PermissionError'', ''IsADirectoryError'', ''NotADirectoryError''}
     | _ \<Rightarrow> False)"

section \<open>The monad\<close>

type_synonym ('s, 'a) prog = "'s \<Rightarrow> (exn + 'a) \<times> 's"

named_theorems wp_rules
named_theorems keeps_rules
named_theorems run_simps

definition ret :: "'a \<Rightarrow> ('s, 'a) prog" where
  "ret x = (\<lambda>s. (Inr x, s))"

definition raise :: "exn \<Rightarrow> ('s, 'a) prog" where
  "raise e = (\<lambda>s. (Inl e, s))"

definition bnd :: "('s, 'a) prog \<Rightarrow> ('a \<Rightarrow> ('s, 'b) prog) \<Rightarrow> ('s, 'b) prog" where
  "bnd m f = (\<lambda>s. case m s of (Inl e, t) \<Rightarrow> (Inl e, t) | (Inr x, t) \<Rightarrow> f x t)"

definition thn :: "('s, 'a) prog \<Rightarrow> ('s, 'b) prog \<Rightarrow> ('s, 'b) prog" where
  "thn m k = bnd m (\<lambda>_. k)"

text \<open>\<open>try: m except: h\<close>; a handler that does not handle \<open>e\<close> raises it again.\<close>

definition catch :: "('s, 'a) prog \<Rightarrow> (exn \<Rightarrow> ('s, 'a) prog) \<Rightarrow> ('s, 'a) prog" where
  "catch m h = (\<lambda>s. case m s of (Inl e, t) \<Rightarrow> h e t | (Inr x, t) \<Rightarrow> (Inr x, t))"

text \<open>\<open>try: m finally: f\<close>.\<close>

definition always :: "('s, 'a) prog \<Rightarrow> ('s, unit) prog \<Rightarrow> ('s, 'a) prog" where
  "always m f = (\<lambda>s. case m s of (r, t) \<Rightarrow> (case f t of (Inl e, u) \<Rightarrow> (Inl e, u) | (Inr _, u) \<Rightarrow> (r, u)))"

definition gets :: "('s \<Rightarrow> 'a) \<Rightarrow> ('s, 'a) prog" where
  "gets f = (\<lambda>s. (Inr (f s), s))"

definition modify :: "('s \<Rightarrow> 's) \<Rightarrow> ('s, unit) prog" where
  "modify f = (\<lambda>s. (Inr (), f s))"

primrec for_each :: "'a list \<Rightarrow> ('a \<Rightarrow> ('s, unit) prog) \<Rightarrow> ('s, unit) prog" where
  "for_each [] f = ret ()"
| "for_each (x # xs) f = thn (f x) (for_each xs f)"

primrec collect :: "('a \<Rightarrow> ('s, 'b) prog) \<Rightarrow> 'a list \<Rightarrow> ('s, 'b list) prog" where
  "collect f [] = ret []"
| "collect f (x # xs) = bnd (f x) (\<lambda>y. bnd (collect f xs) (\<lambda>ys. ret (y # ys)))"

primrec fold_prog :: "('a \<Rightarrow> 'b \<Rightarrow> ('s, 'b) prog) \<Rightarrow> 'a list \<Rightarrow> 'b \<Rightarrow> ('s, 'b) prog" where
  "fold_prog f [] acc = ret acc"
| "fold_prog f (x # xs) acc = bnd (f x acc) (fold_prog f xs)"

definition of_sum :: "exn + 'a \<Rightarrow> ('s, 'a) prog" where
  "of_sum r = (case r of Inl e \<Rightarrow> raise e | Inr x \<Rightarrow> ret x)"

lemma ret_run [run_simps]: "ret x s = (Inr x, s)"
  by (simp add: ret_def)

lemma raise_run [run_simps]: "raise e s = (Inl e, s)"
  by (simp add: raise_def)

lemma gets_run [run_simps]: "gets f s = (Inr (f s), s)"
  by (simp add: gets_def)

lemma modify_run [run_simps]: "modify f s = (Inr (), f s)"
  by (simp add: modify_def)

lemma bnd_run [run_simps]:
  "bnd m f s = (case m s of (Inl e, t) \<Rightarrow> (Inl e, t) | (Inr x, t) \<Rightarrow> f x t)"
  by (simp add: bnd_def)

lemma thn_run [run_simps]:
  "thn m k s = (case m s of (Inl e, t) \<Rightarrow> (Inl e, t) | (Inr x, t) \<Rightarrow> k t)"
  by (simp add: thn_def bnd_def)

lemma catch_run [run_simps]:
  "catch m h s = (case m s of (Inl e, t) \<Rightarrow> h e t | (Inr x, t) \<Rightarrow> (Inr x, t))"
  by (simp add: catch_def)

lemma always_run [run_simps]:
  "always m f s = (case m s of (r, t) \<Rightarrow> (case f t of (Inl e, u) \<Rightarrow> (Inl e, u) | (Inr _, u) \<Rightarrow> (r, u)))"
  by (simp add: always_def)

lemma bnd_ret [simp]: "bnd (ret x) f = f x"
  by (simp add: bnd_def ret_def)

lemma bnd_raise [simp]: "bnd (raise e) f = raise e"
  by (simp add: bnd_def raise_def)

lemma ret_bnd [simp]: "bnd m ret = m"
  by (rule ext) (simp add: run_simps split: prod.splits sum.splits)

lemma bnd_assoc: "bnd (bnd m f) g = bnd m (\<lambda>x. bnd (f x) g)"
  by (rule ext) (simp add: run_simps split: prod.splits sum.splits)

lemma of_sum_run [run_simps]: "of_sum r s = (r, s)"
  by (cases r) (simp_all add: of_sum_def run_simps)

text \<open>For evaluation: a composed program runs only when its state is there.\<close>

declare ret_def [code del] raise_def [code del] bnd_def [code del] thn_def [code del] catch_def [code del]
  always_def [code del] gets_def [code del] modify_def [code del] of_sum_def [code del]

declare ret_run [code] raise_run [code] bnd_run [code] thn_run [code] catch_run [code] always_run [code]
  gets_run [code] modify_run [code] of_sum_run [code]

text \<open>How a run of a composed program came about.\<close>

lemma bndE:
  assumes "bnd m f s = (r, t)"
  obtains (raised) e where "m s = (Inl e, t)" "r = Inl e" | (goes_on) x u where "m s = (Inr x, u)" "f x u = (r, t)"
  using assms by (cases "m s"; cases "fst (m s)") (auto simp: run_simps)

lemma thnE:
  assumes "thn m k s = (r, t)"
  obtains (raised) e where "m s = (Inl e, t)" "r = Inl e" | (goes_on) x u where "m s = (Inr x, u)" "k u = (r, t)"
  using assms unfolding thn_def by (rule bndE)

lemma catchE:
  assumes "catch m h s = (r, t)"
  obtains (returned) x where "m s = (Inr x, t)" "r = Inr x" | (caught) e u where "m s = (Inl e, u)" "h e u = (r, t)"
  using assms by (cases "m s"; cases "fst (m s)") (auto simp: run_simps)

text \<open>The same for code without state: a value or an exception.\<close>

definition andthen :: "exn + 'a \<Rightarrow> ('a \<Rightarrow> exn + 'b) \<Rightarrow> exn + 'b" where
  "andthen r f = (case r of Inl e \<Rightarrow> Inl e | Inr x \<Rightarrow> f x)"

primrec sum_fold :: "('a \<Rightarrow> 'b \<Rightarrow> exn + 'b) \<Rightarrow> 'a list \<Rightarrow> 'b \<Rightarrow> exn + 'b" where
  "sum_fold f [] acc = Inr acc"
| "sum_fold f (x # xs) acc = andthen (f x acc) (sum_fold f xs)"

lemma andthen_simps [simp]: "andthen (Inl e) f = Inl e" "andthen (Inr x) f = f x"
  by (simp_all add: andthen_def)

lemma andthen_Inr [simp]: "andthen r f = Inr y \<longleftrightarrow> (\<exists>x. r = Inr x \<and> f x = Inr y)"
  by (cases r) simp_all

section \<open>Weakest preconditions\<close>

text \<open>\<open>wp m Q R s\<close>: run from \<open>s\<close>, the program \<open>m\<close> returns with \<open>Q\<close> or raises
  with \<open>R\<close>.\<close>

definition wp :: "('s, 'a) prog \<Rightarrow> ('a \<Rightarrow> 's \<Rightarrow> bool) \<Rightarrow> (exn \<Rightarrow> 's \<Rightarrow> bool) \<Rightarrow> 's \<Rightarrow> bool" where
  "wp m Q R s = (case m s of (Inl e, t) \<Rightarrow> R e t | (Inr x, t) \<Rightarrow> Q x t)"

lemma wp_ret [wp_rules]: "wp (ret x) Q R s = Q x s"
  and wp_raise [wp_rules]: "wp (raise e) Q R s = R e s"
  and wp_gets [wp_rules]: "wp (gets f) Q R s = Q (f s) s"
  and wp_modify [wp_rules]: "wp (modify f) Q R s = Q () (f s)"
  by (simp_all add: wp_def run_simps)

lemma wp_bnd [wp_rules]: "wp (bnd m f) Q R s = wp m (\<lambda>x. wp (f x) Q R) R s"
  by (simp add: wp_def run_simps split: prod.splits sum.splits)

lemma wp_thn [wp_rules]: "wp (thn m k) Q R s = wp m (\<lambda>_. wp k Q R) R s"
  by (simp add: thn_def wp_bnd)

lemma wp_catch [wp_rules]: "wp (catch m h) Q R s = wp m Q (\<lambda>e. wp (h e) Q R) s"
  by (simp add: wp_def run_simps split: prod.splits sum.splits)

lemma wp_of_sum [wp_rules]:
  "wp (of_sum r) Q R s = (case r of Inl e \<Rightarrow> R e s | Inr x \<Rightarrow> Q x s)"
  by (simp add: wp_def run_simps split: sum.splits)

lemma wp_always [wp_rules]:
  "wp (always m f) Q R s =
   wp m (\<lambda>x t. wp f (\<lambda>_ u. Q x u) R t) (\<lambda>e t. wp f (\<lambda>_ u. R e u) R t) s"
  by (auto simp: wp_def run_simps split: prod.splits sum.splits)

lemma wp_mono:
  "wp m Q R s \<Longrightarrow> (\<And>x t. Q x t \<Longrightarrow> Q' x t) \<Longrightarrow> (\<And>e t. R e t \<Longrightarrow> R' e t) \<Longrightarrow> wp m Q' R' s"
  by (auto simp: wp_def split: prod.splits sum.splits)

lemma wp_runD: "wp m Q R s \<Longrightarrow> m s = (Inr x, t) \<Longrightarrow> Q x t"
  and wp_raiseD: "wp m Q R s \<Longrightarrow> m s = (Inl e, t) \<Longrightarrow> R e t"
  by (simp_all add: wp_def)

section \<open>Invariants\<close>

text \<open>\<open>keeps I m\<close>: \<open>m\<close> keeps the relation \<open>I\<close> between the state before and the state
  after, whether it returns or raises. \<open>I\<close> has to be reflexive and transitive for the rules
  of composition.\<close>

definition keeps :: "('s \<Rightarrow> 's \<Rightarrow> bool) \<Rightarrow> ('s, 'a) prog \<Rightarrow> bool" where
  "keeps I m \<longleftrightarrow> (\<forall>s. I s (snd (m s)))"

definition preorder_rel :: "('s \<Rightarrow> 's \<Rightarrow> bool) \<Rightarrow> bool" where
  "preorder_rel I \<longleftrightarrow> reflp I \<and> transp I"

lemma keepsD: "keeps I m \<Longrightarrow> m s = (r, t) \<Longrightarrow> I s t"
  by (metis keeps_def snd_conv)

lemma keepsI: "(\<And>s r t. m s = (r, t) \<Longrightarrow> I s t) \<Longrightarrow> keeps I m"
  by (metis keeps_def prod.collapse)

lemma keeps_ret [keeps_rules]: "preorder_rel I \<Longrightarrow> keeps I (ret x)"
  and keeps_raise [keeps_rules]: "preorder_rel I \<Longrightarrow> keeps I (raise e)"
  and keeps_gets [keeps_rules]: "preorder_rel I \<Longrightarrow> keeps I (gets f)"
  and keeps_of_sum [keeps_rules]: "preorder_rel I \<Longrightarrow> keeps I (of_sum r)"
  by (simp_all add: keeps_def preorder_rel_def reflp_def run_simps)

lemma keeps_bnd [keeps_rules]:
  assumes "preorder_rel I" and "keeps I m" and "\<And>x. keeps I (f x)"
  shows "keeps I (bnd m f)"
proof (rule keepsI)
  fix s r t
  assume run: "bnd m f s = (r, t)"
  obtain q u where m: "m s = (q, u)" by (cases "m s")
  with assms(2) have su: "I s u" by (blast dest: keepsD)
  show "I s t"
  proof (cases q)
    case (Inl e)
    with m run su show ?thesis by (simp add: bnd_run)
  next
    case (Inr x)
    with m run have "f x u = (r, t)" by (simp add: bnd_run)
    with assms(3) have "I u t" by (blast dest: keepsD)
    with su assms(1) show ?thesis unfolding preorder_rel_def by (blast dest: transpD)
  qed
qed

lemma keeps_thn [keeps_rules]:
  "preorder_rel I \<Longrightarrow> keeps I m \<Longrightarrow> keeps I k \<Longrightarrow> keeps I (thn m k)"
  by (simp add: thn_def keeps_bnd)

lemma keeps_catch [keeps_rules]:
  assumes "preorder_rel I" and "keeps I m" and "\<And>e. keeps I (h e)"
  shows "keeps I (catch m h)"
proof (rule keepsI)
  fix s r t
  assume run: "catch m h s = (r, t)"
  obtain q u where m: "m s = (q, u)" by (cases "m s")
  with assms(2) have su: "I s u" by (blast dest: keepsD)
  show "I s t"
  proof (cases q)
    case (Inr x)
    with m run su show ?thesis by (simp add: catch_run)
  next
    case (Inl e)
    with m run have "h e u = (r, t)" by (simp add: catch_run)
    with assms(3) have "I u t" by (blast dest: keepsD)
    with su assms(1) show ?thesis unfolding preorder_rel_def by (blast dest: transpD)
  qed
qed

lemma keeps_if [keeps_rules]: "keeps I m \<Longrightarrow> keeps I k \<Longrightarrow> keeps I (if b then m else k)"
  by simp

lemma keeps_case_option [keeps_rules]:
  "keeps I m \<Longrightarrow> (\<And>x. keeps I (f x)) \<Longrightarrow> keeps I (case_option m f z)"
  by (simp split: option.splits)

lemma keeps_case_list [keeps_rules]:
  "keeps I m \<Longrightarrow> (\<And>x xs. keeps I (f x xs)) \<Longrightarrow> keeps I (case_list m f z)"
  by (simp split: list.splits)

lemma keeps_case_sum [keeps_rules]:
  "(\<And>x. keeps I (f x)) \<Longrightarrow> (\<And>x. keeps I (g x)) \<Longrightarrow> keeps I (case_sum f g z)"
  by (simp split: sum.splits)

lemma keeps_case_prod [keeps_rules]:
  "(\<And>x y. keeps I (f x y)) \<Longrightarrow> keeps I (case_prod f z)"
  by (simp split: prod.splits)

lemma keeps_let [keeps_rules]: "(\<And>x. keeps I (f x)) \<Longrightarrow> keeps I (let x = e in f x)"
  by simp

lemma keeps_for_each [keeps_rules]:
  "preorder_rel I \<Longrightarrow> (\<And>x. keeps I (f x)) \<Longrightarrow> keeps I (for_each xs f)"
  by (induction xs) (simp_all add: keeps_ret keeps_thn)

lemma keeps_collect [keeps_rules]:
  "preorder_rel I \<Longrightarrow> (\<And>x. keeps I (f x)) \<Longrightarrow> keeps I (collect f xs)"
  by (induction xs) (simp_all add: keeps_ret keeps_bnd)

lemma keeps_fold_prog [keeps_rules]:
  "preorder_rel I \<Longrightarrow> (\<And>x acc. keeps I (f x acc)) \<Longrightarrow> keeps I (fold_prog f xs acc)"
  by (induction xs arbitrary: acc) (simp_all add: keeps_ret keeps_bnd)

section \<open>Dictionaries with insertion order\<close>

text \<open>
  Python's \<open>d[k] = v\<close> keeps the place of an existing key and appends a new one;
  \<open>d.pop(k, None)\<close> drops the key. Lookup is \<^const>\<open>map_of\<close>.
\<close>

fun dict_set :: "'k \<Rightarrow> 'v \<Rightarrow> ('k \<times> 'v) list \<Rightarrow> ('k \<times> 'v) list" where
  "dict_set k v [] = [(k, v)]"
| "dict_set k v ((k', v') # d) = (if k = k' then (k, v) # d else (k', v') # dict_set k v d)"

definition dict_pop :: "'k \<Rightarrow> ('k \<times> 'v) list \<Rightarrow> ('k \<times> 'v) list" where
  "dict_pop k d = filter (\<lambda>e. fst e \<noteq> k) d"

definition has_key :: "('k \<times> 'v) list \<Rightarrow> 'k \<Rightarrow> bool" where
  "has_key d k = (k \<in> set (map fst d))"

lemma map_of_dict_set [simp]: "map_of (dict_set k v d) = (map_of d)(k \<mapsto> v)"
  by (induction d) (auto simp: fun_eq_iff)

lemma map_of_dict_pop [simp]: "map_of (dict_pop k d) = (map_of d)(k := None)"
  by (induction d) (auto simp: dict_pop_def fun_eq_iff)

lemma dict_set_same: "map_of d k = Some v \<Longrightarrow> dict_set k v d = d"
  by (induction d) (auto split: if_splits)

lemma keys_dict_set: "set (map fst (dict_set k v d)) = insert k (set (map fst d))"
  by (induction k v d rule: dict_set.induct) (simp_all add: insert_commute)

lemma distinct_dict_set: "distinct (map fst d) \<Longrightarrow> distinct (map fst (dict_set k v d))"
proof (induction d)
  case (Cons e d)
  obtain k' v' where e: "e = (k', v')" by (cases e)
  show ?case
  proof (cases "k = k'")
    case False
    with Cons e have "distinct (map fst (dict_set k v d))" and "k' \<notin> set (map fst d)" by auto
    with False e keys_dict_set [of k v d] show ?thesis by simp
  qed (use Cons e in auto)
qed simp

lemma has_key_iff: "has_key d k \<longleftrightarrow> map_of d k \<noteq> None"
  by (simp add: has_key_def map_of_eq_None_iff)

end
