(* ===== verification/PyStr.thy ===== *)
theory PyStr
  imports Prelude
begin

text \<open>
  The operations of Python's \<open>str\<close> and the two regular expressions the monitor uses, on
  \<^typ>\<open>string\<close>. A \<^typ>\<open>char\<close> stands for a code point below 256, so \<open>lower\<close> and
  \<open>strip\<close> follow the Latin-1 block; code points above it are not modelled.
\<close>

section \<open>Characters\<close>

definition codepoint :: "char \<Rightarrow> nat" where
  "codepoint c = of_char c"

definition char_lower :: "char \<Rightarrow> char" where
  "char_lower c = (let n = codepoint c in
     if 65 \<le> n \<and> n \<le> 90 \<or> 192 \<le> n \<and> n \<le> 222 \<and> n \<noteq> 215 then char_of (n + 32) else c)"

definition is_space :: "char \<Rightarrow> bool" where
  "is_space c = (let n = codepoint c in
     9 \<le> n \<and> n \<le> 13 \<or> 28 \<le> n \<and> n \<le> 32 \<or> n = 133 \<or> n = 160)"

definition is_line_end :: "char \<Rightarrow> bool" where
  "is_line_end c = (let n = codepoint c in 10 \<le> n \<and> n \<le> 13 \<or> 28 \<le> n \<and> n \<le> 30 \<or> n = 133)"

definition is_digit :: "char \<Rightarrow> bool" where
  "is_digit c = (let n = codepoint c in 48 \<le> n \<and> n \<le> 57)"

definition newline :: char where
  "newline = CHR 0x0A"

definition name_char :: "char \<Rightarrow> bool" where
  \<comment> \<open>the class \<open>[a-zA-Z0-9._-]\<close>\<close>
  "name_char c = (let n = codepoint c in
     97 \<le> n \<and> n \<le> 122 \<or> 65 \<le> n \<and> n \<le> 90 \<or> 48 \<le> n \<and> n \<le> 57 \<or> n = 46 \<or> n = 95 \<or> n = 45)"

section \<open>Operations\<close>

definition lower :: "string \<Rightarrow> string" where
  "lower s = map char_lower s"

definition lstrip :: "string \<Rightarrow> string" where
  "lstrip s = dropWhile is_space s"

definition strip :: "string \<Rightarrow> string" where
  "strip s = rev (dropWhile is_space (rev (lstrip s)))"

definition rstrip_char :: "char \<Rightarrow> string \<Rightarrow> string" where
  "rstrip_char c s = rev (dropWhile (\<lambda>d. d = c) (rev s))"

fun startswith :: "string \<Rightarrow> string \<Rightarrow> bool" where
  "startswith s [] = True"
| "startswith [] (d # p) = False"
| "startswith (c # s) (d # p) = (c = d \<and> startswith s p)"

definition endswith :: "string \<Rightarrow> string \<Rightarrow> bool" where
  "endswith s p = startswith (rev s) (rev p)"

definition removesuffix :: "string \<Rightarrow> string \<Rightarrow> string" where
  "removesuffix s p = (if endswith s p then take (length s - length p) s else s)"

text \<open>\<open>p in s\<close>.\<close>

fun contains :: "string \<Rightarrow> string \<Rightarrow> bool" where
  "contains [] p = (p = [])"
| "contains (c # s) p = (startswith (c # s) p \<or> contains s p)"

text \<open>\<open>s.split(c)\<close>; \<open>s.split(c, 1)\<close>; \<open>s.replace(c, "")\<close>; \<open>sep.join(ws)\<close>.\<close>

fun split_on :: "char \<Rightarrow> string \<Rightarrow> string list" where
  "split_on c [] = [[]]"
| "split_on c (x # xs) =
     (if x = c then [] # split_on c xs
      else (case split_on c xs of [] \<Rightarrow> [[x]] | w # ws \<Rightarrow> (x # w) # ws))"

definition split_once :: "char \<Rightarrow> string \<Rightarrow> string list" where
  "split_once c s =
     (case dropWhile (\<lambda>d. d \<noteq> c) s of
        [] \<Rightarrow> [s]
      | _ # rest \<Rightarrow> [takeWhile (\<lambda>d. d \<noteq> c) s, rest])"

definition remove_char :: "char \<Rightarrow> string \<Rightarrow> string" where
  "remove_char c s = filter (\<lambda>d. d \<noteq> c) s"

fun join :: "string \<Rightarrow> string list \<Rightarrow> string" where
  "join sep [] = []"
| "join sep [w] = w"
| "join sep (w # v # ws) = w @ sep @ join sep (v # ws)"

text \<open>\<open>s.splitlines()\<close>: no empty line after the last terminator; CR LF is one terminator.\<close>

fun splitlines_from :: "string \<Rightarrow> string \<Rightarrow> string list" where
  "splitlines_from cur [] = (if cur = [] then [] else [rev cur])"
| "splitlines_from cur (c # s) =
     (if is_line_end c then
        (case s of
           d # s' \<Rightarrow> if c = CHR 0x0D \<and> d = newline then rev cur # splitlines_from [] s'
                     else rev cur # splitlines_from [] (d # s')
         | [] \<Rightarrow> [rev cur])
      else splitlines_from (c # cur) s)"

definition splitlines :: "string \<Rightarrow> string list" where
  "splitlines s = splitlines_from [] s"

text \<open>\<open>f"'{s}'"\<close>.\<close>

definition in_quotes :: "string \<Rightarrow> string" where
  "in_quotes s = [CHR 0x27] @ s @ [CHR 0x27]"

text \<open>\<open>xs[1]\<close> of a list of strings.\<close>

definition second :: "string list \<Rightarrow> exn + string" where
  "second ws = (case ws of _ # w # _ \<Rightarrow> Inr w | _ \<Rightarrow> Inl IndexError)"

section \<open>Integers\<close>

definition digit_char :: "nat \<Rightarrow> char" where
  "digit_char d = char_of (48 + d)"

fun nat_digits :: "nat \<Rightarrow> string" where
  "nat_digits n = (if n < 10 then [digit_char n] else nat_digits (n div 10) @ [digit_char (n mod 10)])"

declare nat_digits.simps [simp del]

definition str_of_int :: "int \<Rightarrow> string" where
  "str_of_int i = (if i < 0 then CHR ''-'' # nat_digits (nat (- i)) else nat_digits (nat i))"

definition str_of_bool :: "bool \<Rightarrow> string" where
  "str_of_bool b = (if b then ''True'' else ''False'')"

text \<open>\<open>int(s)\<close>: surrounding space, a sign, digits with single underscores between them. The
  flag says that the character before was a digit.\<close>

fun parse_digits :: "int \<Rightarrow> bool \<Rightarrow> string \<Rightarrow> int option" where
  "parse_digits acc prev [] = (if prev then Some acc else None)"
| "parse_digits acc prev (c # cs) =
     (if is_digit c then parse_digits (10 * acc + int (codepoint c - 48)) True cs
      else if c = CHR ''_'' \<and> prev then parse_digits acc False cs
      else None)"

definition parse_int :: "string \<Rightarrow> int option" where
  "parse_int s = (case strip s of
       [] \<Rightarrow> None
     | c # cs \<Rightarrow>
         if c = CHR ''-'' then map_option uminus (parse_digits 0 False cs)
         else if c = CHR ''+'' then parse_digits 0 False cs
         else parse_digits 0 False (c # cs))"

section \<open>Regular expressions\<close>

text \<open>
  \<open>re.match(r"^[a-zA-Z0-9._-]+$", s)\<close>. Python's \<open>$\<close> also matches before a newline that
  ends the string, so one trailing newline is let through.
\<close>

definition dollar_body :: "string \<Rightarrow> string" where
  "dollar_body s = (if s \<noteq> [] \<and> last s = newline then butlast s else s)"

definition name_re :: "string \<Rightarrow> bool" where
  "name_re s = (dollar_body s \<noteq> [] \<and> list_all name_char (dollar_body s))"

section \<open>Facts\<close>

lemma startswith_iff: "startswith s p \<longleftrightarrow> (\<exists>t. s = p @ t)"
  by (induction s p rule: startswith.induct) auto

lemma startswith_append [simp]: "startswith (p @ t) p"
  by (auto simp: startswith_iff)

lemma startswith_drop: "startswith s p \<Longrightarrow> p @ drop (length p) s = s"
  by (auto simp: startswith_iff)

lemma startswith_same_length: "startswith s p \<Longrightarrow> startswith s q \<Longrightarrow> length p = length q \<Longrightarrow> p = q"
  by (auto simp: startswith_iff)

lemma contains_iff: "contains s p \<longleftrightarrow> (\<exists>a b. s = a @ p @ b)"
proof (induction s)
  case (Cons c s)
  show ?case
  proof
    assume "contains (c # s) p"
    then consider t where "c # s = p @ t" | a b where "s = a @ p @ b"
      using Cons.IH by (auto simp: startswith_iff)
    then show "\<exists>a b. c # s = a @ p @ b"
    proof cases
      case (2 a b)
      then have "c # s = (c # a) @ p @ b" by simp
      then show ?thesis by blast
    qed (metis append_Nil)
  next
    assume "\<exists>a b. c # s = a @ p @ b"
    then obtain a b where ab: "c # s = a @ p @ b" by blast
    show "contains (c # s) p"
    proof (cases a)
      case Nil
      with ab have "startswith (c # s) p" by simp
      then show ?thesis by simp
    next
      case (Cons d a')
      with ab have "contains s p" using Cons.IH by auto
      then show ?thesis by simp
    qed
  qed
qed simp

lemma startswith_contains: "startswith s p \<Longrightarrow> contains s p"
  by (metis append_Nil contains_iff startswith_iff)

lemma split_on_not_Nil [simp]: "split_on c s \<noteq> []"
  by (cases s) (auto split: list.splits)

lemma split_on_no_sep: "c \<notin> set s \<Longrightarrow> split_on c s = [s]"
  by (induction s) auto

lemma split_on_append: "c \<notin> set w \<Longrightarrow> split_on c (w @ c # s) = w # split_on c s"
  by (induction w) auto

lemma split_on_join:
  "ws \<noteq> [] \<Longrightarrow> \<forall>w \<in> set ws. c \<notin> set w \<Longrightarrow> split_on c (join [c] ws) = ws"
  by (induction "[c]" ws rule: join.induct) (auto simp: split_on_no_sep split_on_append)

lemma split_on_parts: "w \<in> set (split_on c s) \<Longrightarrow> c \<notin> set w"
  by (induction s arbitrary: w) (auto split: if_splits list.splits)

lemma codepoint_digit_char [simp]: "d < 10 \<Longrightarrow> codepoint (digit_char d) = 48 + d"
  by (simp add: codepoint_def digit_char_def)

lemma is_digit_digit_char [simp]: "d < 10 \<Longrightarrow> is_digit (digit_char d)"
  by (simp add: is_digit_def)

lemma parse_digits_append:
  "parse_digits acc p (nat_digits n @ cs) = parse_digits (acc * 10 ^ length (nat_digits n) + int n) True cs"
proof (induction n arbitrary: acc p cs rule: nat_digits.induct)
  case (1 n)
  show ?case
  proof (cases "n < 10")
    case True
    then show ?thesis by (simp add: nat_digits.simps [of n] mult.commute)
  next
    case False
    let ?m = "n div 10" and ?k = "length (nat_digits (n div 10))"
    have "parse_digits acc p (nat_digits n @ cs) =
        parse_digits acc p (nat_digits ?m @ digit_char (n mod 10) # cs)"
      using False by (simp add: nat_digits.simps [of n])
    also have "\<dots> = parse_digits (10 * (acc * 10 ^ ?k + int ?m) + int (n mod 10)) True cs"
      using "1.IH" [OF False] by simp
    also have "10 * (acc * 10 ^ ?k + int ?m) + int (n mod 10) = acc * 10 ^ Suc ?k + int n"
    proof -
      have "n = 10 * ?m + n mod 10" by simp
      then have "int n = 10 * int ?m + int (n mod 10)" by presburger
      then show ?thesis by (simp add: algebra_simps)
    qed
    finally show ?thesis using False by (simp add: nat_digits.simps [of n])
  qed
qed

lemma nat_digits_not_Nil [simp]: "nat_digits n \<noteq> []"
  by (subst nat_digits.simps) simp

lemma nat_digits_digits: "c \<in> set (nat_digits n) \<Longrightarrow> is_digit c"
proof (induction n rule: nat_digits.induct)
  case (1 n)
  then show ?case
    by (cases "n < 10") (auto simp: nat_digits.simps [of n])
qed

lemma strip_no_space:
  assumes "\<forall>c \<in> set s. \<not> is_space c"
  shows "strip s = s"
proof -
  have "dropWhile is_space s = s" using assms by (cases s) auto
  moreover have "dropWhile is_space (rev s) = rev s"
    using assms by (cases "s = []") (auto simp: dropWhile_eq_self_iff hd_rev)
  ultimately show ?thesis by (simp add: strip_def lstrip_def)
qed

lemma digit_not_space: "is_digit c \<Longrightarrow> \<not> is_space c"
  by (auto simp: is_digit_def is_space_def Let_def)

lemma parse_int_str_of_int [simp]: "parse_int (str_of_int i) = Some i"
proof (cases "i < 0")
  case True
  have "strip (str_of_int i) = str_of_int i"
    using True digit_not_space nat_digits_digits
    by (intro strip_no_space) (auto simp: str_of_int_def is_space_def codepoint_def)
  then show ?thesis
    using True parse_digits_append [of 0 False "nat (- i)" "[]"]
    by (simp add: parse_int_def str_of_int_def)
next
  case False
  obtain c cs where d: "nat_digits (nat i) = c # cs" by (meson list.exhaust nat_digits_not_Nil)
  then have "is_digit c" using nat_digits_digits [of c "nat i"] by simp
  then have "c \<noteq> CHR ''-''" "c \<noteq> CHR ''+''" by (auto simp: is_digit_def codepoint_def)
  moreover have "strip (str_of_int i) = str_of_int i"
    using False digit_not_space nat_digits_digits
    by (intro strip_no_space) (auto simp: str_of_int_def)
  ultimately show ?thesis
    using False d parse_digits_append [of 0 False "nat i" "[]"]
    by (simp add: parse_int_def str_of_int_def)
qed

lemma name_re_chars:
  assumes "name_re s" and "c \<in> set s"
  shows "name_char c \<or> c = newline"
proof (cases "s \<noteq> [] \<and> last s = newline")
  case True
  then have s: "s = butlast s @ [newline]" by (metis append_butlast_last_id)
  with assms(2) have "c \<in> set (butlast s) \<or> c = newline"
    by (metis Un_iff empty_iff insert_iff list.set(1) list.set(2) set_append)
  moreover have "list_all name_char (butlast s)"
    using assms(1) True by (simp add: name_re_def dollar_body_def)
  ultimately show ?thesis by (auto simp: list_all_iff)
next
  case False
  with assms show ?thesis by (auto simp: name_re_def dollar_body_def list_all_iff)
qed

lemma name_re_no_slash: "name_re s \<Longrightarrow> CHR ''/'' \<notin> set s"
  using name_re_chars [of s "CHR ''/''"] by (auto simp: name_char_def newline_def codepoint_def)

lemma dollar_body_no_newline: "newline \<notin> set s \<Longrightarrow> dollar_body s = s"
  by (metis dollar_body_def last_in_set)

lemma name_re_newline: "name_re s \<Longrightarrow> newline \<notin> set s \<Longrightarrow> name_re (s @ [newline])"
  by (simp add: name_re_def dollar_body_no_newline) (simp add: dollar_body_def)

end
