(* ===== verification/Config.thy ===== *)
theory Config
  imports PyStr
begin

text \<open>
  \<open>monitor/app/config.py\<close>: the settings the monitor reads from its environment, with their
  defaults, and the property derived from them.
\<close>

record settings =
  tak_version :: string
  lldap_version :: string
  mediamtx_version :: string
  nodered_version :: string
  server_address :: string
  deploy_mode :: string
  takserver_subdomain :: string
  mediamtx_subdomain :: string
  nodered_subdomain :: string
  monitor_subdomain :: string
  nodered_port :: int
  monitor_port :: int
  takserver_admin_port :: int
  mediamtx_port :: int
  smtp_host :: string
  smtp_port :: int
  smtp_user :: string
  smtp_password :: string
  smtp_from :: string
  alert_email :: string
  sms_provider :: string
  sms_api_key :: string
  sms_from :: string
  sms_to :: string
  tak_db_password :: string
  tak_db_url :: string
  fastak_db_password :: string
  fastak_db_url :: string
  app_db_host :: string
  app_db_user :: string
  update_check_interval :: int
  lldap_url :: string
  ldap_proxy_url :: string
  ldap_admin_password :: string
  ldap_proxy_secret :: string
  tak_server_url :: string
  tak_api_cert_path :: string
  tak_api_cert_password :: string
  users_hidden_prefixes :: string
  user_expiry_check_interval :: int
  enrollment_token_ttl_minutes :: int
  enrollment_token_one_time :: bool
  tak_enrollment_port :: int
  lkp_cot_type_prefixes :: string
  lkp_require_tak_client :: bool

definition default_settings :: settings where
  "default_settings = \<lparr>
     tak_version = '''', lldap_version = '''', mediamtx_version = '''', nodered_version = '''',
     server_address = ''localhost'', deploy_mode = ''direct'',
     takserver_subdomain = ''takserver'', mediamtx_subdomain = ''stream'',
     nodered_subdomain = ''nodered'', monitor_subdomain = ''monitor'',
     nodered_port = 1880, monitor_port = 8180, takserver_admin_port = 8446, mediamtx_port = 8888,
     smtp_host = '''', smtp_port = 587, smtp_user = '''', smtp_password = '''', smtp_from = '''',
     alert_email = '''',
     sms_provider = '''', sms_api_key = '''', sms_from = '''', sms_to = '''',
     tak_db_password = '''', tak_db_url = '''',
     fastak_db_password = '''', fastak_db_url = '''', app_db_host = ''app-db'',
     app_db_user = ''fastak'',
     update_check_interval = 21600,
     lldap_url = ''http://lldap:17170'', ldap_proxy_url = ''http://ldap-proxy:8080'',
     ldap_admin_password = '''', ldap_proxy_secret = '''',
     tak_server_url = ''https://tak-server:8443'', tak_api_cert_path = '''',
     tak_api_cert_password = ''atakatak'',
     users_hidden_prefixes = ''adm_,svc_,ma-'', user_expiry_check_interval = 60,
     enrollment_token_ttl_minutes = 15, enrollment_token_one_time = False,
     tak_enrollment_port = 8446,
     lkp_cot_type_prefixes = ''a-'', lkp_require_tak_client = True\<rparr>"

text \<open>\<open>[p.strip().lower() for p in s.split(",") if p.strip()]\<close>.\<close>

definition csv_lower :: "string \<Rightarrow> string list" where
  "csv_lower s =
     [lower (strip p). p \<leftarrow> split_on (CHR '','') s, strip p \<noteq> []]"

definition lkp_cot_type_prefixes_list :: "settings \<Rightarrow> string list" where
  "lkp_cot_type_prefixes_list cfg = csv_lower (lkp_cot_type_prefixes cfg)"

lemma csv_lower_no_empty: "[] \<notin> set (csv_lower s)"
  by (auto simp: csv_lower_def lower_def)

end
