(* ===== verification/Json.thy ===== *)
theory Json
  imports PyStr
begin

text \<open>
  The values of \<open>json.loads\<close>, \<open>yaml.safe_load\<close> and the dictionaries the health probes
  return, and what Python does with them: truth, lookup, comparison of numbers. A dictionary
  keeps its insertion order.
\<close>

datatype json =
    J_null
  | J_bool bool
  | J_int int
  | J_float real
  | J_str string
  | J_list "json list"
  | J_obj "(string \<times> json) list"

type_synonym jobj = "(string \<times> json) list"

fun truthy :: "json \<Rightarrow> bool" where
  "truthy J_null = False"
| "truthy (J_bool b) = b"
| "truthy (J_int i) = (i \<noteq> 0)"
| "truthy (J_float x) = (x \<noteq> 0)"
| "truthy (J_str s) = (s \<noteq> [])"
| "truthy (J_list xs) = (xs \<noteq> [])"
| "truthy (J_obj d) = (d \<noteq> [])"

text \<open>\<open>d.get(k)\<close>, with \<open>None\<close> for a missing key.\<close>

definition jget :: "jobj \<Rightarrow> string \<Rightarrow> json" where
  "jget d k = (case map_of d k of None \<Rightarrow> J_null | Some v \<Rightarrow> v)"

text \<open>A number, \<open>bool\<close> counting as an \<open>int\<close>.\<close>

fun num_of :: "json \<Rightarrow> real option" where
  "num_of (J_bool b) = Some (if b then 1 else 0)"
| "num_of (J_int i) = Some (real_of_int i)"
| "num_of (J_float x) = Some x"
| "num_of _ = None"

text \<open>\<open>a < b\<close> for the values the program compares: numbers. Strings compare with strings;
  anything else is a \<open>TypeError\<close>.\<close>

definition str_less :: "string \<Rightarrow> string \<Rightarrow> bool" where
  "str_less a b = ord_class.lexordp (map codepoint a) (map codepoint b)"

definition json_less :: "json \<Rightarrow> json \<Rightarrow> exn + bool" where
  "json_less a b =
     (case (num_of a, num_of b) of
        (Some x, Some y) \<Rightarrow> Inr (x < y)
      | _ \<Rightarrow> (case (a, b) of
            (J_str s, J_str t) \<Rightarrow> Inr (str_less s t)
          | _ \<Rightarrow> Inl TypeError))"

definition json_le :: "json \<Rightarrow> json \<Rightarrow> exn + bool" where
  "json_le a b =
     (case (num_of a, num_of b) of
        (Some x, Some y) \<Rightarrow> Inr (x \<le> y)
      | _ \<Rightarrow> (case (a, b) of
            (J_str s, J_str t) \<Rightarrow> Inr (s = t \<or> str_less s t)
          | _ \<Rightarrow> Inl TypeError))"

text \<open>\<open>str(v)\<close>. The text of a float, a list or a dictionary is the argument \<open>show\<close>.\<close>

fun py_str :: "(json \<Rightarrow> string) \<Rightarrow> json \<Rightarrow> string" where
  "py_str show J_null = ''None''"
| "py_str show (J_bool b) = str_of_bool b"
| "py_str show (J_int i) = str_of_int i"
| "py_str show (J_str s) = s"
| "py_str show v = show v"

lemma json_less_num [simp]:
  "num_of a = Some x \<Longrightarrow> num_of b = Some y \<Longrightarrow> json_less a b = Inr (x < y)"
  by (simp add: json_less_def)

lemma json_le_num [simp]:
  "num_of a = Some x \<Longrightarrow> num_of b = Some y \<Longrightarrow> json_le a b = Inr (x \<le> y)"
  by (simp add: json_le_def)

end
