(* ===== verification/World.thy ===== *)
theory World
  imports Config Json "HOL-Library.Word"
begin

text \<open>
  What the monitor process talks to, and the state it keeps while it does.

  Everything outside the repository's Python code is a function of the record \<open>env\<close>: the
  LLDAP server behind its GraphQL endpoint, the ldap-proxy REST API, TAK Server's Marti API, the
  Docker SDK, the certificate directory, \<open>openssl\<close>, the clock. Each takes the request and the
  outside world (of any type \<open>'w\<close>) and gives the reply and the world after it. A theorem about
  all \<open>env\<close> holds whatever those services answer.

  \<open>mon\<close> is the state: the outside world, the module-level singletons, and the list of the
  outside calls made so far, in order. \<open>set_iter\<close> is the order in which Python walks a set of
  strings, which is not fixed.
\<close>

section \<open>LLDAP: requests and replies\<close>

text \<open>A JSON field that may be left out, be \<open>null\<close>, or carry a value.\<close>

datatype 'a jfield = Absent | Null | Val 'a

text \<open>A reply of an HTTP server (status and body, \<open>None\<close> for a body that is not JSON), or a
  failure of the transport.\<close>

datatype 'a http = Http int "'a option" | Net_error string

record attribute =
  attr_name :: string
  attr_value :: "string list"

record group_ref =
  group_id :: int
  group_display :: string

record lldap_user =
  luser_id :: string
  luser_display :: string
  luser_attributes :: "attribute list"
  luser_groups :: "group_ref list"

record lldap_group =
  lgroup_id :: int
  lgroup_display :: string
  lgroup_users :: "string list"

record update_input =
  upd_id :: string
  upd_display :: "string option"
  upd_attributes :: "attribute list option"

text \<open>One constructor for each GraphQL document of \<open>identity.py\<close>, with its variables.\<close>

datatype gql =
    Query_user_ids
  | Query_users
  | Query_user string
  | Query_groups
  | Query_group int
  | Mut_create_user string string string     \<comment> \<open>id, displayName, email\<close>
  | Mut_update_user update_input
  | Mut_create_group string
  | Mut_delete_group int
  | Mut_add_user_to_group string int
  | Mut_remove_user_from_group string int

fun is_mutation :: "gql \<Rightarrow> bool" where
  "is_mutation Query_user_ids = False"
| "is_mutation Query_users = False"
| "is_mutation (Query_user _) = False"
| "is_mutation Query_groups = False"
| "is_mutation (Query_group _) = False"
| "is_mutation _ = True"

record gql_data =
  d_users :: "lldap_user list jfield"
  d_user :: "lldap_user jfield"
  d_groups :: "group_ref list jfield"
  d_group :: "lldap_group jfield"
  d_createGroup :: "group_ref jfield"

definition no_data :: gql_data where
  "no_data = \<lparr>d_users = Absent, d_user = Absent, d_groups = Absent, d_group = Absent,
              d_createGroup = Absent\<rparr>"

text \<open>\<open>rep_errors\<close> is \<open>str(data["errors"])\<close> where that field is truthy.\<close>

record gql_reply =
  rep_errors :: "string option"
  rep_data :: "gql_data jfield"

section \<open>ldap-proxy: the enrollment token API\<close>

datatype proxy_req =
    Get_tokens string                      \<comment> \<open>GET /tokens/{username}\<close>
  | Post_token string int bool             \<comment> \<open>POST /tokens: username, ttl\_minutes, one\_time\<close>
  | Delete_tokens string                   \<comment> \<open>DELETE /tokens/{username}\<close>

record token =
  tok_value :: string
  tok_expires :: "int option"

record proxy_body =
  px_tokens :: "token list"
  px_token :: "token option"
  px_deleted :: int

section \<open>TAK Server: the Marti API\<close>

record marti_cert =
  mc_id :: int
  mc_hash :: "string jfield"
  mc_certificate :: "string jfield"
  mc_serialNumber :: "string jfield"
  mc_issuanceDate :: "string option"
  mc_expirationDate :: "string option"
  mc_revocationDate :: "string option"

datatype tak_req =
    Tak_get_certs string
  | Tak_revoke_cert int

section \<open>The tak-server container\<close>

text \<open>
  The commands run inside the container. The argument of a constructor is what the Python code
  puts into the command line; \<open>env\<close> variables are passed beside it.
\<close>

datatype command =
    Cmd_ca_subject                 \<comment> \<open>openssl x509 -in ca.pem -noout -subject\<close>
  | Cmd_gen_csr                    \<comment> \<open>openssl req -new -newkey rsa:2048\<close>
  | Cmd_sign_csr                   \<comment> \<open>openssl x509 -req -days\<close>
  | Cmd_make_p12                   \<comment> \<open>openssl pkcs12 -export\<close>
  | Cmd_nodered_pems               \<comment> \<open>openssl pkcs12 -nokeys / -nocerts into the nodered directory\<close>
  | Cmd_rm_nodered_pems            \<comment> \<open>rm -f of the pair\<close>
  | Cmd_revoke                     \<comment> \<open>openssl ca -revoke and -gencrl\<close>
  | Cmd_find string                \<comment> \<open>find CERT\_FILES -maxdepth 1 -type f -name PATTERN\<close>
  | Cmd_rm string                  \<comment> \<open>rm -f PATH\<close>
  | Cmd_certmod string             \<comment> \<open>java -jar UserManager.jar certmod -A PATH\<close>

record container =
  con_service :: "string option"
  con_project :: "string option"
  con_status :: string
  con_exit_code :: "int option"
  con_health :: "string option"
  con_image_tags :: "string list"

section \<open>Calls and state\<close>

datatype call =
    Call_login string string string                 \<comment> \<open>url, username, password\<close>
  | Call_graphql string string gql                  \<comment> \<open>url, bearer, document\<close>
  | Call_set_password string string string string   \<comment> \<open>url, token, username, password\<close>
  | Call_proxy string string proxy_req              \<comment> \<open>base url, bearer, request\<close>
  | Call_tak string tak_req                         \<comment> \<open>base url, certadmin request\<close>
  | Call_tak_get string string                      \<comment> \<open>base url, path with its query\<close>
  | Call_exec command "(string \<times> string) list"
  | Call_put_archive string string                  \<comment> \<open>file name, contents\<close>
  | Call_sleep int
  | Call_containers bool "(string \<times> string) list"  \<comment> \<open>all, label filters\<close>

record 'w env =
  cfg :: settings
  sha256 :: "string \<Rightarrow> 8 word list"
  login_http :: "string \<Rightarrow> string \<Rightarrow> string \<Rightarrow> 'w \<Rightarrow> string option http \<times> 'w"
  graphql_http :: "string \<Rightarrow> string \<Rightarrow> gql \<Rightarrow> 'w \<Rightarrow> gql_reply http \<times> 'w"
  set_password_cmd :: "string \<Rightarrow> string \<Rightarrow> string \<Rightarrow> string \<Rightarrow> 'w \<Rightarrow> (int \<times> string) \<times> 'w"
  proxy_http :: "string \<Rightarrow> string \<Rightarrow> proxy_req \<Rightarrow> 'w \<Rightarrow> proxy_body http \<times> 'w"
  tak_http :: "string \<Rightarrow> tak_req \<Rightarrow> 'w \<Rightarrow> marti_cert list jfield http \<times> 'w"
  tak_get :: "string \<Rightarrow> string \<Rightarrow> 'w \<Rightarrow> json http \<times> 'w"
  containers_list :: "bool \<Rightarrow> (string \<times> string) list \<Rightarrow> 'w \<Rightarrow> (exn + container list) \<times> 'w"
  exec_run :: "command \<Rightarrow> (string \<times> string) list \<Rightarrow> 'w \<Rightarrow> (exn + int \<times> string) \<times> 'w"
  put_archive :: "string \<Rightarrow> string \<Rightarrow> 'w \<Rightarrow> (exn + unit) \<times> 'w"
  token_hex :: "nat \<Rightarrow> 'w \<Rightarrow> string \<times> 'w"
  set_iter :: "string list \<Rightarrow> string list"
  time_now :: "'w \<Rightarrow> real \<times> 'w"
  monotonic :: "'w \<Rightarrow> real \<times> 'w"
  path_exists :: "string \<Rightarrow> 'w \<Rightarrow> bool"
  cert_dir_files :: "'w \<Rightarrow> string list"
  read_file :: "string \<Rightarrow> 'w \<Rightarrow> exn + string"
  openssl_x509 :: "string \<Rightarrow> string \<Rightarrow> 'w \<Rightarrow> exn + int \<times> string"
  openssl_crl :: "string \<Rightarrow> 'w \<Rightarrow> exn + string"
  iso_time :: "int \<Rightarrow> string"
  iso_enddate :: "string \<Rightarrow> string option"
  uuid4 :: "'w \<Rightarrow> string \<times> 'w"
  java_truststore :: "string \<Rightarrow> exn + string"
  load_tls :: "string \<Rightarrow> string \<Rightarrow> string \<Rightarrow> 'w \<Rightarrow> exn + unit"

record identity_client =
  ic_lldap_url :: string
  ic_proxy_url :: string
  ic_admin_password :: string
  ic_proxy_secret :: string
  ic_hidden_prefixes :: "string list"
  ic_jwt :: "string option"
  ic_user_id_map :: "int \<Rightarrow> string option"

record tak_client =
  tk_base_url :: string
  tk_ready :: bool

text \<open>The modules that keep a client of their own.\<close>

datatype owner = Users_router | Service_accounts_router | Scheduler

record 'w mon =
  world :: 'w
  calls :: "call list"
  identity :: "owner \<Rightarrow> identity_client option"
  tak_server :: "owner \<Rightarrow> tak_client option"
  cached_services :: "string list"
  cached_project :: string
  cache_time :: real

section \<open>Using the outside world\<close>

text \<open>A call of the outside world, recorded; a reading of it, which is not.\<close>

definition ask :: "call \<Rightarrow> ('w \<Rightarrow> 'a \<times> 'w) \<Rightarrow> ('w mon, 'a) prog" where
  "ask c f = (\<lambda>s. case f (world s) of (r, w) \<Rightarrow>
     (Inr r, s\<lparr>world := w, calls := calls s @ [c]\<rparr>))"

definition tick :: "('w \<Rightarrow> 'a \<times> 'w) \<Rightarrow> ('w mon, 'a) prog" where
  "tick f = (\<lambda>s. case f (world s) of (r, w) \<Rightarrow> (Inr r, s\<lparr>world := w\<rparr>))"

definition look :: "('w \<Rightarrow> 'a) \<Rightarrow> ('w mon, 'a) prog" where
  "look f = gets (\<lambda>s. f (world s))"

text \<open>\<open>time.sleep\<close>.\<close>

definition sleep :: "int \<Rightarrow> ('w mon, unit) prog" where
  "sleep n = ask (Call_sleep n) (\<lambda>w. ((), w))"

text \<open>httpx: a transport failure raises; \<open>r.raise_for_status()\<close>; \<open>r.json()\<close>.\<close>

definition received :: "'a http \<Rightarrow> exn + int \<times> 'a option" where
  "received r = (case r of Http code body \<Rightarrow> Inr (code, body) | Net_error m \<Rightarrow> Inl (HTTPTransportError m))"

definition raise_for_status :: "int \<Rightarrow> exn + unit" where
  "raise_for_status code = (if 200 \<le> code \<and> code < 300 then Inr () else Inl (HTTPStatusError code))"

definition json_body :: "'a option \<Rightarrow> exn + 'a" where
  "json_body b = (case b of None \<Rightarrow> Inl (ValueError ''JSONDecodeError'') | Some x \<Rightarrow> Inr x)"

text \<open>\<open>f"Bearer {token}"\<close>.\<close>

definition bearer :: "string \<Rightarrow> string" where
  "bearer t = ''Bearer '' @ t"

section \<open>What a program may call\<close>

text \<open>\<open>emits A m\<close>: whatever the world answers, the calls \<open>m\<close> adds all satisfy \<open>A\<close>.\<close>

definition grows :: "(call \<Rightarrow> bool) \<Rightarrow> 'w mon \<Rightarrow> 'w mon \<Rightarrow> bool" where
  "grows A s t \<longleftrightarrow> (\<exists>new. calls t = calls s @ new \<and> list_all A new)"

abbreviation emits :: "(call \<Rightarrow> bool) \<Rightarrow> ('w mon, 'a) prog \<Rightarrow> bool" where
  "emits A m \<equiv> keeps (grows A) m"

lemma grows_preorder [simp, keeps_rules]: "preorder_rel (grows A)"
  by (auto simp: preorder_rel_def reflp_def transp_def grows_def)

lemma grows_weaken: "grows A s t \<Longrightarrow> (\<And>c. A c \<Longrightarrow> B c) \<Longrightarrow> grows B s t"
  unfolding grows_def by (metis list_all_iff)

lemma emits_weaken: "emits A m \<Longrightarrow> (\<And>c. A c \<Longrightarrow> B c) \<Longrightarrow> emits B m"
  unfolding keeps_def by (blast intro: grows_weaken)

lemma emits_ask [keeps_rules]: "A c \<Longrightarrow> emits A (ask c f)"
  by (rule keepsI) (auto simp: ask_def grows_def split: prod.splits)

lemma emits_tick [keeps_rules]: "emits A (tick f)"
  by (rule keepsI) (auto simp: tick_def grows_def split: prod.splits)

lemma emits_look [keeps_rules]: "emits A (look f)"
  by (simp add: look_def keeps_gets)

lemma emits_modify [keeps_rules]: "(\<And>s. calls (f s) = calls s) \<Longrightarrow> emits A (modify f)"
  by (rule keepsI) (auto simp: grows_def run_simps)

lemma emits_sleep [keeps_rules]: "A (Call_sleep n) \<Longrightarrow> emits A (sleep n)"
  by (simp add: sleep_def emits_ask)

lemma ask_run [run_simps]:
  "ask c f s = (Inr (fst (f (world s))), s\<lparr>world := snd (f (world s)), calls := calls s @ [c]\<rparr>)"
  by (simp add: ask_def split: prod.splits)

lemma tick_run [run_simps]: "tick f s = (Inr (fst (f (world s))), s\<lparr>world := snd (f (world s))\<rparr>)"
  by (simp add: tick_def split: prod.splits)

lemma look_run [run_simps]: "look f s = (Inr (f (world s)), s)"
  by (simp add: look_def run_simps)

text \<open>The calls a run added, and that one of them satisfies a predicate.\<close>

definition calls_added :: "'w mon \<Rightarrow> 'w mon \<Rightarrow> call list" where
  "calls_added s t = drop (length (calls s)) (calls t)"

definition called :: "(call \<Rightarrow> bool) \<Rightarrow> 'w mon \<Rightarrow> 'w mon \<Rightarrow> bool" where
  "called P s t \<longleftrightarrow> list_ex P (calls_added s t)"

lemma grows_added: "grows A s t \<longleftrightarrow> calls t = calls s @ calls_added s t \<and> list_all A (calls_added s t)"
  by (auto simp: grows_def calls_added_def append_eq_conv_conj)

lemma emitsD:
  "emits A m \<Longrightarrow> m s = (r, t) \<Longrightarrow> calls t = calls s @ calls_added s t \<and> list_all A (calls_added s t)"
  by (drule (1) keepsD) (simp add: grows_added)

lemma grows_refl [simp]: "grows A s s"
  by (simp add: grows_def)

lemma grows_trans: "grows A s t \<Longrightarrow> grows A t u \<Longrightarrow> grows A s u"
  by (auto simp: grows_def)

lemma calls_added_trans:
  "grows A s t \<Longrightarrow> grows B t u \<Longrightarrow> calls_added s u = calls_added s t @ calls_added t u"
  by (auto simp: grows_def calls_added_def)

lemma called_left: "called P s t \<Longrightarrow> grows A s t \<Longrightarrow> grows B t u \<Longrightarrow> called P s u"
  using calls_added_trans [of A s t B u] by (simp add: called_def)

lemma called_right: "called P t u \<Longrightarrow> grows A s t \<Longrightarrow> grows B t u \<Longrightarrow> called P s u"
  using calls_added_trans [of A s t B u] by (simp add: called_def)

abbreviation extends :: "('w mon, 'a) prog \<Rightarrow> bool" where
  "extends m \<equiv> emits (\<lambda>_. True) m"

lemma extendsD: "extends m \<Longrightarrow> m s = (r, t) \<Longrightarrow> grows (\<lambda>_. True) s t"
  by (rule keepsD)

lemma grows_True: "grows A s t \<Longrightarrow> grows (\<lambda>_. True) s t"
  by (erule grows_weaken) simp

lemma emits_True: "emits A m \<Longrightarrow> extends m"
  by (erule emits_weaken) simp

lemma not_called: "grows A s t \<Longrightarrow> (\<And>c. A c \<Longrightarrow> \<not> P c) \<Longrightarrow> \<not> called P s t"
  by (auto simp: called_def grows_added list_all_iff list_ex_iff)

lemma called_split:
  "called P a c \<Longrightarrow> grows A a b \<Longrightarrow> grows B b c \<Longrightarrow> called P a b \<or> called P b c"
  using calls_added_trans [of A a b B c] by (auto simp: called_def)

text \<open>A call that the first part of a program does not make is made by the rest, from the state
  the first part returned in; one that the last part does not make is made before.\<close>

lemma bnd_called:
  assumes run: "bnd m f s = (r, t)" and "called P s t" and m: "emits A m" and A: "\<And>c. A c \<Longrightarrow> \<not> P c"
    and f: "\<And>x. extends (f x)"
  shows "\<exists>x u. m s = (Inr x, u) \<and> grows A s u \<and> f x u = (r, t) \<and> called P u t"
proof -
  obtain q u where q: "m s = (q, u)" by (cases "m s")
  with m have su: "grows A s u" by (rule keepsD)
  then have no: "\<not> called P s u" using A by (rule not_called)
  show ?thesis
  proof (cases q)
    case (Inl e)
    with run q have "u = t" by (simp add: run_simps)
    with no assms(2) show ?thesis by simp
  next
    case (Inr x)
    with run q have fx: "f x u = (r, t)" by (simp add: run_simps)
    with f have "grows (\<lambda>_. True) u t" by (rule extendsD)
    with called_split [OF assms(2) su this] no have "called P u t" by simp
    with q Inr su fx show ?thesis by blast
  qed
qed

lemma thn_called:
  assumes "thn m k s = (r, t)" and "called P s t" and "emits A m" and "\<And>c. A c \<Longrightarrow> \<not> P c" and "extends k"
  shows "\<exists>x u. m s = (Inr x, u) \<and> grows A s u \<and> k u = (r, t) \<and> called P u t"
  using bnd_called [of m "\<lambda>_. k" s r t P A] assms by (simp add: thn_def)

lemma thn_called_first:
  assumes run: "thn m k s = (r, t)" and "called P s t" and k: "emits A k" and A: "\<And>c. A c \<Longrightarrow> \<not> P c"
    and m: "extends m"
  shows "\<exists>q u. m s = (q, u) \<and> called P s u \<and> grows (\<lambda>_. True) u t"
proof -
  obtain q u where q: "m s = (q, u)" by (cases "m s")
  with m have su: "grows (\<lambda>_. True) s u" by (rule extendsD)
  have "u = t \<or> k u = (r, t)" using run q by (cases q) (auto simp: run_simps)
  then have ut: "grows A u t" using k by (auto dest: keepsD)
  then have "\<not> called P u t" using A by (rule not_called)
  with called_split [OF assms(2) su ut] q grows_True [OF ut] show ?thesis by blast
qed

end
