(* ===== verification/Retry.thy ===== *)
theory Retry
  imports World
begin

text \<open>
  The shape of every retry loop of the program:
  \<^verbatim>\<open>
    for attempt in range(1, N + 1):
        try: ... return x
        except ...: if attempt == N: raise; time.sleep(d)
  \<close>
  An attempt returns a value from the function (\<open>Done\<close>), goes round again (\<open>Again\<close>) or
  raises. \<open>bounded_retry\<close> says what the loops share; the loops themselves are defined where
  the code has them and interpret the locale there.
\<close>

datatype 'a step = Done 'a | Again

locale bounded_retry =
  fixes loop :: "nat \<Rightarrow> ('s, 'a option) prog"
    and attempt :: "bool \<Rightarrow> ('s, 'a step) prog"
  assumes loop_0: "loop 0 = ret None"
    and loop_Suc: "loop (Suc n) =
      bnd (attempt (n = 0)) (\<lambda>r. case r of Done x \<Rightarrow> ret (Some x) | Again \<Rightarrow> loop n)"
    and last_decides: "fst (attempt True s) \<noteq> Inr Again"
begin

lemma loop_run:
  "loop (Suc n) s = (case attempt (n = 0) s of
      (Inl e, t) \<Rightarrow> (Inl e, t)
    | (Inr (Done x), t) \<Rightarrow> (Inr (Some x), t)
    | (Inr Again, t) \<Rightarrow> loop n t)"
  by (simp add: loop_Suc run_simps split: prod.splits sum.splits step.splits)

text \<open>The loop never ends without a value or an exception.\<close>

lemma no_fall_through: "fst (loop (Suc n) s) \<noteq> Inr None"
proof (induction n arbitrary: s)
  case 0
  show ?case using last_decides [of s]
    by (auto simp: loop_run split: prod.splits sum.splits step.splits)
next
  case (Suc n)
  then show ?case
    by (auto simp: loop_run [of "Suc n"] split: prod.splits sum.splits step.splits)
qed

lemma loop_keeps:
  "preorder_rel I \<Longrightarrow> (\<And>b. keeps I (attempt b)) \<Longrightarrow> keeps I (loop n)"
proof (induction n)
  case 0
  then show ?case unfolding loop_0 by (intro keeps_ret)
next
  case (Suc n)
  then have "keeps I (case r of Done x \<Rightarrow> ret (Some x) | Again \<Rightarrow> loop n)" for r
    by (cases r) (auto intro: keeps_ret)
  with Suc.prems show ?case unfolding loop_Suc by (intro keeps_bnd) simp_all
qed

text \<open>What one attempt costs bounds what the loop costs.\<close>

lemma loop_cost:
  assumes "\<And>b s. cost (snd (attempt b s)) \<le> cost s + (k :: nat)"
  shows "cost (snd (loop n s)) \<le> cost s + n * k"
proof (induction n arbitrary: s)
  case 0
  show ?case by (simp add: loop_0 run_simps)
next
  case (Suc n)
  obtain r t where a: "attempt (n = 0) s = (r, t)" by (cases "attempt (n = 0) s")
  with assms [of "n = 0" s] have t: "cost t \<le> cost s + k" by simp
  with Suc [of t] a show ?case
    by (auto simp: loop_run split: sum.splits step.splits)
qed

text \<open>What links the state an attempt started from to its result links the loop's, if it
  survives the failed attempts before.\<close>

lemma loop_result:
  assumes "\<And>b s x t. attempt b s = (Inr (Done x), t) \<Longrightarrow> R s x t"
    and "\<And>b s u x t. attempt b s = (Inr Again, u) \<Longrightarrow> R u x t \<Longrightarrow> R s x t"
  shows "loop n s = (Inr (Some x), t) \<Longrightarrow> R s x t"
proof (induction n arbitrary: s)
  case 0
  then show ?case by (simp add: loop_0 run_simps)
next
  case (Suc n)
  then show ?case
    using assms by (auto simp: loop_run split: prod.splits sum.splits step.splits)
qed

text \<open>A first attempt that returns is the whole loop.\<close>

lemma loop_first:
  "attempt (n = 0) s = (Inr (Done x), t) \<Longrightarrow> loop (Suc n) s = (Inr (Some x), t)"
  by (simp add: loop_run)

end

end
