(* ===== verification/DockerClient.thy ===== *)
theory DockerClient
  imports World "HOL-Library.List_Lexorder" "HOL-Library.Char_ord"
begin

text \<open>
  \<open>monitor/app/docker_client.py\<close>: discovery of the Compose services, with a cache of 30
  seconds, and the lookup of a service's container. The Docker SDK is \<^const>\<open>containers_list\<close>.
\<close>

definition cache_ttl :: real where
  "cache_ttl = 30"

definition list_containers ::
    "'w env \<Rightarrow> bool \<Rightarrow> (string \<times> string) list \<Rightarrow> ('w mon, container list) prog" where
  "list_containers E all_of labels =
     bnd (ask (Call_containers all_of labels) (containers_list E all_of labels)) of_sum"

definition label_service :: string where
  "label_service = ''com.docker.compose.service''"

definition label_project :: string where
  "label_project = ''com.docker.compose.project''"

definition refresh_cache :: "'w env \<Rightarrow> ('w mon, string list) prog" where
  "refresh_cache E =
     bnd (list_containers E False [(label_service, ''monitor'')]) (\<lambda>self_containers.
     case self_containers of
       [] \<Rightarrow> ret []
     | c # _ \<Rightarrow>
         let project = (case con_project c of None \<Rightarrow> [] | Some p \<Rightarrow> p) in
         bnd (list_containers E True [(label_project, project)]) (\<lambda>containers.
         let services = sort (remdups (List.map_filter con_service containers)) in
         bnd (tick (monotonic E)) (\<lambda>now.
         thn (modify (\<lambda>s. s\<lparr>cached_services := services, cached_project := project,
                            cache_time := now\<rparr>))
             (ret services))))"

text \<open>The clock is read only behind a cached value, as \<open>and\<close> does.\<close>

definition get_project :: "'w env \<Rightarrow> ('w mon, string) prog" where
  "get_project E =
     bnd (gets cached_project) (\<lambda>project.
     bnd (if project = [] then ret False
          else bnd (tick (monotonic E)) (\<lambda>now. gets (\<lambda>s. now - cache_time s < cache_ttl)))
       (\<lambda>fresh.
     if fresh then ret project
     else bnd (refresh_cache E) (\<lambda>_. gets cached_project)))"

definition discover_services :: "'w env \<Rightarrow> ('w mon, string list) prog" where
  "discover_services E =
     bnd (gets cached_services) (\<lambda>services.
     bnd (if services = [] then ret False
          else bnd (tick (monotonic E)) (\<lambda>now. gets (\<lambda>s. now - cache_time s < cache_ttl)))
       (\<lambda>fresh.
     if fresh then ret services else refresh_cache E))"

definition find_container :: "'w env \<Rightarrow> string \<Rightarrow> ('w mon, container option) prog" where
  "find_container E name =
     bnd (get_project E) (\<lambda>project.
     let labels = [(label_service, name)] @ (if project = [] then [] else [(label_project, project)]) in
     bnd (list_containers E True labels) (\<lambda>matches.
     ret (case matches of [] \<Rightarrow> None | c # _ \<Rightarrow> Some c)))"

definition is_running :: "'w env \<Rightarrow> string \<Rightarrow> ('w mon, bool) prog" where
  "is_running E name =
     bnd (find_container E name) (\<lambda>c.
     ret (case c of None \<Rightarrow> False | Some c \<Rightarrow> con_status c = ''running''))"

text \<open>The list comprehension runs \<open>_is_running\<close> for each name in order.\<close>

definition discover_running_services :: "'w env \<Rightarrow> ('w mon, string list) prog" where
  "discover_running_services E =
     bnd (discover_services E) (\<lambda>names.
     bnd (collect (\<lambda>n. bnd (is_running E n) (\<lambda>r. ret (n, r))) names) (\<lambda>rs.
     ret (map fst (filter snd rs))))"

section \<open>Facts\<close>

fun is_container_call :: "call \<Rightarrow> bool" where
  "is_container_call (Call_containers _ _) = True"
| "is_container_call _ = False"

lemma emits_list_containers [keeps_rules]:
  "(\<And>l. A (Call_containers b l)) \<Longrightarrow> emits A (list_containers E b labels)"
  unfolding list_containers_def by (intro keeps_rules) simp_all

lemma emits_refresh_cache [keeps_rules]:
  "(\<And>b l. A (Call_containers b l)) \<Longrightarrow> emits A (refresh_cache E)"
  unfolding refresh_cache_def Let_def by (intro keeps_rules) simp_all

lemma emits_find_container [keeps_rules]:
  "(\<And>b l. A (Call_containers b l)) \<Longrightarrow> emits A (find_container E name)"
  unfolding find_container_def get_project_def Let_def by (intro keeps_rules) simp_all

text \<open>Within the cache's lifetime Docker is not asked.\<close>

lemma discover_services_cached:
  assumes "cached_services s \<noteq> []" and "fst (monotonic E (world s)) - cache_time s < cache_ttl"
  shows "fst (discover_services E s) = Inr (cached_services s)"
    and "calls (snd (discover_services E s)) = calls s"
  using assms by (simp_all add: discover_services_def run_simps)

lemma refresh_cache_sorted:
  "refresh_cache E s = (Inr names, t) \<Longrightarrow> names \<noteq> [] \<Longrightarrow>
   cached_services t = names \<and> sorted names \<and> distinct names"
  by (auto simp: refresh_cache_def list_containers_def run_simps Let_def
      split: prod.splits sum.splits list.splits)

end
