(* ===== verification/Identity.thy ===== *)
theory Identity
  imports Retry DockerClient
begin

unbundle bit_operations_syntax

text \<open>
  \<open>monitor/app/api/users/identity.py\<close>: the client for LLDAP's GraphQL API and the enrollment
  tokens of the ldap-proxy.

  The object is \<^typ>\<open>identity_client\<close>, held by the module that owns it; \<open>self\<close> is that
  owner. A method is a program on \<^typ>\<open>'w mon\<close>. The two retry loops interpret
  \<^const>\<open>bounded_retry\<close>.
\<close>

section \<open>Numeric ids\<close>

definition from_bytes_be :: "8 word list \<Rightarrow> int" where
  "from_bytes_be bs = foldl (\<lambda>acc b. acc * 256 + uint b) 0 bs"

definition username_to_numeric_id :: "'w env \<Rightarrow> string \<Rightarrow> int" where
  "username_to_numeric_id E username =
     from_bytes_be (take 7 (sha256 E username)) AND 0x1FFFFFFFFFFFFF"

section \<open>The object\<close>

definition retries :: nat where
  "retries = 3"

definition retry_delay :: int where
  "retry_delay = 2"

definition new_identity_client ::
    "string \<Rightarrow> string \<Rightarrow> string \<Rightarrow> string list \<Rightarrow> string \<Rightarrow> identity_client" where
  "new_identity_client url proxy_url admin_password hidden_prefixes proxy_secret =
     \<lparr>ic_lldap_url = rstrip_char (CHR ''/'') url,
      ic_proxy_url = rstrip_char (CHR ''/'') proxy_url,
      ic_admin_password = admin_password,
      ic_proxy_secret = proxy_secret,
      ic_hidden_prefixes = map lower hidden_prefixes,
      ic_jwt = None,
      ic_user_id_map = Map.empty\<rparr>"

definition self_client :: "owner \<Rightarrow> ('w mon, identity_client) prog" where
  "self_client self =
     bnd (gets (\<lambda>s. identity s self)) (\<lambda>c. case c of None \<Rightarrow> raise AttributeError | Some c \<Rightarrow> ret c)"

definition set_client :: "owner \<Rightarrow> (identity_client \<Rightarrow> identity_client) \<Rightarrow> ('w mon, unit) prog" where
  "set_client self f =
     modify (\<lambda>s. s\<lparr>identity := (identity s)(self := map_option f (identity s self))\<rparr>)"

text \<open>The form it is evaluated in: the old value of the field is used once.\<close>

lemma set_client_code [code]:
  "set_client self f = modify (\<lambda>s. case identity s self of
     None \<Rightarrow> s | Some c \<Rightarrow> s\<lparr>identity := (identity s)(self \<mapsto> f c)\<rparr>)"
proof -
  have "s\<lparr>identity := (identity s)(self := map_option f (identity s self))\<rparr> =
    (case identity s self of None \<Rightarrow> s | Some c \<Rightarrow> s\<lparr>identity := (identity s)(self \<mapsto> f c)\<rparr>)"
    for s :: "'a mon"
    by (cases "identity s self") (simp_all add: fun_upd_idem)
  then show ?thesis by (simp add: set_client_def)
qed

section \<open>Authentication and the GraphQL call\<close>

definition login :: "'w env \<Rightarrow> owner \<Rightarrow> ('w mon, string) prog" where
  "login E self =
     bnd (self_client self) (\<lambda>c.
     let url = ic_lldap_url c @ ''/auth/simple/login'' in
     bnd (ask (Call_login url ''adm_ldapservice'' (ic_admin_password c))
              (login_http E url ''adm_ldapservice'' (ic_admin_password c))) (\<lambda>r.
     bnd (of_sum (received r)) (\<lambda>(status, body).
     thn (of_sum (raise_for_status status))
    (bnd (of_sum (json_body body)) (\<lambda>tok.
     bnd (case tok of None \<Rightarrow> raise (KeyError ''token'') | Some t \<Rightarrow> ret t) (\<lambda>t.
     thn (set_client self (\<lambda>c. c\<lparr>ic_jwt := Some t\<rparr>))
         (ret t)))))))"

definition get_token :: "'w env \<Rightarrow> owner \<Rightarrow> ('w mon, string) prog" where
  "get_token E self =
     bnd (self_client self) (\<lambda>c. case ic_jwt c of None \<Rightarrow> login E self | Some t \<Rightarrow> ret t)"

text \<open>\<open>data.get("data", {})\<close>: \<open>None\<close> is Python's \<open>None\<close>.\<close>

definition data_field :: "gql_reply \<Rightarrow> gql_data option" where
  "data_field r = (case rep_data r of Absent \<Rightarrow> Some no_data | Null \<Rightarrow> None | Val d \<Rightarrow> Some d)"

text \<open>The body of the \<open>try\<close>; the two \<open>except\<close> clauses are in \<open>graphql_attempt\<close>. \<open>final\<close> is
  \<open>attempt == _RETRIES\<close>.\<close>

definition graphql_try ::
    "'w env \<Rightarrow> owner \<Rightarrow> gql \<Rightarrow> bool \<Rightarrow> ('w mon, gql_data option step) prog" where
  "graphql_try E self q final =
     bnd (get_token E self) (\<lambda>token.
     bnd (self_client self) (\<lambda>c.
     let url = ic_lldap_url c @ ''/api/graphql'' in
     bnd (ask (Call_graphql url (bearer token) q) (graphql_http E url (bearer token) q)) (\<lambda>r.
     bnd (of_sum (received r)) (\<lambda>(status, body).
     thn (if status = 401 then set_client self (\<lambda>c. c\<lparr>ic_jwt := None\<rparr>) else ret ())
    (if status = 401 \<and> \<not> final then ret Again else
     thn (of_sum (raise_for_status status))
    (bnd (of_sum (json_body body)) (\<lambda>data.
     case rep_errors data of
       Some err_msg \<Rightarrow>
         if contains (lower err_msg) ''already exists'' \<or> contains (lower err_msg) ''duplicate''
         then ret (Done (data_field data))
         else raise (RuntimeError (''GraphQL error: '' @ err_msg))
     | None \<Rightarrow> ret (Done (data_field data)))))))))"

definition graphql_attempt ::
    "'w env \<Rightarrow> owner \<Rightarrow> gql \<Rightarrow> bool \<Rightarrow> ('w mon, gql_data option step) prog" where
  "graphql_attempt E self q final =
     catch (graphql_try E self q final) (\<lambda>e.
       case e of
         HTTPStatusError code \<Rightarrow>
           if 400 \<le> code \<and> code < 500 \<and> code \<noteq> 401 then raise e
           else if final then raise e
           else thn (sleep retry_delay) (ret Again)
       | HTTPTransportError _ \<Rightarrow>
           if final then raise e else thn (sleep retry_delay) (ret Again)
       | _ \<Rightarrow> raise e)"

primrec graphql_loop ::
    "'w env \<Rightarrow> owner \<Rightarrow> gql \<Rightarrow> nat \<Rightarrow> ('w mon, gql_data option option) prog" where
  "graphql_loop E self q 0 = ret None"
| "graphql_loop E self q (Suc n) =
     bnd (graphql_attempt E self q (n = 0)) (\<lambda>r.
       case r of Done x \<Rightarrow> ret (Some x) | Again \<Rightarrow> graphql_loop E self q n)"

definition graphql :: "'w env \<Rightarrow> owner \<Rightarrow> gql \<Rightarrow> ('w mon, gql_data option) prog" where
  "graphql E self q =
     bnd (graphql_loop E self q retries) (\<lambda>r. ret (case r of None \<Rightarrow> None | Some d \<Rightarrow> d))"

text \<open>Reading a reply: \<open>data.get(k, [])\<close> iterated; \<open>data.get("user")\<close>;
  \<open>data.get("user", {}).get("attributes", [])\<close>; \<open>data["createGroup"]["id"]\<close>.\<close>

definition data_list :: "(gql_data \<Rightarrow> 'a list jfield) \<Rightarrow> gql_data option \<Rightarrow> exn + 'a list" where
  "data_list sel d = (case d of None \<Rightarrow> Inl AttributeError
     | Some d \<Rightarrow> (case sel d of Absent \<Rightarrow> Inr [] | Null \<Rightarrow> Inl TypeError | Val xs \<Rightarrow> Inr xs))"

definition data_opt :: "(gql_data \<Rightarrow> 'a jfield) \<Rightarrow> gql_data option \<Rightarrow> exn + 'a option" where
  "data_opt sel d = (case d of None \<Rightarrow> Inl AttributeError
     | Some d \<Rightarrow> (case sel d of Val x \<Rightarrow> Inr (Some x) | _ \<Rightarrow> Inr None))"

definition data_user_part :: "(lldap_user \<Rightarrow> 'a list) \<Rightarrow> gql_data option \<Rightarrow> exn + 'a list" where
  "data_user_part sel d = (case d of None \<Rightarrow> Inl AttributeError
     | Some d \<Rightarrow> (case d_user d of Absent \<Rightarrow> Inr [] | Null \<Rightarrow> Inl AttributeError | Val u \<Rightarrow> Inr (sel u)))"

definition data_created_group :: "gql_data option \<Rightarrow> exn + group_ref" where
  "data_created_group d = (case d of None \<Rightarrow> Inl TypeError
     | Some d \<Rightarrow> (case d_createGroup d of Absent \<Rightarrow> Inl (KeyError ''createGroup'')
         | Null \<Rightarrow> Inl TypeError | Val g \<Rightarrow> Inr g))"

definition query :: "'w env \<Rightarrow> owner \<Rightarrow> gql \<Rightarrow> (gql_data option \<Rightarrow> exn + 'a) \<Rightarrow> ('w mon, 'a) prog" where
  "query E self q sel = bnd (graphql E self q) (\<lambda>d. of_sum (sel d))"

section \<open>The proxy call\<close>

definition proxy_try ::
    "'w env \<Rightarrow> owner \<Rightarrow> proxy_req \<Rightarrow> ('w mon, proxy_body option step) prog" where
  "proxy_try E self req =
     bnd (self_client self) (\<lambda>c.
     let auth = (if ic_proxy_secret c = [] then [] else bearer (ic_proxy_secret c)) in
     bnd (ask (Call_proxy (ic_proxy_url c) auth req) (proxy_http E (ic_proxy_url c) auth req)) (\<lambda>r.
     bnd (of_sum (received r)) (\<lambda>(status, body).
     thn (of_sum (raise_for_status status))
         (ret (Done body)))))"

definition proxy_attempt ::
    "'w env \<Rightarrow> owner \<Rightarrow> proxy_req \<Rightarrow> bool \<Rightarrow> ('w mon, proxy_body option step) prog" where
  "proxy_attempt E self req final =
     catch (proxy_try E self req) (\<lambda>e.
       case e of
         HTTPStatusError code \<Rightarrow>
           if 400 \<le> code \<and> code < 500 then raise e
           else if final then raise e
           else thn (sleep retry_delay) (ret Again)
       | HTTPTransportError _ \<Rightarrow>
           if final then raise e else thn (sleep retry_delay) (ret Again)
       | _ \<Rightarrow> raise e)"

primrec proxy_loop ::
    "'w env \<Rightarrow> owner \<Rightarrow> proxy_req \<Rightarrow> nat \<Rightarrow> ('w mon, proxy_body option option) prog" where
  "proxy_loop E self req 0 = ret None"
| "proxy_loop E self req (Suc n) =
     bnd (proxy_attempt E self req (n = 0)) (\<lambda>r.
       case r of Done x \<Rightarrow> ret (Some x) | Again \<Rightarrow> proxy_loop E self req n)"

text \<open>The response and its \<open>r.json()\<close>; every caller decodes it at once.\<close>

definition proxy_request :: "'w env \<Rightarrow> owner \<Rightarrow> proxy_req \<Rightarrow> ('w mon, proxy_body) prog" where
  "proxy_request E self req =
     bnd (proxy_loop E self req retries) (\<lambda>r.
     case r of None \<Rightarrow> raise AttributeError | Some body \<Rightarrow> of_sum (json_body body))"

section \<open>Helpers\<close>

definition is_hidden :: "identity_client \<Rightarrow> string \<Rightarrow> bool" where
  "is_hidden c username = list_ex (startswith (lower username)) (ic_hidden_prefixes c)"

text \<open>The loop over the users LLDAP lists; it stops at the first collision.\<close>

primrec add_user_ids :: "'w env \<Rightarrow> owner \<Rightarrow> string list \<Rightarrow> ('w mon, unit) prog" where
  "add_user_ids E self [] = ret ()"
| "add_user_ids E self (u # us) =
     (let nid = username_to_numeric_id E u in
      bnd (self_client self) (\<lambda>c.
      if (case ic_user_id_map c nid of None \<Rightarrow> False | Some existing \<Rightarrow> existing \<noteq> u)
      then raise (RuntimeError ''Numeric ID collision'')
      else thn (set_client self (\<lambda>c. c\<lparr>ic_user_id_map := (ic_user_id_map c)(nid \<mapsto> u)\<rparr>))
               (add_user_ids E self us)))"

definition refresh_user_id_map :: "'w env \<Rightarrow> owner \<Rightarrow> ('w mon, unit) prog" where
  "refresh_user_id_map E self =
     bnd (query E self Query_user_ids (data_list d_users)) (\<lambda>us.
     add_user_ids E self (map luser_id us))"

definition resolve_username :: "'w env \<Rightarrow> owner \<Rightarrow> int \<Rightarrow> ('w mon, string option) prog" where
  "resolve_username E self user_id =
     bnd (self_client self) (\<lambda>c.
     case ic_user_id_map c user_id of
       Some u \<Rightarrow> ret (Some u)
     | None \<Rightarrow> thn (refresh_user_id_map E self)
                   (bnd (self_client self) (\<lambda>c. ret (ic_user_id_map c user_id))))"

section \<open>Attributes\<close>

text \<open>A value of the flat attribute dictionary.\<close>

datatype attr_val = A_none | A_bool bool | A_int int | A_str string

type_synonym attrs = "(string \<times> attr_val) list"

definition fastak_attributes :: "string list" where
  "fastak_attributes = [''fastak_expires'', ''fastak_certs_revoked'', ''is_active'', ''fastak_user_type'']"

definition parse_attribute :: "attribute \<Rightarrow> attrs \<Rightarrow> attrs" where
  "parse_attribute a result =
     (let name = attr_name a in
      if name \<notin> set fastak_attributes then result else
      (case attr_value a of
         [] \<Rightarrow> result
       | v # _ \<Rightarrow>
           if name = ''fastak_expires'' then
             (case parse_int v of None \<Rightarrow> result | Some i \<Rightarrow> dict_set name (A_int i) result)
           else if name = ''fastak_certs_revoked'' then
             dict_set name (A_bool (lower v = ''true'')) result
           else if name = ''is_active'' then
             dict_set name (A_bool (lower v \<noteq> ''false'')) result
           else dict_set name (A_str v) result))"

definition parse_attributes :: "attribute list \<Rightarrow> attrs" where
  "parse_attributes attrs_list = fold parse_attribute attrs_list []"

definition build_custom_attribute :: "string \<times> attr_val \<Rightarrow> attribute" where
  "build_custom_attribute e =
     (case e of (name, value) \<Rightarrow>
        \<lparr>attr_name = name,
         attr_value = (case value of
             A_none \<Rightarrow> []
           | A_bool b \<Rightarrow> [lower (str_of_bool b)]
           | A_int i \<Rightarrow> [str_of_int i]
           | A_str s \<Rightarrow> [s])\<rparr>)"

definition build_custom_attributes :: "attrs \<Rightarrow> attribute list" where
  "build_custom_attributes attrs = map build_custom_attribute attrs"

text \<open>What the parser stores under each key has one type; these read it back.\<close>

definition bool_attr :: "attrs \<Rightarrow> string \<Rightarrow> bool option" where
  "bool_attr d k = (case map_of d k of Some (A_bool b) \<Rightarrow> Some b | _ \<Rightarrow> None)"

definition int_attr :: "attrs \<Rightarrow> string \<Rightarrow> int option" where
  "int_attr d k = (case map_of d k of Some (A_int i) \<Rightarrow> Some i | _ \<Rightarrow> None)"

definition str_attr :: "attrs \<Rightarrow> string \<Rightarrow> string option" where
  "str_attr d k = (case map_of d k of Some (A_str s) \<Rightarrow> Some s | _ \<Rightarrow> None)"

section \<open>Users\<close>

text \<open>The API's user object. The optional keys are left out of the dictionary when unset.\<close>

record user =
  u_id :: int
  u_username :: string
  u_name :: string
  u_is_active :: bool
  u_groups :: "string list"
  u_expires :: "int option"
  u_certs_revoked :: "bool option"
  u_user_type :: "string option"

definition user_of :: "'w env \<Rightarrow> lldap_user \<Rightarrow> user" where
  "user_of E u =
     (let a = parse_attributes (luser_attributes u) in
      \<lparr>u_id = username_to_numeric_id E (luser_id u),
       u_username = luser_id u,
       u_name = luser_display u,
       u_is_active = (case bool_attr a ''is_active'' of None \<Rightarrow> True | Some b \<Rightarrow> b),
       u_groups = [drop 4 (group_display g). g \<leftarrow> luser_groups u, startswith (group_display g) ''tak_''],
       u_expires = int_attr a ''fastak_expires'',
       u_certs_revoked = bool_attr a ''fastak_certs_revoked'',
       u_user_type = str_attr a ''fastak_user_type''\<rparr>)"

definition format_user :: "'w env \<Rightarrow> owner \<Rightarrow> lldap_user \<Rightarrow> ('w mon, user) prog" where
  "format_user E self u =
     thn (set_client self (\<lambda>c. c\<lparr>ic_user_id_map :=
            (ic_user_id_map c)(username_to_numeric_id E (luser_id u) \<mapsto> luser_id u)\<rparr>))
         (ret (user_of E u))"

definition search_matches :: "string option \<Rightarrow> lldap_user \<Rightarrow> bool" where
  "search_matches search u =
     (case search of
        None \<Rightarrow> True
      | Some q \<Rightarrow> q = [] \<or> contains (lower (luser_id u)) (lower q) \<or> contains (lower (luser_display u)) (lower q))"

definition list_users :: "'w env \<Rightarrow> owner \<Rightarrow> string option \<Rightarrow> ('w mon, user list) prog" where
  "list_users E self search =
     bnd (query E self Query_users (data_list d_users)) (\<lambda>us.
     bnd (self_client self) (\<lambda>c.
     collect (format_user E self)
       (filter (\<lambda>u. \<not> is_hidden c (luser_id u) \<and> search_matches search u) us)))"

definition get_user :: "'w env \<Rightarrow> owner \<Rightarrow> int \<Rightarrow> ('w mon, user option) prog" where
  "get_user E self user_id =
     bnd (resolve_username E self user_id) (\<lambda>un.
     bnd (self_client self) (\<lambda>c.
     case un of
       None \<Rightarrow> ret None
     | Some username \<Rightarrow>
         if is_hidden c username then ret None else
         bnd (query E self (Query_user username) (data_opt d_user)) (\<lambda>user.
         case user of
           None \<Rightarrow> ret None
         | Some u \<Rightarrow>
             if is_hidden c (luser_id u) then ret None
             else bnd (format_user E self u) (\<lambda>r. ret (Some r)))))"

definition tak_name :: "string \<Rightarrow> string" where
  "tak_name n = (if startswith n ''tak_'' then n else ''tak_'' @ n)"

text \<open>\<open>{g["displayName"]: g["id"] for g in gs}\<close>.\<close>

definition groups_by_name :: "group_ref list \<Rightarrow> (string \<times> int) list" where
  "groups_by_name gs = fold (\<lambda>g d. dict_set (group_display g) (group_id g) d) gs []"

definition ensure_user_groups :: "'w env \<Rightarrow> owner \<Rightarrow> string \<Rightarrow> string list \<Rightarrow> ('w mon, unit) prog" where
  "ensure_user_groups E self username group_names =
     bnd (query E self Query_groups (data_list d_groups)) (\<lambda>gs.
     let group_by_name = groups_by_name gs in
     for_each group_names (\<lambda>name.
       bnd (case map_of group_by_name (tak_name name) of
              Some gid \<Rightarrow> ret gid
            | None \<Rightarrow> bnd (query E self (Mut_create_group (tak_name name)) data_created_group)
                          (\<lambda>g. ret (group_id g))) (\<lambda>gid.
       thn (graphql E self (Mut_add_user_to_group username gid)) (ret ()))))"

text \<open>\<open>int(x)\<close> of a float: towards zero.\<close>

definition trunc :: "real \<Rightarrow> int" where
  "trunc x = (if 0 \<le> x then \<lfloor>x\<rfloor> else \<lceil>x\<rceil>)"

definition expiry_at :: "real \<Rightarrow> int \<Rightarrow> int" where
  "expiry_at now ttl_hours = trunc (now + real_of_int (ttl_hours * 3600))"

definition update_attributes :: "'w env \<Rightarrow> owner \<Rightarrow> string \<Rightarrow> attribute list \<Rightarrow> ('w mon, unit) prog" where
  "update_attributes E self username custom =
     thn (graphql E self (Mut_update_user
            \<lparr>upd_id = username, upd_display = None, upd_attributes = Some custom\<rparr>))
         (ret ())"

definition create_user ::
    "'w env \<Rightarrow> owner \<Rightarrow> string \<Rightarrow> string \<Rightarrow> int option \<Rightarrow> string list option \<Rightarrow> string option \<Rightarrow>
     ('w mon, user) prog" where
  "create_user E self username name ttl_hours groups user_type =
     thn (graphql E self (Mut_create_user username name (username @ ''@dummy.example.com'')))
    (bnd (case ttl_hours of
            None \<Rightarrow> ret [(''fastak_certs_revoked'', A_bool False)]
          | Some h \<Rightarrow> bnd (tick (time_now E)) (\<lambda>now.
              ret [(''fastak_certs_revoked'', A_bool False), (''fastak_expires'', A_int (expiry_at now h))]))
       (\<lambda>attrs0.
     let attrs = (case user_type of None \<Rightarrow> attrs0
                  | Some t \<Rightarrow> dict_set ''fastak_user_type'' (A_str t) attrs0) in
     thn (update_attributes E self username (build_custom_attributes attrs))
    (thn (case groups of None \<Rightarrow> ret () | Some [] \<Rightarrow> ret ()
          | Some gs \<Rightarrow> ensure_user_groups E self username gs)
    (bnd (query E self Query_users (data_list d_users)) (\<lambda>us.
     case List.find (\<lambda>u. luser_id u = username) us of
       Some u \<Rightarrow> format_user E self u
     | None \<Rightarrow> format_user E self
         \<lparr>luser_id = username, luser_display = name,
          luser_attributes = build_custom_attributes attrs, luser_groups = []\<rparr>)))))"

text \<open>The keyword arguments of \<open>update_user\<close>; \<open>None\<close> is "not given".\<close>

record user_update =
  kw_name :: "string option"
  kw_is_active :: "bool option"
  kw_ttl_hours :: "int option option"

definition attrs_update :: "user_update \<Rightarrow> real \<Rightarrow> attrs" where
  "attrs_update kw now =
     (let a1 = (case kw_is_active kw of
                  None \<Rightarrow> []
                | Some act \<Rightarrow> (''is_active'', A_bool act) #
                    (if act then [(''fastak_certs_revoked'', A_bool False)] else [])) in
      case kw_ttl_hours kw of
        None \<Rightarrow> a1
      | Some None \<Rightarrow> dict_set ''fastak_certs_revoked'' A_none (dict_set ''fastak_expires'' A_none a1)
      | Some (Some h) \<Rightarrow>
          (let a2 = dict_set ''fastak_expires'' (A_int (expiry_at now h)) a1 in
           if has_key a2 ''fastak_certs_revoked'' then a2
           else dict_set ''fastak_certs_revoked'' (A_bool False) a2))"

text \<open>The loop that merges the update into what LLDAP has: the merged dictionary and the cleared keys.\<close>

definition merge_attrs :: "attrs \<Rightarrow> attrs \<Rightarrow> attrs \<times> string list" where
  "merge_attrs upd existing =
     fold (\<lambda>(k, v) (ex, cleared).
        if v = A_none then (dict_pop k ex, cleared @ [k]) else (dict_set k v ex, cleared))
       upd (existing, [])"

definition cleared_attribute :: "string \<Rightarrow> attribute" where
  "cleared_attribute name = \<lparr>attr_name = name, attr_value = []\<rparr>"

definition update_user :: "'w env \<Rightarrow> owner \<Rightarrow> int \<Rightarrow> user_update \<Rightarrow> ('w mon, user option) prog" where
  "update_user E self user_id kw =
     bnd (resolve_username E self user_id) (\<lambda>un.
     case un of
       None \<Rightarrow> raise (ValueError (''User '' @ str_of_int user_id @ '' not found''))
     | Some username \<Rightarrow>
     bnd (case kw_ttl_hours kw of Some (Some h) \<Rightarrow> tick (time_now E) | _ \<Rightarrow> ret 0) (\<lambda>now.
     let upd = attrs_update kw now in
     bnd (if upd = [] then ret None
          else bnd (query E self (Query_user username) (data_user_part luser_attributes)) (\<lambda>attrs.
            case merge_attrs upd (parse_attributes attrs) of (merged, cleared) \<Rightarrow>
              ret (Some (build_custom_attributes merged @ map cleared_attribute cleared)))) (\<lambda>custom.
     thn (if kw_name kw \<noteq> None \<or> custom \<noteq> None
          then thn (graphql E self (Mut_update_user
                  \<lparr>upd_id = username, upd_display = kw_name kw, upd_attributes = custom\<rparr>)) (ret ())
          else ret ())
         (get_user E self user_id))))"

definition deactivate_user :: "'w env \<Rightarrow> owner \<Rightarrow> int \<Rightarrow> ('w mon, unit) prog" where
  "deactivate_user E self user_id =
     bnd (resolve_username E self user_id) (\<lambda>un.
     case un of
       None \<Rightarrow> raise (ValueError (''User '' @ str_of_int user_id @ '' not found''))
     | Some username \<Rightarrow>
         update_attributes E self username (build_custom_attributes [(''is_active'', A_bool False)]))"

definition set_password :: "'w env \<Rightarrow> owner \<Rightarrow> int \<Rightarrow> string \<Rightarrow> ('w mon, unit) prog" where
  "set_password E self user_id password =
     bnd (resolve_username E self user_id) (\<lambda>un.
     case un of
       None \<Rightarrow> raise (ValueError (''User '' @ str_of_int user_id @ '' not found''))
     | Some username \<Rightarrow>
     bnd (get_token E self) (\<lambda>token.
     bnd (self_client self) (\<lambda>c.
     bnd (ask (Call_set_password (ic_lldap_url c) token username password)
              (set_password_cmd E (ic_lldap_url c) token username password)) (\<lambda>(code, stderr).
     if code \<noteq> 0
     then raise (RuntimeError (''lldap_set_password failed for '' @ username @ '': '' @ strip stderr))
     else ret ()))))"

definition mark_certs_revoked :: "'w env \<Rightarrow> owner \<Rightarrow> int \<Rightarrow> ('w mon, unit) prog" where
  "mark_certs_revoked E self user_id =
     bnd (resolve_username E self user_id) (\<lambda>un.
     case un of
       None \<Rightarrow> raise (ValueError (''User '' @ str_of_int user_id @ '' not found''))
     | Some username \<Rightarrow>
     bnd (query E self (Query_user username) (data_user_part luser_attributes)) (\<lambda>attrs.
     let existing = dict_set ''fastak_certs_revoked'' (A_bool True) (parse_attributes attrs) in
     update_attributes E self username (build_custom_attributes existing)))"

section \<open>Groups\<close>

record group_info =
  g_id :: int
  g_name :: string

definition list_groups :: "'w env \<Rightarrow> owner \<Rightarrow> ('w mon, group_info list) prog" where
  "list_groups E self =
     bnd (query E self Query_groups (data_list d_groups)) (\<lambda>gs.
     ret [\<lparr>g_id = group_id g, g_name = drop 4 (group_display g)\<rparr>.
            g \<leftarrow> gs, startswith (group_display g) ''tak_'' \<and> group_display g \<noteq> ''tak_ROLE_ADMIN''])"

record group_detail =
  gd_id :: int
  gd_name :: string
  gd_members :: "(int \<times> string) list"

definition get_group :: "'w env \<Rightarrow> owner \<Rightarrow> string \<Rightarrow> ('w mon, group_detail option) prog" where
  "get_group E self gid_text =
     (case parse_int gid_text of
        None \<Rightarrow> ret None
      | Some gid \<Rightarrow>
          bnd (query E self (Query_group gid) (data_opt d_group)) (\<lambda>g.
          bnd (self_client self) (\<lambda>c.
          ret (case g of
             None \<Rightarrow> None
           | Some g \<Rightarrow>
               if \<not> startswith (lgroup_display g) ''tak_'' then None
               else Some \<lparr>gd_id = lgroup_id g, gd_name = drop 4 (lgroup_display g),
                 gd_members = [(username_to_numeric_id E u, u). u \<leftarrow> lgroup_users g, \<not> is_hidden c u]\<rparr>))))"

definition create_group :: "'w env \<Rightarrow> owner \<Rightarrow> string \<Rightarrow> ('w mon, group_info) prog" where
  "create_group E self name =
     bnd (query E self (Mut_create_group (tak_name name)) data_created_group) (\<lambda>g.
     ret \<lparr>g_id = group_id g, g_name = drop 4 (tak_name name)\<rparr>)"

definition delete_group :: "'w env \<Rightarrow> owner \<Rightarrow> string \<Rightarrow> ('w mon, unit) prog" where
  "delete_group E self gid_text =
     (case parse_int gid_text of
        None \<Rightarrow> ret ()
      | Some gid \<Rightarrow> thn (graphql E self (Mut_delete_group gid)) (ret ()))"

definition groups_to_remove :: "string list \<Rightarrow> (string \<times> int) list \<Rightarrow> int list" where
  "groups_to_remove desired current =
     [gid. (gname, gid) \<leftarrow> current, startswith gname ''tak_'' \<and> gname \<notin> set desired]"

definition groups_to_add :: "string list \<Rightarrow> (string \<times> int) list \<Rightarrow> (string \<times> int) list \<Rightarrow> int list" where
  "groups_to_add desired current by_name =
     List.map_filter (\<lambda>gname. if has_key current gname then None else map_of by_name gname) desired"

text \<open>The desired names are a Python set, walked in the order \<^const>\<open>set_iter\<close> gives.\<close>

definition set_user_groups :: "'w env \<Rightarrow> owner \<Rightarrow> int \<Rightarrow> string list \<Rightarrow> ('w mon, unit) prog" where
  "set_user_groups E self user_id group_names =
     bnd (resolve_username E self user_id) (\<lambda>un.
     case un of
       None \<Rightarrow> raise (ValueError (''User '' @ str_of_int user_id @ '' not found''))
     | Some username \<Rightarrow>
     let desired = set_iter E (remdups (map tak_name group_names)) in
     bnd (query E self Query_groups (data_list d_groups)) (\<lambda>gs.
     let group_by_name = groups_by_name gs in
     bnd (query E self (Query_user username) (data_user_part luser_groups)) (\<lambda>cur.
     let current_groups = groups_by_name cur in
     thn (for_each (groups_to_remove desired current_groups) (\<lambda>gid.
            thn (graphql E self (Mut_remove_user_from_group username gid)) (ret ())))
         (for_each (groups_to_add desired current_groups group_by_name) (\<lambda>gid.
            thn (graphql E self (Mut_add_user_to_group username gid)) (ret ()))))))"

section \<open>Enrollment tokens\<close>

definition expires_iso :: "'w env \<Rightarrow> int option \<Rightarrow> string" where
  "expires_iso E t = (case t of None \<Rightarrow> [] | Some t \<Rightarrow> if t = 0 then [] else iso_time E t)"

definition get_or_create_enrollment_token ::
    "'w env \<Rightarrow> owner \<Rightarrow> int \<Rightarrow> int \<Rightarrow> bool \<Rightarrow> ('w mon, string \<times> string) prog" where
  "get_or_create_enrollment_token E self user_id ttl_minutes one_time =
     bnd (resolve_username E self user_id) (\<lambda>un.
     case un of
       None \<Rightarrow> raise (ValueError (''User '' @ str_of_int user_id @ '' not found''))
     | Some username \<Rightarrow>
     bnd (proxy_request E self (Get_tokens username)) (\<lambda>b.
     case px_tokens b of
       t # _ \<Rightarrow> ret (tok_value t, expires_iso E (tok_expires t))
     | [] \<Rightarrow>
     bnd (proxy_request E self (Post_token username ttl_minutes one_time)) (\<lambda>b.
     case px_token b of
       None \<Rightarrow> raise (KeyError ''token'')
     | Some t \<Rightarrow> ret (tok_value t, expires_iso E (tok_expires t)))))"

definition delete_enrollment_tokens :: "'w env \<Rightarrow> owner \<Rightarrow> int \<Rightarrow> ('w mon, int) prog" where
  "delete_enrollment_tokens E self user_id =
     bnd (resolve_username E self user_id) (\<lambda>un.
     case un of
       None \<Rightarrow> ret 0
     | Some username \<Rightarrow>
         bnd (proxy_request E self (Delete_tokens username)) (\<lambda>b. ret (px_deleted b)))"

section \<open>Expiry\<close>

definition pending_expiry :: "real \<Rightarrow> lldap_user \<Rightarrow> bool" where
  "pending_expiry now u =
     (let a = parse_attributes (luser_attributes u) in
      case int_attr a ''fastak_expires'' of
        None \<Rightarrow> False
      | Some expires \<Rightarrow>
          bool_attr a ''fastak_certs_revoked'' \<noteq> Some True \<and> real_of_int expires \<le> now)"

definition get_users_pending_expiry :: "'w env \<Rightarrow> owner \<Rightarrow> ('w mon, user list) prog" where
  "get_users_pending_expiry E self =
     bnd (graphql E self Query_users) (\<lambda>d.
     bnd (tick (time_now E)) (\<lambda>now.
     bnd (of_sum (data_list d_users d)) (\<lambda>us.
     collect (format_user E self) (filter (pending_expiry now) us))))"

end
