(* ===== verification/Sample.thy ===== *)
theory Sample
  imports Identity
begin

text \<open>
  An instance of the outside world, for the witnesses: a small user directory that answers the
  GraphQL documents, a token store, a certificate directory with a revocation list, and a
  container in which every command succeeds or every command fails. Nothing here models code of
  the repository; the theorems of the other theories hold for every \<open>env\<close>.
\<close>

record sample =
  sw_users :: "lldap_user list"
  sw_groups :: "group_ref list"
  sw_tokens :: "(string \<times> token) list"
  sw_certs :: "marti_cert list"
  sw_files :: "string list"
  sw_serials :: "(string \<times> string) list"
  sw_crl :: "string list"
  sw_exec_code :: int
  sw_find_output :: string
  sw_now :: real

definition reply_ok :: "gql_data \<Rightarrow> gql_reply http" where
  "reply_ok d = Http 200 (Some \<lparr>rep_errors = None, rep_data = Val d\<rparr>)"

definition reply_error :: "string \<Rightarrow> gql_reply http" where
  "reply_error m = Http 200 (Some \<lparr>rep_errors = Some m, rep_data = Null\<rparr>)"

definition store_attribute :: "attribute \<Rightarrow> attribute list \<Rightarrow> attribute list" where
  "store_attribute a as =
     filter (\<lambda>b. attr_name b \<noteq> attr_name a) as @ (if attr_value a = [] then [] else [a])"

definition apply_update :: "update_input \<Rightarrow> lldap_user \<Rightarrow> lldap_user" where
  "apply_update i u = (if luser_id u \<noteq> upd_id i then u else
     u\<lparr>luser_display := (case upd_display i of None \<Rightarrow> luser_display u | Some d \<Rightarrow> d),
       luser_attributes := (case upd_attributes i of None \<Rightarrow> luser_attributes u
         | Some as \<Rightarrow> fold store_attribute as (luser_attributes u))\<rparr>)"

definition map_groups :: "string \<Rightarrow> (group_ref list \<Rightarrow> group_ref list) \<Rightarrow> lldap_user \<Rightarrow> lldap_user" where
  "map_groups un f u = (if luser_id u \<noteq> un then u else u\<lparr>luser_groups := f (luser_groups u)\<rparr>)"

definition add_group_ref :: "group_ref list \<Rightarrow> int \<Rightarrow> group_ref list \<Rightarrow> group_ref list" where
  "add_group_ref all_groups gid gs =
     (if gid \<in> set (map group_id gs) then gs else gs @ filter (\<lambda>g. group_id g = gid) all_groups)"

fun sample_graphql :: "string \<Rightarrow> string \<Rightarrow> gql \<Rightarrow> sample \<Rightarrow> gql_reply http \<times> sample" where
  "sample_graphql _ _ Query_user_ids w = (reply_ok (no_data\<lparr>d_users := Val (sw_users w)\<rparr>), w)"
| "sample_graphql _ _ Query_users w = (reply_ok (no_data\<lparr>d_users := Val (sw_users w)\<rparr>), w)"
| "sample_graphql _ _ (Query_user un) w =
     (case List.find (\<lambda>u. luser_id u = un) (sw_users w) of
        None \<Rightarrow> (reply_error ''Entity not found'', w)
      | Some u \<Rightarrow> (reply_ok (no_data\<lparr>d_user := Val u\<rparr>), w))"
| "sample_graphql _ _ Query_groups w = (reply_ok (no_data\<lparr>d_groups := Val (sw_groups w)\<rparr>), w)"
| "sample_graphql _ _ (Query_group gid) w =
     (case List.find (\<lambda>g. group_id g = gid) (sw_groups w) of
        None \<Rightarrow> (reply_error ''Entity not found'', w)
      | Some g \<Rightarrow> (reply_ok (no_data\<lparr>d_group := Val
          \<lparr>lgroup_id = gid, lgroup_display = group_display g,
           lgroup_users = [luser_id u. u \<leftarrow> sw_users w, gid \<in> set (map group_id (luser_groups u))]\<rparr>\<rparr>), w))"
| "sample_graphql _ _ (Mut_create_user un name _) w =
     (if un \<in> set (map luser_id (sw_users w)) then (reply_error ''User already exists'', w)
      else (reply_ok no_data, w\<lparr>sw_users := sw_users w @
        [\<lparr>luser_id = un, luser_display = name, luser_attributes = [], luser_groups = []\<rparr>]\<rparr>))"
| "sample_graphql _ _ (Mut_update_user i) w =
     (reply_ok no_data, w\<lparr>sw_users := map (apply_update i) (sw_users w)\<rparr>)"
| "sample_graphql _ _ (Mut_create_group name) w =
     (if name \<in> set (map group_display (sw_groups w)) then (reply_error ''Group already exists'', w)
      else let g = \<lparr>group_id = int (length (sw_groups w)) + 1, group_display = name\<rparr> in
        (reply_ok (no_data\<lparr>d_createGroup := Val g\<rparr>), w\<lparr>sw_groups := sw_groups w @ [g]\<rparr>))"
| "sample_graphql _ _ (Mut_delete_group gid) w =
     (reply_ok no_data, w\<lparr>sw_groups := filter (\<lambda>g. group_id g \<noteq> gid) (sw_groups w)\<rparr>)"
| "sample_graphql _ _ (Mut_add_user_to_group un gid) w =
     (reply_ok no_data, w\<lparr>sw_users := map (map_groups un (add_group_ref (sw_groups w) gid)) (sw_users w)\<rparr>)"
| "sample_graphql _ _ (Mut_remove_user_from_group un gid) w =
     (reply_ok no_data,
      w\<lparr>sw_users := map (map_groups un (filter (\<lambda>g. group_id g \<noteq> gid))) (sw_users w)\<rparr>)"

fun sample_proxy :: "string \<Rightarrow> string \<Rightarrow> proxy_req \<Rightarrow> sample \<Rightarrow> proxy_body http \<times> sample" where
  "sample_proxy _ _ (Get_tokens un) w =
     (Http 200 (Some \<lparr>px_tokens = [t. (n, t) \<leftarrow> sw_tokens w, n = un], px_token = None, px_deleted = 0\<rparr>), w)"
| "sample_proxy _ _ (Post_token un ttl _) w =
     (let t = \<lparr>tok_value = ''token'', tok_expires = Some (\<lfloor>sw_now w\<rfloor> + ttl * 60)\<rparr> in
      (Http 200 (Some \<lparr>px_tokens = [], px_token = Some t, px_deleted = 0\<rparr>),
       w\<lparr>sw_tokens := sw_tokens w @ [(un, t)]\<rparr>))"
| "sample_proxy _ _ (Delete_tokens un) w =
     (Http 200 (Some \<lparr>px_tokens = [], px_token = None,
        px_deleted = int (length (filter (\<lambda>e. fst e = un) (sw_tokens w)))\<rparr>),
      w\<lparr>sw_tokens := filter (\<lambda>e. fst e \<noteq> un) (sw_tokens w)\<rparr>)"

fun sample_tak :: "string \<Rightarrow> tak_req \<Rightarrow> sample \<Rightarrow> marti_cert list jfield http \<times> sample" where
  "sample_tak _ (Tak_get_certs _) w = (Http 200 (Some (Val (sw_certs w))), w)"
| "sample_tak _ (Tak_revoke_cert i) w = (Http 200 (Some (Val [])),
     w\<lparr>sw_certs := map (\<lambda>c. if mc_id c = i then c\<lparr>mc_revocationDate := Some ''now''\<rparr> else c) (sw_certs w)\<rparr>)"

text \<open>\<open>-revoke\<close> puts the serial of the named file on the list.\<close>

definition sample_exec ::
    "command \<Rightarrow> (string \<times> string) list \<Rightarrow> sample \<Rightarrow> (exn + int \<times> string) \<times> sample" where
  "sample_exec c vars w = (case c of
     Cmd_find p \<Rightarrow> (Inr (sw_exec_code w, sw_find_output w), w)
   | Cmd_revoke \<Rightarrow>
       if sw_exec_code w \<noteq> 0 then (Inr (sw_exec_code w, ''failed''), w)
       else (case map_of vars ''NAME'' of
           None \<Rightarrow> (Inr (1, ''no name''), w)
         | Some n \<Rightarrow> (Inr (0, []), w\<lparr>sw_crl := (case map_of (sw_serials w) n of
               None \<Rightarrow> sw_crl w | Some x \<Rightarrow> sw_crl w @ [x])\<rparr>))
   | _ \<Rightarrow> (Inr (sw_exec_code w, []), w))"

definition name_hash :: "string \<Rightarrow> 8 word list" where
  "name_hash s = [0, 0, 0, 0, 0, 0, of_nat (length s)]"

definition running_container :: container where
  "running_container = \<lparr>con_service = Some ''tak-server'', con_project = Some ''fastak'',
     con_status = ''running'', con_exit_code = None, con_health = None, con_image_tags = []\<rparr>"

definition sample_env :: "settings \<Rightarrow> sample env" where
  "sample_env st = \<lparr>
     cfg = st,
     sha256 = name_hash,
     login_http = (\<lambda>_ _ _ w. (Http 200 (Some (Some ''jwt'')), w)),
     graphql_http = sample_graphql,
     set_password_cmd = (\<lambda>_ _ _ _ w. ((0, []), w)),
     proxy_http = sample_proxy,
     tak_http = sample_tak,
     tak_get = (\<lambda>_ _ w. (Http 200 (Some (J_obj [])), w)),
     containers_list = (\<lambda>_ _ w. (Inr [running_container], w)),
     exec_run = sample_exec,
     put_archive = (\<lambda>_ _ w. (Inr (), w)),
     token_hex = (\<lambda>_ w. (''00ff00ff'', w)),
     set_iter = (\<lambda>xs. xs),
     time_now = (\<lambda>w. (sw_now w, w)),
     monotonic = (\<lambda>w. (sw_now w, w)),
     path_exists = (\<lambda>p w. p \<in> set (sw_files w)),
     cert_dir_files = sw_files,
     read_file = (\<lambda>_ _. Inr ''data''),
     openssl_x509 = (\<lambda>_ p w. case map_of (sw_serials w) p of
        None \<Rightarrow> Inr (1, []) | Some x \<Rightarrow> Inr (0, ''serial='' @ x)),
     openssl_crl = (\<lambda>_ w. Inr []),
     iso_time = str_of_int,
     iso_enddate = (\<lambda>x. Some x),
     uuid4 = (\<lambda>w. (''uuid'', w)),
     java_truststore = Inr,
     load_tls = (\<lambda>_ _ _ _. Inr ())\<rparr>"

definition sample_client :: "string list \<Rightarrow> identity_client" where
  "sample_client hidden = new_identity_client ''http://lldap'' ''http://proxy'' ''secret'' hidden ''''"

definition sample_world :: sample where
  "sample_world = \<lparr>
     sw_users =
       [\<lparr>luser_id = ''bob'', luser_display = ''Bob'',
         luser_attributes = [\<lparr>attr_name = ''fastak_expires'', attr_value = [''100'']\<rparr>],
         luser_groups = [\<lparr>group_id = 1, group_display = ''tak_Blue''\<rparr>, \<lparr>group_id = 3, group_display = ''staff''\<rparr>]\<rparr>,
        \<lparr>luser_id = ''svc_a'', luser_display = ''Feed'', luser_attributes = [], luser_groups = []\<rparr>],
     sw_groups = [\<lparr>group_id = 1, group_display = ''tak_Blue''\<rparr>, \<lparr>group_id = 2, group_display = ''tak_Red''\<rparr>,
                  \<lparr>group_id = 3, group_display = ''staff''\<rparr>],
     sw_tokens = [], sw_certs = [], sw_files = [], sw_serials = [], sw_crl = [],
     sw_exec_code = 0, sw_find_output = [], sw_now = 200\<rparr>"

definition sample_state :: "string list \<Rightarrow> sample \<Rightarrow> sample mon" where
  "sample_state hidden w = \<lparr>world = w, calls = [],
     identity = (\<lambda>_. Some (sample_client hidden)),
     tak_server = (\<lambda>_. None),
     cached_services = [], cached_project = [], cache_time = 0\<rparr>"

end
