(* ===== verification/IdentityFacts.thy ===== *)
theory IdentityFacts
  imports Identity Sample
begin

text \<open>
  Facts about the identity client that hold whatever LLDAP and the ldap-proxy answer: the range
  of the numeric ids, the bound on retries, the calls each method may make, the invariant of the
  id map, the round trip of the custom attributes, and what the hidden prefixes hide.
\<close>

section \<open>Numeric ids\<close>

lemma from_bytes_be_bound:
  "0 \<le> from_bytes_be bs \<and> from_bytes_be bs < 256 ^ length bs"
proof (induction bs rule: rev_induct)
  case (snoc b bs)
  have b: "0 \<le> uint b" "uint b < 256" using uint_lt2p [of b] by simp_all
  have "from_bytes_be bs * 256 + uint b < 256 ^ length bs * 256"
    using snoc b(2) by (smt (verit))
  then show ?case using snoc b by (simp add: from_bytes_be_def mult.commute)
qed (simp add: from_bytes_be_def)

lemma numeric_id_mod:
  "username_to_numeric_id E u = from_bytes_be (take 7 (sha256 E u)) mod 2 ^ 53"
proof -
  have m: "(0x1FFFFFFFFFFFFF :: int) = mask 53" by (simp add: mask_eq_exp_minus_1)
  show ?thesis by (simp only: username_to_numeric_id_def m take_bit_eq_mask [symmetric] take_bit_eq_mod)
qed

lemma numeric_id_range:
  "0 \<le> username_to_numeric_id E u \<and> username_to_numeric_id E u < 2 ^ 53"
  by (simp add: numeric_id_mod)

section \<open>Retries\<close>

lemma graphql_attempt_final: "fst (graphql_attempt E self q True s) \<noteq> Inr Again"
proof -
  have "fst (graphql_try E self q True s) \<noteq> Inr Again"
    by (auto simp: graphql_try_def run_simps Let_def split: prod.splits sum.splits option.splits if_splits)
  then show ?thesis
    by (auto simp: graphql_attempt_def run_simps split: prod.splits sum.splits exn.splits if_splits)
qed

interpretation gql_retry: bounded_retry "graphql_loop E self q" "graphql_attempt E self q" for E self q
  by unfold_locales (simp_all add: graphql_attempt_final)

lemma proxy_attempt_final: "fst (proxy_attempt E self req True s) \<noteq> Inr Again"
proof -
  have "fst (proxy_try E self req s) \<noteq> Inr Again"
    by (auto simp: proxy_try_def run_simps Let_def split: prod.splits sum.splits)
  then show ?thesis
    by (auto simp: proxy_attempt_def run_simps split: prod.splits sum.splits exn.splits if_splits)
qed

interpretation proxy_retry: bounded_retry "proxy_loop E self req" "proxy_attempt E self req" for E self req
  by unfold_locales (simp_all add: proxy_attempt_final)

section \<open>The calls of each method\<close>

definition lldap_ok :: "(call \<Rightarrow> bool) \<Rightarrow> bool" where
  "lldap_ok A \<longleftrightarrow> (\<forall>u a b. A (Call_login u a b)) \<and> (\<forall>n. A (Call_sleep n))"

definition gql_ok :: "(call \<Rightarrow> bool) \<Rightarrow> gql \<Rightarrow> bool" where
  "gql_ok A q \<longleftrightarrow> (\<forall>u b. A (Call_graphql u b q))"

definition proxy_ok :: "(call \<Rightarrow> bool) \<Rightarrow> proxy_req \<Rightarrow> bool" where
  "proxy_ok A r \<longleftrightarrow> (\<forall>n. A (Call_sleep n)) \<and> (\<forall>u b. A (Call_proxy u b r))"

lemma emits_self_client [keeps_rules]: "emits A (self_client self)"
  unfolding self_client_def by (intro keeps_rules)

lemma emits_set_client [keeps_rules]: "emits A (set_client self f)"
  unfolding set_client_def by (intro keeps_rules) simp

lemma emits_login [keeps_rules]: "lldap_ok A \<Longrightarrow> emits A (login E self)"
  unfolding login_def Let_def by (intro keeps_rules) (simp_all add: lldap_ok_def)

lemma emits_get_token [keeps_rules]: "lldap_ok A \<Longrightarrow> emits A (get_token E self)"
  unfolding get_token_def by (intro keeps_rules)

lemma emits_graphql_try: "lldap_ok A \<Longrightarrow> gql_ok A q \<Longrightarrow> emits A (graphql_try E self q final)"
  unfolding graphql_try_def Let_def by (intro keeps_rules) (simp_all add: gql_ok_def)

lemma emits_graphql_attempt:
  "lldap_ok A \<Longrightarrow> gql_ok A q \<Longrightarrow> emits A (graphql_attempt E self q final)"
  unfolding graphql_attempt_def
  by (intro keeps_catch emits_graphql_try grows_preorder)
    (auto split: exn.split intro!: keeps_rules simp: lldap_ok_def)

lemma emits_graphql [keeps_rules]:
  assumes "lldap_ok A" and "gql_ok A q"
  shows "emits A (graphql E self q)"
proof -
  have "emits A (graphql_loop E self q retries)"
    using assms by (intro gql_retry.loop_keeps grows_preorder emits_graphql_attempt)
  then show ?thesis unfolding graphql_def by (intro keeps_rules)
qed

lemma emits_query [keeps_rules]: "lldap_ok A \<Longrightarrow> gql_ok A q \<Longrightarrow> emits A (query E self q sel)"
  unfolding query_def by (intro keeps_rules)

lemma emits_proxy_try: "proxy_ok A r \<Longrightarrow> emits A (proxy_try E self r)"
  unfolding proxy_try_def Let_def by (intro keeps_rules) (simp_all add: proxy_ok_def)

lemma emits_proxy_attempt: "proxy_ok A r \<Longrightarrow> emits A (proxy_attempt E self r final)"
  unfolding proxy_attempt_def
  by (intro keeps_catch emits_proxy_try grows_preorder)
    (auto split: exn.split intro!: keeps_rules simp: proxy_ok_def)

lemma emits_proxy_request [keeps_rules]:
  assumes "proxy_ok A r"
  shows "emits A (proxy_request E self r)"
proof -
  have "emits A (proxy_loop E self r retries)"
    using assms by (intro proxy_retry.loop_keeps grows_preorder emits_proxy_attempt)
  then show ?thesis unfolding proxy_request_def by (intro keeps_rules)
qed

lemma emits_add_user_ids [keeps_rules]: "emits A (add_user_ids E self us)"
proof (induction us)
  case (Cons u us)
  then show ?case unfolding add_user_ids.simps Let_def by (intro keeps_rules)
qed (simp add: keeps_ret)

lemma emits_resolve [keeps_rules]:
  "lldap_ok A \<Longrightarrow> gql_ok A Query_user_ids \<Longrightarrow> emits A (resolve_username E self i)"
  unfolding resolve_username_def refresh_user_id_map_def by (intro keeps_rules)

lemma emits_format_user [keeps_rules]: "emits A (format_user E self u)"
  unfolding format_user_def by (intro keeps_rules)

text \<open>Reading methods: only queries.\<close>

definition queries_ok :: "(call \<Rightarrow> bool) \<Rightarrow> bool" where
  "queries_ok A \<longleftrightarrow> lldap_ok A \<and> (\<forall>q. \<not> is_mutation q \<longrightarrow> gql_ok A q)"

lemma queries_okD:
  "queries_ok A \<Longrightarrow> lldap_ok A"
  "queries_ok A \<Longrightarrow> gql_ok A Query_user_ids"
  "queries_ok A \<Longrightarrow> gql_ok A Query_users"
  "queries_ok A \<Longrightarrow> gql_ok A (Query_user u)"
  "queries_ok A \<Longrightarrow> gql_ok A Query_groups"
  "queries_ok A \<Longrightarrow> gql_ok A (Query_group g)"
  by (simp_all add: queries_ok_def)

lemma emits_list_users [keeps_rules]: "queries_ok A \<Longrightarrow> emits A (list_users E self search)"
  unfolding list_users_def by (intro keeps_rules queries_okD)

lemma emits_get_user [keeps_rules]: "queries_ok A \<Longrightarrow> emits A (get_user E self i)"
  unfolding get_user_def by (intro keeps_rules queries_okD)

lemma emits_list_groups [keeps_rules]: "queries_ok A \<Longrightarrow> emits A (list_groups E self)"
  unfolding list_groups_def by (intro keeps_rules queries_okD)

lemma emits_get_group [keeps_rules]: "queries_ok A \<Longrightarrow> emits A (get_group E self t)"
  unfolding get_group_def by (intro keeps_rules queries_okD)

lemma emits_pending [keeps_rules]: "queries_ok A \<Longrightarrow> emits A (get_users_pending_expiry E self)"
  unfolding get_users_pending_expiry_def by (intro keeps_rules queries_okD)

text \<open>Writing methods.\<close>

lemma emits_update_attributes [keeps_rules]:
  "lldap_ok A \<Longrightarrow> (\<And>i. upd_id i = username \<Longrightarrow> gql_ok A (Mut_update_user i)) \<Longrightarrow>
   emits A (update_attributes E self username custom)"
  unfolding update_attributes_def by (intro keeps_rules) simp_all

definition updates_ok :: "(call \<Rightarrow> bool) \<Rightarrow> bool" where
  "updates_ok A \<longleftrightarrow> queries_ok A \<and> (\<forall>i. gql_ok A (Mut_update_user i))"

lemma updates_okD:
  "updates_ok A \<Longrightarrow> queries_ok A" "updates_ok A \<Longrightarrow> gql_ok A (Mut_update_user i)"
  by (simp_all add: updates_ok_def)

lemma emits_deactivate [keeps_rules]: "updates_ok A \<Longrightarrow> emits A (deactivate_user E self i)"
  unfolding deactivate_user_def by (intro keeps_rules queries_okD updates_okD)

lemma emits_mark_revoked [keeps_rules]: "updates_ok A \<Longrightarrow> emits A (mark_certs_revoked E self i)"
  unfolding mark_certs_revoked_def Let_def by (intro keeps_rules queries_okD updates_okD)

lemma emits_update_user [keeps_rules]: "updates_ok A \<Longrightarrow> emits A (update_user E self i kw)"
  unfolding update_user_def Let_def by (intro keeps_rules queries_okD updates_okD)

definition tokens_ok :: "(call \<Rightarrow> bool) \<Rightarrow> bool" where
  "tokens_ok A \<longleftrightarrow> queries_ok A \<and> (\<forall>r. proxy_ok A r)"

lemma tokens_okD: "tokens_ok A \<Longrightarrow> queries_ok A" "tokens_ok A \<Longrightarrow> proxy_ok A r"
  by (simp_all add: tokens_ok_def)

lemma emits_delete_tokens [keeps_rules]:
  "tokens_ok A \<Longrightarrow> emits A (delete_enrollment_tokens E self i)"
  unfolding delete_enrollment_tokens_def by (intro keeps_rules queries_okD tokens_okD)

lemma emits_enrollment [keeps_rules]:
  "tokens_ok A \<Longrightarrow> emits A (get_or_create_enrollment_token E self i ttl one)"
  unfolding get_or_create_enrollment_token_def by (intro keeps_rules queries_okD tokens_okD)

section \<open>What a method leaves of the clients\<close>

text \<open>
  \<open>client_rel\<close>: the configuration of every client object stays, and where the id map held only
  names under their own numeric id, it still does.
\<close>

definition same_config :: "identity_client \<Rightarrow> identity_client \<Rightarrow> bool" where
  "same_config c d \<longleftrightarrow> c\<lparr>ic_jwt := None, ic_user_id_map := Map.empty\<rparr> =
                      d\<lparr>ic_jwt := None, ic_user_id_map := Map.empty\<rparr>"

definition ids_ok :: "'w env \<Rightarrow> 'w mon \<Rightarrow> bool" where
  "ids_ok E s \<longleftrightarrow> (\<forall>self c n u. identity s self = Some c \<longrightarrow> ic_user_id_map c n = Some u \<longrightarrow>
                     n = username_to_numeric_id E u)"

definition client_rel :: "'w env \<Rightarrow> 'w mon \<Rightarrow> 'w mon \<Rightarrow> bool" where
  "client_rel E s t \<longleftrightarrow>
     (\<forall>self c. identity s self = Some c \<longrightarrow> (\<exists>d. identity t self = Some d \<and> same_config c d)) \<and>
     (ids_ok E s \<longrightarrow> ids_ok E t)"

lemma same_config_fields:
  "same_config c d \<Longrightarrow> ic_hidden_prefixes d = ic_hidden_prefixes c"
  "same_config c d \<Longrightarrow> ic_lldap_url d = ic_lldap_url c"
  by (cases c; cases d; simp add: same_config_def)+

lemma same_config_hidden: "same_config c d \<Longrightarrow> is_hidden d u = is_hidden c u"
  by (simp add: is_hidden_def same_config_fields)

lemma client_rel_preorder [simp, keeps_rules]: "preorder_rel (client_rel E)"
proof -
  have "transp (client_rel E)"
    unfolding transp_def client_rel_def same_config_def by (metis (no_types, lifting))
  then show ?thesis
    by (auto simp: preorder_rel_def reflp_def client_rel_def same_config_def)
qed

lemma client_rel_calls:
  "identity t = identity s \<Longrightarrow> client_rel E s t"
  by (simp add: client_rel_def ids_ok_def same_config_def)

abbreviation stable :: "'w env \<Rightarrow> ('w mon, 'a) prog \<Rightarrow> bool" where
  "stable E m \<equiv> keeps (client_rel E) m"

lemma stable_ask [keeps_rules]: "stable E (ask c f)"
  and stable_tick [keeps_rules]: "stable E (tick g)"
  and stable_look [keeps_rules]: "stable E (look h)"
  and stable_sleep [keeps_rules]: "stable E (sleep n)"
  by (rule keepsI; auto simp: run_simps sleep_def intro!: client_rel_calls)+

lemma stable_self_client [keeps_rules]: "stable E (self_client self)"
  unfolding self_client_def by (intro keeps_rules)

lemma stable_set_client:
  fixes E :: "'w env"
  assumes "\<And>c. same_config c (f c)"
    and "\<And>c n u. ic_user_id_map (f c) n = Some u \<Longrightarrow>
           ic_user_id_map c n = Some u \<or> n = username_to_numeric_id E u"
  shows "stable E (set_client self f)"
proof (rule keepsI)
  fix s t :: "'w mon" and r
  assume "set_client self f s = (r, t)"
  then have t: "t = s\<lparr>identity := (identity s)(self := map_option f (identity s self))\<rparr>"
    by (simp add: set_client_def run_simps)
  have "ids_ok E t" if "ids_ok E s"
    unfolding ids_ok_def
  proof (intro allI impI)
    fix o' c n u
    assume "identity t o' = Some c" and "ic_user_id_map c n = Some u"
    then show "n = username_to_numeric_id E u"
      using that assms(2) [of _ n u] unfolding t ids_ok_def
      by (auto split: if_splits) blast+
  qed
  moreover have "\<exists>d. identity t o' = Some d \<and> same_config c d" if "identity s o' = Some c" for o' c
    using that assms(1) by (cases "o' = self") (auto simp: t, simp add: same_config_def)
  ultimately show "client_rel E s t" by (simp add: client_rel_def)
qed

lemma stable_set_jwt [keeps_rules]: "stable E (set_client self (\<lambda>c. c\<lparr>ic_jwt := j\<rparr>))"
  by (rule stable_set_client) (simp_all add: same_config_def)

lemma stable_set_id [keeps_rules]:
  "stable E (set_client self (\<lambda>c. c\<lparr>ic_user_id_map :=
     (ic_user_id_map c)(username_to_numeric_id E u \<mapsto> u)\<rparr>))"
  by (rule stable_set_client) (auto simp: same_config_def split: if_splits)

lemma stable_login [keeps_rules]: "stable E (login E self)"
  unfolding login_def Let_def by (intro keeps_rules stable_set_jwt)

lemma stable_get_token [keeps_rules]: "stable E (get_token E self)"
  unfolding get_token_def by (intro keeps_rules)

lemma stable_graphql [keeps_rules]: "stable E (graphql E self q)"
proof -
  have "stable E (graphql_try E self q b)" for b
    unfolding graphql_try_def Let_def by (intro keeps_rules stable_set_jwt)
  then have "stable E (graphql_attempt E self q b)" for b
    unfolding graphql_attempt_def
    by (intro keeps_catch client_rel_preorder) (auto split: exn.split intro!: keeps_rules)
  then have "stable E (graphql_loop E self q retries)"
    by (intro gql_retry.loop_keeps client_rel_preorder)
  then show ?thesis unfolding graphql_def by (intro keeps_rules)
qed

lemma stable_query [keeps_rules]: "stable E (query E self q sel)"
  unfolding query_def by (intro keeps_rules)

lemma stable_proxy_request [keeps_rules]: "stable E (proxy_request E self r)"
proof -
  have "stable E (proxy_try E self r)"
    unfolding proxy_try_def Let_def by (intro keeps_rules)
  then have "stable E (proxy_attempt E self r b)" for b
    unfolding proxy_attempt_def
    by (intro keeps_catch client_rel_preorder) (auto split: exn.split intro!: keeps_rules)
  then have "stable E (proxy_loop E self r retries)"
    by (intro proxy_retry.loop_keeps client_rel_preorder)
  then show ?thesis unfolding proxy_request_def by (intro keeps_rules)
qed

lemma stable_add_user_ids [keeps_rules]: "stable E (add_user_ids E self us)"
proof (induction us)
  case (Cons u us)
  then show ?case unfolding add_user_ids.simps Let_def by (intro keeps_rules stable_set_id)
qed (simp add: keeps_ret)

lemma stable_resolve [keeps_rules]: "stable E (resolve_username E self i)"
  unfolding resolve_username_def refresh_user_id_map_def by (intro keeps_rules)

lemma stable_format_user [keeps_rules]: "stable E (format_user E self u)"
  unfolding format_user_def by (intro keeps_rules stable_set_id)

lemma stable_reads [keeps_rules]:
  "stable E (list_users E self search)"
  "stable E (get_user E self i)"
  "stable E (list_groups E self)"
  "stable E (get_group E self t)"
  "stable E (get_users_pending_expiry E self)"
  unfolding list_users_def get_user_def list_groups_def get_group_def get_users_pending_expiry_def
  by (intro keeps_rules)+

lemma stable_update_attributes [keeps_rules]: "stable E (update_attributes E self username custom)"
  unfolding update_attributes_def by (intro keeps_rules)

lemma stable_ensure_user_groups [keeps_rules]: "stable E (ensure_user_groups E self username gs)"
  unfolding ensure_user_groups_def Let_def by (intro keeps_rules)

lemma stable_writes [keeps_rules]:
  "stable E (create_user E self username name ttl groups user_type)"
  "stable E (update_user E self i kw)"
  "stable E (deactivate_user E self i)"
  "stable E (set_password E self i password)"
  "stable E (mark_certs_revoked E self i)"
  "stable E (create_group E self name)"
  "stable E (delete_group E self t)"
  "stable E (set_user_groups E self i names)"
  "stable E (get_or_create_enrollment_token E self i minutes one_time)"
  "stable E (delete_enrollment_tokens E self i)"
  unfolding create_user_def update_user_def deactivate_user_def set_password_def mark_certs_revoked_def
    create_group_def delete_group_def set_user_groups_def get_or_create_enrollment_token_def
    delete_enrollment_tokens_def Let_def
  by (intro keeps_rules)+

section \<open>Bounded retries\<close>

fun is_graphql :: "call \<Rightarrow> bool" where
  "is_graphql (Call_graphql _ _ _) = True"
| "is_graphql _ = False"

definition posts :: "'w mon \<Rightarrow> nat" where
  "posts s = length (filter is_graphql (calls s))"

lemma get_token_posts: "posts (snd (get_token E self s)) = posts s"
  by (auto simp: get_token_def login_def self_client_def set_client_def run_simps Let_def posts_def
      split: prod.splits sum.splits option.splits)

lemma graphql_attempt_posts: "posts (snd (graphql_attempt E self q b s)) \<le> posts s + 1"
proof -
  have self: "snd (self_client self t) = t" for t :: "'a mon"
    by (simp add: self_client_def run_simps split: option.splits)
  have "posts (snd (graphql_try E self q b s)) \<le> posts s + 1"
  proof (cases "get_token E self s")
    case (Pair r t)
    with get_token_posts [of E self s] have "posts t = posts s" by simp
    with Pair self [of t] show ?thesis
      by (auto simp: graphql_try_def run_simps Let_def posts_def set_client_def
          split: prod.splits sum.splits option.splits if_splits)
  qed
  moreover have "posts (snd (sleep n u)) = posts u" for n and u :: "'a mon"
    by (simp add: sleep_def run_simps posts_def)
  ultimately show ?thesis
    by (auto simp: graphql_attempt_def run_simps posts_def sleep_def
        split: prod.splits sum.splits exn.splits if_splits)
qed

section \<open>Attributes\<close>

fun well_typed :: "string \<times> attr_val \<Rightarrow> bool" where
  "well_typed (k, A_int _) = (k = ''fastak_expires'')"
| "well_typed (k, A_bool _) = (k = ''fastak_certs_revoked'' \<or> k = ''is_active'')"
| "well_typed (k, A_str _) = (k = ''fastak_user_type'')"
| "well_typed (k, A_none) = False"

lemma lower_bool: "lower (str_of_bool b) = (if b then ''true'' else ''false'')"
  by (cases b; simp only: str_of_bool_def if_True if_False; code_simp)

lemma lower_lower_bool: "lower (lower (str_of_bool b)) = (if b then ''true'' else ''false'')"
  by (cases b; simp only: str_of_bool_def if_True if_False; code_simp)

lemma parse_build_attribute:
  "well_typed e \<Longrightarrow> parse_attribute (build_custom_attribute e) d = dict_set (fst e) (snd e) d"
  by (cases e; cases "snd e")
    (auto simp: parse_attribute_def build_custom_attribute_def fastak_attributes_def lower_lower_bool Let_def)

lemma dict_set_fresh: "k \<notin> fst ` set d \<Longrightarrow> dict_set k v d = d @ [(k, v)]"
  by (induction d) auto

lemma parse_build_fold:
  "list_all well_typed d \<Longrightarrow> distinct (map fst (acc @ d)) \<Longrightarrow>
   fold parse_attribute (build_custom_attributes d) acc = acc @ d"
proof (induction d arbitrary: acc)
  case (Cons e d)
  then have "fold parse_attribute (build_custom_attributes (e # d)) acc =
      fold parse_attribute (build_custom_attributes d) (acc @ [e])"
    by (cases e) (simp add: build_custom_attributes_def parse_build_attribute dict_set_fresh)
  also have "\<dots> = (acc @ [e]) @ d" using Cons by simp
  finally show ?case by simp
qed (simp add: build_custom_attributes_def)

lemma parse_attribute_typed:
  "list_all well_typed d \<Longrightarrow> distinct (map fst d) \<Longrightarrow>
   list_all well_typed (parse_attribute a d) \<and> distinct (map fst (parse_attribute a d))"
proof -
  have set_typed: "list_all well_typed d \<Longrightarrow> well_typed (k, v) \<Longrightarrow> list_all well_typed (dict_set k v d)" for k v d
    by (induction k v d rule: dict_set.induct) auto
  show "list_all well_typed d \<Longrightarrow> distinct (map fst d) \<Longrightarrow> ?thesis"
    by (auto simp: parse_attribute_def Let_def fastak_attributes_def
        intro!: set_typed distinct_dict_set split: list.splits option.splits)
qed

lemma parse_attributes_typed:
  "list_all well_typed (parse_attributes as) \<and> distinct (map fst (parse_attributes as))"
proof -
  have "list_all well_typed d \<Longrightarrow> distinct (map fst d) \<Longrightarrow>
      list_all well_typed (fold parse_attribute as d) \<and> distinct (map fst (fold parse_attribute as d))" for d
    by (induction as arbitrary: d) (simp_all add: parse_attribute_typed)
  then show ?thesis by (simp add: parse_attributes_def)
qed

section \<open>Sequences of method calls\<close>

text \<open>A step is one call of a method on the client that \<open>self\<close> owns, with any arguments.\<close>

inductive method_step :: "'w env \<Rightarrow> owner \<Rightarrow> 'w mon \<Rightarrow> 'w mon \<Rightarrow> bool" for E self where
  list_users: "list_users E self search s = (r, t) \<Longrightarrow> method_step E self s t"
| get_user: "get_user E self i s = (r, t) \<Longrightarrow> method_step E self s t"
| create_user: "create_user E self un name ttl gs ty s = (r, t) \<Longrightarrow> method_step E self s t"
| update_user: "update_user E self i kw s = (r, t) \<Longrightarrow> method_step E self s t"
| deactivate_user: "deactivate_user E self i s = (r, t) \<Longrightarrow> method_step E self s t"
| set_password: "set_password E self i pw s = (r, t) \<Longrightarrow> method_step E self s t"
| mark_certs_revoked: "mark_certs_revoked E self i s = (r, t) \<Longrightarrow> method_step E self s t"
| list_groups: "list_groups E self s = (r, t) \<Longrightarrow> method_step E self s t"
| get_group: "get_group E self g s = (r, t) \<Longrightarrow> method_step E self s t"
| create_group: "create_group E self n s = (r, t) \<Longrightarrow> method_step E self s t"
| delete_group: "delete_group E self g s = (r, t) \<Longrightarrow> method_step E self s t"
| set_user_groups: "set_user_groups E self i gs s = (r, t) \<Longrightarrow> method_step E self s t"
| enrollment: "get_or_create_enrollment_token E self i m o1 s = (r, t) \<Longrightarrow> method_step E self s t"
| delete_tokens: "delete_enrollment_tokens E self i s = (r, t) \<Longrightarrow> method_step E self s t"
| pending_expiry: "get_users_pending_expiry E self s = (r, t) \<Longrightarrow> method_step E self s t"

inductive client_run :: "'w env \<Rightarrow> 'w mon \<Rightarrow> bool" for E where
  fresh: "(\<And>self c. identity s self = Some c \<Longrightarrow> ic_user_id_map c = Map.empty) \<Longrightarrow> client_run E s"
| step: "client_run E s \<Longrightarrow> method_step E self s t \<Longrightarrow> client_run E t"

lemma method_step_rel: "method_step E self s t \<Longrightarrow> client_rel E s t"
  by (induction rule: method_step.induct) (rule keepsD [rotated], assumption, intro keeps_rules)+

lemma client_run_ids: "client_run E s \<Longrightarrow> ids_ok E s"
proof (induction rule: client_run.induct)
  case (fresh s)
  then show ?case by (fastforce simp: ids_ok_def)
next
  case (step s self t)
  then show ?case by (auto dest: method_step_rel simp: client_rel_def)
qed

lemma self_client_run:
  "self_client self s = (r, t) \<Longrightarrow> t = s \<and> (\<forall>c. r = Inr c \<longrightarrow> identity s self = Some c)"
  by (auto simp: self_client_def run_simps split: option.splits)

lemma resolve_sound:
  assumes ids: "ids_ok E s" and run: "resolve_username E self i s = (Inr (Some u), t)"
  shows "username_to_numeric_id E u = i"
proof -
  obtain c where c: "identity s self = Some c"
    using run by (auto simp: resolve_username_def self_client_def run_simps split: option.splits)
  show ?thesis
  proof (cases "ic_user_id_map c i")
    case (Some v)
    with run c have "v = u" by (simp add: resolve_username_def self_client_def run_simps)
    with ids c Some show ?thesis by (auto simp: ids_ok_def)
  next
    case None
    obtain q v where v: "refresh_user_id_map E self s = (q, v)" by (cases "refresh_user_id_map E self s")
    have "stable E (refresh_user_id_map E self)"
      unfolding refresh_user_id_map_def by (intro keeps_rules)
    with v ids have "ids_ok E v" by (auto dest: keepsD simp: client_rel_def)
    moreover obtain d where "identity v self = Some d" and "ic_user_id_map d i = Some u"
      using run c None v
      by (auto simp: resolve_username_def self_client_def run_simps split: sum.splits option.splits)
    ultimately show ?thesis by (auto simp: ids_ok_def)
  qed
qed

section \<open>What the hidden prefixes hide\<close>

lemma collect_format_ex:
  "\<exists>t. collect (format_user E self) us s = (Inr (map (user_of E) us), t)"
proof (induction us arbitrary: s)
  case (Cons u us)
  obtain v where v: "format_user E self u s = (Inr (user_of E u), v)"
    by (simp add: format_user_def set_client_def run_simps)
  from Cons.IH [of v] v show ?case by (auto simp: run_simps)
qed (simp add: run_simps)

lemma collect_format:
  "fst (collect (format_user E self) us s) = Inr (map (user_of E) us)"
  using collect_format_ex [of E self us s] by auto

lemma query_stable:
  "query E self q sel s = (r, t) \<Longrightarrow> identity s self = Some c \<Longrightarrow>
   \<exists>d. identity t self = Some d \<and> same_config c d"
  using keepsD [OF stable_query] by (fastforce simp: client_rel_def)

lemma list_users_result:
  assumes run: "list_users E self search s = (Inr us, t)" and c: "identity s self = Some c"
  shows "\<exists>all. fst (query E self Query_users (data_list d_users) s) = Inr all \<and>
    us = map (user_of E) (filter (\<lambda>u. \<not> is_hidden c (luser_id u) \<and> search_matches search u) all)"
proof -
  obtain all v where q: "query E self Query_users (data_list d_users) s = (Inr all, v)"
    using run by (auto simp: list_users_def run_simps split: prod.splits sum.splits)
  from query_stable [OF q c] obtain d where d: "identity v self = Some d" "same_config c d" by blast
  have "fst (collect (format_user E self)
      (filter (\<lambda>u. \<not> is_hidden d (luser_id u) \<and> search_matches search u) all) v) = Inr us"
    using run q d by (simp add: list_users_def self_client_def run_simps)
  then show ?thesis using q same_config_hidden [OF d(2)] by (simp add: collect_format)
qed

lemma user_of_username [simp]: "u_username (user_of E u) = luser_id u"
  by (simp add: user_of_def Let_def)

lemma user_of_id [simp]: "u_id (user_of E u) = username_to_numeric_id E (luser_id u)"
  by (simp add: user_of_def Let_def)

lemma get_user_visible:
  assumes run: "get_user E self i s = (Inr (Some u), t)" and c: "identity s self = Some c"
  shows "\<not> is_hidden c (u_username u)"
proof -
  obtain un v where r: "resolve_username E self i s = (Inr (Some un), v)"
    using run by (auto simp: get_user_def run_simps self_client_def
        split: prod.splits sum.splits option.splits)
  have "client_rel E s v" using keepsD [OF stable_resolve r] .
  with c obtain d where d: "identity v self = Some d" "same_config c d" by (auto simp: client_rel_def)
  have "\<not> is_hidden d (u_username u)"
    using run r d(1)
    by (auto simp: get_user_def self_client_def format_user_def set_client_def run_simps
        split: prod.splits sum.splits option.splits if_splits)
  then show ?thesis using same_config_hidden [OF d(2)] by simp
qed

section \<open>Properties\<close>

text \<open>The numeric id of any user name is a non-negative integer that fits in 53 bits, so no
  JSON consumer rounds it.\<close>

lemma numeric_id_fits_json:
  "0 \<le> username_to_numeric_id E u \<and> username_to_numeric_id E u \<le> 2 ^ 53 - 1"
  using numeric_id_range [of E u] by simp

text \<open>C26. One \<open>_graphql\<close> call posts at most three requests, whatever the server answers, and
  its loop always ends in a return or an exception, never by running off the end.\<close>

theorem graphql_bounded:
  "posts (snd (graphql E self q s)) \<le> posts s + 3 \<and> fst (graphql_loop E self q retries s) \<noteq> Inr None"
proof
  have "posts (snd (graphql E self q s)) = posts (snd (graphql_loop E self q retries s))"
    by (simp add: graphql_def run_simps split: prod.splits sum.splits)
  also have "\<dots> \<le> posts s + 3"
    using gql_retry.loop_cost [where cost = posts and k = 1 and n = retries and s = s, OF graphql_attempt_posts]
    by (simp add: retries_def)
  finally show "posts (snd (graphql E self q s)) \<le> posts s + 3" .
  show "fst (graphql_loop E self q retries s) \<noteq> Inr None"
    using gql_retry.no_fall_through [of E self q 2 s] by (simp add: retries_def numeral_3_eq_3)
qed

text \<open>C22. The custom attributes survive the trip to LLDAP and back: parsing what
  \<open>_build_custom_attributes\<close> builds gives the dictionary, for every dictionary the parser can
  produce.\<close>

theorem attributes_round_trip:
  "parse_attributes (build_custom_attributes (parse_attributes as)) = parse_attributes as"
  using parse_build_fold [of "parse_attributes as" "[]"] parse_attributes_typed [of as]
  by (simp add: parse_attributes_def)

text \<open>C21. After any sequence of method calls on fresh clients, a numeric id resolves only to a
  user name that hashes to it.\<close>

theorem resolve_username_sound:
  assumes "client_run E s" and "resolve_username E self i s = (Inr (Some u), t)"
  shows "username_to_numeric_id E u = i"
  using client_run_ids [OF assms(1)] assms(2) by (rule resolve_sound)

theorem resolve_username_sound_witness:
  "username_to_numeric_id (sample_env default_settings) ''bob'' = 3"
proof (rule resolve_username_sound)
  let ?s = "sample_state [''adm_''] sample_world"
  show "client_run (sample_env default_settings)
      (snd (list_users (sample_env default_settings) Users_router None ?s))"
    by (rule client_run.step [OF client_run.fresh method_step.list_users])
      (auto simp: sample_state_def sample_client_def new_identity_client_def prod_eq_iff)
  show "resolve_username (sample_env default_settings) Users_router 3
      (snd (list_users (sample_env default_settings) Users_router None ?s)) =
    (Inr (Some ''bob''), snd (resolve_username (sample_env default_settings) Users_router 3
      (snd (list_users (sample_env default_settings) Users_router None ?s))))"
    unfolding prod_eq_iff by (simp only: fst_conv snd_conv conj_ac simp_thms) code_simp
qed

text \<open>\<open>list_users\<close> never shows a user whose name has a hidden prefix, and shows only users
  that match the search.\<close>

lemma list_users_hides:
  assumes "list_users E self search s = (Inr us, t)" and "identity s self = Some c" and "u \<in> set us"
  shows "\<not> is_hidden c (u_username u)"
  using list_users_result [OF assms(1,2)] assms(3) by auto

text \<open>A user object returned by \<open>get_user\<close> never has a hidden name.\<close>

lemma get_user_hides:
  assumes "get_user E self i s = (Inr (Some u), t)" and "identity s self = Some c"
  shows "\<not> is_hidden c (u_username u)"
  using assms by (rule get_user_visible)

end
