(* ===== verification/IdentityTrace.thy ===== *)
theory IdentityTrace
  imports IdentityFacts
begin

text \<open>
  What a method of the identity client has asked for by the time it returns: the remaining
  bounds on its calls, the calls that a normal return implies, and the two paths of the retry
  loop that its comments promise, re-authentication on 401 and no retry of another client error.
\<close>

section \<open>The calls of the writing methods\<close>

definition writes_ok :: "(call \<Rightarrow> bool) \<Rightarrow> bool" where
  "writes_ok A \<longleftrightarrow> updates_ok A \<and> (\<forall>q. gql_ok A q)"

lemma writes_okD: "writes_ok A \<Longrightarrow> updates_ok A" "writes_ok A \<Longrightarrow> gql_ok A q"
  by (simp_all add: writes_ok_def)

lemma emits_create_group [keeps_rules]: "writes_ok A \<Longrightarrow> emits A (create_group E self n)"
  unfolding create_group_def by (intro keeps_rules queries_okD updates_okD writes_okD)

lemma emits_delete_group [keeps_rules]: "writes_ok A \<Longrightarrow> emits A (delete_group E self g)"
  unfolding delete_group_def by (intro keeps_rules queries_okD updates_okD writes_okD)

lemma emits_ensure_groups [keeps_rules]: "writes_ok A \<Longrightarrow> emits A (ensure_user_groups E self u gs)"
  unfolding ensure_user_groups_def Let_def by (intro keeps_rules queries_okD updates_okD writes_okD)

lemma emits_create_user [keeps_rules]: "writes_ok A \<Longrightarrow> emits A (create_user E self u n ttl gs ty)"
  unfolding create_user_def Let_def by (intro keeps_rules queries_okD updates_okD writes_okD)

lemma emits_set_user_groups [keeps_rules]: "writes_ok A \<Longrightarrow> emits A (set_user_groups E self i gs)"
  unfolding set_user_groups_def Let_def by (intro keeps_rules queries_okD updates_okD writes_okD)

lemma emits_set_password [keeps_rules]:
  "queries_ok A \<Longrightarrow> (\<And>u t n p. A (Call_set_password u t n p)) \<Longrightarrow> emits A (set_password E self i pw)"
  unfolding set_password_def by (intro keeps_rules queries_okD) simp

section \<open>The calls a return implies\<close>

definition is_gql :: "gql \<Rightarrow> call \<Rightarrow> bool" where
  "is_gql q c \<longleftrightarrow> (\<exists>u b. c = Call_graphql u b q)"

lemma any_ok [simp]: "lldap_ok (\<lambda>_. True)" "gql_ok (\<lambda>_. True) q" "proxy_ok (\<lambda>_. True) r"
    "queries_ok (\<lambda>_. True)" "updates_ok (\<lambda>_. True)" "writes_ok (\<lambda>_. True)" "tokens_ok (\<lambda>_. True)"
  by (simp_all add: lldap_ok_def gql_ok_def proxy_ok_def queries_ok_def updates_ok_def writes_ok_def
      tokens_ok_def)

lemma graphql_attempt_called:
  assumes "graphql_attempt E self q b s = (Inr (Done x), t)"
  shows "called (is_gql q) s t"
proof -
  have run: "graphql_try E self q b s = (Inr (Done x), t)"
    using assms by (auto simp: graphql_attempt_def run_simps split: prod.splits sum.splits exn.splits if_splits)
  obtain r u where tok: "get_token E self s = (r, u)" by (cases "get_token E self s")
  have su: "grows (\<lambda>_. True) s u"
    using extendsD [OF emits_get_token [OF any_ok(1)] tok] .
  have self: "self_client self v = (r', v') \<Longrightarrow> v' = v" for v v' :: "'a mon" and r'
    using self_client_run by blast
  have "called (is_gql q) u t \<and> grows (\<lambda>_. True) u t"
    using run tok
    by (auto simp: graphql_try_def run_simps Let_def set_client_def called_def calls_added_def grows_def
        is_gql_def dest!: self split: prod.splits sum.splits if_splits option.splits)
  with su show ?thesis by (blast intro: called_right)
qed

lemma graphql_called:
  assumes "graphql E self q s = (Inr d, t)"
  shows "called (is_gql q) s t"
proof -
  obtain x where x: "graphql_loop E self q retries s = (Inr (Some x), t)"
    using assms gql_retry.no_fall_through [of E self q 2 s]
    by (auto simp: graphql_def run_simps retries_def numeral_3_eq_3 split: prod.splits sum.splits option.splits)
  have again: "grows (\<lambda>_. True) s u" if "graphql_attempt E self q b s = (r, u)" for b s u r
    using extendsD [OF emits_graphql_attempt that] by simp
  have "called (is_gql q) s t \<and> grows (\<lambda>_. True) s t"
    by (rule gql_retry.loop_result [where R = "\<lambda>s _ t. called (is_gql q) s t \<and> grows (\<lambda>_. True) s t", OF _ _ x])
      (blast intro: graphql_attempt_called called_right again grows_trans)+
  then show ?thesis ..
qed

definition deactivation :: "string \<Rightarrow> update_input" where
  "deactivation username = \<lparr>upd_id = username, upd_display = None,
     upd_attributes = Some [\<lparr>attr_name = ''is_active'', attr_value = [''false'']\<rparr>]\<rparr>"

lemma build_inactive:
  "build_custom_attributes [(''is_active'', A_bool False)] =
     [\<lparr>attr_name = ''is_active'', attr_value = [''false'']\<rparr>]"
  by (simp add: build_custom_attributes_def build_custom_attribute_def lower_bool)

text \<open>When \<open>deactivate_user\<close> returns, the mutation that clears \<open>is_active\<close> was posted for the user
  the id resolves to.\<close>

lemma deactivate_called:
  assumes "deactivate_user E self i s = (Inr (), t)"
  shows "\<exists>username u. resolve_username E self i s = (Inr (Some username), u) \<and>
           called (is_gql (Mut_update_user (deactivation username))) s t"
proof -
  obtain r u where res: "resolve_username E self i s = (r, u)" by (cases "resolve_username E self i s")
  then obtain username where r: "r = Inr (Some username)"
    using assms by (auto simp: deactivate_user_def run_simps split: sum.splits option.splits)
  have su: "grows (\<lambda>_. True) s u"
    using extendsD [OF emits_resolve [OF any_ok(1,2)] res] .
  have upd: "update_attributes E self username (build_custom_attributes [(''is_active'', A_bool False)]) u = (Inr (), t)"
    using assms res r by (simp add: deactivate_user_def run_simps)
  then obtain d where g: "graphql E self (Mut_update_user (deactivation username)) u = (Inr d, t)"
    by (auto simp: update_attributes_def build_inactive deactivation_def run_simps split: prod.splits sum.splits)
  have ut: "grows (\<lambda>_. True) u t"
    using extendsD [OF emits_graphql [OF any_ok(1,2)] g] .
  from res r called_right [OF graphql_called [OF g] su ut] show ?thesis by blast
qed

section \<open>Properties\<close>

definition graphql_url :: "identity_client \<Rightarrow> string" where
  "graphql_url c = ic_lldap_url c @ ''/api/graphql''"

definition login_url :: "identity_client \<Rightarrow> string" where
  "login_url c = ic_lldap_url c @ ''/auth/simple/login''"

lemma graphql_try_run:
  assumes "identity s self = Some c" and "ic_jwt c = Some tok"
    and "graphql_http E (graphql_url c) (bearer tok) q (world s) = (Http code body, w)"
  shows "graphql_try E self q final s =
    (let s' = s\<lparr>world := w, calls := calls s @ [Call_graphql (graphql_url c) (bearer tok) q]\<rparr> in
     if code = 401 \<and> \<not> final then (Inr Again, s'\<lparr>identity := (identity s)(self \<mapsto> c\<lparr>ic_jwt := None\<rparr>)\<rparr>)
     else if code \<noteq> 401 \<and> raise_for_status code = Inl (HTTPStatusError code) then (Inl (HTTPStatusError code), s')
     else graphql_try E self q final s)"
  using assms
  by (simp add: graphql_try_def get_token_def self_client_def set_client_def run_simps Let_def
      graphql_url_def received_def)

text \<open>C27. An expired session is renewed once: when LLDAP answers 401 to the cached token, the client
  logs in, posts the same document with the new token and returns its data; these are all the calls
  it makes, and the new token is kept.\<close>

theorem graphql_reauthenticates:
  assumes "identity s self = Some c" and "ic_jwt c = Some old"
    and "graphql_http E (graphql_url c) (bearer old) q (world s) = (Http 401 body, w1)"
    and "login_http E (login_url c) ''adm_ldapservice'' (ic_admin_password c) w1 =
           (Http 200 (Some (Some new)), w2)"
    and "graphql_http E (graphql_url c) (bearer new) q w2 = (Http 200 (Some rep), w3)"
    and "rep_errors rep = None"
  shows "\<exists>t. graphql E self q s = (Inr (data_field rep), t) \<and>
    calls t = calls s @ [Call_graphql (graphql_url c) (bearer old) q,
      Call_login (login_url c) ''adm_ldapservice'' (ic_admin_password c),
      Call_graphql (graphql_url c) (bearer new) q] \<and>
    identity t self = Some (c\<lparr>ic_jwt := Some new\<rparr>)"
proof -
  let ?u = "s\<lparr>world := w1, calls := calls s @ [Call_graphql (graphql_url c) (bearer old) q],
              identity := (identity s)(self \<mapsto> c\<lparr>ic_jwt := None\<rparr>)\<rparr>"
  have again: "graphql_attempt E self q False s = (Inr Again, ?u)"
    using graphql_try_run [OF assms(1-3), of False] by (simp add: graphql_attempt_def run_simps)
  obtain t where t: "graphql_attempt E self q False ?u = (Inr (Done (data_field rep)), t)"
      "calls t = calls s @ [Call_graphql (graphql_url c) (bearer old) q,
        Call_login (login_url c) ''adm_ldapservice'' (ic_admin_password c),
        Call_graphql (graphql_url c) (bearer new) q]"
      "identity t self = Some (c\<lparr>ic_jwt := Some new\<rparr>)"
    using assms(4-6)
    by (simp add: graphql_attempt_def graphql_try_def get_token_def login_def self_client_def set_client_def
        run_simps Let_def graphql_url_def login_url_def received_def raise_for_status_def json_body_def)
  have "graphql_loop E self q retries s = (Inr (Some (data_field rep)), t)"
    by (simp add: retries_def numeral_3_eq_3 gql_retry.loop_run again t(1) del: graphql_loop.simps)
  with t(2,3) show ?thesis by (simp add: graphql_def run_simps)
qed

text \<open>A directory that accepts only the token it issues.\<close>

definition strict_env :: "sample env" where
  "strict_env = (sample_env default_settings)\<lparr>graphql_http := (\<lambda>u b q w.
     if b = bearer ''jwt'' then sample_graphql u b q w else (Http 401 None, w))\<rparr>"

theorem graphql_reauthenticates_witness:
  "\<exists>t d. graphql strict_env Users_router Query_users
     ((sample_state [] sample_world)\<lparr>identity := (\<lambda>_. Some ((sample_client [])\<lparr>ic_jwt := Some ''old''\<rparr>))\<rparr>) =
     (Inr d, t) \<and> length (calls t) = 3"
proof -
  let ?c = "(sample_client [])\<lparr>ic_jwt := Some ''old''\<rparr>"
  let ?s = "(sample_state [] sample_world)\<lparr>identity := (\<lambda>_. Some ?c)\<rparr>"
  have w: "world ?s = sample_world" "calls ?s = []" by (simp_all add: sample_state_def)
  have "\<exists>t. graphql strict_env Users_router Query_users ?s =
      (Inr (data_field \<lparr>rep_errors = None, rep_data = Val (no_data\<lparr>d_users := Val (sw_users sample_world)\<rparr>)\<rparr>), t) \<and>
    calls t = calls ?s @ [Call_graphql (graphql_url ?c) (bearer ''old'') Query_users,
      Call_login (login_url ?c) ''adm_ldapservice'' (ic_admin_password ?c),
      Call_graphql (graphql_url ?c) (bearer ''jwt'') Query_users] \<and>
    identity t Users_router = Some (?c\<lparr>ic_jwt := Some ''jwt''\<rparr>)"
    by (rule graphql_reauthenticates [where body = None and ?w1.0 = sample_world and ?w2.0 = sample_world
          and ?w3.0 = sample_world])
      (simp_all add: w strict_env_def sample_env_def bearer_def reply_ok_def)
  then show ?thesis using w by auto
qed

text \<open>A client error other than 401 is not retried: one request, no pause, and the status is
  raised to the caller.\<close>

lemma graphql_client_error_once:
  assumes "identity s self = Some c" and "ic_jwt c = Some tok"
    and "graphql_http E (graphql_url c) (bearer tok) q (world s) = (Http code body, w)"
    and "400 \<le> code" and "code < 500" and "code \<noteq> 401"
  shows "graphql E self q s = (Inl (HTTPStatusError code),
    s\<lparr>world := w, calls := calls s @ [Call_graphql (graphql_url c) (bearer tok) q]\<rparr>)"
  using graphql_try_run [OF assms(1-3), of False] assms(4-6)
  by (simp add: graphql_def retries_def numeral_3_eq_3 gql_retry.loop_run graphql_attempt_def
      run_simps raise_for_status_def)

end
