(* ===== verification/CertGen.thy ===== *)
theory CertGen
  imports IdentityFacts
begin

text \<open>
  \<open>monitor/app/api/service_accounts/cert_gen.py\<close>: certificates are generated, revoked and
  exported by commands run inside the tak-server container. A command is its constructor of
  \<^typ>\<open>command\<close> and the environment variables the code passes; the exit code and the output
  are the container's.
\<close>

definition cert_files :: string where
  "cert_files = ''/opt/tak/certs/files''"

definition cert_dir :: string where
  "cert_dir = ''/opt/tak/certs''"

definition nodered_certs :: string where
  "nodered_certs = ''/opt/tak/certs/files/nodered''"

text \<open>The dictionaries the functions return.\<close>

record cert_result =
  cr_success :: bool
  cr_error :: "string option"
  cr_output :: "string option"

definition succeeded :: cert_result where
  "succeeded = \<lparr>cr_success = True, cr_error = None, cr_output = None\<rparr>"

definition failed :: "string \<Rightarrow> cert_result" where
  "failed e = \<lparr>cr_success = False, cr_error = Some e, cr_output = None\<rparr>"

section \<open>The revocation list\<close>

definition crl_serial :: "string \<Rightarrow> string option" where
  "crl_serial line =
     (let line = strip line in
      if startswith line ''Serial Number:''
      then (case split_once (CHR '':'') line of _ # v # _ \<Rightarrow> Some (lower (strip v)) | _ \<Rightarrow> None)
      else None)"

text \<open>The set of serials, as a list. A missing file or any failure is the empty set.\<close>

definition get_revoked_serials :: "'w env \<Rightarrow> ('w mon, string list) prog" where
  "get_revoked_serials E =
     bnd (look (path_exists E (cert_files @ ''/ca.crl''))) (\<lambda>there.
     if \<not> there then ret []
     else catch (bnd (bnd (look (openssl_crl E (cert_files @ ''/ca.crl''))) of_sum) (\<lambda>stdout.
                 ret (List.map_filter crl_serial (splitlines stdout))))
                (\<lambda>_. ret []))"

section \<open>Names\<close>

definition validate_name :: "string \<Rightarrow> string option" where
  "validate_name name =
     (if name = [] \<or> \<not> name_re name
      then Some ''Name must contain only letters, numbers, dots, hyphens, underscores''
      else if length name > 64 then Some ''Name must be 64 characters or fewer''
      else None)"

section \<open>The container\<close>

definition tak_container :: "'w env \<Rightarrow> ('w mon, cert_result option) prog" where
  \<comment> \<open>the error, if the container is not there\<close>
  "tak_container E =
     bnd (find_container E ''tak-server'') (\<lambda>c.
     ret (case c of None \<Rightarrow> Some (failed ''tak-server container not found'') | Some _ \<Rightarrow> None))"

definition docker_exec :: "'w env \<Rightarrow> command \<Rightarrow> (string \<times> string) list \<Rightarrow> ('w mon, int \<times> string) prog" where
  "docker_exec E cmd vars = bnd (ask (Call_exec cmd vars) (exec_run E cmd vars)) of_sum"

text \<open>\<open>except Exception as e: return {"success": False, "error": str(e)[:300]}\<close>.\<close>

definition or_failed :: "('w mon, cert_result) prog \<Rightarrow> ('w mon, cert_result) prog" where
  "or_failed m = catch m (\<lambda>e. ret (failed (take 300 (exn_str e))))"

section \<open>The CA subject\<close>

record ca_subject =
  cs_state :: string
  cs_city :: string
  cs_org_unit :: string

definition subject_defaults :: ca_subject where
  "subject_defaults = \<lparr>cs_state = ''XX'', cs_city = ''Default'', cs_org_unit = ''FastTAK''\<rparr>"

definition subject_value :: "string \<Rightarrow> string" where
  "subject_value part = (case split_once (CHR ''='') part of _ # v # _ \<Rightarrow> strip v | _ \<Rightarrow> [])"

definition subject_part :: "string \<Rightarrow> ca_subject \<Rightarrow> ca_subject" where
  "subject_part part r =
     (let part = strip part in
      if startswith part ''ST='' \<or> startswith part ''ST ='' then r\<lparr>cs_state := subject_value part\<rparr>
      else if startswith part ''L='' \<or> startswith part ''L ='' then r\<lparr>cs_city := subject_value part\<rparr>
      else if startswith part ''OU='' \<or> startswith part ''OU ='' then r\<lparr>cs_org_unit := subject_value part\<rparr>
      else r)"

definition parse_ca_subject :: "string \<Rightarrow> ca_subject" where
  "parse_ca_subject line = fold subject_part (split_on (CHR '','') line) subject_defaults"

definition read_ca_subject :: "'w env \<Rightarrow> ('w mon, ca_subject) prog" where
  "read_ca_subject E =
     bnd (docker_exec E Cmd_ca_subject []) (\<lambda>(code, output).
     ret (if code \<noteq> 0 then subject_defaults else parse_ca_subject output))"

section \<open>Generation\<close>

definition generate_client_cert ::
    "'w env \<Rightarrow> string \<Rightarrow> int \<Rightarrow> string option \<Rightarrow> ('w mon, cert_result) prog" where
  "generate_client_cert E name validity_days cn_override =
     (case validate_name name of
        Some err \<Rightarrow> ret (failed err)
      | None \<Rightarrow>
      (case (case cn_override of None \<Rightarrow> None | Some cn \<Rightarrow> if cn = [] then None else validate_name cn) of
        Some err \<Rightarrow> ret (failed (''CN override: '' @ err))
      | None \<Rightarrow>
      let cn = (case cn_override of None \<Rightarrow> name | Some cn \<Rightarrow> if cn = [] then name else cn) in
      bnd (tak_container E) (\<lambda>error.
      case error of
        Some err \<Rightarrow> ret err
      | None \<Rightarrow> or_failed (
          bnd (read_ca_subject E) (\<lambda>subj.
          bnd (docker_exec E Cmd_gen_csr
                 [(''CERT_FILES'', cert_files), (''NAME'', name), (''CN'', cn), (''STATE'', cs_state subj),
                  (''CITY'', cs_city subj), (''OU'', cs_org_unit subj)]) (\<lambda>(code, output).
          if code \<noteq> 0 then ret (failed (''CSR generation failed: '' @ take 300 output)) else
          bnd (docker_exec E Cmd_sign_csr
                 [(''CERT_DIR'', cert_dir), (''CERT_FILES'', cert_files), (''NAME'', name),
                  (''DAYS'', str_of_int validity_days)]) (\<lambda>(code, output).
          if code \<noteq> 0 then ret (failed (''Signing failed: '' @ take 300 output)) else
          bnd (docker_exec E Cmd_make_p12 [(''CERT_FILES'', cert_files), (''NAME'', name)]) (\<lambda>(code, output).
          if code \<noteq> 0 then ret (failed (''P12 creation failed: '' @ take 300 output)) else
          ret succeeded))))))))"

section \<open>Revocation\<close>

text \<open>\<open>have\<close>: the caller passes the container it has found already.\<close>

definition revoke_via_crl :: "'w env \<Rightarrow> string \<Rightarrow> bool \<Rightarrow> ('w mon, cert_result) prog" where
  "revoke_via_crl E name have =
     bnd (if have then ret None else tak_container E) (\<lambda>error.
     case error of
       Some err \<Rightarrow> ret err
     | None \<Rightarrow> or_failed (
         bnd (docker_exec E Cmd_revoke
                [(''CERT_DIR'', cert_dir), (''CERT_FILES'', cert_files), (''NAME'', name)]) (\<lambda>(code, output).
         if code \<noteq> 0 then ret (failed (take 500 output)) else ret succeeded)))"

definition revoke_cert_by_name :: "'w env \<Rightarrow> string \<Rightarrow> ('w mon, cert_result) prog" where
  "revoke_cert_by_name E name =
     (case validate_name name of
        Some err \<Rightarrow> ret (failed err)
      | None \<Rightarrow> revoke_via_crl E name False)"

definition revoke_cert_by_pem :: "'w env \<Rightarrow> string \<Rightarrow> ('w mon, cert_result) prog" where
  "revoke_cert_by_pem E pem_content =
     bnd (tak_container E) (\<lambda>error.
     case error of
       Some err \<Rightarrow> ret err
     | None \<Rightarrow>
       bnd (tick (token_hex E 4)) (\<lambda>hex.
       let tmp_name = ''revoke-tmp-'' @ hex; pem_filename = tmp_name @ ''.pem'' in
       or_failed (
         thn (bnd (ask (Call_put_archive pem_filename pem_content)
                       (put_archive E pem_filename pem_content)) of_sum)
        (bnd (revoke_via_crl E tmp_name True) (\<lambda>result.
         thn (docker_exec E (Cmd_rm (cert_files @ ''/'' @ pem_filename)) [])
             (ret result))))))"

record disk_result =
  dr_success :: bool
  dr_revoked :: int
  dr_errors :: "string list"

definition disk_failed :: "string \<Rightarrow> disk_result" where
  "disk_failed e = \<lparr>dr_success = False, dr_revoked = 0, dr_errors = [e]\<rparr>"

text \<open>\<open>path.rsplit("/", 1)[-1].removesuffix(".pem")\<close>.\<close>

definition file_name :: "string \<Rightarrow> string" where
  "file_name path = rev (takeWhile (\<lambda>c. c \<noteq> CHR ''/'') (rev path))"

definition cert_stem :: "string \<Rightarrow> string" where
  "cert_stem path = removesuffix (file_name path) ''.pem''"

definition the_error :: "cert_result \<Rightarrow> string" where
  "the_error r = (case cr_error r of None \<Rightarrow> [] | Some e \<Rightarrow> e)"

text \<open>The loop over the paths found, collecting the errors.\<close>

definition revoke_paths :: "'w env \<Rightarrow> string list \<Rightarrow> ('w mon, string list) prog" where
  "revoke_paths E paths =
     fold_prog (\<lambda>path errors.
       let name = cert_stem path in
       bnd (revoke_via_crl E name True) (\<lambda>result.
       ret (if cr_success result then errors
            else errors @ [name @ '': '' @ take 200 (the_error result)])))
       paths []"

definition find_pattern :: "string \<Rightarrow> string" where
  "find_pattern username = username @ ''-*.pem''"

definition revoke_certs_on_disk_for_user :: "'w env \<Rightarrow> string \<Rightarrow> ('w mon, disk_result) prog" where
  "revoke_certs_on_disk_for_user E username =
     (case validate_name username of
        Some err \<Rightarrow> ret (disk_failed err)
      | None \<Rightarrow>
        bnd (tak_container E) (\<lambda>error.
        case error of
          Some err \<Rightarrow> ret (disk_failed (the_error err))
        | None \<Rightarrow>
          bnd (docker_exec E (Cmd_find (find_pattern username)) []) (\<lambda>(code, output).
          if code \<noteq> 0 then ret (disk_failed (take 300 output)) else
          let paths = [strip line. line \<leftarrow> splitlines output, strip line \<noteq> []] in
          if paths = [] then ret \<lparr>dr_success = True, dr_revoked = 0, dr_errors = []\<rparr> else
          bnd (revoke_paths E paths) (\<lambda>errors.
          ret \<lparr>dr_success = (errors = []),
               dr_revoked = int (length paths) - int (length errors),
               dr_errors = errors\<rparr>))))"

section \<open>Node-RED\<close>

definition write_nodered_pems :: "'w env \<Rightarrow> string \<Rightarrow> ('w mon, cert_result) prog" where
  "write_nodered_pems E name =
     (case validate_name name of
        Some err \<Rightarrow> ret (failed err)
      | None \<Rightarrow>
        bnd (tak_container E) (\<lambda>error.
        case error of
          Some err \<Rightarrow> ret err
        | None \<Rightarrow> or_failed (
            bnd (docker_exec E Cmd_nodered_pems
                   [(''CERT_FILES'', cert_files), (''NODERED_CERTS'', nodered_certs), (''NAME'', name)])
              (\<lambda>(code, output).
            if code \<noteq> 0 then ret (failed (take 300 output)) else ret succeeded))))"

definition remove_nodered_pems :: "'w env \<Rightarrow> string \<Rightarrow> ('w mon, cert_result) prog" where
  "remove_nodered_pems E name =
     (case validate_name name of
        Some err \<Rightarrow> ret (failed err)
      | None \<Rightarrow>
        bnd (tak_container E) (\<lambda>error.
        case error of
          Some err \<Rightarrow> ret err
        | None \<Rightarrow> or_failed (
            thn (docker_exec E Cmd_rm_nodered_pems [(''NODERED_CERTS'', nodered_certs), (''NAME'', name)])
                (ret succeeded))))"

section \<open>Registration\<close>

definition register_admin_cert :: "'w env \<Rightarrow> string \<Rightarrow> ('w mon, cert_result) prog" where
  "register_admin_cert E name =
     bnd (tak_container E) (\<lambda>error.
     case error of
       Some err \<Rightarrow> ret err
     | None \<Rightarrow> or_failed (
         bnd (docker_exec E (Cmd_certmod (cert_files @ ''/'' @ name @ ''.pem'')) []) (\<lambda>(code, output).
         ret \<lparr>cr_success = (code = 0), cr_error = None, cr_output = Some (take 500 output)\<rparr>)))"

section \<open>The calls of each function\<close>

text \<open>\<open>certs_ok A\<close>: the container may be looked up, commands run in it, files put into it.\<close>

definition certs_ok :: "(call \<Rightarrow> bool) \<Rightarrow> bool" where
  "certs_ok A \<longleftrightarrow> (\<forall>b l. A (Call_containers b l)) \<and> (\<forall>c v. A (Call_exec c v)) \<and>
     (\<forall>f p. A (Call_put_archive f p))"

lemma keeps_or_failed [keeps_rules]: "preorder_rel I \<Longrightarrow> keeps I m \<Longrightarrow> keeps I (or_failed m)"
  unfolding or_failed_def by (intro keeps_rules)

lemma emits_revoked_serials [keeps_rules]: "emits A (get_revoked_serials E)"
  unfolding get_revoked_serials_def by (intro keeps_rules)

lemma emits_tak_container [keeps_rules]:
  "(\<And>b l. A (Call_containers b l)) \<Longrightarrow> emits A (tak_container E)"
  unfolding tak_container_def by (intro keeps_rules)

lemma emits_docker_exec [keeps_rules]: "A (Call_exec c v) \<Longrightarrow> emits A (docker_exec E c v)"
  unfolding docker_exec_def by (intro keeps_rules)

text \<open>Generation runs four commands, each with the validated name.\<close>

definition generate_calls :: "string \<Rightarrow> int \<Rightarrow> string \<Rightarrow> call \<Rightarrow> bool" where
  "generate_calls name days cn c = (case c of
     Call_containers _ _ \<Rightarrow> True
   | Call_exec Cmd_ca_subject vars \<Rightarrow> vars = []
   | Call_exec Cmd_gen_csr vars \<Rightarrow> map_of vars ''NAME'' = Some name \<and> map_of vars ''CN'' = Some cn
   | Call_exec Cmd_sign_csr vars \<Rightarrow> map_of vars ''NAME'' = Some name \<and> map_of vars ''DAYS'' = Some (str_of_int days)
   | Call_exec Cmd_make_p12 vars \<Rightarrow> map_of vars ''NAME'' = Some name
   | _ \<Rightarrow> False)"

definition chosen_cn :: "string \<Rightarrow> string option \<Rightarrow> string" where
  "chosen_cn name cn_override =
     (case cn_override of None \<Rightarrow> name | Some cn \<Rightarrow> if cn = [] then name else cn)"

lemma emits_generate:
  "emits (\<lambda>c. validate_name name = None \<and> validate_name (chosen_cn name cn) = None \<and>
      generate_calls name days (chosen_cn name cn) c)
     (generate_client_cert E name days cn)"
proof (cases "validate_name name = None \<and> validate_name (chosen_cn name cn) = None")
  case True
  then show ?thesis
    unfolding generate_client_cert_def read_ca_subject_def Let_def chosen_cn_def
    by (intro keeps_rules) (auto simp: generate_calls_def split: option.splits if_splits)
next
  case False
  then show ?thesis
    unfolding generate_client_cert_def chosen_cn_def
    by (auto split: option.splits if_splits intro: keeps_ret)
qed

lemma emits_revoke_via_crl [keeps_rules]: "certs_ok A \<Longrightarrow> emits A (revoke_via_crl E name have)"
  unfolding revoke_via_crl_def by (intro keeps_rules) (simp_all add: certs_ok_def)

lemma emits_revoke_by_name [keeps_rules]: "certs_ok A \<Longrightarrow> emits A (revoke_cert_by_name E name)"
  unfolding revoke_cert_by_name_def by (intro keeps_rules)

lemma emits_revoke_by_pem [keeps_rules]: "certs_ok A \<Longrightarrow> emits A (revoke_cert_by_pem E pem)"
  unfolding revoke_cert_by_pem_def Let_def by (intro keeps_rules) (simp_all add: certs_ok_def)

lemma emits_revoke_disk [keeps_rules]: "certs_ok A \<Longrightarrow> emits A (revoke_certs_on_disk_for_user E u)"
  unfolding revoke_certs_on_disk_for_user_def revoke_paths_def Let_def by (intro keeps_rules) (simp_all add: certs_ok_def)

lemma emits_nodered [keeps_rules]:
  "certs_ok A \<Longrightarrow> emits A (write_nodered_pems E name)"
  "certs_ok A \<Longrightarrow> emits A (remove_nodered_pems E name)"
  unfolding write_nodered_pems_def remove_nodered_pems_def by (intro keeps_rules; simp add: certs_ok_def)+

lemma emits_register [keeps_rules]: "certs_ok A \<Longrightarrow> emits A (register_admin_cert E name)"
  unfolding register_admin_cert_def by (intro keeps_rules) (simp_all add: certs_ok_def)

lemma emits_generate_any [keeps_rules]:
  "certs_ok A \<Longrightarrow> emits A (generate_client_cert E name days cn)"
  unfolding generate_client_cert_def read_ca_subject_def Let_def by (intro keeps_rules) (simp_all add: certs_ok_def)

section \<open>Names\<close>

lemma validate_name_None:
  "validate_name n = None \<longleftrightarrow> n \<noteq> [] \<and> name_re n \<and> length n \<le> 64"
  by (simp add: validate_name_def)

lemma validate_name_no_slash: "validate_name n = None \<Longrightarrow> CHR ''/'' \<notin> set n"
  by (simp add: validate_name_None name_re_no_slash)

end
