(* ===== verification/TakServer.thy ===== *)
theory TakServer
  imports CertGen
begin

text \<open>
  \<open>monitor/app/api/users/tak_server.py\<close>: the client of TAK Server's Marti API. The object is
  \<^typ>\<open>tak_client\<close>; it has an HTTP client (\<open>tk_ready\<close>) only if the certificate and the CA
  beside it were there when it was built.
\<close>

section \<open>Construction\<close>

text \<open>\<open>Path(p).parent / name\<close>.\<close>

definition sibling :: "string \<Rightarrow> string \<Rightarrow> string" where
  "sibling p name = rev (dropWhile (\<lambda>c. c \<noteq> CHR ''/'') (rev p)) @ name"

text \<open>\<open>load_tls\<close> is the decryption of the p12 and the TLS context pinned to the CA file; it may
  raise, as a wrong password does.\<close>

definition new_tak_client :: "'w env \<Rightarrow> string \<Rightarrow> string \<Rightarrow> string \<Rightarrow> ('w mon, tak_client) prog" where
  "new_tak_client E base_url cert_path password =
     (let c = \<lparr>tk_base_url = rstrip_char (CHR ''/'') base_url, tk_ready = False\<rparr>;
          ca = sibling cert_path ''ca.pem'' in
      bnd (look (path_exists E cert_path)) (\<lambda>p12.
      if \<not> p12 then ret c else
      bnd (look (path_exists E ca)) (\<lambda>there.
      if \<not> there then ret c else
      thn (bnd (look (load_tls E cert_path password ca)) of_sum)
          (ret (c\<lparr>tk_ready := True\<rparr>)))))"

section \<open>Requests\<close>

definition no_client :: exn where
  "no_client = RuntimeError ''TAK Server client not initialized''"

text \<open>\<open>_get\<close> and \<open>_delete\<close>: the certadmin requests, and the other paths.\<close>

definition marti :: "'w env \<Rightarrow> tak_client \<Rightarrow> tak_req \<Rightarrow> ('w mon, marti_cert list jfield option) prog" where
  "marti E c req =
     (if \<not> tk_ready c then raise no_client else
      bnd (ask (Call_tak (tk_base_url c) req) (tak_http E (tk_base_url c) req)) (\<lambda>r.
      bnd (of_sum (received r)) (\<lambda>(status, body).
      thn (of_sum (raise_for_status status)) (ret body))))"

definition get_json :: "'w env \<Rightarrow> tak_client \<Rightarrow> string \<Rightarrow> ('w mon, json) prog" where
  "get_json E c path =
     (if \<not> tk_ready c then raise no_client else
      bnd (ask (Call_tak_get (tk_base_url c) path) (tak_get E (tk_base_url c) path)) (\<lambda>r.
      bnd (of_sum (received r)) (\<lambda>(status, body).
      thn (of_sum (raise_for_status status)) (of_sum (json_body body)))))"

text \<open>\<open>except httpx.HTTPError: return x\<close>.\<close>

definition on_http_error :: "'a \<Rightarrow> ('s, 'a) prog \<Rightarrow> ('s, 'a) prog" where
  "on_http_error x m = catch m (\<lambda>e. if is_httpx_error e then ret x else raise e)"

section \<open>Certificates\<close>

text \<open>A certificate as \<open>list_user_certs\<close> hands it on; \<open>None\<close> where the field is null.\<close>

record tak_cert =
  tc_id :: int
  tc_hash :: "string option"
  tc_pem :: "string option"
  tc_serial :: "string option"
  tc_issued :: "string option"
  tc_expires :: "string option"
  tc_revoked :: "string option"

definition get_or_empty :: "string jfield \<Rightarrow> string option" where
  "get_or_empty f = (case f of Absent \<Rightarrow> Some [] | Null \<Rightarrow> None | Val x \<Rightarrow> Some x)"

definition tak_cert_of :: "marti_cert \<Rightarrow> tak_cert" where
  "tak_cert_of c =
     \<lparr>tc_id = mc_id c, tc_hash = get_or_empty (mc_hash c), tc_pem = get_or_empty (mc_certificate c),
      tc_serial = get_or_empty (mc_serialNumber c), tc_issued = mc_issuanceDate c,
      tc_expires = mc_expirationDate c, tc_revoked = mc_revocationDate c\<rparr>"

text \<open>The list comprehension stands outside the \<open>try\<close>: a null \<open>data\<close> is a \<open>TypeError\<close>.\<close>

definition list_user_certs :: "'w env \<Rightarrow> tak_client \<Rightarrow> string \<Rightarrow> ('w mon, tak_cert list) prog" where
  "list_user_certs E c username =
     bnd (on_http_error (Val [])
            (bnd (marti E c (Tak_get_certs username)) (\<lambda>b. of_sum (json_body b)))) (\<lambda>data.
     case data of
       Absent \<Rightarrow> ret []
     | Null \<Rightarrow> raise TypeError
     | Val cs \<Rightarrow> ret (map tak_cert_of cs))"

definition revoke_cert :: "'w env \<Rightarrow> tak_client \<Rightarrow> int \<Rightarrow> ('w mon, bool) prog" where
  "revoke_cert E c cert_id =
     on_http_error False (thn (marti E c (Tak_revoke_cert cert_id)) (ret True))"

text \<open>\<open>not pem\<close>: null or empty.\<close>

definition pem_of :: "tak_cert \<Rightarrow> string option" where
  "pem_of c = (case tc_pem c of None \<Rightarrow> None | Some p \<Rightarrow> if p = [] then None else Some p)"

definition revoke_listed :: "'w env \<Rightarrow> tak_cert \<Rightarrow> bool \<Rightarrow> ('w mon, bool) prog" where
  "revoke_listed E cert all_ok =
     (if tc_revoked cert \<noteq> None then ret all_ok else
      case pem_of cert of
        None \<Rightarrow> ret False
      | Some pem \<Rightarrow> bnd (revoke_cert_by_pem E pem) (\<lambda>result. ret (all_ok \<and> cr_success result)))"

definition revoke_all_user_certs :: "'w env \<Rightarrow> tak_client \<Rightarrow> string \<Rightarrow> ('w mon, bool) prog" where
  "revoke_all_user_certs E c username =
     bnd (revoke_certs_on_disk_for_user E username) (\<lambda>disk.
     bnd (list_user_certs E c username) (\<lambda>certs.
     fold_prog (revoke_listed E) certs (dr_success disk)))"

section \<open>The other lists\<close>

text \<open>\<open>data.get("data", [])\<close> on a JSON value.\<close>

definition data_of :: "json \<Rightarrow> exn + json" where
  "data_of j = (case j of
     J_obj d \<Rightarrow> Inr (case map_of d ''data'' of None \<Rightarrow> J_list [] | Some v \<Rightarrow> v)
   | _ \<Rightarrow> Inl AttributeError)"

definition list_tak_groups :: "'w env \<Rightarrow> tak_client \<Rightarrow> ('w mon, json) prog" where
  "list_tak_groups E c =
     on_http_error (J_list [])
       (bnd (get_json E c ''/Marti/api/groups/all?useCache=false'') (\<lambda>j. of_sum (data_of j)))"

text \<open>\<open>clientUid\<close> becomes \<open>uid\<close>. On a string \<open>in\<close> looks for a part, on a list for an element, and neither
  can be subscripted by a name.\<close>

definition normalise_entry :: "json \<Rightarrow> exn + json" where
  "normalise_entry e = (case e of
     J_obj d \<Rightarrow>
       (case map_of d ''clientUid'' of
          Some u \<Rightarrow> Inr (if has_key d ''uid'' then e else J_obj (d @ [(''uid'', u)]))
        | None \<Rightarrow> Inr e)
   | J_str s \<Rightarrow> if contains s ''clientUid'' \<and> \<not> contains s ''uid'' then Inl TypeError else Inr e
   | J_list xs \<Rightarrow>
       if J_str ''clientUid'' \<in> set xs \<and> J_str ''uid'' \<notin> set xs then Inl TypeError else Inr e
   | _ \<Rightarrow> Inl TypeError)"

definition normalised :: "json list \<Rightarrow> exn + json list" where
  "normalised es = sum_fold (\<lambda>e acc. andthen (normalise_entry e) (\<lambda>x. Inr (acc @ [x]))) es []"

text \<open>The entries are walked whatever they are: a dictionary by its keys, a string by its characters. Only
  dictionaries are changed.\<close>

definition normalised_entries :: "json \<Rightarrow> exn + json" where
  "normalised_entries j = (case j of
     J_list es \<Rightarrow> andthen (normalised es) (\<lambda>xs. Inr (J_list xs))
   | J_obj d \<Rightarrow> andthen (normalised (map (J_str \<circ> fst) d)) (\<lambda>_. Inr j)
   | J_str s \<Rightarrow> Inr j
   | _ \<Rightarrow> Inl TypeError)"

definition list_clients :: "'w env \<Rightarrow> tak_client \<Rightarrow> ('w mon, json) prog" where
  "list_clients E c =
     on_http_error (J_list [])
       (bnd (get_json E c ''/Marti/api/subscriptions/all'') (\<lambda>j.
        of_sum (andthen (data_of j) normalised_entries)))"

definition list_contacts :: "'w env \<Rightarrow> tak_client \<Rightarrow> ('w mon, json) prog" where
  "list_contacts E c =
     on_http_error (J_list [])
       (bnd (get_json E c ''/Marti/api/contacts/all'') (\<lambda>j.
        case j of J_list xs \<Rightarrow> ret (J_list xs) | _ \<Rightarrow> of_sum (data_of j)))"

definition list_missions :: "'w env \<Rightarrow> tak_client \<Rightarrow> ('w mon, json) prog" where
  "list_missions E c =
     on_http_error (J_list [])
       (bnd (get_json E c ''/Marti/api/missions'') (\<lambda>j. of_sum (data_of j)))"

section \<open>The calls of each method\<close>

lemma keeps_on_http_error [keeps_rules]:
  "preorder_rel I \<Longrightarrow> keeps I m \<Longrightarrow> keeps I (on_http_error x m)"
  unfolding on_http_error_def by (intro keeps_rules)

lemma emits_new_tak_client [keeps_rules]: "emits A (new_tak_client E url path pw)"
  unfolding new_tak_client_def Let_def by (intro keeps_rules)

definition tak_ok :: "(call \<Rightarrow> bool) \<Rightarrow> bool" where
  "tak_ok A \<longleftrightarrow> (\<forall>u r. A (Call_tak u r))"

lemma emits_marti [keeps_rules]: "tak_ok A \<Longrightarrow> emits A (marti E c req)"
  unfolding marti_def by (intro keeps_rules) (simp_all add: tak_ok_def)

lemma emits_marti_get: "(\<And>u. A (Call_tak u req)) \<Longrightarrow> emits A (marti E c req)"
  unfolding marti_def by (intro keeps_rules)

lemma emits_certs_of: "(\<And>v. A (Call_tak v (Tak_get_certs u))) \<Longrightarrow> emits A (list_user_certs E c u)"
  unfolding list_user_certs_def
  by (intro keeps_bnd keeps_on_http_error grows_preorder emits_marti_get keeps_rules)
    (auto split: jfield.split intro: keeps_rules)

lemma emits_list_user_certs [keeps_rules]: "tak_ok A \<Longrightarrow> emits A (list_user_certs E c u)"
  by (rule emits_certs_of) (simp add: tak_ok_def)

lemma emits_revoke_cert [keeps_rules]: "tak_ok A \<Longrightarrow> emits A (revoke_cert E c i)"
  unfolding revoke_cert_def by (intro keeps_rules)

lemma emits_revoke_listed [keeps_rules]: "certs_ok A \<Longrightarrow> emits A (revoke_listed E cert ok)"
  unfolding revoke_listed_def by (intro keeps_rules)

lemma emits_revoke_all [keeps_rules]:
  "certs_ok A \<Longrightarrow> tak_ok A \<Longrightarrow> emits A (revoke_all_user_certs E c u)"
  unfolding revoke_all_user_certs_def by (intro keeps_rules)

end
