(* ===== verification/Enrollment.thy ===== *)
theory Enrollment
  imports PyStr
begin

text \<open>
  \<open>monitor/app/api/users/enrollment.py\<close>: the \<open>tak://\<close> URL a device is enrolled with.
  \<open>urlencode\<close> with \<open>quote\<close> and no safe characters is modelled to the byte; a decoder, which
  is the reference for what a device reads, is its inverse.
\<close>

section \<open>Percent encoding\<close>

definition url_safe :: "nat \<Rightarrow> bool" where
  "url_safe n \<longleftrightarrow> 97 \<le> n \<and> n \<le> 122 \<or> 65 \<le> n \<and> n \<le> 90 \<or> 48 \<le> n \<and> n \<le> 57 \<or>
     n = 95 \<or> n = 46 \<or> n = 45 \<or> n = 126"

definition utf8 :: "char \<Rightarrow> nat list" where
  "utf8 c = (let n = codepoint c in if n < 128 then [n] else [192 + n div 64, 128 + n mod 64])"

definition hex_digit :: "nat \<Rightarrow> char" where
  "hex_digit n = (if n < 10 then char_of (48 + n) else char_of (55 + n))"

definition quote_byte :: "nat \<Rightarrow> string" where
  "quote_byte b =
     (if url_safe b then [char_of b] else [CHR ''%'', hex_digit (b div 16), hex_digit (b mod 16)])"

definition quote :: "string \<Rightarrow> string" where
  "quote s = concat (map quote_byte (concat (map utf8 s)))"

definition urlencode :: "(string \<times> string) list \<Rightarrow> string" where
  "urlencode ps = join ''&'' (map (\<lambda>(k, v). quote k @ ''='' @ quote v) ps)"

definition build_enrollment_url :: "string \<Rightarrow> string \<Rightarrow> string \<Rightarrow> string" where
  "build_enrollment_url token server_address username =
     ''tak://com.atakmap.app/enroll?'' @
     urlencode [(''host'', server_address), (''username'', username), (''token'', token)]"

section \<open>The reference decoder\<close>

definition unhex :: "char \<Rightarrow> nat option" where
  "unhex c = (let n = codepoint c in
     if 48 \<le> n \<and> n \<le> 57 then Some (n - 48)
     else if 65 \<le> n \<and> n \<le> 70 then Some (n - 55)
     else if 97 \<le> n \<and> n \<le> 102 then Some (n - 87) else None)"

fun unquote_bytes :: "string \<Rightarrow> nat list option" where
  "unquote_bytes [] = Some []"
| "unquote_bytes (c # cs) =
     (if c = CHR ''%'' then
        (case cs of
           h # l # rest \<Rightarrow>
             (case (unhex h, unhex l, unquote_bytes rest) of
                (Some x, Some y, Some bs) \<Rightarrow> Some ((16 * x + y) # bs)
              | _ \<Rightarrow> None)
         | _ \<Rightarrow> None)
      else map_option ((#) (codepoint c)) (unquote_bytes cs))"

fun from_utf8 :: "nat list \<Rightarrow> string option" where
  "from_utf8 [] = Some []"
| "from_utf8 (n # ns) =
     (if n < 128 then map_option ((#) (char_of n)) (from_utf8 ns)
      else (case ns of
          m # rest \<Rightarrow>
            if 192 \<le> n \<and> n < 196 \<and> 128 \<le> m \<and> m < 192
            then map_option ((#) (char_of ((n - 192) * 64 + (m - 128)))) (from_utf8 rest)
            else None
        | [] \<Rightarrow> None))"

definition unquote :: "string \<Rightarrow> string option" where
  "unquote s = Option.bind (unquote_bytes s) from_utf8"

definition read_pair :: "string \<Rightarrow> (string \<times> string) option" where
  "read_pair p = (case split_once (CHR ''='') p of
     [k, v] \<Rightarrow> (case (unquote k, unquote v) of (Some k', Some v') \<Rightarrow> Some (k', v') | _ \<Rightarrow> None)
   | _ \<Rightarrow> None)"

definition read_enrollment_url :: "string \<Rightarrow> (string \<times> string) option list option" where
  "read_enrollment_url url = (case split_once (CHR ''?'') url of
     [base, q] \<Rightarrow> if base = ''tak://com.atakmap.app/enroll''
                  then Some (map read_pair (split_on (CHR ''&'') q)) else None
   | _ \<Rightarrow> None)"

section \<open>Facts\<close>

lemma codepoint_char_of [simp]: "n < 256 \<Longrightarrow> codepoint (char_of n) = n"
  by (simp add: codepoint_def)

lemma unhex_hex_digit: "n < 16 \<Longrightarrow> unhex (hex_digit n) = Some n"
  by (auto simp: hex_digit_def unhex_def Let_def)

lemma codepoint_delims:
  "codepoint (CHR ''&'') = 38" "codepoint (CHR ''='') = 61" "codepoint (CHR ''?'') = 63"
  "codepoint (CHR ''%'') = 37"
  by (simp_all add: codepoint_def)

text \<open>The characters of an encoded byte are safe ones, \<open>%\<close> or a hex digit.\<close>

lemma quote_byte_chars:
  assumes "b < 256" and "c \<in> set (quote_byte b)"
  shows "url_safe (codepoint c) \<or> c = CHR ''%''"
proof -
  have "url_safe (codepoint (hex_digit n))" if "n < 16" for n
    using that by (auto simp: hex_digit_def url_safe_def)
  then show ?thesis using assms by (auto simp: quote_byte_def split: if_splits)
qed

lemma unquote_quote_byte:
  assumes "b < 256"
  shows "unquote_bytes (quote_byte b @ s) = map_option ((#) b) (unquote_bytes s)"
proof (cases "url_safe b")
  case True
  then have "b \<noteq> 37" by (auto simp: url_safe_def)
  then have "char_of b \<noteq> CHR ''%''"
    using codepoint_char_of [OF assms] codepoint_delims(4) by metis
  with True assms show ?thesis by (simp add: quote_byte_def)
next
  case False
  have q: "quote_byte b = [CHR ''%'', hex_digit (b div 16), hex_digit (b mod 16)]"
    using False by (simp add: quote_byte_def)
  have "b div 16 < 16" using assms by (simp add: less_mult_imp_div_less)
  then have u: "unhex (hex_digit (b div 16)) = Some (b div 16)" "unhex (hex_digit (b mod 16)) = Some (b mod 16)"
    by (simp_all add: unhex_hex_digit)
  have "16 * (b div 16) + b mod 16 = b" by simp
  then show ?thesis unfolding q by (simp add: u split: option.split)
qed

lemma unquote_quote_bytes:
  "\<forall>b\<in>set bs. b < 256 \<Longrightarrow> unquote_bytes (concat (map quote_byte bs)) = Some bs"
  by (induction bs) (auto simp: unquote_quote_byte)

lemma codepoint_less [simp]: "codepoint c < 256"
  by (simp add: codepoint_def)

lemma codepoint_high: "codepoint c div 64 < 4"
  using codepoint_less [of c] by (simp add: less_mult_imp_div_less)

lemma utf8_bytes: "b \<in> set (utf8 c) \<Longrightarrow> b < 256"
  using codepoint_less [of c] codepoint_high [of c] by (auto simp: utf8_def Let_def split: if_splits)

lemma from_utf8_char: "from_utf8 (utf8 c @ ns) = map_option ((#) c) (from_utf8 ns)"
proof (cases "codepoint c < 128")
  case True
  then show ?thesis by (simp add: utf8_def codepoint_def)
next
  case False
  have "(192 + codepoint c div 64 - 192) * 64 + (128 + codepoint c mod 64 - 128) = codepoint c"
    by simp
  then show ?thesis using False codepoint_high [of c] by (simp add: utf8_def codepoint_def Let_def)
qed

lemma from_utf8_utf8: "from_utf8 (concat (map utf8 s)) = Some s"
  by (induction s) (simp_all add: from_utf8_char)

lemma unquote_quote: "unquote (quote s) = Some s"
proof -
  have "unquote_bytes (quote s) = Some (concat (map utf8 s))"
    unfolding quote_def by (rule unquote_quote_bytes) (auto dest: utf8_bytes)
  then show ?thesis by (simp add: unquote_def from_utf8_utf8)
qed

lemma quote_chars:
  assumes "c \<in> set (quote s)"
  shows "c \<noteq> CHR ''&''" "c \<noteq> CHR ''=''" "c \<noteq> CHR ''?''"
proof -
  obtain b where "b < 256" and "c \<in> set (quote_byte b)"
    using assms by (auto simp: quote_def dest: utf8_bytes)
  then have c: "url_safe (codepoint c) \<or> c = CHR ''%''" by (rule quote_byte_chars)
  show "c \<noteq> CHR ''&''" using c by (auto simp: codepoint_delims url_safe_def)
  show "c \<noteq> CHR ''=''" using c by (auto simp: codepoint_delims url_safe_def)
  show "c \<noteq> CHR ''?''" using c by (auto simp: codepoint_delims url_safe_def)
qed

lemma split_once_app: "c \<notin> set w \<Longrightarrow> split_once c (w @ c # s) = [w, s]"
  by (induction w) (auto simp: split_once_def split: list.splits)

lemma read_pair_quote: "read_pair (quote k @ CHR ''='' # quote v) = Some (k, v)"
proof -
  have "CHR ''='' \<notin> set (quote k)" using quote_chars(2) by blast
  then show ?thesis by (simp add: read_pair_def split_once_app unquote_quote)
qed

lemma pair_no_amp: "CHR ''&'' \<notin> set (quote k @ CHR ''='' # quote v)"
  using quote_chars(1) by auto

lemma read_urlencode:
  "ps \<noteq> [] \<Longrightarrow> map read_pair (split_on (CHR ''&'') (urlencode ps)) = map Some ps"
  unfolding urlencode_def
  by (subst split_on_join) (use pair_no_amp in \<open>auto simp: read_pair_quote\<close>)

section \<open>Properties\<close>

text \<open>C28. Whatever the token, the server address and the user name, the enrollment URL decodes
  to exactly these three parameters: no value can add or change another parameter.\<close>

theorem enrollment_url_round_trip:
  "read_enrollment_url (build_enrollment_url token host username) =
     Some [Some (''host'', host), Some (''username'', username), Some (''token'', token)]"
proof -
  let ?base = "''tak://com.atakmap.app/enroll''"
  let ?q = "urlencode [(''host'', host), (''username'', username), (''token'', token)]"
  have url: "build_enrollment_url token host username = ?base @ CHR ''?'' # ?q"
    by (simp add: build_enrollment_url_def)
  have "split_once (CHR ''?'') (?base @ CHR ''?'' # ?q) = [?base, ?q]"
    by (rule split_once_app) simp
  then show ?thesis unfolding url by (simp add: read_enrollment_url_def read_urlencode)
qed

end
