(* ===== verification/Users.thy ===== *)
theory Users
  imports TakServer Enrollment
begin

text \<open>
  \<open>monitor/app/api/users/router.py\<close>: the routes under \<open>/api/users\<close> and \<open>/api/groups\<close>. A
  route is a program that returns the response or raises; an \<open>HTTPException\<close> is the response
  with that status, anything else a 500. A request body or a query parameter that its model
  rejects is a 422 before the handler runs.
\<close>

section \<open>The clients\<close>

definition get_identity :: "'w env \<Rightarrow> ('w mon, unit) prog" where
  "get_identity E =
     bnd (gets (\<lambda>s. identity s Users_router)) (\<lambda>c.
     case c of
       Some _ \<Rightarrow> ret ()
     | None \<Rightarrow>
         if ldap_admin_password (cfg E) = []
         then raise (HTTPException 503 ''Identity provider not configured'')
         else modify (\<lambda>s. s\<lparr>identity := (identity s)(Users_router \<mapsto>
                new_identity_client (lldap_url (cfg E)) (ldap_proxy_url (cfg E)) (ldap_admin_password (cfg E))
                  (split_on (CHR '','') (users_hidden_prefixes (cfg E))) (ldap_proxy_secret (cfg E)))\<rparr>))"

text \<open>The same function of the three modules, each for its own singleton.\<close>

definition get_tak_server :: "'w env \<Rightarrow> owner \<Rightarrow> ('w mon, tak_client option) prog" where
  "get_tak_server E self =
     bnd (gets (\<lambda>s. tak_server s self)) (\<lambda>c.
     if c = None \<and> tak_api_cert_path (cfg E) \<noteq> [] then
       bnd (new_tak_client E (tak_server_url (cfg E)) (tak_api_cert_path (cfg E))
              (tak_api_cert_password (cfg E))) (\<lambda>c.
       thn (modify (\<lambda>s. s\<lparr>tak_server := (tak_server s)(self \<mapsto> c)\<rparr>))
           (ret (Some c)))
     else ret c)"

definition unprocessable :: "('s, 'a) prog" where
  "unprocessable = raise (HTTPException 422 ''Unprocessable Entity'')"

definition not_found :: exn where
  "not_found = HTTPException 404 ''User not found''"

text \<open>\<open>ak = _get_identity(); user = ak.get_user(user_id); if not user: raise\<close>.\<close>

definition user_or_404 :: "'w env \<Rightarrow> int \<Rightarrow> ('w mon, user) prog" where
  "user_or_404 E user_id =
     thn (get_identity E)
    (bnd (get_user E Users_router user_id) (\<lambda>u.
     case u of None \<Rightarrow> raise not_found | Some u \<Rightarrow> ret u))"

section \<open>Request models\<close>

record create_user_request =
  cu_username :: string
  cu_name :: string
  cu_ttl_hours :: "int option"
  cu_groups :: "string list"

definition valid_create_user :: "create_user_request \<Rightarrow> bool" where
  "valid_create_user b \<longleftrightarrow>
     name_re (cu_username b) \<and> length (cu_username b) \<le> 64 \<and> cu_groups b \<noteq> []"

definition valid_cert_name :: "string \<Rightarrow> bool" where
  "valid_cert_name n \<longleftrightarrow> 1 \<le> length n \<and> length n \<le> 64 \<and> name_re n"

text \<open>\<open>upq_ttl\<close>: left out, \<open>null\<close>, or a number.\<close>

record update_user_request =
  upq_name :: "string option"
  upq_is_active :: "bool option"
  upq_ttl :: "int jfield"

record revoke_request =
  rvq_cert_id :: "int option"
  rvq_cert_name :: "string option"

section \<open>Users\<close>

text \<open>A user object with the \<open>certs\<close> key, where the route adds it.\<close>

record user_view =
  uv_user :: user
  uv_certs :: "tak_cert list option"

record user_page =
  pg_results :: "user_view list"
  pg_count :: int
  pg_page :: int
  pg_page_size :: int

definition page_of :: "int \<Rightarrow> int \<Rightarrow> 'a list \<Rightarrow> 'a list" where
  "page_of page page_size xs = take (nat page_size) (drop (nat ((page - 1) * page_size)) xs)"

definition plain_view :: "user \<Rightarrow> user_view" where
  "plain_view u = \<lparr>uv_user = u, uv_certs = None\<rparr>"

definition with_certs :: "'w env \<Rightarrow> tak_client option \<Rightarrow> user \<Rightarrow> ('w mon, user_view) prog" where
  "with_certs E tak u =
     (case tak of
        None \<Rightarrow> ret (plain_view u)
      | Some t \<Rightarrow> bnd (list_user_certs E t (u_username u)) (\<lambda>cs. ret \<lparr>uv_user = u, uv_certs = Some cs\<rparr>))"

definition list_users_route ::
    "'w env \<Rightarrow> string option \<Rightarrow> string option \<Rightarrow> int \<Rightarrow> int \<Rightarrow> ('w mon, user_page) prog" where
  "list_users_route E search incl page page_size =
     (if page < 1 \<or> page_size < 1 \<or> page_size > 200 then unprocessable else
      thn (get_identity E)
     (bnd (list_users E Users_router search) (\<lambda>users.
      let page_users = page_of page page_size users;
          answer = (\<lambda>vs. ret \<lparr>pg_results = vs, pg_count = int (length users), pg_page = page,
                              pg_page_size = page_size\<rparr>) in
      if (case incl of None \<Rightarrow> False | Some i \<Rightarrow> i \<noteq> [] \<and> contains i ''certs'') then
        bnd (get_tak_server E Users_router) (\<lambda>tak.
        bnd (collect (with_certs E tak) page_users) answer)
      else answer (map plain_view page_users))))"

definition missing_groups :: "string list \<Rightarrow> group_info list \<Rightarrow> string list" where
  "missing_groups wanted existing = filter (\<lambda>g. g \<notin> set (map g_name existing)) wanted"

definition groups_missing :: "string list \<Rightarrow> exn" where
  "groups_missing missing =
     HTTPException 400 (''Groups do not exist: '' @ join '', '' missing @ ''. Create them first.'')"

definition create_user_route :: "'w env \<Rightarrow> create_user_request \<Rightarrow> ('w mon, user) prog" where
  "create_user_route E body =
     (if \<not> valid_create_user body then unprocessable else
      thn (get_identity E)
     (bnd (list_groups E Users_router) (\<lambda>existing.
      let missing = missing_groups (cu_groups body) existing in
      if missing \<noteq> [] then raise (groups_missing missing) else
      create_user E Users_router (cu_username body) (cu_name body) (cu_ttl_hours body)
        (Some (cu_groups body)) (Some ''user''))))"

definition get_user_route :: "'w env \<Rightarrow> int \<Rightarrow> ('w mon, user_view) prog" where
  "get_user_route E user_id =
     bnd (user_or_404 E user_id) (\<lambda>u.
     bnd (get_tak_server E Users_router) (\<lambda>tak. with_certs E tak u))"

definition update_kwargs :: "update_user_request \<Rightarrow> user_update" where
  "update_kwargs b =
     \<lparr>kw_name = upq_name b, kw_is_active = upq_is_active b,
      kw_ttl_hours = (case upq_ttl b of Absent \<Rightarrow> None | Null \<Rightarrow> Some None | Val h \<Rightarrow> Some (Some h))\<rparr>"

definition update_user_route :: "'w env \<Rightarrow> int \<Rightarrow> update_user_request \<Rightarrow> ('w mon, user option) prog" where
  "update_user_route E user_id body =
     bnd (user_or_404 E user_id) (\<lambda>_. update_user E Users_router user_id (update_kwargs body))"

text \<open>Deactivate, revoke, and mark only if all of them are revoked.\<close>

definition delete_found_user :: "'w env \<Rightarrow> int \<Rightarrow> user \<Rightarrow> ('w mon, string) prog" where
  "delete_found_user E user_id u =
     thn (deactivate_user E Users_router user_id)
    (bnd (get_tak_server E Users_router) (\<lambda>tak.
     thn (case tak of
            None \<Rightarrow> ret ()
          | Some t \<Rightarrow>
              bnd (revoke_all_user_certs E t (u_username u)) (\<lambda>all_revoked.
              if all_revoked then mark_certs_revoked E Users_router user_id else ret ()))
         (ret (u_username u))))"

definition delete_user_route :: "'w env \<Rightarrow> int \<Rightarrow> ('w mon, string) prog" where
  "delete_user_route E user_id = bnd (user_or_404 E user_id) (delete_found_user E user_id)"

definition set_password_route :: "'w env \<Rightarrow> int \<Rightarrow> string \<Rightarrow> ('w mon, unit) prog" where
  "set_password_route E user_id password =
     (if password = [] then unprocessable else
      bnd (user_or_404 E user_id) (\<lambda>u.
      if \<not> u_is_active u then raise (HTTPException 400 ''Cannot set password for deactivated user'')
      else set_password E Users_router user_id password))"

definition enroll_user :: "'w env \<Rightarrow> int \<Rightarrow> ('w mon, string \<times> string) prog" where
  "enroll_user E user_id =
     bnd (user_or_404 E user_id) (\<lambda>u.
     if \<not> u_is_active u then raise (HTTPException 400 ''Cannot enroll deactivated user'') else
     bnd (get_or_create_enrollment_token E Users_router user_id
            (enrollment_token_ttl_minutes (cfg E)) (enrollment_token_one_time (cfg E)))
       (\<lambda>(token, expires_at).
     ret (build_enrollment_url token (server_address (cfg E)) (u_username u), expires_at)))"

section \<open>Reading a certificate file\<close>

text \<open>\<open>CERT_FILES_PATH / name\<close>.\<close>

definition cert_file :: "string \<Rightarrow> string" where
  "cert_file name = cert_files @ ''/'' @ name"

text \<open>\<open>result.stdout.strip().split("=", 1)[1]\<close> of a successful run; \<open>None\<close> on any failure.\<close>

definition openssl_field :: "'w env \<Rightarrow> string \<Rightarrow> string \<Rightarrow> ('w mon, string option) prog" where
  "openssl_field E flag path =
     bnd (look (openssl_x509 E flag path)) (\<lambda>r.
     ret (case r of
        Inl _ \<Rightarrow> None
      | Inr (code, stdout) \<Rightarrow>
          if code \<noteq> 0 then None
          else (case split_once (CHR ''='') (strip stdout) of _ # v # _ \<Rightarrow> Some v | _ \<Rightarrow> None)))"

definition get_cert_serial :: "'w env \<Rightarrow> string \<Rightarrow> ('w mon, string option) prog" where
  "get_cert_serial E path = bnd (openssl_field E ''-serial'' path) (\<lambda>v. ret (map_option lower v))"

definition get_cert_expiry :: "'w env \<Rightarrow> string \<Rightarrow> ('w mon, string option) prog" where
  "get_cert_expiry E path =
     bnd (openssl_field E ''-enddate'' path) (\<lambda>v. ret (Option.bind v (iso_enddate E)))"

definition normalize_hash :: "string \<Rightarrow> string" where
  "normalize_hash h = lower (remove_char (CHR '':'') h)"

definition compute_cert_hash :: "'w env \<Rightarrow> string \<Rightarrow> ('w mon, string option) prog" where
  "compute_cert_hash E path =
     bnd (openssl_field E ''-fingerprint -sha256'' path) (\<lambda>v. ret (map_option normalize_hash v))"

definition build_truststore_p12 :: "'w env \<Rightarrow> ('w mon, string) prog" where
  "build_truststore_p12 E =
     bnd (look (path_exists E (cert_file ''ca.pem''))) (\<lambda>there.
     if \<not> there then raise (HTTPException 500 ''CA certificate not found'') else
     bnd (bnd (look (read_file E (cert_file ''ca.pem''))) of_sum) (\<lambda>pem.
     of_sum (java_truststore E pem)))"

text \<open>\<open>serial and serial in revoked\<close>.\<close>

definition serial_revoked :: "string option \<Rightarrow> string list \<Rightarrow> bool" where
  "serial_revoked serial revoked = (case serial of None \<Rightarrow> False | Some x \<Rightarrow> x \<noteq> [] \<and> x \<in> set revoked)"

section \<open>Listing certificates\<close>

record cert_entry =
  ce_name :: "string option"
  ce_downloadable :: bool
  ce_revoked :: bool
  ce_cert_id :: "int option"
  ce_expiration :: "string option"

definition hash_of :: "tak_cert \<Rightarrow> string" where
  "hash_of c = (case tc_hash c of None \<Rightarrow> [] | Some h \<Rightarrow> h)"

definition tak_by_hash :: "tak_cert list \<Rightarrow> (string \<times> tak_cert) list" where
  "tak_by_hash certs =
     fold (\<lambda>c d. if hash_of c = [] then d else dict_set (normalize_hash (hash_of c)) c d) certs []"

text \<open>\<open>sorted(CERT_FILES_PATH.glob(prefix + "*.p12"))\<close>, for a prefix without the special
  characters of a pattern, as every name that \<^const>\<open>name_re\<close> accepts is.\<close>

definition p12_files :: "string \<Rightarrow> string list \<Rightarrow> string list" where
  "p12_files prefix files =
     sort (filter (\<lambda>f. startswith f prefix \<and> endswith (drop (length prefix) f) ''.p12'') files)"

definition p12_stem :: "string \<Rightarrow> string" where
  "p12_stem f = removesuffix f ''.p12''"

text \<open>One file: its entry, and the hash it was matched by.\<close>

definition scan_file ::
    "'w env \<Rightarrow> nat \<Rightarrow> (string \<times> tak_cert) list \<Rightarrow> string list \<Rightarrow> string \<Rightarrow>
     ('w mon, cert_entry \<times> string option) prog" where
  "scan_file E prefix_len by_hash revoked_serials f =
     (let stem = p12_stem f; pem = cert_file (stem @ ''.pem'') in
      bnd (look (path_exists E pem)) (\<lambda>there.
      bnd (if there then get_cert_serial E pem else ret None) (\<lambda>serial.
      bnd (if there then get_cert_expiry E pem else ret None) (\<lambda>expiry.
      bnd (if there then compute_cert_hash E pem else ret None) (\<lambda>file_hash.
      let is_revoked = serial_revoked serial revoked_serials;
          entry = \<lparr>ce_name = Some (drop prefix_len stem), ce_downloadable = \<not> is_revoked,
                   ce_revoked = is_revoked, ce_cert_id = None, ce_expiration = expiry\<rparr> in
      ret (case file_hash of
             None \<Rightarrow> (entry, None)
           | Some h \<Rightarrow>
               (case (if h = [] then None else map_of by_hash h) of
                  None \<Rightarrow> (entry, None)
                | Some c \<Rightarrow> (entry\<lparr>ce_cert_id := Some (tc_id c), ce_revoked := tc_revoked c \<noteq> None,
                                   ce_expiration := tc_expires c\<rparr>, Some h))))))))"

definition server_entry :: "tak_cert \<Rightarrow> cert_entry" where
  "server_entry c = \<lparr>ce_name = None, ce_downloadable = False, ce_revoked = (tc_revoked c \<noteq> None),
                     ce_cert_id = Some (tc_id c), ce_expiration = tc_expires c\<rparr>"

definition server_only :: "string list \<Rightarrow> tak_cert list \<Rightarrow> cert_entry list" where
  "server_only matched certs =
     [server_entry c. c \<leftarrow> certs, normalize_hash (hash_of c) \<noteq> [] \<and> normalize_hash (hash_of c) \<notin> set matched]"

definition list_user_certs_route :: "'w env \<Rightarrow> int \<Rightarrow> ('w mon, cert_entry list) prog" where
  "list_user_certs_route E user_id =
     bnd (user_or_404 E user_id) (\<lambda>u.
     bnd (get_tak_server E Users_router) (\<lambda>tak.
     bnd (case tak of None \<Rightarrow> ret [] | Some t \<Rightarrow> list_user_certs E t (u_username u)) (\<lambda>tak_certs.
     bnd (get_revoked_serials E) (\<lambda>revoked_serials.
     let prefix = u_username u @ ''-'' in
     bnd (look (cert_dir_files E)) (\<lambda>files.
     bnd (collect (scan_file E (length prefix) (tak_by_hash tak_certs) revoked_serials)
            (p12_files prefix files)) (\<lambda>rows.
     ret (map fst rows @ server_only (List.map_filter snd rows) tak_certs)))))))"

section \<open>Generating and revoking certificates\<close>

record generated =
  gn_name :: string
  gn_filename :: string
  gn_validity_days :: int
  gn_download_url :: string

text \<open>The validity: 365 days, or the whole days the user has left, at least one.\<close>

definition cert_validity :: "int option \<Rightarrow> real \<Rightarrow> exn + int" where
  "cert_validity expires now =
     (case expires of
        None \<Rightarrow> Inr 365
      | Some e \<Rightarrow>
          (let remaining_seconds = real_of_int e - now in
           if remaining_seconds \<le> 0 then Inl (HTTPException 400 ''User has already expired'')
           else Inr (min 365 (max (trunc (remaining_seconds / 86400)) 1))))"

definition error_text :: "cert_result \<Rightarrow> string" where
  "error_text r = (case cr_error r of None \<Rightarrow> ''None'' | Some e \<Rightarrow> e)"

definition generate_user_cert :: "'w env \<Rightarrow> int \<Rightarrow> string \<Rightarrow> ('w mon, generated) prog" where
  "generate_user_cert E user_id name =
     (if \<not> valid_cert_name name then unprocessable else
      bnd (user_or_404 E user_id) (\<lambda>u.
      if \<not> u_is_active u then raise (HTTPException 400 ''Cannot generate cert for deactivated user'') else
      let username = u_username u; cert_filename = username @ ''-'' @ name in
      bnd (look (path_exists E (cert_file (cert_filename @ ''.p12'')))) (\<lambda>there.
      if there then raise (HTTPException 409 (''Certificate '' @ in_quotes name @ '' already exists for this user'')) else
      bnd (case u_expires u of None \<Rightarrow> ret 0 | Some _ \<Rightarrow> tick (time_now E)) (\<lambda>now.
      bnd (of_sum (cert_validity (u_expires u) now)) (\<lambda>validity_days.
      bnd (generate_client_cert E cert_filename validity_days (Some username)) (\<lambda>result.
      if \<not> cr_success result
      then raise (HTTPException 500 (''Cert generation failed: '' @ error_text result))
      else ret \<lparr>gn_name = name, gn_filename = cert_filename @ ''.p12'', gn_validity_days = validity_days,
                gn_download_url = ''/api/users/'' @ str_of_int user_id @ ''/certs/download/'' @ name\<rparr>))))))"

definition revoke_user_cert :: "'w env \<Rightarrow> int \<Rightarrow> revoke_request \<Rightarrow> ('w mon, unit) prog" where
  "revoke_user_cert E user_id body =
     bnd (user_or_404 E user_id) (\<lambda>u.
     case rvq_cert_id body of
       Some cert_id \<Rightarrow>
         bnd (get_tak_server E Users_router) (\<lambda>tak.
         case tak of
           None \<Rightarrow> raise (HTTPException 503 ''TAK Server not configured'')
         | Some t \<Rightarrow>
         bnd (list_user_certs E t (u_username u)) (\<lambda>certs.
         case List.find (\<lambda>c. tc_id c = cert_id) certs of
           None \<Rightarrow> raise (HTTPException 404 ''Certificate not found'')
         | Some c \<Rightarrow>
         case pem_of c of
           None \<Rightarrow> raise (HTTPException 500 ''Cannot revoke: cert PEM not available from TAK Server'')
         | Some pem \<Rightarrow>
         bnd (revoke_cert_by_pem E pem) (\<lambda>result.
         if \<not> cr_success result
         then raise (HTTPException 500 (''CRL revocation failed: '' @ the_error result))
         else thn (revoke_cert E t cert_id)
             (thn (delete_enrollment_tokens E Users_router user_id) (ret ())))))
     | None \<Rightarrow>
     (case rvq_cert_name body of
        Some cert_name \<Rightarrow>
          bnd (revoke_cert_by_name E (u_username u @ ''-'' @ cert_name)) (\<lambda>result.
          if \<not> cr_success result
          then raise (HTTPException 500 (''Revocation failed: '' @ the_error result))
          else thn (delete_enrollment_tokens E Users_router user_id) (ret ()))
      | None \<Rightarrow> raise (HTTPException 400 ''Provide either cert_id or cert_name'')))"

section \<open>Downloads\<close>

text \<open>The checks the two downloads share: the file name of the certificate, or the error.\<close>

definition downloadable_cert :: "'w env \<Rightarrow> int \<Rightarrow> string \<Rightarrow> ('w mon, string) prog" where
  "downloadable_cert E user_id cert_name =
     (if \<not> name_re cert_name then raise (HTTPException 400 ''Invalid certificate name'') else
      bnd (user_or_404 E user_id) (\<lambda>u.
      let cert_filename = u_username u @ ''-'' @ cert_name; pem = cert_file (cert_filename @ ''.pem'') in
      bnd (look (path_exists E (cert_file (cert_filename @ ''.p12'')))) (\<lambda>there.
      if \<not> there then raise (HTTPException 404 (''Certificate '' @ in_quotes cert_name @ '' not found'')) else
      bnd (look (path_exists E pem)) (\<lambda>pem_there.
      if \<not> pem_there then ret cert_filename else
      bnd (get_cert_serial E pem) (\<lambda>serial.
      bnd (if serial \<noteq> None \<and> serial \<noteq> Some [] then get_revoked_serials E else ret []) (\<lambda>revoked.
      if serial_revoked serial revoked then raise (HTTPException 403 ''Certificate has been revoked'')
      else ret cert_filename))))))"

text \<open>The path of the file that is sent, and the name it is sent under.\<close>

definition download_user_cert :: "'w env \<Rightarrow> int \<Rightarrow> string \<Rightarrow> ('w mon, string \<times> string) prog" where
  "download_user_cert E user_id cert_name =
     bnd (downloadable_cert E user_id cert_name) (\<lambda>f.
     ret (cert_file (f @ ''.p12''), f @ ''.p12''))"

definition config_pref :: "string \<Rightarrow> string \<Rightarrow> string" where
  "config_pref connect_str cert_loc = join [newline]
    [''<?xml version='' @ [CHR 0x27] @ ''1.0'' @ [CHR 0x27] @ '' encoding='' @ [CHR 0x27] @ ''ASCII'' @ [CHR 0x27] @
       '' standalone='' @ [CHR 0x27] @ ''yes'' @ [CHR 0x27] @ ''?>'',
     ''<preferences>'',
     ''  <preference version=\"1\" name=\"cot_streams\">'',
     ''    <entry key=\"count\" class=\"class java.lang.Integer\">1</entry>'',
     ''    <entry key=\"description0\" class=\"class java.lang.String\">FastTAK</entry>'',
     ''    <entry key=\"enabled0\" class=\"class java.lang.Boolean\">true</entry>'',
     ''    <entry key=\"connectString0\" class=\"class java.lang.String\">'' @ connect_str @ ''</entry>'',
     ''  </preference>'',
     ''  <preference version=\"1\" name=\"com.atakmap.app_preferences\">'',
     ''    <entry key=\"displayServerConnectionWidget\" class=\"class java.lang.Boolean\">true</entry>'',
     ''    <entry key=\"caLocation\" class=\"class java.lang.String\">cert/truststore.p12</entry>'',
     ''    <entry key=\"caPassword\" class=\"class java.lang.String\">atakatak</entry>'',
     ''    <entry key=\"certificateLocation\" class=\"class java.lang.String\">'' @ cert_loc @ ''</entry>'',
     ''    <entry key=\"clientPassword\" class=\"class java.lang.String\">atakatak</entry>'',
     ''  </preference>'',
     ''</preferences>'']"

definition manifest_xml :: "string \<Rightarrow> string \<Rightarrow> string \<Rightarrow> string" where
  "manifest_xml pkg_uid zip_name cert_filename = join [newline]
    [''<MissionPackageManifest version=\"2\">'',
     ''  <Configuration>'',
     ''    <Parameter name=\"uid\" value=\"'' @ pkg_uid @ ''\"/>'',
     ''    <Parameter name=\"name\" value=\"'' @ zip_name @ ''\"/>'',
     ''    <Parameter name=\"onReceiveDelete\" value=\"true\"/>'',
     ''  </Configuration>'',
     ''  <Contents>'',
     ''    <Content ignore=\"false\" zipEntry=\"config.pref\"/>'',
     ''    <Content ignore=\"false\" zipEntry=\"certs/truststore.p12\"/>'',
     ''    <Content ignore=\"false\" zipEntry=\"certs/'' @ cert_filename @ ''.p12\"/>'',
     ''  </Contents>'',
     ''</MissionPackageManifest>'']"

text \<open>The archive as its entries, in order, and the name it is sent under.\<close>

definition download_data_package ::
    "'w env \<Rightarrow> int \<Rightarrow> string \<Rightarrow> ('w mon, (string \<times> string) list \<times> string) prog" where
  "download_data_package E user_id cert_name =
     bnd (downloadable_cert E user_id cert_name) (\<lambda>cert_filename.
     bnd (bnd (look (read_file E (cert_file (cert_filename @ ''.p12'')))) of_sum) (\<lambda>client_p12.
     bnd (build_truststore_p12 E) (\<lambda>truststore_p12.
     bnd (tick (uuid4 E)) (\<lambda>pkg_uid.
     let zip_name = cert_filename @ ''.zip'' in
     ret ([(''certs/'' @ cert_filename @ ''.p12'', client_p12),
           (''certs/truststore.p12'', truststore_p12),
           (''config.pref'', config_pref (server_address (cfg E) @ '':8089:ssl'')
              (''cert/'' @ cert_filename @ ''.p12'')),
           (''MANIFEST/manifest.xml'', manifest_xml pkg_uid zip_name cert_filename)],
          zip_name)))))"

section \<open>Groups\<close>

definition list_groups_route :: "'w env \<Rightarrow> ('w mon, group_info list) prog" where
  "list_groups_route E = thn (get_identity E) (list_groups E Users_router)"

definition create_group_route :: "'w env \<Rightarrow> string \<Rightarrow> ('w mon, group_info) prog" where
  "create_group_route E name = thn (get_identity E) (create_group E Users_router name)"

definition group_not_found :: exn where
  "group_not_found = HTTPException 404 ''Group not found''"

definition get_group_route :: "'w env \<Rightarrow> string \<Rightarrow> ('w mon, group_detail) prog" where
  "get_group_route E gid =
     thn (get_identity E)
    (bnd (get_group E Users_router gid) (\<lambda>g.
     case g of None \<Rightarrow> raise group_not_found | Some g \<Rightarrow> ret g))"

definition delete_group_route :: "'w env \<Rightarrow> string \<Rightarrow> ('w mon, unit) prog" where
  "delete_group_route E gid =
     bnd (get_group_route E gid) (\<lambda>_. delete_group E Users_router gid)"

definition set_user_groups_route :: "'w env \<Rightarrow> int \<Rightarrow> string list \<Rightarrow> ('w mon, unit) prog" where
  "set_user_groups_route E user_id groups =
     bnd (user_or_404 E user_id) (\<lambda>u.
     let user_type = (case u_user_type u of None \<Rightarrow> ''user'' | Some t \<Rightarrow> t) in
     if user_type = ''svc_admin''
     then raise (HTTPException 400 ''Admin mode service accounts cannot have groups'')
     else if (user_type = ''user'' \<or> user_type = ''svc_data'') \<and> groups = []
     then raise (HTTPException 400 ''Users require at least one group'')
     else
       thn (if groups = [] then ret () else
            bnd (list_groups E Users_router) (\<lambda>existing.
            let missing = missing_groups groups existing in
            if missing \<noteq> [] then raise (groups_missing missing) else ret ()))
           (set_user_groups E Users_router user_id groups))"

end
