(* ===== verification/ServiceAccounts.thy ===== *)
theory ServiceAccounts
  imports Users
begin

text \<open>
  \<open>monitor/app/api/service_accounts/router.py\<close>: service accounts are directory users named
  \<open>svc_...\<close>, each with one client certificate; an admin account's certificate is registered
  with TAK Server, a data account's is extracted for Node-RED.
\<close>

definition sa_identity :: "'w env \<Rightarrow> ('w mon, unit) prog" where
  "sa_identity E =
     bnd (gets (\<lambda>s. identity s Service_accounts_router)) (\<lambda>c.
     case c of
       Some _ \<Rightarrow> ret ()
     | None \<Rightarrow>
         if ldap_admin_password (cfg E) = []
         then raise (HTTPException 503 ''Identity provider not configured'')
         else modify (\<lambda>s. s\<lparr>identity := (identity s)(Service_accounts_router \<mapsto>
                new_identity_client (lldap_url (cfg E)) (ldap_proxy_url (cfg E)) (ldap_admin_password (cfg E))
                  [] (ldap_proxy_secret (cfg E)))\<rparr>))"

section \<open>Requests\<close>

datatype sa_mode = Data_mode | Admin_mode

record create_sa_request =
  cs_name :: string
  cs_display_name :: string
  cs_mode :: sa_mode
  cs_groups :: "string list option"
  cs_validity_days :: "int option"

definition requested_groups :: "string list option \<Rightarrow> string list" where
  "requested_groups g = (case g of None \<Rightarrow> [] | Some gs \<Rightarrow> gs)"

definition valid_create_sa :: "create_sa_request \<Rightarrow> bool" where
  "valid_create_sa b \<longleftrightarrow>
     (let v = cs_name b; raw = (if startswith v ''svc_'' then drop 4 v else v) in
      name_re raw \<and> length v \<le> 64) \<and>
     (case cs_validity_days b of None \<Rightarrow> True | Some d \<Rightarrow> 0 < d \<and> d \<le> 3650) \<and>
     (case cs_mode b of
        Data_mode \<Rightarrow> requested_groups (cs_groups b) \<noteq> []
      | Admin_mode \<Rightarrow> requested_groups (cs_groups b) = [])"

record update_sa_request =
  us_display_name :: "string option"
  us_groups :: "string list option"

section \<open>Routes\<close>

definition sa_not_found :: exn where
  "sa_not_found = HTTPException 404 ''Service account not found''"

definition sa_or_404 :: "'w env \<Rightarrow> int \<Rightarrow> ('w mon, user) prog" where
  "sa_or_404 E account_id =
     thn (sa_identity E)
    (bnd (get_user E Service_accounts_router account_id) (\<lambda>u.
     case u of
       None \<Rightarrow> raise sa_not_found
     | Some u \<Rightarrow> if startswith (u_username u) ''svc_'' then ret u else raise sa_not_found))"

definition list_service_accounts :: "'w env \<Rightarrow> ('w mon, user list) prog" where
  "list_service_accounts E =
     thn (sa_identity E) (list_users E Service_accounts_router (Some ''svc_''))"

record sa_view =
  sv_user :: user
  sv_mode :: sa_mode
  sv_validity_days :: int
  sv_download_url :: string

definition sa_username :: "string \<Rightarrow> string" where
  "sa_username name = (if startswith name ''svc_'' then name else ''svc_'' @ name)"

definition sa_validity :: "create_sa_request \<Rightarrow> int" where
  "sa_validity b = (case cs_validity_days b of
     Some d \<Rightarrow> d
   | None \<Rightarrow> (case cs_mode b of Data_mode \<Rightarrow> 365 | Admin_mode \<Rightarrow> 730))"

text \<open>The rollback: deactivate, and log any failure to do so.\<close>

definition rollback :: "'w env \<Rightarrow> user \<Rightarrow> ('w mon, unit) prog" where
  "rollback E u = catch (deactivate_user E Service_accounts_router (u_id u)) (\<lambda>_. ret ())"

text \<open>\<open>admin_result.get("error") or admin_result.get("output", "unknown error")\<close>.\<close>

definition registration_error :: "cert_result \<Rightarrow> string" where
  "registration_error r =
     (case cr_error r of
        Some e \<Rightarrow> if e \<noteq> [] then e else (case cr_output r of None \<Rightarrow> ''unknown error'' | Some out \<Rightarrow> out)
      | None \<Rightarrow> (case cr_output r of None \<Rightarrow> ''unknown error'' | Some out \<Rightarrow> out))"

definition check_sa_groups :: "'w env \<Rightarrow> string list \<Rightarrow> ('w mon, unit) prog" where
  "check_sa_groups E groups =
     bnd (list_groups E Service_accounts_router) (\<lambda>existing.
     let missing = missing_groups groups existing in
     if missing \<noteq> [] then raise (groups_missing missing) else ret ())"

definition create_service_account :: "'w env \<Rightarrow> create_sa_request \<Rightarrow> ('w mon, sa_view) prog" where
  "create_service_account E body =
     (if \<not> valid_create_sa body then unprocessable else
      let username = sa_username (cs_name body); validity_days = sa_validity body;
          data = (cs_mode body = Data_mode) in
      thn (sa_identity E)
     (thn (if requested_groups (cs_groups body) \<noteq> [] \<and> data
           then check_sa_groups E (requested_groups (cs_groups body)) else ret ())
     (bnd (create_user E Service_accounts_router username (cs_display_name body) None
             (if data then cs_groups body else None)
             (Some (if data then ''svc_data'' else ''svc_admin''))) (\<lambda>user.
      bnd (generate_client_cert E username validity_days None) (\<lambda>cert_result.
      if \<not> cr_success cert_result then
        thn (rollback E user)
            (raise (HTTPException 500 (''Certificate generation failed: '' @ the_error cert_result)))
      else
        thn (if data then thn (write_nodered_pems E username) (ret ()) else ret ())
       (thn (if data then ret () else
             bnd (register_admin_cert E username) (\<lambda>admin_result.
             if cr_success admin_result then ret () else
               thn (rollback E user)
                   (raise (HTTPException 500
                     (''Admin cert registration failed: '' @ registration_error admin_result)))))
            (ret \<lparr>sv_user = user, sv_mode = cs_mode body, sv_validity_days = validity_days,
                  sv_download_url =
                    ''/api/service-accounts/'' @ str_of_int (u_id user) @ ''/certs/download''\<rparr>)))))))"

definition update_service_account :: "'w env \<Rightarrow> int \<Rightarrow> update_sa_request \<Rightarrow> ('w mon, unit) prog" where
  "update_service_account E account_id body =
     bnd (sa_or_404 E account_id) (\<lambda>u.
     thn (case us_groups body of
            None \<Rightarrow> ret ()
          | Some groups \<Rightarrow>
              if u_user_type u = Some ''svc_admin''
              then raise (HTTPException 400 ''Admin mode service accounts cannot have groups'')
              else if u_user_type u = Some ''svc_data'' \<and> groups = []
              then raise (HTTPException 400 ''Data mode service accounts require at least one group'')
              else check_sa_groups E groups)
    (thn (case us_display_name body of
            None \<Rightarrow> ret ()
          | Some n \<Rightarrow> thn (update_user E Service_accounts_router account_id
                        \<lparr>kw_name = Some n, kw_is_active = None, kw_ttl_hours = None\<rparr>) (ret ()))
         (case us_groups body of
            None \<Rightarrow> ret ()
          | Some groups \<Rightarrow> set_user_groups E Service_accounts_router account_id groups)))"

definition get_service_account :: "'w env \<Rightarrow> int \<Rightarrow> ('w mon, user_view) prog" where
  "get_service_account E account_id =
     bnd (sa_or_404 E account_id) (\<lambda>u.
     bnd (get_tak_server E Service_accounts_router) (\<lambda>tak. with_certs E tak u))"

definition delete_found_account :: "'w env \<Rightarrow> int \<Rightarrow> user \<Rightarrow> ('w mon, string) prog" where
  "delete_found_account E account_id u =
     thn (deactivate_user E Service_accounts_router account_id)
    (bnd (get_tak_server E Service_accounts_router) (\<lambda>tak.
     thn (case tak of
            None \<Rightarrow> ret ()
          | Some t \<Rightarrow>
              bnd (revoke_all_user_certs E t (u_username u)) (\<lambda>all_revoked.
              if all_revoked then mark_certs_revoked E Service_accounts_router account_id else ret ()))
    (thn (remove_nodered_pems E (u_username u))
         (ret (u_username u)))))"

definition delete_service_account :: "'w env \<Rightarrow> int \<Rightarrow> ('w mon, string) prog" where
  "delete_service_account E account_id =
     bnd (sa_or_404 E account_id) (delete_found_account E account_id)"

text \<open>Here the serial is looked up even when it is empty, and a failure to read it or the
  revocation list lets the download through.\<close>

definition download_cert :: "'w env \<Rightarrow> int \<Rightarrow> ('w mon, string \<times> string) prog" where
  "download_cert E account_id =
     bnd (sa_or_404 E account_id) (\<lambda>u.
     let username = u_username u; pem = cert_file (username @ ''.pem'') in
     bnd (look (path_exists E (cert_file (username @ ''.p12'')))) (\<lambda>there.
     if \<not> there then raise (HTTPException 404 ''Certificate file not found'') else
     bnd (look (path_exists E pem)) (\<lambda>pem_there.
     bnd (if pem_there then get_cert_serial E pem else ret None) (\<lambda>serial.
     bnd (if serial = None then ret [] else get_revoked_serials E) (\<lambda>revoked.
     if (case serial of None \<Rightarrow> False | Some x \<Rightarrow> x \<in> set revoked)
     then raise (HTTPException 403 ''Certificate has been revoked'')
     else ret (cert_file (username @ ''.p12''), username @ ''.p12''))))))"

end
