(* ===== verification/Offboarding.thy ===== *)
theory Offboarding
  imports IdentityTrace ServiceAccounts
begin

text \<open>
  Taking an account out of service: \<open>delete_user\<close>, \<open>delete_service_account\<close> and the expiry
  check of \<open>monitor/app/scheduler.py\<close> (\<open>_check_user_expiry\<close>) share one contract. The account is
  deactivated first, then its certificates are revoked, and it is marked as revoked only if every
  one of them is. The locale \<open>offboarding\<close> states it; the three pieces of code interpret it.
\<close>

section \<open>The expiry check\<close>

definition scheduler_ak :: "'w env \<Rightarrow> ('w mon, bool) prog" where
  "scheduler_ak E =
     bnd (gets (\<lambda>s. identity s Scheduler)) (\<lambda>c.
     case c of
       Some _ \<Rightarrow> ret True
     | None \<Rightarrow>
         if ldap_admin_password (cfg E) = [] then ret False
         else thn (modify (\<lambda>s. s\<lparr>identity := (identity s)(Scheduler \<mapsto>
                new_identity_client (lldap_url (cfg E)) (ldap_proxy_url (cfg E)) (ldap_admin_password (cfg E))
                  (split_on (CHR '','') (users_hidden_prefixes (cfg E))) (ldap_proxy_secret (cfg E)))\<rparr>))
                  (ret True))"

text \<open>The body of the loop inside its \<open>try\<close>, then with the \<open>except Exception\<close> that logs and goes on.\<close>

definition expire_user :: "'w env \<Rightarrow> tak_client option \<Rightarrow> user \<Rightarrow> ('w mon, unit) prog" where
  "expire_user E tak u =
     thn (if u_is_active u then deactivate_user E Scheduler (u_id u) else ret ())
         (case tak of
            None \<Rightarrow> ret ()
          | Some t \<Rightarrow>
              bnd (revoke_all_user_certs E t (u_username u)) (\<lambda>all_revoked.
              if all_revoked then mark_certs_revoked E Scheduler (u_id u) else ret ()))"

definition expire_logged :: "'w env \<Rightarrow> tak_client option \<Rightarrow> user \<Rightarrow> ('w mon, unit) prog" where
  "expire_logged E tak u = catch (expire_user E tak u) (\<lambda>_. ret ())"

definition check_user_expiry :: "'w env \<Rightarrow> ('w mon, unit) prog" where
  "check_user_expiry E =
     bnd (scheduler_ak E) (\<lambda>have.
     if \<not> have then ret () else
     bnd (get_tak_server E Scheduler) (\<lambda>tak.
     bnd (catch (bnd (get_users_pending_expiry E Scheduler) (\<lambda>us. ret (Some us))) (\<lambda>_. ret None)) (\<lambda>pending.
     case pending of
       None \<Rightarrow> ret ()
     | Some us \<Rightarrow> for_each us (expire_logged E tak))))"

section \<open>Kinds of calls\<close>

fun directory_call :: "call \<Rightarrow> bool" where
  "directory_call (Call_login _ _ _) = True"
| "directory_call (Call_graphql _ _ _) = True"
| "directory_call (Call_sleep _) = True"
| "directory_call _ = False"

fun cert_call :: "call \<Rightarrow> bool" where
  "cert_call (Call_tak _ _) = True"
| "cert_call (Call_exec _ _) = True"
| "cert_call (Call_put_archive _ _) = True"
| "cert_call (Call_containers _ _) = True"
| "cert_call _ = False"

text \<open>The mutation that deactivates an account, and one that records its certificates as revoked.\<close>

definition deactivates :: "call \<Rightarrow> bool" where
  "deactivates c \<longleftrightarrow> (case c of
     Call_graphql _ _ (Mut_update_user i) \<Rightarrow> i = deactivation (upd_id i)
   | _ \<Rightarrow> False)"

definition marks_revoked :: "call \<Rightarrow> bool" where
  "marks_revoked c \<longleftrightarrow> (case c of
     Call_graphql _ _ (Mut_update_user i) \<Rightarrow>
       (case upd_attributes i of
          None \<Rightarrow> False
        | Some as \<Rightarrow> \<lparr>attr_name = ''fastak_certs_revoked'', attr_value = [''true'']\<rparr> \<in> set as)
   | _ \<Rightarrow> False)"

text \<open>No \<open>Q\<close> comes before the first \<open>P\<close>.\<close>

definition only_after :: "(call \<Rightarrow> bool) \<Rightarrow> (call \<Rightarrow> bool) \<Rightarrow> call list \<Rightarrow> bool" where
  "only_after P Q xs = list_all (\<lambda>c. \<not> Q c) (takeWhile (\<lambda>c. \<not> P c) xs)"

lemma only_after_pre: "list_all (\<lambda>c. \<not> Q c) xs \<Longrightarrow> only_after P Q ys \<Longrightarrow> only_after P Q (xs @ ys)"
  by (induction xs) (simp_all add: only_after_def)

lemma only_after_found: "list_all (\<lambda>c. \<not> Q c) xs \<Longrightarrow> list_ex P xs \<Longrightarrow> only_after P Q (xs @ ys)"
  by (induction xs) (auto simp: only_after_def)

lemma only_after_none: "list_all (\<lambda>c. \<not> Q c) xs \<Longrightarrow> only_after P Q xs"
  using only_after_pre [of Q xs P "[]"] by (simp add: only_after_def)

lemma called_mono: "called P s t \<Longrightarrow> (\<And>c. P c \<Longrightarrow> Q c) \<Longrightarrow> called Q s t"
  by (auto simp: called_def list_ex_iff)

text \<open>The calls of a lookup and of a deactivation.\<close>

definition quiet_directory :: "call \<Rightarrow> bool" where
  "quiet_directory c \<longleftrightarrow> directory_call c \<and> \<not> marks_revoked c"

lemma quiet_not: "quiet_directory c \<Longrightarrow> \<not> cert_call c" "quiet_directory c \<Longrightarrow> \<not> marks_revoked c"
  by (cases c; simp add: quiet_directory_def)+

text \<open>Within the run from \<open>s\<close> to \<open>t\<close>, \<open>m\<close> was run and returned a value with \<open>P\<close>.\<close>

definition ran :: "('w mon, 'a) prog \<Rightarrow> ('a \<Rightarrow> bool) \<Rightarrow> 'w mon \<Rightarrow> 'w mon \<Rightarrow> bool" where
  "ran m P s t \<longleftrightarrow> (\<exists>s1 s2 x. grows (\<lambda>_. True) s s1 \<and> m s1 = (Inr x, s2) \<and> P x \<and> grows (\<lambda>_. True) s2 t)"

lemma ranI: "m s = (Inr x, t) \<Longrightarrow> P x \<Longrightarrow> ran m P s t"
  unfolding ran_def by (blast intro: grows_refl)

lemma ran_mono: "ran m P s t \<Longrightarrow> grows A r s \<Longrightarrow> grows B t u \<Longrightarrow> ran m P r u"
  unfolding ran_def by (blast intro: grows_trans grows_True)

section \<open>The contract\<close>

abbreviation revoke_then_mark ::
    "(tak_client \<Rightarrow> ('w mon, bool) prog) \<Rightarrow> ('w mon, unit) prog \<Rightarrow> tak_client option \<Rightarrow> ('w mon, unit) prog" where
  "revoke_then_mark revoke mark tak \<equiv>
     (case tak of
        None \<Rightarrow> ret ()
      | Some t \<Rightarrow> bnd (revoke t) (\<lambda>all_revoked. if all_revoked then mark else ret ()))"

locale offboarding =
  fixes offboard :: "user \<Rightarrow> ('w mon, 'a) prog"
    and deact :: "user \<Rightarrow> ('w mon, unit) prog"
    and tak_of :: "('w mon, tak_client option) prog"
    and revoke :: "tak_client \<Rightarrow> user \<Rightarrow> ('w mon, bool) prog"
    and mark :: "user \<Rightarrow> ('w mon, unit) prog"
    and finish :: "user \<Rightarrow> ('w mon, 'a) prog"
    and must :: "user \<Rightarrow> bool"
  assumes shape: "offboard u = thn (deact u) (bnd tak_of (\<lambda>tak. thn (revoke_then_mark (\<lambda>t. revoke t u) (mark u) tak) (finish u)))"
    and deact_calls: "emits (\<lambda>c. directory_call c \<and> \<not> marks_revoked c) (deact u)"
    and deact_done: "deact u s = (Inr (), t) \<Longrightarrow> must u \<Longrightarrow> called deactivates s t"
    and tak_calls: "emits (\<lambda>c. False) tak_of"
    and revoke_calls: "emits cert_call (revoke c u)"
    and mark_calls: "emits directory_call (mark u)"
    and finish_calls: "emits cert_call (finish u)"
begin

lemma directory_not_cert: "directory_call c \<Longrightarrow> \<not> cert_call c"
  by (cases c) simp_all

lemma cert_not_mark: "cert_call c \<Longrightarrow> \<not> marks_revoked c"
  by (cases c) (simp_all add: marks_revoked_def)

lemma extends_finish: "extends (finish u)"
  using finish_calls by (rule emits_True)

lemma extends_mark: "extends (if b then mark u else ret ())"
  using emits_True [OF mark_calls] by (intro keeps_if keeps_ret grows_preorder)

lemma extends_revoke: "extends (revoke_then_mark (\<lambda>t. revoke t u) (mark u) tak)"
  using emits_True [OF revoke_calls] extends_mark
  by (intro keeps_case_option keeps_ret keeps_bnd grows_preorder)

lemma extends_tail: "extends (thn (revoke_then_mark (\<lambda>t. revoke t u) (mark u) tak) (finish u))"
  using extends_revoke extends_finish by (intro keeps_thn grows_preorder)

lemma extends_rest: "extends (bnd tak_of (\<lambda>tak. thn (revoke_then_mark (\<lambda>t. revoke t u) (mark u) tak) (finish u)))"
  using emits_True [OF tak_calls] extends_tail by (intro keeps_bnd grows_preorder)

lemma extends_offboard: "extends (offboard u)"
  unfolding shape using emits_True [OF deact_calls] extends_rest by (intro keeps_thn grows_preorder)

text \<open>No certificate is touched before the account is deactivated.\<close>

lemma deactivated_first:
  assumes run: "offboard u s = (r, t)" and must: "must u"
  shows "only_after deactivates cert_call (calls_added s t)"
proof -
  obtain q v where d: "deact u s = (q, v)" by (cases "deact u s")
  have sv: "grows (\<lambda>c. directory_call c \<and> \<not> marks_revoked c) s v"
    using deact_calls d by (rule keepsD)
  then have pre: "list_all (\<lambda>c. \<not> cert_call c) (calls_added s v)"
    by (auto simp: grows_added list_all_iff dest: directory_not_cert)
  show ?thesis
  proof (cases q)
    case (Inl e)
    with run d have "t = v" by (simp add: shape run_simps)
    then show ?thesis using pre by (simp add: only_after_none)
  next
    case (Inr x)
    with run d have "grows (\<lambda>_. True) v t"
      by (intro extendsD [OF extends_rest [of u]]) (simp add: shape run_simps)
    then have "calls_added s t = calls_added s v @ calls_added v t" using sv by (rule calls_added_trans [rotated])
    moreover have "list_ex deactivates (calls_added s v)"
      using deact_done [of u s v] d Inr must by (simp add: called_def)
    ultimately show ?thesis using pre by (simp add: only_after_found)
  qed
qed

text \<open>If the account is marked as revoked, then the revocation returned true in this run.\<close>

lemma marked_only_if_revoked:
  assumes run: "offboard u s = (r, t)" and mark: "called marks_revoked s t"
  shows "\<exists>c. ran (revoke c u) (\<lambda>ok. ok) s t"
proof -
  from thn_called [OF run [unfolded shape] mark deact_calls conjunct2 extends_rest]
  obtain v where v: "grows (\<lambda>_. True) s v" "called marks_revoked v t"
    "bnd tak_of (\<lambda>tak. thn (revoke_then_mark (\<lambda>t. revoke t u) (mark u) tak) (finish u)) v = (r, t)"
    by (blast intro: grows_True)
  from bnd_called [OF v(3,2) tak_calls _ extends_tail]
  obtain tak w where w: "grows (\<lambda>_. True) v w" "called marks_revoked w t"
    "thn (revoke_then_mark (\<lambda>t. revoke t u) (mark u) tak) (finish u) w = (r, t)"
    by (auto intro: grows_True)
  from thn_called_first [OF w(3,2) finish_calls cert_not_mark extends_revoke]
  obtain q x where x: "revoke_then_mark (\<lambda>t. revoke t u) (mark u) tak w = (q, x)"
    "called marks_revoked w x" "grows (\<lambda>_. True) x t" by blast
  show ?thesis
  proof (cases tak)
    case None
    with x have "calls_added w x = []" by (simp add: run_simps calls_added_def)
    with x(2) show ?thesis by (simp add: called_def)
  next
    case (Some c)
    with x(1) have "bnd (revoke c u) (\<lambda>all_revoked. if all_revoked then mark u else ret ()) w = (q, x)" by simp
    from bnd_called [OF this x(2) revoke_calls cert_not_mark extends_mark]
    obtain ok y where y: "revoke c u w = (Inr ok, y)" "(if ok then mark u else ret ()) y = (q, x)"
      "called marks_revoked y x" by blast
    have ok using y(2,3) by (cases ok) (auto simp: run_simps called_def calls_added_def)
    have "grows (\<lambda>_. True) s w" using grows_trans [OF v(1) w(1)] .
    moreover have "revoke c u w = (Inr True, y)" using y(1) \<open>ok\<close> by simp
    moreover have "grows (\<lambda>_. True) y t"
      using grows_trans [OF extendsD [OF extends_mark y(2)] x(3)] .
    ultimately show ?thesis unfolding ran_def by blast
  qed
qed

lemma route_marks:
  assumes m: "emits quiet_directory m" and mark: "called marks_revoked s (snd (bnd m offboard s))"
  shows "\<exists>c u v. m s = (Inr u, v) \<and> ran (revoke c u) (\<lambda>ok. ok) s (snd (bnd m offboard s))"
proof -
  let ?t = "snd (bnd m offboard s)"
  have run: "bnd m offboard s = (fst (bnd m offboard s), ?t)" by simp
  from bnd_called [OF run mark m quiet_not(2) extends_offboard]
  obtain u v where v: "grows quiet_directory s v" "offboard u v = (fst (bnd m offboard s), ?t)"
    "called marks_revoked v ?t" "m s = (Inr u, v)" by blast
  from marked_only_if_revoked [OF v(2,3)] obtain c where "ran (revoke c u) (\<lambda>ok. ok) v ?t" by blast
  then have "ran (revoke c u) (\<lambda>ok. ok) s ?t" using v(1) grows_refl [of "\<lambda>_. True" ?t] by (rule ran_mono)
  with v(4) show ?thesis by blast
qed

end

section \<open>The three instances\<close>

lemma lldap_directory: "lldap_ok directory_call" "gql_ok directory_call q" "updates_ok directory_call"
    "queries_ok directory_call"
  by (simp_all add: lldap_ok_def gql_ok_def updates_ok_def queries_ok_def)

lemma queries_quiet: "queries_ok quiet_directory"
proof -
  have "\<not> is_mutation q \<Longrightarrow> \<not> marks_revoked (Call_graphql u b q)" for u b q
    by (cases q) (simp_all add: marks_revoked_def)
  then show ?thesis
    by (auto simp: queries_ok_def lldap_ok_def gql_ok_def quiet_directory_def marks_revoked_def)
qed

lemma deactivate_quiet:
  "emits (\<lambda>c. directory_call c \<and> \<not> marks_revoked c) (deactivate_user E self i)"
proof -
  have "gql_ok quiet_directory (Mut_update_user (deactivation n))" for n
    by (simp add: gql_ok_def quiet_directory_def deactivation_def marks_revoked_def)
  then have "emits quiet_directory (update_attributes E self n (build_custom_attributes [(''is_active'', A_bool False)]))" for n
    using queries_quiet
    unfolding update_attributes_def build_inactive deactivation_def [symmetric]
    by (intro keeps_rules queries_okD)
  then have "emits quiet_directory (deactivate_user E self i)"
    using queries_quiet unfolding deactivate_user_def
    by (intro keeps_bnd keeps_case_option keeps_raise emits_resolve grows_preorder queries_okD)
  then show ?thesis by (rule emits_weaken) (simp add: quiet_directory_def)
qed

lemma deactivate_done:
  assumes "deactivate_user E self i s = (Inr (), t)"
  shows "called deactivates s t"
proof -
  obtain n where "called (is_gql (Mut_update_user (deactivation n))) s t"
    using deactivate_called [OF assms] by blast
  then show ?thesis by (rule called_mono) (auto simp: is_gql_def deactivates_def deactivation_def)
qed

lemma emits_get_tak_server [keeps_rules]: "emits A (get_tak_server E self)"
  unfolding get_tak_server_def Let_def by (intro keeps_rules) simp

lemma cert_calls_ok: "certs_ok cert_call" "tak_ok cert_call"
  by (simp_all add: certs_ok_def tak_ok_def)

lemma offboard_laws:
  "emits (\<lambda>c. False) (get_tak_server E self)"
  "emits cert_call (revoke_all_user_certs E c n)"
  "emits directory_call (mark_certs_revoked E self i)"
  "emits cert_call (ret x)"
  "emits cert_call (thn (remove_nodered_pems E n) (ret x))"
  by (intro keeps_rules cert_calls_ok lldap_directory)+

lemma thn_ret_unit: "thn m (ret ()) = m"
  by (rule ext) (simp add: run_simps split: prod.splits sum.splits)

interpretation user_off: offboarding "delete_found_user E i" "\<lambda>_. deactivate_user E Users_router i"
    "get_tak_server E Users_router" "\<lambda>c u. revoke_all_user_certs E c (u_username u)"
    "\<lambda>_. mark_certs_revoked E Users_router i" "\<lambda>u. ret (u_username u)" "\<lambda>_. True" for E i
  by unfold_locales (rule delete_found_user_def deactivate_quiet deactivate_done offboard_laws | assumption)+

interpretation account_off: offboarding "delete_found_account E i"
    "\<lambda>_. deactivate_user E Service_accounts_router i"
    "get_tak_server E Service_accounts_router" "\<lambda>c u. revoke_all_user_certs E c (u_username u)"
    "\<lambda>_. mark_certs_revoked E Service_accounts_router i"
    "\<lambda>u. thn (remove_nodered_pems E (u_username u)) (ret (u_username u))" "\<lambda>_. True" for E i
  by unfold_locales (rule delete_found_account_def deactivate_quiet deactivate_done offboard_laws | assumption)+

interpretation expiry_off: offboarding "expire_user E tak"
    "\<lambda>u. if u_is_active u then deactivate_user E Scheduler (u_id u) else ret ()"
    "ret tak" "\<lambda>c u. revoke_all_user_certs E c (u_username u)"
    "\<lambda>u. mark_certs_revoked E Scheduler (u_id u)" "\<lambda>_. ret ()" u_is_active for E tak
proof unfold_locales
  show "emits (\<lambda>c. directory_call c \<and> \<not> marks_revoked c)
      (if u_is_active u then deactivate_user E Scheduler (u_id u) else ret ())" for u
    by (intro keeps_rules deactivate_quiet)
qed (auto simp: expire_user_def thn_ret_unit intro: deactivate_done offboard_laws keeps_rules)

section \<open>A world with a TAK Server\<close>

text \<open>For the witnesses: the API certificate and the CA are there, and TAK Server lists one
  certificate that is not revoked.\<close>

definition tak_env :: "sample env" where
  "tak_env = sample_env (default_settings\<lparr>tak_api_cert_path := ''/c/api.p12'', ldap_admin_password := ''pw''\<rparr>)"

definition listed_cert :: marti_cert where
  "listed_cert = \<lparr>mc_id = 7, mc_hash = Val ''AA:BB'', mc_certificate = Val ''PEM'', mc_serialNumber = Null,
     mc_issuanceDate = None, mc_expirationDate = None, mc_revocationDate = None\<rparr>"

definition tak_world :: sample where
  "tak_world = sample_world\<lparr>sw_files := [''/c/api.p12'', ''/c/ca.pem''], sw_certs := [listed_cert]\<rparr>"

section \<open>What a complete revocation is\<close>

definition revoked_in :: "'w env \<Rightarrow> tak_cert \<Rightarrow> 'w mon \<Rightarrow> 'w mon \<Rightarrow> bool" where
  "revoked_in E cert s t \<longleftrightarrow> tc_revoked cert \<noteq> None \<or>
     (\<exists>pem. pem_of cert = Some pem \<and> ran (revoke_cert_by_pem E pem) cr_success s t)"

lemma revoked_in_mono: "revoked_in E cert s t \<Longrightarrow> grows A r s \<Longrightarrow> grows B t u \<Longrightarrow> revoked_in E cert r u"
  by (auto simp: revoked_in_def intro: ran_mono)

lemma extends_revoke_listed: "extends (revoke_listed E cert b)"
  by (intro keeps_rules) (simp add: certs_ok_def)

lemma revoke_listed_true:
  assumes "revoke_listed E cert b s = (Inr True, t)"
  shows "b \<and> revoked_in E cert s t"
proof (cases "tc_revoked cert")
  case None
  then obtain pem where "pem_of cert = Some pem"
    using assms by (auto simp: revoke_listed_def run_simps split: option.splits)
  with None assms show ?thesis
    by (auto simp: revoke_listed_def revoked_in_def run_simps split: prod.splits sum.splits intro!: ranI)
qed (use assms in \<open>auto simp: revoke_listed_def revoked_in_def run_simps\<close>)

lemma revoke_fold_true:
  "fold_prog (revoke_listed E) certs b s = (Inr True, t) \<Longrightarrow>
   b \<and> (\<forall>cert\<in>set certs. revoked_in E cert s t)"
proof (induction certs arbitrary: b s)
  case (Cons cert certs)
  obtain ok u where head: "revoke_listed E cert b s = (Inr ok, u)"
    and rest: "fold_prog (revoke_listed E) certs ok u = (Inr True, t)"
    using Cons.prems by (auto simp: run_simps split: prod.splits sum.splits)
  note ih = Cons.IH [OF rest]
  with head have cert: "b \<and> revoked_in E cert s u" by (intro revoke_listed_true) simp
  have su: "grows (\<lambda>_. True) s u" using extends_revoke_listed head by (rule keepsD)
  have ut: "grows (\<lambda>_. True) u t"
    using rest by (rule extendsD [rotated]) (intro keeps_fold_prog extends_revoke_listed grows_preorder)
  have "revoked_in E c s t" if "revoked_in E c u t" for c
    using that su grows_refl [of "\<lambda>_. True" t] by (rule revoked_in_mono)
  moreover have "revoked_in E cert s t"
    using cert [THEN conjunct2] grows_refl [of "\<lambda>_. True" s] ut by (rule revoked_in_mono)
  ultimately show ?case using ih cert by auto
qed (simp add: run_simps)

text \<open>Every certificate of the user \<open>n\<close> was revoked between \<open>s\<close> and \<open>t\<close>: those found on disk, and
  those TAK Server listed.\<close>

definition all_revoked_in :: "'w env \<Rightarrow> string \<Rightarrow> 'w mon \<Rightarrow> 'w mon \<Rightarrow> bool" where
  "all_revoked_in E n s t \<longleftrightarrow>
     ran (revoke_certs_on_disk_for_user E n) dr_success s t \<and>
     (\<exists>c certs. ran (list_user_certs E c n) (\<lambda>x. x = certs) s t \<and>
        (\<forall>cert\<in>set certs. revoked_in E cert s t))"

lemma all_revoked_in_mono:
  "all_revoked_in E n s t \<Longrightarrow> grows A r s \<Longrightarrow> grows B t u \<Longrightarrow> all_revoked_in E n r u"
  unfolding all_revoked_in_def by (meson ran_mono revoked_in_mono)

lemma revoke_all_true:
  assumes run: "revoke_all_user_certs E c n s = (Inr True, t)"
  shows "all_revoked_in E n s t"
proof -
  obtain disk u certs v where disk: "revoke_certs_on_disk_for_user E n s = (Inr disk, u)"
    and list: "list_user_certs E c n u = (Inr certs, v)"
    and rest: "fold_prog (revoke_listed E) certs (dr_success disk) v = (Inr True, t)"
    using run by (auto simp: revoke_all_user_certs_def run_simps split: prod.splits sum.splits)
  have su: "grows (\<lambda>_. True) s u"
    using disk by (rule extendsD [rotated]) (intro keeps_rules, simp add: certs_ok_def)
  have uv: "grows (\<lambda>_. True) u v"
    using list by (rule extendsD [rotated]) (intro keeps_rules, simp add: tak_ok_def)
  have vt: "grows (\<lambda>_. True) v t"
    using rest by (rule extendsD [rotated]) (intro keeps_fold_prog extends_revoke_listed grows_preorder)
  note all = revoke_fold_true [OF rest]
  have "revoked_in E cert s t" if "revoked_in E cert v t" for cert
    using that grows_trans [OF su uv] grows_refl [of "\<lambda>_. True" t] by (rule revoked_in_mono)
  with all have certs: "\<forall>cert\<in>set certs. revoked_in E cert s t" by blast
  have "ran (revoke_certs_on_disk_for_user E n) dr_success s u" using disk all by (intro ranI) auto
  then have dsk: "ran (revoke_certs_on_disk_for_user E n) dr_success s t"
    using grows_refl [of "\<lambda>_. True" s] grows_trans [OF uv vt] by (rule ran_mono)
  have "ran (list_user_certs E c n) (\<lambda>x. x = certs) u v" using list by (intro ranI) auto
  then have "ran (list_user_certs E c n) (\<lambda>x. x = certs) s t" using su vt by (rule ran_mono)
  with certs dsk show ?thesis unfolding all_revoked_in_def by blast
qed

lemma ran_revoke_all:
  "ran (revoke_all_user_certs E c n) (\<lambda>ok. ok) s t \<Longrightarrow> all_revoked_in E n s t"
  unfolding ran_def using revoke_all_true all_revoked_in_mono by (metis (full_types))

section \<open>The routes\<close>

lemma emits_get_identity [keeps_rules]: "emits A (get_identity E)"
  unfolding get_identity_def by (intro keeps_rules) simp

lemma emits_sa_identity [keeps_rules]: "emits A (sa_identity E)"
  unfolding sa_identity_def by (intro keeps_rules) simp

lemma emits_scheduler_ak [keeps_rules]: "emits A (scheduler_ak E)"
  unfolding scheduler_ak_def by (intro keeps_rules) simp

lemma emits_user_or_404 [keeps_rules]: "queries_ok A \<Longrightarrow> emits A (user_or_404 E i)"
  unfolding user_or_404_def by (intro keeps_rules)

lemma emits_sa_or_404 [keeps_rules]: "queries_ok A \<Longrightarrow> emits A (sa_or_404 E i)"
  unfolding sa_or_404_def by (intro keeps_rules)

text \<open>A quiet lookup in front of the contract keeps its two conclusions.\<close>

lemma only_after_bnd:
  assumes m: "emits quiet_directory m" and f: "\<And>x. extends (f x)"
    and after: "\<And>x u. only_after deactivates cert_call (calls_added u (snd (f x u)))"
  shows "only_after deactivates cert_call (calls_added s (snd (bnd m f s)))"
proof -
  obtain q u where q: "m s = (q, u)" by (cases "m s")
  with m have su: "grows quiet_directory s u" by (rule keepsD)
  then have pre: "list_all (\<lambda>c. \<not> cert_call c) (calls_added s u)"
    by (auto simp: grows_added list_all_iff dest: quiet_not)
  show ?thesis
  proof (cases q)
    case (Inl e)
    with q pre show ?thesis by (simp add: run_simps only_after_none)
  next
    case (Inr x)
    have "grows (\<lambda>_. True) u (snd (f x u))" using f by (rule extendsD) (simp add: prod_eq_iff)
    with su have "calls_added s (snd (f x u)) = calls_added s u @ calls_added u (snd (f x u))"
      by (rule calls_added_trans)
    with q Inr pre after [of u x] show ?thesis by (simp add: run_simps only_after_pre)
  qed
qed


text \<open>Deleting a service account does too.\<close>

lemma delete_account_deactivates_first:
  "only_after deactivates cert_call (calls_added s (snd (delete_service_account E i s)))"
  unfolding delete_service_account_def
  by (intro only_after_bnd emits_sa_or_404 queries_quiet account_off.extends_offboard
      account_off.deactivated_first TrueI) (rule prod.collapse [symmetric])





section \<open>The expiry check\<close>

lemma extends_expire_user: "extends (expire_user E tak u)"
  by (rule expiry_off.extends_offboard)

lemma extends_expire_logged: "extends (expire_logged E tak u)"
  unfolding expire_logged_def by (intro keeps_rules extends_expire_user)

lemma expire_logged_run: "\<exists>q. expire_user E tak u s = (q, snd (expire_logged E tak u s))"
  and expire_logged_ok: "fst (expire_logged E tak u s) = Inr ()"
  by (auto simp: expire_logged_def run_simps split: prod.splits sum.splits)

lemma sweep_Cons: "for_each (u # us) (expire_logged E tak) s =
    for_each us (expire_logged E tak) (snd (expire_logged E tak u s))"
  using expire_logged_ok [of E tak u s] by (cases "expire_logged E tak u s") (simp add: run_simps)

text \<open>\<open>tried E tak u s t\<close>: between \<open>s\<close> and \<open>t\<close> the body of the loop was run for the user.\<close>

definition tried :: "'w env \<Rightarrow> tak_client option \<Rightarrow> user \<Rightarrow> 'w mon \<Rightarrow> 'w mon \<Rightarrow> bool" where
  "tried E tak u s t \<longleftrightarrow> (\<exists>s1 q s2. grows (\<lambda>_. True) s s1 \<and> expire_user E tak u s1 = (q, s2) \<and>
     grows (\<lambda>_. True) s2 t)"

lemma tried_mono: "tried E tak u s t \<Longrightarrow> grows A r s \<Longrightarrow> grows B t v \<Longrightarrow> tried E tak u r v"
  unfolding tried_def by (blast intro: grows_trans grows_True)

lemma sweep_all:
  "for_each us (expire_logged E tak) s = (r, t) \<Longrightarrow> r = Inr () \<and> (\<forall>u\<in>set us. tried E tak u s t)"
proof (induction us arbitrary: s)
  case (Cons u us)
  let ?v = "snd (expire_logged E tak u s)"
  have head: "expire_logged E tak u s = (Inr (), ?v)"
    using expire_logged_ok [of E tak u s] by (simp add: prod_eq_iff)
  then have rest: "for_each us (expire_logged E tak) ?v = (r, t)"
    using Cons.prems by (simp only: sweep_Cons)
  have sv: "grows (\<lambda>_. True) s ?v" using extends_expire_logged head by (rule keepsD)
  have vt: "grows (\<lambda>_. True) ?v t"
    using rest by (rule extendsD [rotated]) (intro keeps_for_each extends_expire_logged grows_preorder)
  have "tried E tak u s t"
    using expire_logged_run [of E tak u s] vt unfolding tried_def by (blast intro: grows_refl)
  moreover have "tried E tak x s t" if "tried E tak x ?v t" for x
    using that sv grows_refl [of "\<lambda>_. True" t] by (rule tried_mono)
  ultimately show ?case using Cons.IH [OF rest] by auto
qed (simp add: run_simps)

lemma sweep_marks:
  "called marks_revoked s (snd (for_each us (expire_logged E tak) s)) \<Longrightarrow>
   \<exists>u\<in>set us. all_revoked_in E (u_username u) s (snd (for_each us (expire_logged E tak) s))"
proof (induction us arbitrary: s)
  case Nil
  then show ?case by (simp add: run_simps called_def calls_added_def)
next
  case (Cons u us)
  let ?v = "snd (expire_logged E tak u s)"
  let ?t = "snd (for_each us (expire_logged E tak) ?v)"
  have head: "expire_logged E tak u s = (Inr (), ?v)"
    using expire_logged_ok [of E tak u s] by (simp add: prod_eq_iff)
  then have t: "snd (for_each (u # us) (expire_logged E tak) s) = ?t" by (simp only: sweep_Cons)
  have sv: "grows (\<lambda>_. True) s ?v" using extends_expire_logged head by (rule keepsD)
  have vt: "grows (\<lambda>_. True) ?v ?t"
    by (rule extendsD [of "for_each us (expire_logged E tak)"])
      (intro keeps_for_each extends_expire_logged grows_preorder, simp add: prod_eq_iff)
  from called_split [OF Cons.prems [unfolded t] sv vt] show ?case unfolding t
  proof
    assume "called marks_revoked s ?v"
    moreover obtain q where "expire_user E tak u s = (q, ?v)" using expire_logged_run by blast
    ultimately obtain c where "ran (revoke_all_user_certs E c (u_username u)) (\<lambda>ok. ok) s ?v"
      using expiry_off.marked_only_if_revoked by blast
    then have "all_revoked_in E (u_username u) s ?v" by (rule ran_revoke_all)
    then have "all_revoked_in E (u_username u) s ?t"
      using grows_refl [of "\<lambda>_. True" s] vt by (rule all_revoked_in_mono)
    then show "\<exists>u\<in>set (u # us). all_revoked_in E (u_username u) s ?t" by simp
  next
    assume "called marks_revoked ?v ?t"
    from Cons.IH [OF this] obtain x where "x \<in> set us" "all_revoked_in E (u_username x) ?v ?t" by blast
    moreover from this(2) have "all_revoked_in E (u_username x) s ?t"
      using sv grows_refl [of "\<lambda>_. True" ?t] by (rule all_revoked_in_mono)
    ultimately show "\<exists>u\<in>set (u # us). all_revoked_in E (u_username u) s ?t" by auto
  qed
qed

text \<open>C33. The users the check picks are exactly those whose expiry has passed and who are not
  marked as revoked, deactivated or not: a user whose revocation was incomplete is picked again.\<close>

theorem pending_expiry_exact:
  assumes "graphql E self Query_users s = (Inr d, u)" and "data_list d_users d = Inr all"
  shows "fst (get_users_pending_expiry E self s) = Inr (map (user_of E) (filter (\<lambda>l.
    (case u_expires (user_of E l) of
       None \<Rightarrow> False | Some e \<Rightarrow> real_of_int e \<le> fst (time_now E (world u))) \<and>
    u_certs_revoked (user_of E l) \<noteq> Some True) all))"
proof -
  have pick: "pending_expiry now l = ((case u_expires (user_of E l) of
       None \<Rightarrow> False | Some e \<Rightarrow> real_of_int e \<le> now) \<and> u_certs_revoked (user_of E l) \<noteq> Some True)" for now l
    by (auto simp: pending_expiry_def user_of_def Let_def split: option.splits)
  show ?thesis using assms
    by (simp add: get_users_pending_expiry_def run_simps collect_format pick [symmetric])
qed

theorem pending_expiry_exact_witness:
  "\<exists>us. fst (get_users_pending_expiry tak_env Scheduler (sample_state [] tak_world)) = Inr us"
proof -
  let ?s = "sample_state [] tak_world"
  let ?d = "Some (no_data\<lparr>d_users := Val (sw_users tak_world)\<rparr>)"
  have "fst (graphql tak_env Scheduler Query_users ?s) = Inr ?d" by code_simp
  then have g: "graphql tak_env Scheduler Query_users ?s = (Inr ?d, snd (graphql tak_env Scheduler Query_users ?s))"
    by (simp add: prod_eq_iff)
  have d: "data_list d_users ?d = Inr (sw_users tak_world)" by (simp add: data_list_def)
  show ?thesis using pending_expiry_exact [OF g d] by blast
qed


lemma sweep_rest:
  assumes "called marks_revoked s (snd (check_user_expiry E s))"
  shows "\<exists>tak us v. grows (\<lambda>_. True) s v \<and> called marks_revoked v (snd (check_user_expiry E s)) \<and>
    snd (check_user_expiry E s) = snd (for_each us (expire_logged E tak) v)"
proof -
  let ?look = "\<lambda>tak. bnd (catch (bnd (get_users_pending_expiry E Scheduler) (\<lambda>us. ret (Some us))) (\<lambda>_. ret None))
      (\<lambda>pending. case pending of None \<Rightarrow> ret () | Some us \<Rightarrow> for_each us (expire_logged E tak))"
  have ex: "extends (case p of None \<Rightarrow> ret () | Some us \<Rightarrow> for_each us (expire_logged E tak))" for p tak
    by (intro keeps_rules extends_expire_logged)
  have exl: "extends (?look tak)" for tak by (intro keeps_rules extends_expire_logged) simp
  have ext: "extends (if \<not> have then ret () else bnd (get_tak_server E Scheduler) ?look)" for "have"
    by (intro keeps_rules extends_expire_logged) simp
  obtain r t where run: "check_user_expiry E s = (r, t)" by (cases "check_user_expiry E s")
  with assms have mark: "called marks_revoked s t" by simp
  from bnd_called [OF run [unfolded check_user_expiry_def] mark emits_scheduler_ak [of "\<lambda>_. False"] _ ext]
  obtain hv v1 where 1: "grows (\<lambda>_. False) s v1" "called marks_revoked v1 t"
    "(if \<not> hv then ret () else bnd (get_tak_server E Scheduler) ?look) v1 = (r, t)" by auto
  then have "bnd (get_tak_server E Scheduler) ?look v1 = (r, t)"
    by (cases hv) (auto simp: run_simps called_def calls_added_def)
  from bnd_called [OF this 1(2) emits_get_tak_server [of "\<lambda>_. False"] _ exl]
  obtain tak v2 where 2: "grows (\<lambda>_. False) v1 v2" "called marks_revoked v2 t" "?look tak v2 = (r, t)" by auto
  have "emits quiet_directory (catch (bnd (get_users_pending_expiry E Scheduler) (\<lambda>us. ret (Some us))) (\<lambda>_. ret None))"
    by (intro keeps_rules queries_quiet)
  from bnd_called [OF 2(3,2) this quiet_not(2) ex]
  obtain p v3 where 3: "grows quiet_directory v2 v3" "called marks_revoked v3 t"
    "(case p of None \<Rightarrow> ret () | Some us \<Rightarrow> for_each us (expire_logged E tak)) v3 = (r, t)" by blast
  then obtain us where "for_each us (expire_logged E tak) v3 = (r, t)"
    by (cases p) (auto simp: run_simps called_def calls_added_def)
  moreover have "grows (\<lambda>_. True) s v3"
    using grows_True [OF grows_trans [OF 1(1) 2(1)]] grows_True [OF 3(1)] by (rule grows_trans)
  ultimately show ?thesis using 3(2) run by (metis snd_conv)
qed




end
