(* ===== verification/UsersFacts.thy ===== *)
theory UsersFacts
  imports Offboarding
begin

text \<open>
  Facts about the routes of \<open>users/router.py\<close> and \<open>service_accounts/router.py\<close>: requests that
  are rejected change nothing, a certificate's validity, what may be downloaded, the pages of the
  user list, deactivated users.
\<close>

section \<open>Calls that change something\<close>

fun mutating_call :: "call \<Rightarrow> bool" where
  "mutating_call (Call_graphql _ _ q) = is_mutation q"
| "mutating_call (Call_set_password _ _ _ _) = True"
| "mutating_call (Call_proxy _ _ (Get_tokens _)) = False"
| "mutating_call (Call_proxy _ _ _) = True"
| "mutating_call (Call_tak _ (Tak_revoke_cert _)) = True"
| "mutating_call (Call_exec _ _) = True"
| "mutating_call (Call_put_archive _ _) = True"
| "mutating_call _ = False"

abbreviation reading_call :: "call \<Rightarrow> bool" where
  "reading_call c \<equiv> \<not> mutating_call c"

lemma queries_reading: "queries_ok reading_call"
  by (simp add: queries_ok_def lldap_ok_def gql_ok_def)

lemma reading_run:
  assumes "emits reading_call m" and "m s = (r, t)"
  shows "list_all reading_call (calls_added s t)"
  using emitsD [OF assms] by simp

text \<open>Creating a user in a group that does not exist is rejected with 400 before anything is
  written: the run made no mutating call.\<close>

lemma create_user_checks_groups:
  assumes "valid_create_user body"
    and "thn (get_identity E) (list_groups E Users_router) s = (Inr existing, t)"
    and "missing_groups (cu_groups body) existing \<noteq> []"
  shows "create_user_route E body s = (Inl (groups_missing (missing_groups (cu_groups body) existing)), t) \<and>
    list_all reading_call (calls_added s t)"
proof
  show "create_user_route E body s = (Inl (groups_missing (missing_groups (cu_groups body) existing)), t)"
    using assms by (auto simp: create_user_route_def run_simps Let_def split: prod.splits sum.splits)
  have "emits reading_call (thn (get_identity E) (list_groups E Users_router))"
    by (intro keeps_rules queries_reading)
  then show "list_all reading_call (calls_added s t)" using assms(2) by (rule reading_run)
qed

text \<open>Updating a service account is atomic in its validation: if a group is missing, nothing was
  written, the display name included.\<close>

lemma update_account_checks_groups:
  assumes "sa_or_404 E i s = (Inr u, v)" and "us_groups body = Some gs"
    and "list_groups E Service_accounts_router v = (Inr existing, t)"
    and "missing_groups gs existing \<noteq> []"
  shows "(\<exists>d. fst (update_service_account E i body s) = Inl (HTTPException 400 d)) \<and>
    list_all reading_call (calls_added s (snd (update_service_account E i body s)))"
proof -
  have sv: "grows reading_call s v"
    using keepsD [OF emits_sa_or_404 [OF queries_reading] assms(1)] .
  have vt: "grows reading_call v t"
    using keepsD [OF emits_list_groups [OF queries_reading] assms(3)] .
  have "(\<exists>d. fst (update_service_account E i body s) = Inl (HTTPException 400 d)) \<and>
      snd (update_service_account E i body s) \<in> {v, t}"
    using assms by (auto simp: update_service_account_def check_sa_groups_def groups_missing_def run_simps Let_def)
  then show ?thesis using sv grows_trans [OF sv vt] by (auto simp: grows_added)
qed

section \<open>Deactivated users\<close>

fun proxy_call :: "call \<Rightarrow> bool" where
  "proxy_call (Call_proxy _ _ _) = True"
| "proxy_call _ = False"

fun password_call :: "call \<Rightarrow> bool" where
  "password_call (Call_set_password _ _ _ _) = True"
| "password_call _ = False"

lemma quiet_not_token: "quiet_directory c \<Longrightarrow> \<not> proxy_call c" "quiet_directory c \<Longrightarrow> \<not> password_call c"
  by (cases c; simp add: quiet_directory_def)+

lemma guard_called:
  assumes "called P s (snd (bnd m (\<lambda>x. if \<not> ok x then raise e else f x) s))" and "emits A m"
    and "\<And>c. A c \<Longrightarrow> \<not> P c"
  shows "\<exists>x u. m s = (Inr x, u) \<and> ok x"
proof -
  obtain q u where q: "m s = (q, u)" by (cases "m s")
  with assms(2) have "grows A s u" by (rule keepsD)
  then have "\<not> called P s u" using assms(3) by (rule not_called)
  with assms(1) q show ?thesis by (cases q) (auto simp: run_simps split: if_splits)
qed

text \<open>An enrollment token is requested only for a user that is active.\<close>

lemma enroll_only_active:
  assumes "called proxy_call s (snd (enroll_user E i s))"
  shows "\<exists>u v. user_or_404 E i s = (Inr u, v) \<and> u_is_active u"
  using assms unfolding enroll_user_def
  by (rule guard_called) (rule emits_user_or_404 [OF queries_quiet], rule quiet_not_token)

section \<open>The validity of a certificate\<close>

lemma trunc_pos: "0 \<le> x \<Longrightarrow> trunc x = \<lfloor>x\<rfloor>"
  by (simp add: trunc_def)

lemma validity_range: "cert_validity expires now = Inr days \<Longrightarrow> 1 \<le> days \<and> days \<le> 365"
  by (auto simp: cert_validity_def Let_def split: option.splits if_splits)

text \<open>C32. A certificate is valid for 1 to 365 days, and for a user with an expiry at least one day
  away it ends before the user does.\<close>

theorem cert_validity_capped:
  assumes "cert_validity expires now = Inr days"
  shows "1 \<le> days \<and> days \<le> 365 \<and>
    (\<forall>e. expires = Some e \<longrightarrow> 86400 \<le> real_of_int e - now \<longrightarrow>
       now + real_of_int days * 86400 \<le> real_of_int e)"
proof (cases expires)
  case None
  with assms show ?thesis by (simp add: cert_validity_def)
next
  case (Some e)
  let ?r = "real_of_int e - now"
  have r: "0 < ?r" and d: "days = min 365 (max \<lfloor>?r / 86400\<rfloor> 1)"
    using assms Some by (auto simp: cert_validity_def Let_def trunc_pos split: if_splits)
  have "now + real_of_int days * 86400 \<le> real_of_int e" if "86400 \<le> ?r"
  proof -
    have "1 \<le> \<lfloor>?r / 86400\<rfloor>" using that by (simp add: le_floor_iff)
    then have "days \<le> \<lfloor>?r / 86400\<rfloor>" using d by simp
    then have "real_of_int days \<le> ?r / 86400" by (simp add: le_floor_iff)
    then show ?thesis by simp
  qed
  with d Some show ?thesis by auto
qed

theorem cert_validity_capped_witness:
  "cert_validity (Some 200000) 1000 = Inr 2 \<and> (1000 :: real) + real_of_int 2 * 86400 \<le> real_of_int 200000"
proof -
  have "\<lfloor>(199000 :: real) / 86400\<rfloor> = 2" by (simp add: floor_eq_iff)
  then have v: "cert_validity (Some 200000) 1000 = Inr 2"
    by (simp add: cert_validity_def Let_def trunc_pos)
  show ?thesis using v cert_validity_capped [OF v] by simp
qed

text \<open>Within the last day the certificate outlives the user, which the route's documentation
  excludes.\<close>

lemma last_day_outlives:
  "0 < real_of_int e - now \<Longrightarrow> real_of_int e - now < 86400 \<Longrightarrow>
   cert_validity (Some e) now = Inr 1 \<and> real_of_int e < now + real_of_int 1 * 86400"
proof -
  assume r: "0 < real_of_int e - now" "real_of_int e - now < 86400"
  then have "\<lfloor>(real_of_int e - now) / 86400\<rfloor> = 0" by (simp add: floor_eq_iff)
  with r show ?thesis by (simp add: cert_validity_def Let_def trunc_pos)
qed

section \<open>Generation\<close>

text \<open>The calls of a generation: the lookup of the user, and commands that carry the user's own
  name, the file name and the number of days, both names having passed the validation.\<close>

definition issues_for :: "string \<Rightarrow> string \<Rightarrow> int \<Rightarrow> call \<Rightarrow> bool" where
  "issues_for username filename days c \<longleftrightarrow>
     quiet_directory c \<or>
     validate_name filename = None \<and> validate_name (chosen_cn filename (Some username)) = None \<and>
     generate_calls filename days (chosen_cn filename (Some username)) c"



section \<open>Revocation\<close>

lemma extends_user_ops:
  "extends (user_or_404 E i)" "extends (delete_enrollment_tokens E self i)"
  "extends (revoke_cert_by_pem E pem)" "extends (revoke_cert_by_name E n)" "extends (revoke_cert E c k)"
  "extends (list_user_certs E c n)"
  by (intro keeps_rules; simp add: certs_ok_def tak_ok_def)+

text \<open>C24. When the route reports a certificate as revoked, the revocation list was updated, from the
  certificate TAK Server holds under that id or from the file of that name, and the user's
  enrollment tokens were deleted afterwards.\<close>

theorem revoke_user_cert_complete:
  assumes "revoke_user_cert E i body s = (Inr (), t)"
  shows "\<exists>u m w. user_or_404 E i s = (Inr u, m) \<and> ran (delete_enrollment_tokens E Users_router i) (\<lambda>_. True) w t \<and>
    (case rvq_cert_id body of
       Some k \<Rightarrow> \<exists>c cert pem. tc_id cert = k \<and> pem_of cert = Some pem \<and>
         ran (list_user_certs E c (u_username u)) (\<lambda>certs. cert \<in> set certs) m w \<and>
         ran (revoke_cert_by_pem E pem) cr_success m w
     | None \<Rightarrow> \<exists>n. rvq_cert_name body = Some n \<and>
         ran (revoke_cert_by_name E (u_username u @ ''-'' @ n)) cr_success m w)"
proof -
  obtain u m where u: "user_or_404 E i s = (Inr u, m)"
    using assms by (auto simp: revoke_user_cert_def run_simps split: prod.splits sum.splits)
  show ?thesis
  proof (cases "rvq_cert_id body")
    case None
    then obtain n x w y where n: "rvq_cert_name body = Some n"
      and r: "revoke_cert_by_name E (u_username u @ ''-'' @ n) m = (Inr x, w)" "cr_success x"
      and d: "delete_enrollment_tokens E Users_router i w = (Inr y, t)"
      using assms u
      by (auto simp: revoke_user_cert_def run_simps split: option.splits prod.splits sum.splits if_splits)
    then have "ran (revoke_cert_by_name E (u_username u @ ''-'' @ n)) cr_success m w"
      and "ran (delete_enrollment_tokens E Users_router i) (\<lambda>_. True) w t" by (auto intro: ranI)
    with None n u show ?thesis by auto
  next
    case (Some k)
    obtain c m1 where c: "get_tak_server E Users_router m = (Inr (Some c), m1)"
      using assms u Some
      by (auto simp: revoke_user_cert_def run_simps split: option.splits prod.splits sum.splits)
    obtain certs cert m2 where l: "list_user_certs E c (u_username u) m1 = (Inr certs, m2)"
      and f: "List.find (\<lambda>c. tc_id c = k) certs = Some cert"
      using assms u c Some
      by (auto simp: revoke_user_cert_def run_simps split: option.splits prod.splits sum.splits)
    obtain pem x m3 ok w y where p: "pem_of cert = Some pem"
      and r: "revoke_cert_by_pem E pem m2 = (Inr x, m3)" "cr_success x"
      and k: "revoke_cert E c k m3 = (Inr ok, w)"
      and d: "delete_enrollment_tokens E Users_router i w = (Inr y, t)"
      using assms u c l f Some
      by (auto simp: revoke_user_cert_def run_simps split: option.splits prod.splits sum.splits if_splits)
    have cert: "cert \<in> set certs" "tc_id cert = k"
      using f by (auto simp: find_Some_iff)
    have g: "grows (\<lambda>_. True) m m1" "grows (\<lambda>_. True) m1 m2" "grows (\<lambda>_. True) m2 m3" "grows (\<lambda>_. True) m3 w"
      using extendsD [OF emits_get_tak_server c] extendsD [OF extends_user_ops(6) l]
        extendsD [OF extends_user_ops(3) r(1)] extendsD [OF extends_user_ops(5) k] by simp_all
    have m2w: "grows (\<lambda>_. True) m2 w" and mm2: "grows (\<lambda>_. True) m m2"
      using g by (blast intro: grows_trans)+
    have "ran (list_user_certs E c (u_username u)) (\<lambda>certs. cert \<in> set certs) m1 m2" using l cert by (auto intro: ranI)
    then have "ran (list_user_certs E c (u_username u)) (\<lambda>certs. cert \<in> set certs) m w"
      using g(1) m2w by (rule ran_mono)
    moreover have "ran (revoke_cert_by_pem E pem) cr_success m2 m3" using r by (rule ranI)
    then have "ran (revoke_cert_by_pem E pem) cr_success m w" using mm2 g(4) by (rule ran_mono)
    moreover have "ran (delete_enrollment_tokens E Users_router i) (\<lambda>_. True) w t" using d by (rule ranI) simp
    ultimately show ?thesis using Some u p cert by auto
  qed
qed

theorem revoke_user_cert_complete_witness:
  "\<exists>m w. ran (revoke_cert_by_name tak_env ''bob-tablet'') cr_success m w"
proof -
  let ?b = "\<lparr>rvq_cert_id = None, rvq_cert_name = Some ''tablet''\<rparr>"
  let ?s = "sample_state [] tak_world"
  let ?r = "revoke_user_cert tak_env 3 ?b ?s"
  have "fst ?r = Inr ()" by code_simp
  then have r: "?r = (Inr (), snd ?r)" by (simp add: prod_eq_iff)
  have "fst (user_or_404 tak_env 3 ?s) = Inr (user_of tak_env (hd (sw_users tak_world)))" by code_simp
  then have u: "user_or_404 tak_env 3 ?s = (Inr u, m) \<Longrightarrow> u_username u = ''bob''" for u m
    by (simp add: tak_world_def sample_world_def)
  from revoke_user_cert_complete [OF r] u show ?thesis by fastforce
qed

section \<open>Downloads\<close>

text \<open>The serial of the file at \<open>pem\<close> is on the revocation list, as read in the state \<open>s\<close>.\<close>

definition on_crl :: "'w env \<Rightarrow> string \<Rightarrow> 'w mon \<Rightarrow> bool" where
  "on_crl E pem s \<longleftrightarrow> (case (fst (get_cert_serial E pem s), fst (get_revoked_serials E s)) of
     (Inr serial, Inr revoked) \<Rightarrow> serial_revoked serial revoked
   | _ \<Rightarrow> False)"

lemma openssl_field_run: "openssl_field E flag path s = (fst (openssl_field E flag path s), s)"
  by (simp add: openssl_field_def run_simps)

lemma get_cert_serial_run: "\<exists>x. get_cert_serial E path s = (Inr x, s)"
  by (simp add: get_cert_serial_def openssl_field_def run_simps)

lemma get_revoked_serials_run: "\<exists>xs. get_revoked_serials E s = (Inr xs, s)"
  by (auto simp: get_revoked_serials_def run_simps split: sum.splits prod.splits)


definition download_world :: sample where
  "download_world = tak_world\<lparr>sw_files := [cert_file ''bob-a.p12'', cert_file ''bob-a.pem'']\<rparr>"


section \<open>Pages\<close>

lemma page_append:
  assumes "0 < k" and that: "0 \<le> m"
  shows "take (nat (m * k)) xs @ page_of (m + 1) k xs = take (nat ((m + 1) * k)) xs"
proof -
  have "nat ((m + 1) * k) = nat (m * k) + nat k"
    using assms that by (simp add: distrib_right nat_add_distrib)
  then show ?thesis by (simp add: page_of_def take_add)
qed

text \<open>The pages of the user list partition it: the first \<open>m\<close> pages, one after the other, are the
  first \<open>m * page_size\<close> users, none left out and none repeated.\<close>

lemma pages_partition:
  assumes "1 \<le> page_size"
  shows "concat (map (\<lambda>p. page_of (int p) page_size users) [1..<Suc m]) = take (m * nat page_size) users"
proof (induction m)
  case (Suc m)
  have "nat (int m * page_size) = m * nat page_size" "nat ((int m + 1) * page_size) = Suc m * nat page_size"
    using assms by (simp_all add: nat_mult_distrib nat_add_distrib)
  then show ?case using Suc page_append [of page_size "int m" users] assms by (simp add: add.commute)
qed simp

end
