(* ===== verification/Evaluator.thy ===== *)
theory Evaluator
  imports Json
begin

text \<open>
  \<open>monitor/app/status.py\<close> and \<open>monitor/app/evaluator.py\<close>: the four severities, and the
  comparison of a probe's values with the thresholds of \<open>thresholds.yml\<close>. The evaluator has four
  loops that keep the worst status seen; \<open>severity_fold\<close> states what they share, and
  \<open>health_summary\<close> of \<open>api/health/router.py\<close> is a fifth.
\<close>

section \<open>Severities\<close>

datatype status = St_ok | St_note | St_warning | St_critical

fun level :: "status \<Rightarrow> nat" where
  "level St_ok = 0"
| "level St_note = 1"
| "level St_warning = 2"
| "level St_critical = 3"

instantiation status :: linorder
begin

definition less_eq_status :: "status \<Rightarrow> status \<Rightarrow> bool" where
  "less_eq_status a b = (level a \<le> level b)"

definition less_status :: "status \<Rightarrow> status \<Rightarrow> bool" where
  "less_status a b = (level a < level b)"

instance
proof
  fix a b :: status
  show "a \<le> b \<Longrightarrow> b \<le> a \<Longrightarrow> a = b"
    by (cases a; cases b) (simp_all add: less_eq_status_def)
qed (auto simp: less_eq_status_def less_status_def)

end

fun status_name :: "status \<Rightarrow> string" where
  "status_name St_ok = ''ok''"
| "status_name St_note = ''note''"
| "status_name St_warning = ''warning''"
| "status_name St_critical = ''critical''"

text \<open>\<open>Status[name]\<close>.\<close>

definition status_of :: "string \<Rightarrow> exn + status" where
  "status_of n =
     (if n = ''ok'' then Inr St_ok else if n = ''note'' then Inr St_note
      else if n = ''warning'' then Inr St_warning else if n = ''critical'' then Inr St_critical
      else Inl (KeyError n))"

lemma status_of_name [simp]: "status_of (status_name s) = Inr s"
  by (cases s) (simp_all add: status_of_def)

lemma ok_least [simp]: "St_ok \<le> s"
  by (simp add: less_eq_status_def)

section \<open>Reading dictionaries\<close>

text \<open>A value used as a dictionary or as a list; another value raises (an \<open>AttributeError\<close> for
  \<open>.get\<close> or \<open>.items\<close>, a \<open>TypeError\<close> for iteration).\<close>

definition as_obj :: "json \<Rightarrow> exn + jobj" where
  "as_obj j = (case j of J_obj d \<Rightarrow> Inr d | _ \<Rightarrow> Inl AttributeError)"

definition as_list :: "json \<Rightarrow> exn + json list" where
  "as_list j = (case j of J_list xs \<Rightarrow> Inr xs | _ \<Rightarrow> Inl TypeError)"

text \<open>\<open>for x in j\<close>: a dictionary gives its keys, a string its characters.\<close>

definition json_iter :: "json \<Rightarrow> exn + json list" where
  "json_iter j = (case j of
     J_list xs \<Rightarrow> Inr xs
   | J_obj d \<Rightarrow> Inr (map (J_str \<circ> fst) d)
   | J_str s \<Rightarrow> Inr (map (\<lambda>c. J_str [c]) s)
   | _ \<Rightarrow> Inl TypeError)"

definition as_str :: "json \<Rightarrow> exn + string" where
  "as_str j = (case j of J_str s \<Rightarrow> Inr s | _ \<Rightarrow> Inl (KeyError []))"

definition get_or :: "jobj \<Rightarrow> string \<Rightarrow> json \<Rightarrow> json" where
  "get_or d k dflt = (case map_of d k of None \<Rightarrow> dflt | Some v \<Rightarrow> v)"

definition lookup :: "jobj \<Rightarrow> json \<Rightarrow> json option" where
  \<comment> \<open>\<open>d[k]\<close> for a key \<open>k\<close> of any type, if it is there; the keys are strings\<close>
  "lookup d k = (case k of J_str s \<Rightarrow> map_of d s | _ \<Rightarrow> None)"

section \<open>One value\<close>

text \<open>A status name and the message that goes with it.\<close>

type_synonym verdict = "string \<times> string option"

definition is_numeric_threshold :: "jobj \<Rightarrow> bool" where
  "is_numeric_threshold levels \<longleftrightarrow>
     has_key levels ''warning'' \<and> has_key levels ''critical'' \<and> num_of (jget levels ''warning'') \<noteq> None"

definition threshold_text :: "(json \<Rightarrow> string) \<Rightarrow> string \<Rightarrow> json \<Rightarrow> json \<Rightarrow> string" where
  "threshold_text shw key value limit =
     key @ '' is '' @ py_str shw value @ '' (threshold: '' @ py_str shw limit @ '')''"

definition check_mapped :: "(json \<Rightarrow> string) \<Rightarrow> string \<Rightarrow> json \<Rightarrow> jobj \<Rightarrow> exn + verdict" where
  "check_mapped shw key value levels =
     (let mapped = jget levels (lower (py_str shw value)) in
      if truthy mapped then
        andthen (as_str mapped) (\<lambda>name.
        andthen (status_of name) (\<lambda>st.
        Inr (name, if St_ok < st then Some (key @ '' is '' @ py_str shw value) else None)))
      else Inr (''warning'', Some (key @ '' has unmapped value: '' @ py_str shw value)))"

definition check_numeric :: "(json \<Rightarrow> string) \<Rightarrow> string \<Rightarrow> json \<Rightarrow> json \<Rightarrow> json \<Rightarrow> exn + verdict" where
  "check_numeric shw key value warning critical =
     (let verdict = (\<lambda>name limit. (name, Some (threshold_text shw key value limit))) in
      if warning = J_null \<or> critical = J_null then Inr (''ok'', None) else
      andthen (json_less warning critical) (\<lambda>higher_is_worse.
      if higher_is_worse then
        andthen (json_le critical value) (\<lambda>c.
        if c then Inr (verdict ''critical'' critical) else
        andthen (json_le warning value) (\<lambda>w.
        if w then Inr (verdict ''warning'' warning) else Inr (''ok'', None)))
      else
        andthen (json_le value critical) (\<lambda>c.
        if c then Inr (verdict ''critical'' critical) else
        andthen (json_le value warning) (\<lambda>w.
        if w then Inr (verdict ''warning'' warning) else Inr (''ok'', None)))))"

definition check_threshold :: "(json \<Rightarrow> string) \<Rightarrow> string \<Rightarrow> json \<Rightarrow> json \<Rightarrow> exn + verdict" where
  "check_threshold shw key value levels =
     (case levels of
        J_obj d \<Rightarrow>
          if is_numeric_threshold d
          then check_numeric shw key value (jget d ''warning'') (jget d ''critical'')
          else check_mapped shw key value d
      | _ \<Rightarrow> Inl AttributeError)"

section \<open>The loops\<close>

text \<open>The worst status so far and its message. \<open>worse\<close> is the body the loops share:
  \<open>if Status[status] > worst: worst, message = Status[status], msg\<close>.\<close>

type_synonym acc = "status \<times> string option"

definition worse :: "verdict \<Rightarrow> acc \<Rightarrow> exn + acc" where
  "worse v acc = andthen (status_of (fst v)) (\<lambda>st. Inr (if fst acc < st then (st, snd v) else acc))"

definition not_threshold :: "string list" where
  "not_threshold = [''min_dead_tuples'', ''error_status'']"

text \<open>\<open>label\<close> is what \<open>item_status\<close> puts before the message.\<close>

definition check_key ::
    "(json \<Rightarrow> string) \<Rightarrow> (string option \<Rightarrow> string option) \<Rightarrow> jobj \<Rightarrow> string \<times> json \<Rightarrow> acc \<Rightarrow> exn + acc" where
  "check_key shw label data e acc =
     (case e of (key, levels) \<Rightarrow>
        if key \<in> set not_threshold then Inr acc else
        case map_of data key of
          None \<Rightarrow> Inr acc
        | Some value \<Rightarrow>
            andthen (check_threshold shw key value levels) (\<lambda>v. worse (fst v, label (snd v)) acc))"

definition evaluate_single :: "(json \<Rightarrow> string) \<Rightarrow> jobj \<Rightarrow> jobj \<Rightarrow> exn + acc" where
  "evaluate_single shw data thresholds =
     sum_fold (check_key shw (\<lambda>m. m) data) thresholds (St_ok, None)"

definition item_name :: "jobj \<Rightarrow> json" where
  "item_name item =
     (case List.find truthy (map (jget item) [''name'', ''file'', ''mount'', ''table'']) of
        Some n \<Rightarrow> n
      | None \<Rightarrow> get_or item ''domain'' (J_str []))"

text \<open>\<open>f"{name}: {msg}" if name else msg\<close>; a missing message prints as \<open>None\<close>.\<close>

definition labelled :: "(json \<Rightarrow> string) \<Rightarrow> json \<Rightarrow> string option \<Rightarrow> string option" where
  "labelled shw name msg =
     (if truthy name
      then Some (py_str shw name @ '': '' @ (case msg of None \<Rightarrow> ''None'' | Some m \<Rightarrow> m)) else msg)"

text \<open>\<open>error_status\<close> is a string in the configuration; another type is a \<open>KeyError\<close>, which the
  caller's \<open>Status[...]\<close> would raise.\<close>

definition item_status :: "(json \<Rightarrow> string) \<Rightarrow> jobj \<Rightarrow> jobj \<Rightarrow> exn + verdict" where
  "item_status shw item thresholds =
     (let name = item_name item in
      if truthy (jget item ''error'') then
        andthen (as_str (get_or thresholds ''error_status'' (J_str ''warning''))) (\<lambda>st.
        Inr (st, labelled shw name (Some (py_str shw (jget item ''error'')))))
      else
        andthen (sum_fold (check_key shw (labelled shw name) item) thresholds (St_ok, None)) (\<lambda>(w, m).
        Inr (status_name w, m)))"

definition below_min_dead :: "jobj \<Rightarrow> json \<Rightarrow> exn + bool" where
  "below_min_dead item min_dead =
     (if \<not> has_key item ''error'' \<and> min_dead \<noteq> J_null
      then json_less (get_or item ''dead_tuples'' (J_int 0)) min_dead else Inr False)"

definition list_item :: "(json \<Rightarrow> string) \<Rightarrow> jobj \<Rightarrow> json \<Rightarrow> acc \<Rightarrow> exn + acc" where
  "list_item shw thresholds j acc =
     andthen (as_obj j) (\<lambda>item.
     andthen (below_min_dead item (jget thresholds ''min_dead_tuples'')) (\<lambda>skip.
     if skip then Inr acc else
     andthen (item_status shw item thresholds) (\<lambda>v. worse v acc)))"

definition evaluate_list :: "(json \<Rightarrow> string) \<Rightarrow> json list \<Rightarrow> jobj \<Rightarrow> exn + acc" where
  "evaluate_list shw items thresholds = sum_fold (list_item shw thresholds) items (St_ok, None)"

text \<open>The health map first, then the status map, then the default.\<close>

definition container_status :: "jobj \<Rightarrow> jobj \<Rightarrow> json \<Rightarrow> json \<Rightarrow> json \<Rightarrow> json" where
  "container_status health_map status_map dflt health docker_status =
     (case (if health = J_str ''unknown'' then None else lookup health_map health) of
        Some m \<Rightarrow> m
      | None \<Rightarrow> (case lookup status_map docker_status of Some m \<Rightarrow> m | None \<Rightarrow> dflt))"

definition container_item ::
    "(json \<Rightarrow> string) \<Rightarrow> jobj \<Rightarrow> jobj \<Rightarrow> json \<Rightarrow> json \<Rightarrow> acc \<Rightarrow> exn + acc" where
  "container_item shw health_map status_map dflt j acc =
     andthen (as_obj j) (\<lambda>item.
     let health = get_or item ''health'' (J_str ''unknown'');
         docker_status = get_or item ''status'' (J_str ''unknown'');
         name = get_or item ''name'' (J_str []) in
     andthen (as_str (container_status health_map status_map dflt health docker_status)) (\<lambda>mapped.
     worse (mapped, Some (py_str shw name @ '': '' @ py_str shw health @ ''/'' @ py_str shw docker_status)) acc))"

definition evaluate_containers :: "(json \<Rightarrow> string) \<Rightarrow> json list \<Rightarrow> jobj \<Rightarrow> exn + acc" where
  "evaluate_containers shw items thresholds =
     andthen (as_obj (get_or thresholds ''health'' (J_obj []))) (\<lambda>health_map.
     andthen (as_obj (get_or thresholds ''status'' (J_obj []))) (\<lambda>status_map.
     sum_fold (container_item shw health_map status_map
       (get_or thresholds ''default_status'' (J_str ''warning''))) items (St_ok, None)))"

record evaluation =
  ev_status :: status
  ev_message :: "string option"
  ev_should_alert :: bool

text \<open>\<open>if message: result["message"] = message\<close>.\<close>

definition kept_message :: "string option \<Rightarrow> string option" where
  "kept_message m = (if m = Some [] then None else m)"

definition evaluate :: "(json \<Rightarrow> string) \<Rightarrow> jobj \<Rightarrow> jobj \<Rightarrow> exn + evaluation" where
  "evaluate shw data service_config =
     andthen (as_obj (get_or service_config ''thresholds'' (J_obj []))) (\<lambda>thresholds.
     andthen (case map_of data ''items'' of
          Some items \<Rightarrow>
            andthen (as_list items) (\<lambda>xs.
            if has_key thresholds ''health'' \<and> has_key thresholds ''status''
            then evaluate_containers shw xs thresholds
            else evaluate_list shw xs thresholds)
        | None \<Rightarrow> evaluate_single shw data thresholds) (\<lambda>(worst, message).
     andthen (as_str (get_or service_config ''alert_min_level'' (J_str ''warning''))) (\<lambda>min_level.
     andthen (status_of min_level) (\<lambda>min_st.
     Inr \<lparr>ev_status = worst, ev_message = kept_message message, ev_should_alert = min_st \<le> worst\<rparr>))))"

section \<open>The health summary\<close>

text \<open>\<open>health_summary\<close>: the worst of the services' statuses, those above \<open>note\<close> only.\<close>

definition summary_step :: "string \<Rightarrow> status \<Rightarrow> exn + status" where
  "summary_step name worst =
     andthen (status_of name) (\<lambda>st. Inr (if St_note < st \<and> worst < st then st else worst))"

definition overall_status :: "string list \<Rightarrow> exn + status" where
  "overall_status names = sum_fold summary_step names St_ok"

section \<open>What the loops compute\<close>

locale severity_fold =
  fixes step :: "'x \<Rightarrow> 'acc \<Rightarrow> exn + 'acc"
    and sev :: "'acc \<Rightarrow> status"
    and level_of :: "'x \<Rightarrow> status option"
  assumes step: "step x acc = Inr acc' \<Longrightarrow>
    sev acc' = (case level_of x of None \<Rightarrow> sev acc | Some l \<Rightarrow> max (sev acc) l)"
begin

lemma fold_bounds:
  "sum_fold step xs acc = Inr acc' \<Longrightarrow> sev acc \<le> sev acc' \<and>
   (\<forall>x\<in>set xs. \<forall>l. level_of x = Some l \<longrightarrow> l \<le> sev acc')"
proof (induction xs arbitrary: acc)
  case (Cons x xs)
  then obtain a where a: "step x acc = Inr a" and "sum_fold step xs a = Inr acc'" by auto
  with Cons.IH step [OF a] show ?case by (force split: option.splits)
qed simp

lemma fold_attained:
  "sum_fold step xs acc = Inr acc' \<Longrightarrow> sev acc' = sev acc \<or> (\<exists>x\<in>set xs. level_of x = Some (sev acc'))"
proof (induction xs arbitrary: acc)
  case (Cons x xs)
  then obtain a where a: "step x acc = Inr a" and "sum_fold step xs a = Inr acc'" by auto
  with Cons.IH [of a] step [OF a] show ?case by (auto simp: max_def split: option.splits if_splits)
qed simp

end

lemma worse_sev:
  assumes "worse v acc = Inr acc'"
  shows "\<exists>st. status_of (fst v) = Inr st \<and> fst acc' = max (fst acc) st"
proof -
  obtain st where st: "status_of (fst v) = Inr st" and a: "acc' = (if fst acc < st then (st, snd v) else acc)"
    using assms by (auto simp: worse_def)
  have "fst acc' = max (fst acc) st" unfolding a by (auto simp: max_def)
  with st show ?thesis by blast
qed

text \<open>The status each element has, where it counts.\<close>

definition right :: "exn + 'a \<Rightarrow> 'a option" where
  "right r = (case r of Inl _ \<Rightarrow> None | Inr x \<Rightarrow> Some x)"

definition key_level :: "(json \<Rightarrow> string) \<Rightarrow> jobj \<Rightarrow> string \<times> json \<Rightarrow> status option" where
  "key_level shw data e =
     (if fst e \<in> set not_threshold then None else
      case map_of data (fst e) of
        None \<Rightarrow> None
      | Some value \<Rightarrow> right (andthen (check_threshold shw (fst e) value (snd e)) (\<lambda>v. status_of (fst v))))"

definition item_level :: "(json \<Rightarrow> string) \<Rightarrow> jobj \<Rightarrow> json \<Rightarrow> status option" where
  "item_level shw thresholds j =
     right (andthen (as_obj j) (\<lambda>item. andthen (item_status shw item thresholds) (\<lambda>v. status_of (fst v))))"

definition shown :: "jobj \<Rightarrow> json \<Rightarrow> bool" where
  "shown thresholds j \<longleftrightarrow> andthen (as_obj j) (\<lambda>item.
     below_min_dead item (jget thresholds ''min_dead_tuples'')) = Inr False"

definition container_level :: "jobj \<Rightarrow> jobj \<Rightarrow> json \<Rightarrow> json \<Rightarrow> status option" where
  "container_level health_map status_map dflt j =
     right (andthen (as_obj j) (\<lambda>item. andthen (as_str (container_status health_map status_map dflt
       (get_or item ''health'' (J_str ''unknown'')) (get_or item ''status'' (J_str ''unknown'')))) status_of))"

definition counted :: "string \<Rightarrow> status option" where
  "counted n = (case status_of n of Inl _ \<Rightarrow> None | Inr st \<Rightarrow> if St_note < st then Some st else None)"

lemma counted_iff: "counted n = Some st \<longleftrightarrow> status_of n = Inr st \<and> St_note < st"
  by (auto simp: counted_def split: sum.splits)

interpretation keys: severity_fold "check_key shw label data" fst "key_level shw data" for shw label data
  by unfold_locales
    (auto simp: check_key_def key_level_def right_def dest!: worse_sev split: if_splits option.splits prod.splits)

interpretation items: severity_fold "list_item shw thresholds" fst
    "\<lambda>j. if shown thresholds j then item_level shw thresholds j else None" for shw thresholds
  by unfold_locales
    (auto simp: list_item_def item_level_def shown_def right_def dest!: worse_sev split: if_splits)

interpretation containers: severity_fold "container_item shw health_map status_map dflt" fst
    "container_level health_map status_map dflt" for shw health_map status_map dflt
  by unfold_locales
    (auto simp: container_item_def container_level_def right_def Let_def dest!: worse_sev)

interpretation summary: severity_fold summary_step "\<lambda>w. w"
    counted
  by unfold_locales (auto simp: summary_step_def counted_def max_def)

section \<open>Properties\<close>

text \<open>The status of a service that reports a list is the worst of the statuses of the items shown,
  each being what \<open>item_status\<close> gives for the dashboard's row: none is worse, and one has it unless
  all is well.\<close>

lemma evaluate_list_worst:
  assumes "evaluate_list shw xs thresholds = Inr (w, m)"
  shows "(\<forall>x\<in>set xs. shown thresholds x \<longrightarrow> (\<forall>l. item_level shw thresholds x = Some l \<longrightarrow> l \<le> w)) \<and>
    (w = St_ok \<or> (\<exists>x\<in>set xs. shown thresholds x \<and> item_level shw thresholds x = Some w))"
  using items.fold_bounds [OF assms [unfolded evaluate_list_def]]
    items.fold_attained [OF assms [unfolded evaluate_list_def]]
  by (auto split: if_splits)

text \<open>An item its probe could not read is never reported as fine: with the default
  \<open>error_status\<close> the service is at least at a warning, and the filter on dead tuples does not hide
  the item.\<close>

lemma unreadable_item_warns:
  assumes "evaluate_list shw xs thresholds = Inr (w, m)" and "J_obj item \<in> set xs"
    and "truthy (jget item ''error'')" and "map_of thresholds ''error_status'' = None"
  shows "St_warning \<le> w"
proof -
  have "has_key item ''error''" using assms(3) by (auto simp: jget_def has_key_iff split: option.splits)
  then have "shown thresholds (J_obj item)" by (simp add: shown_def as_obj_def below_min_dead_def)
  moreover have "item_level shw thresholds (J_obj item) = Some St_warning"
    using assms(3,4) by (simp add: item_level_def as_obj_def item_status_def get_or_def as_str_def right_def status_of_def)
  ultimately show ?thesis
    using items.fold_bounds [OF assms(1) [unfolded evaluate_list_def]] assms(2) by auto
qed

definition verdict_level :: "exn + verdict \<Rightarrow> status option" where
  "verdict_level r = right (andthen r (\<lambda>v. status_of (fst v)))"

lemma verdict_numeric:
  assumes "num_of value = Some x" and "num_of warning = Some w" and "num_of critical = Some c"
  shows "verdict_level (check_numeric shw key value warning critical) =
    Some (if w < c then (if c \<le> x then St_critical else if w \<le> x then St_warning else St_ok)
          else (if x \<le> c then St_critical else if x \<le> w then St_warning else St_ok))"
proof -
  have "warning \<noteq> J_null" "critical \<noteq> J_null" using assms by auto
  then show ?thesis using assms
    by (auto simp: check_numeric_def verdict_level_def right_def Let_def status_of_def)
qed

text \<open>A numeric threshold is monotone in the direction its two levels imply: a larger value is
  never less severe where \<open>warning < critical\<close>, a smaller one where \<open>warning >= critical\<close>.\<close>

lemma numeric_threshold_monotone:
  assumes "num_of v = Some x" and "num_of v' = Some y" and "num_of warning = Some w"
    and "num_of critical = Some c"
    and "if w < c then x \<le> y else y \<le> x"
  shows "\<exists>a b. verdict_level (check_numeric shw key v warning critical) = Some a \<and>
    verdict_level (check_numeric shw key v' warning critical) = Some b \<and> a \<le> b"
  unfolding verdict_numeric [OF assms(1,3,4)] verdict_numeric [OF assms(2,3,4)]
  using assms(5) by (cases "w < c") (auto simp: less_eq_status_def)

text \<open>The overall health is the worst status among the services that are above \<open>note\<close>: no
  warning is lost, and a note alone leaves it at \<open>ok\<close>.\<close>

lemma overall_is_worst:
  assumes "overall_status names = Inr w"
  shows "(\<forall>n\<in>set names. \<forall>st. status_of n = Inr st \<longrightarrow> St_note < st \<longrightarrow> st \<le> w) \<and>
    (w = St_ok \<or> (St_note < w \<and> (\<exists>n\<in>set names. status_of n = Inr w)))"
  using summary.fold_bounds [OF assms [unfolded overall_status_def]]
    summary.fold_attained [OF assms [unfolded overall_status_def]]
  by (auto simp: counted_iff)

end
