(* ===== verification/AuditLog.thy ===== *)
theory AuditLog
  imports Json
begin

text \<open>
  \<open>monitor/app/audit.py\<close> and \<open>monitor/app/api/auth_deps.py\<close>: who made a request, the row the
  audit middleware records for it with the secrets of the body taken out, and the check of a
  group membership that gates the admin routes. The database that takes the rows is a parameter.
\<close>

section \<open>Events\<close>

text \<open>A row for \<open>fastak_events\<close>; the id and the timestamp are the database's, \<open>agency_id\<close> is always
  null.\<close>

record event =
  evt_source :: string
  evt_actor :: string
  evt_action :: string
  evt_target_type :: "string option"
  evt_target_id :: "string option"
  evt_detail :: "json option"
  evt_ip :: "string option"

section \<open>Requests\<close>

text \<open>A body is empty, a JSON text (given by its value) or anything else.\<close>

datatype body = No_body | Json_text json | Other_text string

record request =
  rq_method :: string
  rq_path :: string
  rq_remote_user :: "string option"
  rq_remote_groups :: "string option"
  rq_client :: "string option"
  rq_body :: body

record auth_context =
  ac_username :: string
  ac_groups :: "string list"
  ac_client_ip :: "string option"

definition header_groups :: "string option \<Rightarrow> string list" where
  "header_groups h = (case h of None \<Rightarrow> [] | Some s \<Rightarrow>
     filter (\<lambda>g. g \<noteq> []) (map strip (split_on (CHR '','') s)))"

definition auth_context_of :: "request \<Rightarrow> auth_context" where
  "auth_context_of r =
     \<lparr>ac_username = (case rq_remote_user r of None \<Rightarrow> ''unknown'' | Some u \<Rightarrow> if u = [] then ''unknown'' else u),
      ac_groups = header_groups (rq_remote_groups r),
      ac_client_ip = rq_client r\<rparr>"

section \<open>Group membership\<close>

definition admin_group_default :: string where
  "admin_group_default = ''monitor_admin''"

definition required_group :: "(string \<Rightarrow> string option) \<Rightarrow> string \<Rightarrow> string \<Rightarrow> string" where
  "required_group environ var dflt = (case environ var of None \<Rightarrow> dflt | Some g \<Rightarrow> g)"

definition require_group :: "(string \<Rightarrow> string option) \<Rightarrow> string \<Rightarrow> string \<Rightarrow> auth_context \<Rightarrow> exn + unit" where
  "require_group environ var dflt ctx =
     (let required = required_group environ var dflt in
      if required \<notin> set (ac_groups ctx)
      then Inl (HTTPException 403 (''requires group membership: '' @ required)) else Inr ())"

definition require_admin :: "(string \<Rightarrow> string option) \<Rightarrow> auth_context \<Rightarrow> exn + unit" where
  "require_admin environ = require_group environ ''ADMIN_GROUP'' admin_group_default"

section \<open>Redaction\<close>

definition redact_fields :: "string list" where
  "redact_fields = [''password'', ''passcode'', ''token'', ''secret'', ''api_key'', ''p12'', ''private_key'']"

definition redacted_key :: "string \<Rightarrow> bool" where
  "redacted_key k = list_ex (\<lambda>p. contains (lower k) p) redact_fields"

definition redacted :: json where
  "redacted = J_str ''[redacted]''"

fun sanitise :: "json \<Rightarrow> json" where
  "sanitise (J_obj d) =
     J_obj (map (\<lambda>e. (fst e, if redacted_key (fst e) then redacted else sanitise (snd e))) d)"
| "sanitise (J_list xs) = J_list (map sanitise xs)"
| "sanitise j = j"

section \<open>The middleware\<close>

definition mutating_methods :: "string list" where
  "mutating_methods = [''POST'', ''PUT'', ''PATCH'', ''DELETE'']"

text \<open>The body as it is recorded. A body that is the JSON value \<open>null\<close> is left out like an empty one.\<close>

definition audited_body :: "body \<Rightarrow> json option" where
  "audited_body b = (case b of
     No_body \<Rightarrow> None
   | Json_text j \<Rightarrow> if sanitise j = J_null then None else Some (sanitise j)
   | Other_text s \<Rightarrow> if s = [] then None else Some (J_str ''<non-json or binary>''))"

definition audit_detail :: "request \<Rightarrow> int \<Rightarrow> json" where
  "audit_detail r status = J_obj
     ([(''method'', J_str (rq_method r)), (''path'', J_str (rq_path r)), (''status'', J_int status)] @
      (case audited_body (rq_body r) of None \<Rightarrow> [] | Some j \<Rightarrow> [(''request_body'', j)]))"

definition audit_event :: "auth_context \<Rightarrow> request \<Rightarrow> int \<Rightarrow> event" where
  "audit_event ctx r status =
     \<lparr>evt_source = ''audit'', evt_actor = ac_username ctx, evt_action = rq_method r @ '' '' @ rq_path r,
      evt_target_type = None, evt_target_id = None, evt_detail = Some (audit_detail r status),
      evt_ip = ac_client_ip ctx\<rparr>"

text \<open>\<open>handler\<close> is the rest of the application; its result is the status code. \<open>recorded\<close> is
  \<open>record_event\<close>.\<close>

definition audit_dispatch ::
    "(event \<Rightarrow> ('s, unit) prog) \<Rightarrow> auth_context \<Rightarrow> request \<Rightarrow> ('s, int) prog \<Rightarrow> ('s, int) prog" where
  "audit_dispatch recorded ctx r handler =
     (if rq_method r \<notin> set mutating_methods then handler else
      bnd handler (\<lambda>status.
      if 400 \<le> status then ret status else
      thn (recorded (audit_event ctx r status)) (ret status)))"

text \<open>An unhandled exception becomes a response only outside the middlewares. An \<open>HTTPException\<close> is a
  response already when it leaves the router.\<close>

definition respond :: "('s, int) prog \<Rightarrow> ('s, int) prog" where
  "respond m = catch m (\<lambda>e. case e of HTTPException code _ \<Rightarrow> ret code | _ \<Rightarrow> raise e)"

text \<open>\<open>main.py\<close>: \<open>AuthContextMiddleware\<close> runs first, then \<open>AuditMiddleware\<close>, then the route behind
  the gate of its router.\<close>

definition handle ::
    "(event \<Rightarrow> ('s, unit) prog) \<Rightarrow> (auth_context \<Rightarrow> exn + unit) \<Rightarrow> request \<Rightarrow>
     (auth_context \<Rightarrow> ('s, int) prog) \<Rightarrow> ('s, int) prog" where
  "handle recorded gate r route =
     (let ctx = auth_context_of r in
      audit_dispatch recorded ctx r (respond (thn (of_sum (gate ctx)) (route ctx))))"

section \<open>What redaction guarantees\<close>

text \<open>\<open>exposes j\<close>: somewhere in \<open>j\<close> a field with a secret's name holds something else than the
  mark.\<close>

fun exposes :: "json \<Rightarrow> bool" where
  "exposes (J_obj d) = list_ex (\<lambda>e. if redacted_key (fst e) then snd e \<noteq> redacted else exposes (snd e)) d"
| "exposes (J_list xs) = list_ex exposes xs"
| "exposes j = False"

lemma sanitise_redacted [simp]: "sanitise redacted = redacted"
  by (simp add: redacted_def)

lemma sanitise_hides: "\<not> exposes (sanitise j)"
  by (induction j rule: sanitise.induct) (auto simp: list_ex_iff)

lemma sanitise_id: "\<not> exposes j \<Longrightarrow> sanitise j = j"
proof (induction j rule: sanitise.induct)
  case (1 d)
  have "(fst e, if redacted_key (fst e) then redacted else sanitise (snd e)) = e" if "e \<in> set d" for e
    using 1 that by (cases e) (auto simp: list_ex_iff)
  then show ?case by (simp add: map_idI)
qed (auto simp: list_ex_iff intro: map_idI)

lemma sanitise_idem [simp]: "sanitise (sanitise j) = sanitise j"
  by (rule sanitise_id [OF sanitise_hides])

text \<open>A mutating request answered below 400 makes one row, any other request none.\<close>

lemma audit_one_row:
  assumes "handler s = (r, t)"
  shows "audit_dispatch (\<lambda>e. modify (\<lambda>s. s @ [e])) ctx rq handler s =
    (r, case r of
          Inr status \<Rightarrow> if rq_method rq \<in> set mutating_methods \<and> status < 400
            then t @ [audit_event ctx rq status] else t
        | Inl _ \<Rightarrow> t)"
  using assms by (cases r) (auto simp: audit_dispatch_def run_simps)

section \<open>Properties\<close>

text \<open>C29. In a row the audit middleware records no field of the request body whose name contains the
  name of a secret keeps its value, at any depth, and a body without such a field is recorded as
  it is.\<close>

theorem audit_redacts:
  "(\<forall>j. audited_body (Json_text j) = Some b \<longrightarrow> \<not> exposes b) \<and>
   (\<not> exposes j \<longrightarrow> audited_body (Json_text j) = (if j = J_null then None else Some j))"
  by (auto simp: audited_body_def sanitise_hides sanitise_id split: if_splits)

theorem audit_redacts_witness:
  "\<not> exposes (J_obj [(''user'', J_list [J_obj [(''smtp_password'', redacted)]])])"
proof -
  have "audited_body (Json_text (J_obj [(''user'', J_list [J_obj [(''smtp_password'', J_str ''hunter2'')]])])) =
      Some (J_obj [(''user'', J_list [J_obj [(''smtp_password'', redacted)]])])" by code_simp
  with audit_redacts [of "J_obj [(''user'', J_list [J_obj [(''smtp_password'', redacted)]])]" J_null]
  show ?thesis by blast
qed

text \<open>A request of a user outside the required group is answered with 403, runs no part of the route, and
  leaves no audit row; a request without the proxy's headers is such a request.\<close>

lemma outsider_refused:
  assumes "required_group environ var dflt \<notin> set (header_groups (rq_remote_groups r))"
  shows "handle recorded (require_group environ var dflt) r route s = (Inr 403, s)"
  using assms
  by (simp add: handle_def Let_def require_group_def auth_context_of_def respond_def audit_dispatch_def run_simps)

end
