(* ===== verification/Alerts.thy ===== *)
theory Alerts
  imports Evaluator Config AuditLog
begin

text \<open>
  \<open>monitor/app/store.py\<close>, \<open>monitor/app/api/alerts/{engine,email,sms}.py\<close> and \<open>record_event\<close> of
  \<open>monitor/app/audit.py\<close>: the health cache, the alert engine, and what it sends.

  The engine's decision is one atomic step on the two tables it keeps under its lock
  (\<open>decide\<close>); recording and sending happen outside the lock and do not read them. So threads
  that poll at the same time interleave as a sequence of decisions, which is what \<open>alert_run\<close>
  is. The arrow U+2192 of the messages lies outside the modelled code points and is written \<open>->\<close>.
\<close>

section \<open>State and outside world\<close>

datatype sms_request =
    Twilio string string string string string string   \<comment> \<open>url, account, token, From, To, Body\<close>
  | Brevo string string string string                  \<comment> \<open>api-key, sender, recipient, content\<close>

record mail =
  ml_subject :: string
  ml_from :: string
  ml_to :: string
  ml_body :: string

datatype outgoing = Out_event event | Out_mail mail | Out_sms sms_request

record 'w henv =
  he_cfg :: settings
  he_show :: "json \<Rightarrow> string"
  he_now :: "'w \<Rightarrow> real \<times> 'w"
  he_iso_now :: "'w \<Rightarrow> string \<times> 'w"
  insert_event :: "event \<Rightarrow> 'w \<Rightarrow> (exn + unit) \<times> 'w"
  smtp_send :: "mail \<Rightarrow> 'w \<Rightarrow> (exn + unit) \<times> 'w"
  sms_post :: "sms_request \<Rightarrow> 'w \<Rightarrow> (exn + int) \<times> 'w"

record cache_entry =
  hc_status :: string
  hc_message :: json
  hc_data :: jobj
  hc_thresholds :: json
  hc_updated_at :: string

record alert_state =
  last_state :: "string \<Rightarrow> string option"
  last_alert_time :: "string \<Rightarrow> real"

record 'w hmon =
  h_world :: 'w
  h_cache :: "(string \<times> cache_entry) list"
  h_alerts :: alert_state
  h_cooldown :: real
  h_sent :: "outgoing list"

definition send_out :: "outgoing \<Rightarrow> ('w \<Rightarrow> (exn + 'a) \<times> 'w) \<Rightarrow> ('w hmon, 'a) prog" where
  "send_out c f = (\<lambda>s. case f (h_world s) of (r, w) \<Rightarrow>
     (r, s\<lparr>h_world := w, h_sent := h_sent s @ [c]\<rparr>))"

definition clock :: "('w \<Rightarrow> 'a \<times> 'w) \<Rightarrow> ('w hmon, 'a) prog" where
  "clock f = (\<lambda>s. case f (h_world s) of (r, w) \<Rightarrow> (Inr r, s\<lparr>h_world := w\<rparr>))"

section \<open>The cache\<close>

definition store_update ::
    "'w henv \<Rightarrow> string \<Rightarrow> jobj \<Rightarrow> string \<Rightarrow> json \<Rightarrow> json \<Rightarrow> ('w hmon, unit) prog" where
  "store_update E service raw status message thresholds =
     bnd (clock (he_iso_now E)) (\<lambda>now.
     modify (\<lambda>s. s\<lparr>h_cache := dict_set service
       \<lparr>hc_status = status, hc_message = message, hc_data = raw, hc_thresholds = thresholds,
        hc_updated_at = now\<rparr> (h_cache s)\<rparr>))"

definition store_fetch :: "string \<Rightarrow> ('w hmon, cache_entry option) prog" where
  "store_fetch service = gets (\<lambda>s. map_of (h_cache s) service)"

definition store_fetch_all :: "('w hmon, (string \<times> cache_entry) list) prog" where
  "store_fetch_all = gets h_cache"

section \<open>Recording\<close>

text \<open>\<open>audit.record_event\<close>: any database error is logged and swallowed.\<close>

definition record_event :: "'w henv \<Rightarrow> event \<Rightarrow> ('w hmon, unit) prog" where
  "record_event E e = catch (send_out (Out_event e) (insert_event E e)) (\<lambda>_. ret ())"

definition health_event :: "string \<Rightarrow> string \<Rightarrow> string \<Rightarrow> event" where
  "health_event source lvl message =
     \<lparr>evt_source = ''health'', evt_actor = ''system'', evt_action = lvl,
      evt_target_type = Some ''service'', evt_target_id = Some source,
      evt_detail = Some (J_obj [(''message'', J_str message)]), evt_ip = None\<rparr>"

section \<open>E-mail\<close>

definition alert_mail :: "settings \<Rightarrow> string \<Rightarrow> string \<Rightarrow> mail" where
  "alert_mail st subject body =
     \<lparr>ml_subject = ''[FastTAK] '' @ subject,
      ml_from = (if smtp_from st \<noteq> [] then smtp_from st else smtp_user st),
      ml_to = alert_email st, ml_body = body\<rparr>"

text \<open>\<open>smtp_send\<close> is the whole SMTP session: connect, STARTTLS, login where both credentials are set,
  and the message.\<close>

definition send_alert_email :: "'w henv \<Rightarrow> string \<Rightarrow> string \<Rightarrow> ('w hmon, bool) prog" where
  "send_alert_email E subject body =
     (let st = he_cfg E in
      if smtp_host st = [] \<or> alert_email st = [] then ret False else
      let m = alert_mail st subject body in
      catch (thn (send_out (Out_mail m) (smtp_send E m)) (ret True)) (\<lambda>_. ret False))"

section \<open>SMS\<close>

definition sms_ok :: "'w henv \<Rightarrow> sms_request \<Rightarrow> ('w hmon, bool) prog" where
  \<comment> \<open>\<open>_post\<close>\<close>
  "sms_ok E r =
     catch (bnd (send_out (Out_sms r) (sms_post E r)) (\<lambda>code. ret (code < 400))) (\<lambda>_. ret False)"

definition note_failure :: "'w henv \<Rightarrow> sms_request \<Rightarrow> bool \<Rightarrow> ('w hmon, bool) prog" where
  "note_failure E r success = bnd (sms_ok E r) (\<lambda>ok. ret (if ok then success else False))"

definition send_each :: "'w henv \<Rightarrow> sms_request list \<Rightarrow> ('w hmon, bool) prog" where
  "send_each E rs = fold_prog (note_failure E) rs True"

definition twilio_requests :: "settings \<Rightarrow> string \<Rightarrow> string list \<Rightarrow> sms_request list option" where
  "twilio_requests st message numbers =
     (case split_once (CHR '':'') (sms_api_key st) of
        [account_sid, auth_token] \<Rightarrow>
          Some (map (\<lambda>n. Twilio (''https://api.twilio.com/2010-04-01/Accounts/'' @ account_sid @ ''/Messages.json'')
            account_sid auth_token (sms_from st) n (take 1600 message)) numbers)
      | _ \<Rightarrow> None)"

definition brevo_requests :: "settings \<Rightarrow> string \<Rightarrow> string list \<Rightarrow> sms_request list" where
  "brevo_requests st message numbers =
     map (\<lambda>n. Brevo (sms_api_key st) (take 11 (sms_from st)) n (take 1600 message)) numbers"

definition sms_numbers :: "settings \<Rightarrow> string list" where
  "sms_numbers st = [strip n. n \<leftarrow> split_on (CHR '','') (sms_to st), strip n \<noteq> []]"

text \<open>The requests one message makes, or \<open>None\<close> where the configuration sends nothing.\<close>

definition sms_requests :: "settings \<Rightarrow> string \<Rightarrow> sms_request list option" where
  "sms_requests st message =
     (if sms_provider st = [] \<or> sms_to st = [] then None
      else if sms_provider st = ''twilio'' then twilio_requests st message (sms_numbers st)
      else if sms_provider st = ''brevo'' then Some (brevo_requests st message (sms_numbers st))
      else None)"

definition send_alert_sms :: "'w henv \<Rightarrow> string \<Rightarrow> ('w hmon, bool) prog" where
  "send_alert_sms E message =
     (case sms_requests (he_cfg E) message of None \<Rightarrow> ret False | Some rs \<Rightarrow> send_each E rs)"

section \<open>The engine\<close>

text \<open>The read-compare-update under the lock. \<open>old\<close> is the state before.\<close>

datatype decision = Silent | Record_only | Notify | Recovered

definition decide :: "real \<Rightarrow> real \<Rightarrow> string \<Rightarrow> string \<Rightarrow> bool \<Rightarrow> alert_state \<Rightarrow> decision \<times> alert_state" where
  "decide cooldown now service new_state should_alert a =
     (let old = last_state a service;
          a = a\<lparr>last_state := (last_state a)(service \<mapsto> new_state)\<rparr> in
      if old = Some new_state then (Silent, a)
      else if old = None \<and> new_state = ''ok'' then (Silent, a)
      else if new_state \<noteq> ''ok'' then
        (if should_alert \<and> cooldown \<le> now - last_alert_time a service
         then (Notify, a\<lparr>last_alert_time := (last_alert_time a)(service := now)\<rparr>)
         else (Record_only, a))
      else if old \<noteq> None \<and> old \<noteq> Some ''ok'' then (Recovered, a)
      else (Record_only, a))"

definition old_text :: "string option \<Rightarrow> string" where
  "old_text old = (case old of None \<Rightarrow> ''None'' | Some st \<Rightarrow> st)"

definition check_and_alert ::
    "'w henv \<Rightarrow> string \<Rightarrow> string \<Rightarrow> string \<Rightarrow> bool \<Rightarrow> ('w hmon, unit) prog" where
  "check_and_alert E service new_state detail should_alert =
     bnd (clock (he_now E)) (\<lambda>now.
     bnd (gets (\<lambda>s. last_state (h_alerts s) service)) (\<lambda>old.
     bnd (gets (\<lambda>s. fst (decide (h_cooldown s) now service new_state should_alert (h_alerts s)))) (\<lambda>d.
     thn (modify (\<lambda>s. s\<lparr>h_alerts :=
            snd (decide (h_cooldown s) now service new_state should_alert (h_alerts s))\<rparr>))
    (let change = old_text old @ '' -> '' @ new_state in
     if d = Silent then ret () else
     thn (record_event E (health_event service new_state
            (if detail \<noteq> [] then detail else service @ '': '' @ change)))
    (if d = Notify then
       (let subject = service @ '' is '' @ new_state in
        thn (send_alert_email E subject
               (''Service: '' @ service @ [newline] @ ''State: '' @ change @ [newline] @ detail))
       (thn (send_alert_sms E (''[FastTAK] '' @ subject)) (ret ())))
     else if d = Recovered then
       record_event E (health_event service ''recovered'' (service @ '' recovered: '' @ change))
     else ret ())))))"

section \<open>Facts\<close>

lemma send_out_run [run_simps]:
  "send_out c f s = (fst (f (h_world s)), s\<lparr>h_world := snd (f (h_world s)), h_sent := h_sent s @ [c]\<rparr>)"
  by (simp add: send_out_def split: prod.splits)

lemma clock_run [run_simps]:
  "clock f s = (Inr (fst (f (h_world s))), s\<lparr>h_world := snd (f (h_world s))\<rparr>)"
  by (simp add: clock_def split: prod.splits)

text \<open>\<open>never_raises m\<close>: \<open>m\<close> returns from every state.\<close>

definition never_raises :: "('s, 'a) prog \<Rightarrow> bool" where
  "never_raises m \<longleftrightarrow> (\<forall>s. \<exists>x t. m s = (Inr x, t))"

named_theorems total_rules

lemma total_basic [total_rules]:
  "never_raises (ret x)" "never_raises (gets f)" "never_raises (modify g)" "never_raises (clock h)"
  by (simp_all add: never_raises_def run_simps)

lemma total_bnd [total_rules]: "never_raises m \<Longrightarrow> (\<And>x. never_raises (f x)) \<Longrightarrow> never_raises (bnd m f)"
proof -
  assume m: "never_raises m" and f: "\<And>x. never_raises (f x)"
  show ?thesis
    unfolding never_raises_def
  proof
    fix s
    obtain x t where "m s = (Inr x, t)" using m unfolding never_raises_def by blast
    then show "\<exists>y u. bnd m f s = (Inr y, u)" using f [of x] by (simp add: run_simps never_raises_def)
  qed
qed

lemma total_thn [total_rules]: "never_raises m \<Longrightarrow> never_raises k \<Longrightarrow> never_raises (thn m k)"
  by (simp add: thn_def total_bnd)

lemma total_catch [total_rules]: "(\<And>e. never_raises (h e)) \<Longrightarrow> never_raises (catch m h)"
  by (fastforce simp: never_raises_def run_simps split: prod.splits sum.splits)

lemma total_if [total_rules]: "never_raises m \<Longrightarrow> never_raises k \<Longrightarrow> never_raises (if b then m else k)"
  by simp

lemma total_case_option [total_rules]:
  "never_raises m \<Longrightarrow> (\<And>x. never_raises (f x)) \<Longrightarrow> never_raises (case_option m f z)"
  by (cases z) simp_all

lemma total_fold_prog [total_rules]:
  "(\<And>x acc. never_raises (f x acc)) \<Longrightarrow> never_raises (fold_prog f xs acc)"
  by (induction xs arbitrary: acc) (simp_all add: total_basic total_bnd)

lemma record_event_total [total_rules]: "never_raises (record_event E e)"
  unfolding record_event_def by (intro total_rules)

lemma send_email_total [total_rules]: "never_raises (send_alert_email E subject body)"
  unfolding send_alert_email_def Let_def by (intro total_rules)

lemma sms_ok_total [total_rules]: "never_raises (sms_ok E r)"
  unfolding sms_ok_def by (intro total_rules)

lemma send_sms_total [total_rules]: "never_raises (send_alert_sms E message)"
  unfolding send_alert_sms_def send_each_def note_failure_def by (intro total_rules)

section \<open>Runs of the engine\<close>

text \<open>A sequence of decisions, by any threads for any services at any clock readings, with the
  notifications it made: when and for which service.\<close>

inductive alert_run :: "real \<Rightarrow> alert_state \<Rightarrow> (real \<times> string) list \<Rightarrow> alert_state \<Rightarrow> bool" for cooldown where
  start: "alert_run cooldown a [] a"
| notified: "alert_run cooldown a ns b \<Longrightarrow> decide cooldown now service st should b = (Notify, c) \<Longrightarrow>
    alert_run cooldown a (ns @ [(now, service)]) c"
| other: "alert_run cooldown a ns b \<Longrightarrow> decide cooldown now service st should b = (d, c) \<Longrightarrow> d \<noteq> Notify \<Longrightarrow>
    alert_run cooldown a ns c"

lemma decide_Notify:
  assumes "decide cooldown now service st should a = (Notify, b)"
  shows "cooldown \<le> now - last_alert_time a service"
    and "last_alert_time b = (last_alert_time a)(service := now)"
  using assms by (auto simp: decide_def Let_def split: if_splits)

lemma decide_other:
  "decide cooldown now service st should a = (d, b) \<Longrightarrow> d \<noteq> Notify \<Longrightarrow>
   last_alert_time b = last_alert_time a"
  by (auto simp: decide_def Let_def split: if_splits)

lemma decide_state: "last_state (snd (decide cooldown now service st should a)) = (last_state a)(service \<mapsto> st)"
  by (simp add: decide_def Let_def)

definition times_of :: "string \<Rightarrow> (real \<times> string) list \<Rightarrow> real list" where
  "times_of service ns = map fst (filter (\<lambda>n. snd n = service) ns)"

lemma run_last:
  "alert_run cooldown a ns b \<Longrightarrow> times_of service ns \<noteq> [] \<Longrightarrow>
   last_alert_time b service = last (times_of service ns)"
  by (induction rule: alert_run.induct)
    (auto simp: times_of_def dest: decide_Notify(2) decide_other split: if_splits)

text \<open>Two notifications of a service are at least \<open>gap\<close> apart.\<close>

definition spaced :: "real \<Rightarrow> real list \<Rightarrow> bool" where
  "spaced gap ts \<longleftrightarrow> sorted_wrt (\<lambda>x y. gap \<le> y - x) ts"

lemma spaced_snoc:
  assumes "0 \<le> gap" and "spaced gap ts" and "ts \<noteq> [] \<Longrightarrow> gap \<le> x - last ts"
  shows "spaced gap (ts @ [x])"
proof -
  have "gap \<le> x - y" if y: "y \<in> set ts" for y
  proof (cases "y = last ts")
    case True
    with assms(3) y show ?thesis by force
  next
    case False
    from y obtain us vs where ts: "ts = us @ y # vs" by (meson split_list)
    with False have vs: "vs \<noteq> []" by auto
    then have "last ts \<in> set vs" using ts by simp
    with assms(2) ts have "gap \<le> last ts - y" by (simp add: spaced_def sorted_wrt_append)
    moreover have "gap \<le> x - last ts" using assms(3) ts by simp
    ultimately show ?thesis using assms(1) by simp
  qed
  with assms(2) show ?thesis by (simp add: spaced_def sorted_wrt_append)
qed

section \<open>Properties\<close>

text \<open>C15. The cooldown holds over every interleaving of polls: two notifications for one service
  are always at least the cooldown apart.\<close>

theorem notifications_spaced:
  assumes "alert_run cooldown a ns b" and "0 \<le> cooldown"
  shows "spaced cooldown (times_of service ns)"
  using assms
proof (induction rule: alert_run.induct)
  case (start a)
  show ?case by (simp add: times_of_def spaced_def)
next
  case (notified a ns b now svc st should c)
  show ?case
  proof (cases "svc = service")
    case True
    have "cooldown \<le> now - last (times_of service ns)" if "times_of service ns \<noteq> []"
      using decide_Notify(1) [OF notified.hyps(2)] run_last [OF notified.hyps(1) that] True by simp
    with notified have "spaced cooldown (times_of service ns @ [now])" by (intro spaced_snoc)
    with True show ?thesis by (simp add: times_of_def)
  qed (use notified in \<open>simp add: times_of_def\<close>)
qed simp

definition no_alerts :: alert_state where
  "no_alerts = \<lparr>last_state = Map.empty, last_alert_time = (\<lambda>_. 0)\<rparr>"

theorem notifications_spaced_witness:
  "spaced 300 (times_of ''disk'' [(1000, ''disk''), (1400, ''disk'')])"
proof -
  let ?d = "decide 300 :: real \<Rightarrow> _"
  let ?a = "snd (?d 1000 ''disk'' ''critical'' True no_alerts)"
  let ?b = "snd (?d 1100 ''disk'' ''ok'' True ?a)"
  have a: "alert_run 300 no_alerts ([] @ [(1000, ''disk'')]) ?a"
    by (rule alert_run.notified [OF alert_run.start, where st = "''critical''" and should = True])
      (simp add: decide_def Let_def no_alerts_def prod_eq_iff)
  have b: "alert_run 300 no_alerts ([] @ [(1000, ''disk'')]) ?b"
    by (rule alert_run.other [OF a, of 1100 "''disk''" "''ok''" True Recovered])
      (simp_all add: decide_def Let_def no_alerts_def prod_eq_iff)
  have "alert_run 300 no_alerts (([] @ [(1000, ''disk'')]) @ [(1400, ''disk'')])
      (snd (?d 1400 ''disk'' ''critical'' True ?b))"
    by (rule alert_run.notified [OF b, where st = "''critical''" and should = True])
      (simp add: decide_def Let_def no_alerts_def prod_eq_iff)
  from notifications_spaced [OF this, of "''disk''"] show ?thesis by simp
qed

text \<open>A condition that recurs after a recovery alerts again: whatever happened before, once a
  healthy poll of the service was seen and the cooldown is over, the next poll that warrants an
  alert notifies.\<close>

lemma recurrence_notifies:
  assumes "new_state \<noteq> ''ok''" and "cooldown \<le> now - last_alert_time (snd (decide cooldown t service ''ok'' b a)) service"
  shows "fst (decide cooldown now service new_state True (snd (decide cooldown t service ''ok'' b a))) = Notify"
  using assms decide_state [of cooldown t service "''ok''" b a]
  by (simp add: decide_def [of cooldown now] Let_def)

text \<open>The alert engine never raises, whatever the database, the mail server and the SMS provider do,
  so a failing notification cannot break a poll.\<close>

lemma check_and_alert_total:
  "\<exists>t. check_and_alert E service new_state detail should_alert s = (Inr (), t)"
proof -
  have "never_raises (check_and_alert E service new_state detail should_alert)"
    unfolding check_and_alert_def Let_def by (intro total_rules)
  then show ?thesis by (simp add: never_raises_def)
qed

lemma sms_ok_run:
  "sms_ok E r s = (Inr (case fst (sms_post E r (h_world s)) of Inl _ \<Rightarrow> False | Inr code \<Rightarrow> code < 400),
     s\<lparr>h_world := snd (sms_post E r (h_world s)), h_sent := h_sent s @ [Out_sms r]\<rparr>)"
  by (simp add: sms_ok_def run_simps split: sum.splits)

text \<open>The reference: what the provider says to each request, and the world after it.\<close>

primrec all_accepted :: "'w henv \<Rightarrow> sms_request list \<Rightarrow> 'w \<Rightarrow> bool" where
  "all_accepted E [] w = True"
| "all_accepted E (r # rs) w = (case sms_post E r w of (answer, w') \<Rightarrow>
     (case answer of Inl _ \<Rightarrow> False | Inr code \<Rightarrow> code < 400) \<and> all_accepted E rs w')"

lemma note_failure_run: "note_failure E r b s =
    (Inr ((case fst (sms_post E r (h_world s)) of Inl _ \<Rightarrow> False | Inr code \<Rightarrow> code < 400) \<and> b),
     s\<lparr>h_world := snd (sms_post E r (h_world s)), h_sent := h_sent s @ [Out_sms r]\<rparr>)"
  by (simp add: note_failure_def sms_ok_run run_simps)

lemma send_each_run:
  "\<exists>w. fold_prog (note_failure E) rs b s =
     (Inr (b \<and> all_accepted E rs (h_world s)), s\<lparr>h_world := w, h_sent := h_sent s @ map Out_sms rs\<rparr>)"
proof (induction rs arbitrary: b s)
  case (Cons r rs)
  obtain answer w where p: "sms_post E r (h_world s) = (answer, w)" by (cases "sms_post E r (h_world s)")
  let ?ok = "case answer of Inl _ \<Rightarrow> False | Inr code \<Rightarrow> code < 400"
  let ?s = "s\<lparr>h_world := w, h_sent := h_sent s @ [Out_sms r]\<rparr>"
  have "fold_prog (note_failure E) (r # rs) b s = fold_prog (note_failure E) rs (?ok \<and> b) ?s"
    by (simp add: bnd_run note_failure_run p)
  moreover obtain v where "fold_prog (note_failure E) rs (?ok \<and> b) ?s =
      (Inr ((?ok \<and> b) \<and> all_accepted E rs (h_world ?s)), ?s\<lparr>h_world := v, h_sent := h_sent ?s @ map Out_sms rs\<rparr>)"
    using Cons.IH [of "?ok \<and> b" ?s] by blast
  ultimately show ?case using p by (auto intro!: exI [of _ v])
next
  case Nil
  show ?case by (rule exI [of _ "h_world s"]) (simp add: run_simps)
qed

text \<open>A failed SMS does not stop the others: with a configured provider, one request goes out for
  every number, in order, whatever each of them returned; and success is reported exactly if the
  provider accepted every one.\<close>

lemma sms_reaches_every_number:
  assumes "sms_requests (he_cfg E) message = Some rs"
  shows "h_sent (snd (send_alert_sms E message s)) = h_sent s @ map Out_sms rs \<and>
    fst (send_alert_sms E message s) = Inr (all_accepted E rs (h_world s))"
  using send_each_run [of E rs True s] assms by (auto simp: send_alert_sms_def send_each_def)

text \<open>A provider that refuses the first number.\<close>

definition sms_env :: "nat henv" where
  "sms_env = \<lparr>he_cfg = default_settings\<lparr>sms_provider := ''brevo'', sms_to := ''1, 2''\<rparr>,
     he_show = (\<lambda>_. []), he_now = (\<lambda>n. (of_nat n, n)), he_iso_now = (\<lambda>n. ([], n)),
     insert_event = (\<lambda>_ n. (Inr (), n)), smtp_send = (\<lambda>_ n. (Inr (), n)),
     sms_post = (\<lambda>_ n. (Inr (if n = 0 then 500 else 201), Suc n))\<rparr>"

definition quiet_state :: "'w \<Rightarrow> 'w hmon" where
  "quiet_state w = \<lparr>h_world = w, h_cache = [], h_alerts = no_alerts, h_cooldown = 300, h_sent = []\<rparr>"

text \<open>An alert held back is not made up for: while the state stays the same, later polls are silent,
  however long it lasts.\<close>

lemma held_back_stays_silent:
  "last_state a service = Some st \<Longrightarrow> decide cooldown now service st should a = (Silent, a)"
  by (simp add: decide_def Let_def fun_upd_idem)

end
