(* ===== verification/DateTime.thy ===== *)
theory DateTime
  imports PyStr "HOL-Library.List_Lexorder" "HOL-Library.Char_ord" "HOL-Library.Product_Lexorder"
begin

text \<open>
  Python's \<open>datetime\<close> in UTC: its fields, its order, the seconds since 1970 it stands for (the
  proleptic Gregorian computation of the standard library), and the stamp format
  \<open>%Y%m%dT%H%M%SZ\<close> of the backup names.
\<close>

section \<open>Fields and order\<close>

datatype datetime = DateTime (dt_year: int) (dt_month: int) (dt_day: int)
  (dt_hour: int) (dt_minute: int) (dt_second: int) (dt_micro: int)

definition fields :: "datetime \<Rightarrow> int list" where
  "fields t = [dt_year t, dt_month t, dt_day t, dt_hour t, dt_minute t, dt_second t, dt_micro t]"

lemma fields_inject [simp]: "fields a = fields b \<longleftrightarrow> a = b"
  by (cases a; cases b) (simp add: fields_def)

instantiation datetime :: linorder
begin

definition less_eq_datetime :: "datetime \<Rightarrow> datetime \<Rightarrow> bool" where
  "less_eq_datetime a b = (fields a \<le> fields b)"

definition less_datetime :: "datetime \<Rightarrow> datetime \<Rightarrow> bool" where
  "less_datetime a b = (fields a < fields b)"

instance
  by standard (auto simp: less_eq_datetime_def less_datetime_def less_le)

end

section \<open>The calendar\<close>

definition is_leap :: "int \<Rightarrow> bool" where
  "is_leap y \<longleftrightarrow> y mod 4 = 0 \<and> (y mod 100 \<noteq> 0 \<or> y mod 400 = 0)"

definition days_in_month :: "int \<Rightarrow> int \<Rightarrow> int" where
  "days_in_month y m =
     (if m = 2 then (if is_leap y then 29 else 28) else if m \<in> {4, 6, 9, 11} then 30 else 31)"

definition valid_datetime :: "datetime \<Rightarrow> bool" where
  "valid_datetime t \<longleftrightarrow> 1 \<le> dt_year t \<and> dt_year t \<le> 9999 \<and> 1 \<le> dt_month t \<and> dt_month t \<le> 12 \<and>
     1 \<le> dt_day t \<and> dt_day t \<le> days_in_month (dt_year t) (dt_month t) \<and>
     0 \<le> dt_hour t \<and> dt_hour t \<le> 23 \<and> 0 \<le> dt_minute t \<and> dt_minute t \<le> 59 \<and>
     0 \<le> dt_second t \<and> dt_second t \<le> 59 \<and> 0 \<le> dt_micro t \<and> dt_micro t \<le> 999999"

definition days_before_year :: "int \<Rightarrow> int" where
  "days_before_year y = (y - 1) * 365 + (y - 1) div 4 - (y - 1) div 100 + (y - 1) div 400"

definition days_before_month :: "int \<Rightarrow> int \<Rightarrow> int" where
  "days_before_month y m =
     [0, 31, 59, 90, 120, 151, 181, 212, 243, 273, 304, 334] ! nat (m - 1) + (if 2 < m \<and> is_leap y then 1 else 0)"

definition ordinal :: "datetime \<Rightarrow> int" where
  "ordinal t = days_before_year (dt_year t) + days_before_month (dt_year t) (dt_month t) + dt_day t"

text \<open>Microseconds since 1970-01-01T00:00:00Z, whose ordinal is 719163.\<close>

definition micros :: "datetime \<Rightarrow> int" where
  "micros t = ((((ordinal t - 719163) * 24 + dt_hour t) * 60 + dt_minute t) * 60 + dt_second t) * 1000000 + dt_micro t"

definition total_seconds :: "datetime \<Rightarrow> datetime \<Rightarrow> real" where
  \<comment> \<open>\<open>(a - b).total_seconds()\<close>\<close>
  "total_seconds a b = real_of_int (micros a - micros b) / 1000000"

lemma epoch: "micros (DateTime 1970 1 1 0 0 0 0) = 0"
  by code_simp

lemma div_step:
  fixes y n :: int
  assumes "1 < n"
  shows "y div n = (y - 1) div n + (if y mod n = 0 then 1 else 0)"
proof -
  define q r where "q = (y - 1) div n" and "r = (y - 1) mod n"
  then have y: "y = n * q + (r + 1)" and r: "0 \<le> r" "r < n" using assms by simp_all
  show ?thesis
  proof (cases "r + 1 < n")
    case True
    then have "y div n = q" "y mod n = r + 1"
      using r by (auto intro: int_div_pos_eq int_mod_pos_eq simp: y)
    with r show ?thesis by (simp add: q_def)
  next
    case False
    with r have "y = n * (q + 1)" using y by (simp add: distrib_left)
    then have "y div n = q + 1" "y mod n = 0" using assms by simp_all
    then show ?thesis by (simp add: q_def)
  qed
qed

lemma leap_divides:
  fixes y :: int
  shows "y mod 100 = 0 \<Longrightarrow> y mod 4 = 0" and "y mod 400 = 0 \<Longrightarrow> y mod 100 = 0"
  using mod_mod_cancel [of 4 100 y] mod_mod_cancel [of 100 400 y] by simp_all

lemma leap_count:
  fixes a b c :: int
  assumes "p100 \<Longrightarrow> p4" and "p400 \<Longrightarrow> p100"
  shows "(a + (if p4 then 1 else 0)) - (b + (if p100 then 1 else 0)) + (c + (if p400 then 1 else 0)) =
    a - b + c + (if p4 \<and> (\<not> p100 \<or> p400) then 1 else 0)"
  using assms by (cases p4; cases p100; cases p400) simp_all

lemma days_before_year_Suc:
  "days_before_year (y + 1) = days_before_year y + (if is_leap y then 366 else 365)"
proof -
  have "y div 4 - y div 100 + y div 400 =
      (y - 1) div 4 - (y - 1) div 100 + (y - 1) div 400 + (if is_leap y then 1 else 0)"
    unfolding div_step [of 4 y, simplified] div_step [of 100 y, simplified] div_step [of 400 y, simplified]
      is_leap_def
    by (rule leap_count) (fact leap_divides)+
  then show ?thesis by (cases "is_leap y") (simp_all add: days_before_year_def algebra_simps)
qed

lemma days_before_year_mono: "a < b \<Longrightarrow> days_before_year a + (if is_leap a then 366 else 365) \<le> days_before_year b"
proof (induction "nat (b - a)" arbitrary: b)
  case (Suc n)
  show ?case
  proof (cases "b = a + 1")
    case True
    then show ?thesis by (simp add: days_before_year_Suc)
  next
    case False
    then have "days_before_year a + (if is_leap a then 366 else 365) \<le> days_before_year (b - 1)"
      using Suc by (intro Suc.hyps) auto
    also have "\<dots> \<le> days_before_year b" using days_before_year_Suc [of "b - 1"] by (simp split: if_splits)
    finally show ?thesis .
  qed
qed simp


text \<open>Within a year the ordinals follow the months and days, so the seconds follow the order of the
  fields: the later of two valid times is the one with the larger fields.\<close>

lemma month_list:
  fixes m :: int
  assumes "1 \<le> m" and "m \<le> 12"
  shows "m \<in> {1, 2, 3, 4, 5, 6, 7, 8, 9, 10, 11, 12}"
  using assms by simp arith

lemma days_before_month_Suc:
  "1 \<le> m \<Longrightarrow> m \<le> 11 \<Longrightarrow> days_before_month y (m + 1) = days_before_month y m + days_in_month y m"
  using month_list [of m] by (auto simp: days_before_month_def days_in_month_def)

lemma days_before_month_mono:
  assumes "1 \<le> a" and "a < b" and "b \<le> 12"
  shows "days_before_month y a + days_in_month y a \<le> days_before_month y b"
  using assms
proof (induction "nat (b - a)" arbitrary: b)
  case (Suc n)
  show ?case
  proof (cases "b = a + 1")
    case True
    then show ?thesis using Suc.prems days_before_month_Suc [of a y] by simp
  next
    case False
    then have "days_before_month y a + days_in_month y a \<le> days_before_month y (b - 1)"
      using Suc.prems Suc.hyps(2) by (intro Suc.hyps(1)) auto
    also have "\<dots> \<le> days_before_month y b"
      using days_before_month_Suc [of "b - 1" y] Suc.prems by (simp add: days_in_month_def split: if_splits)
    finally show ?thesis .
  qed
qed simp

lemma day_of_year:
  assumes "1 \<le> m" and "m \<le> 12" and "1 \<le> d" and "d \<le> days_in_month y m"
  shows "1 \<le> days_before_month y m + d" and "days_before_month y m + d \<le> (if is_leap y then 366 else 365)"
  using assms month_list [of m] by (auto simp: days_before_month_def days_in_month_def split: if_splits)

lemma ordinal_less:
  assumes "valid_datetime a" and "valid_datetime b"
    and "[dt_year a, dt_month a, dt_day a] < [dt_year b, dt_month b, dt_day b]"
  shows "ordinal a < ordinal b"
proof -
  note v = assms(1,2) [unfolded valid_datetime_def]
  consider (year) "dt_year a < dt_year b" | (month) "dt_year a = dt_year b" "dt_month a < dt_month b"
    | (day) "dt_year a = dt_year b" "dt_month a = dt_month b" "dt_day a < dt_day b"
    using assms(3) by auto
  then show ?thesis
  proof cases
    case year
    with v show ?thesis
      using days_before_year_mono [OF year] day_of_year [of "dt_month a" "dt_day a" "dt_year a"]
        day_of_year [of "dt_month b" "dt_day b" "dt_year b"] by (simp add: ordinal_def)
  next
    case month
    with v show ?thesis
      using days_before_month_mono [of "dt_month a" "dt_month b" "dt_year b"] by (simp add: ordinal_def)
  qed (simp add: ordinal_def)
qed

lemma micros_less:
  assumes "valid_datetime a" and "valid_datetime b" and "a < b"
  shows "micros a < micros b"
proof -
  have "[dt_year a, dt_month a, dt_day a] < [dt_year b, dt_month b, dt_day b] \<or>
      ordinal a = ordinal b \<and> [dt_hour a, dt_minute a, dt_second a, dt_micro a] <
        [dt_hour b, dt_minute b, dt_second b, dt_micro b]"
    using assms(3) by (auto simp: less_datetime_def fields_def ordinal_def)
  then show ?thesis
  proof
    assume "[dt_year a, dt_month a, dt_day a] < [dt_year b, dt_month b, dt_day b]"
    with assms(1,2) have "ordinal a + 1 \<le> ordinal b" using ordinal_less by force
    with assms(1,2) show ?thesis by (simp add: micros_def valid_datetime_def)
  qed (use assms(1,2) in \<open>auto simp: micros_def valid_datetime_def\<close>)
qed

lemma micros_mono: "valid_datetime a \<Longrightarrow> valid_datetime b \<Longrightarrow> a \<le> b \<Longrightarrow> micros a \<le> micros b"
  using micros_less [of a b] by (cases "a = b") (auto simp: less_le)

section \<open>The stamp of a backup\<close>

text \<open>\<open>strftime("%Y%m%dT%H%M%SZ")\<close>, for the four-digit years the clock gives, and the \<open>strptime\<close>
  of the same format on a string that has its shape.\<close>

definition pad :: "nat \<Rightarrow> int \<Rightarrow> string" where
  "pad w n = (let ds = nat_digits (nat n) in replicate (w - length ds) (CHR ''0'') @ ds)"

definition stamp :: "datetime \<Rightarrow> string" where
  "stamp t = pad 4 (dt_year t) @ pad 2 (dt_month t) @ pad 2 (dt_day t) @ ''T'' @
     pad 2 (dt_hour t) @ pad 2 (dt_minute t) @ pad 2 (dt_second t) @ ''Z''"

definition stamp_shape :: "string \<Rightarrow> bool" where
  \<comment> \<open>\<open>\d{8}T\d{6}Z\<close>\<close>
  "stamp_shape s \<longleftrightarrow> length s = 16 \<and> list_all is_digit (take 8 s) \<and> s ! 8 = CHR ''T'' \<and>
     list_all is_digit (take 6 (drop 9 s)) \<and> s ! 15 = CHR ''Z''"

definition number :: "nat \<Rightarrow> nat \<Rightarrow> string \<Rightarrow> int" where
  "number i w s = (case parse_digits 0 False (take w (drop i s)) of None \<Rightarrow> 0 | Some n \<Rightarrow> n)"

definition parse_stamp :: "string \<Rightarrow> datetime option" where
  "parse_stamp s =
     (if \<not> stamp_shape s then None else
      let t = DateTime (number 0 4 s) (number 4 2 s) (number 6 2 s) (number 9 2 s) (number 11 2 s) (number 13 2 s) 0 in
      if valid_datetime t then Some t else None)"

lemma length_nat_digits: "0 < w \<Longrightarrow> n < 10 ^ w \<Longrightarrow> length (nat_digits n) \<le> w"
proof (induction n arbitrary: w rule: nat_digits.induct)
  case (1 n)
  show ?case
  proof (cases "n < 10")
    case True
    with 1 show ?thesis by (simp add: nat_digits.simps [of n])
  next
    case False
    then obtain v where w: "w = Suc v" "0 < v" using "1.prems" by (cases w; cases "w - 1") auto
    with False "1.prems" have "length (nat_digits (n div 10)) \<le> v" by (intro "1.IH") auto
    with False w show ?thesis by (simp add: nat_digits.simps [of n])
  qed
qed

lemma length_pad: "0 < w \<Longrightarrow> 0 \<le> n \<Longrightarrow> n < 10 ^ w \<Longrightarrow> length (pad w n) = w"
  using length_nat_digits [of w "nat n"] by (simp add: pad_def Let_def nat_less_iff)

lemma parse_digits_zeros: "\<exists>q. parse_digits 0 p (replicate k (CHR ''0'') @ s) = parse_digits 0 q s"
proof (induction k arbitrary: p)
  case (Suc k)
  from Suc.IH [of True] show ?case by (simp add: is_digit_def codepoint_def)
qed auto

lemma parse_pad: "0 \<le> n \<Longrightarrow> parse_digits 0 False (pad w n) = Some n"
  using parse_digits_zeros [of False "w - length (nat_digits (nat n))" "nat_digits (nat n)"]
    parse_digits_append [of 0 _ "nat n" "[]"]
  by (auto simp: pad_def Let_def)

lemma number_pad:
  assumes "length a = i" and "length (pad w n) = w" and "0 \<le> n"
  shows "number i w (a @ pad w n @ b) = n"
  using assms by (simp add: number_def parse_pad)

lemma pad_digits: "list_all is_digit (pad w n)"
  using nat_digits_digits [of _ "nat n"] by (auto simp: pad_def Let_def list_all_iff is_digit_def codepoint_def)

lemma parse_stamp_stamp:
  assumes "valid_datetime t" and "dt_micro t = 0"
  shows "parse_stamp (stamp t) = Some t"
proof -
  let ?s = "stamp t"
  obtain y mo d h mi se where t: "t = DateTime y mo d h mi se 0" using assms(2) by (cases t) auto
  have "d < 100" "mo < 100" using assms(1) t by (auto simp: valid_datetime_def days_in_month_def split: if_splits)
  with assms(1) have len: "length (pad 4 y) = 4" "length (pad 2 mo) = 2" "length (pad 2 d) = 2"
    "length (pad 2 h) = 2" "length (pad 2 mi) = 2" "length (pad 2 se) = 2"
    by (auto simp: t valid_datetime_def intro!: length_pad)
  have pos: "0 \<le> y" "0 \<le> mo" "0 \<le> d" "0 \<le> h" "0 \<le> mi" "0 \<le> se"
    using assms(1) by (auto simp: t valid_datetime_def)
  have s: "?s = pad 4 y @ pad 2 mo @ pad 2 d @ ''T'' @ pad 2 h @ pad 2 mi @ pad 2 se @ ''Z''"
    by (simp add: stamp_def t)
  have "stamp_shape ?s"
    unfolding s stamp_shape_def using len by (simp add: pad_digits nth_append)
  moreover have "number 0 4 ?s = y" using number_pad [of "[]" 0 4 y] len pos unfolding s by simp
  moreover have "number 4 2 ?s = mo" using number_pad [of "pad 4 y" 4 2 mo] len pos unfolding s by simp
  moreover have "number 6 2 ?s = d" using number_pad [of "pad 4 y @ pad 2 mo" 6 2 d] len pos unfolding s by simp
  moreover have "number 9 2 ?s = h"
    using number_pad [of "pad 4 y @ pad 2 mo @ pad 2 d @ ''T''" 9 2 h] len pos unfolding s by simp
  moreover have "number 11 2 ?s = mi"
    using number_pad [of "pad 4 y @ pad 2 mo @ pad 2 d @ ''T'' @ pad 2 h" 11 2 mi] len pos unfolding s by simp
  moreover have "number 13 2 ?s = se"
    using number_pad [of "pad 4 y @ pad 2 mo @ pad 2 d @ ''T'' @ pad 2 h @ pad 2 mi" 13 2 se] len pos unfolding s by simp
  ultimately show ?thesis using assms(1) t by (simp add: parse_stamp_def)
qed

end
