(* ===== verification/BackupStore.thy ===== *)
theory BackupStore
  imports AuditLog Config DateTime
begin

text \<open>
  The backup directory and what the backup module keeps in it: \<open>monitor/app/backup/config.py\<close>,
  \<open>state.py\<close>, \<open>keys.py\<close> and \<open>retention.py\<close>.

  The directory is part of the state, as a dictionary from file names to files. The operating
  system is a parameter: every file operation may fail with an exception the world chooses, the
  programs that are run give an exit code and output, and the lock may be held by another
  process. The text of a JSON file is given by its value.
\<close>

section \<open>Outside world and state\<close>

datatype content = Bytes string | Json json

record bfile =
  f_content :: content
  f_mtime :: real

datatype fs_op =
    Fs_mkdir
  | Fs_chmod
  | Fs_create string
  | Fs_write string
  | Fs_read string
  | Fs_replace string string
  | Fs_unlink string
  | Fs_stat string
  | Fs_lock
  | Fs_mkdtemp

datatype lock_reply = Lock_granted | Lock_held | Lock_error string

record dsn =
  dbname :: string
  host :: string
  db_user :: string
  db_password :: string
  port :: int

record proc_result =
  pr_code :: int
  pr_out :: string
  pr_err :: string

text \<open>The programs: each as its arguments.\<close>

datatype proc =
    Age_keygen
  | Pg_dump dsn
  | Tar string "string list"          \<comment> \<open>\<open>tar -c -C DIR NAMES\<close>\<close>

text \<open>The row of \<open>SHOW server_version\<close>: none, text, or bytes (from a \<open>SQL_ASCII\<close> database such as \<open>cot\<close>).\<close>

datatype version_row = No_row | Row_text string | Row_bytes string

record archive_result =
  ar_tar :: int
  ar_gzip :: int
  ar_age :: proc_result

record 'w benv =
  be_cfg :: settings
  environ :: "string \<Rightarrow> string option"
  be_now :: "'w \<Rightarrow> datetime \<times> 'w"
  be_time :: "'w \<Rightarrow> real \<times> 'w"
  be_uuid_hex :: "'w \<Rightarrow> string \<times> 'w"
  fs_fault :: "fs_op \<Rightarrow> 'w \<Rightarrow> exn option \<times> 'w"
  flock :: "'w \<Rightarrow> lock_reply \<times> 'w"
  run_proc :: "proc \<Rightarrow> 'w \<Rightarrow> (exn + proc_result) \<times> 'w"
  run_archive :: "(string \<times> content) list \<Rightarrow> string \<Rightarrow> 'w \<Rightarrow> (exn + archive_result) \<times> 'w"
  server_version :: "dsn \<Rightarrow> 'w \<Rightarrow> (exn + version_row) \<times> 'w"
  be_insert_event :: "event \<Rightarrow> 'w \<Rightarrow> (exn + unit) \<times> 'w"
  hostname :: "'w \<Rightarrow> string"
  host_files :: "string \<Rightarrow> 'w \<Rightarrow> exn + string"
  host_exists :: "string \<Rightarrow> 'w \<Rightarrow> bool"
  sha256_hex :: "string \<Rightarrow> string"
  json_text :: "json \<Rightarrow> string"
  utf8_ok :: "string \<Rightarrow> bool"
  isoformat :: "datetime \<Rightarrow> string"

record 'w bmon =
  b_world :: 'w
  b_files :: "(string \<times> bfile) list"
  b_staging :: "(string \<times> (string \<times> content) list) list"
  b_events :: "event list"

definition btick :: "('w \<Rightarrow> 'a \<times> 'w) \<Rightarrow> ('w bmon, 'a) prog" where
  "btick f = (\<lambda>s. case f (b_world s) of (r, w) \<Rightarrow> (Inr r, s\<lparr>b_world := w\<rparr>))"

definition blook :: "('w \<Rightarrow> 'a) \<Rightarrow> ('w bmon, 'a) prog" where
  "blook f = gets (\<lambda>s. f (b_world s))"

definition file_not_found :: exn where
  "file_not_found = OtherError ''FileNotFoundError'' ''No such file or directory''"

definition file_op :: "'w benv \<Rightarrow> fs_op \<Rightarrow> ('w bmon, unit) prog" where
  "file_op E op = bnd (btick (fs_fault E op)) (\<lambda>f. case f of None \<Rightarrow> ret () | Some e \<Rightarrow> raise e)"

definition file_text :: "'w benv \<Rightarrow> content \<Rightarrow> string" where
  "file_text E c = (case c of Bytes b \<Rightarrow> b | Json j \<Rightarrow> json_text E j)"

definition exists_file :: "string \<Rightarrow> ('w bmon, bool) prog" where
  "exists_file name = gets (\<lambda>s. has_key (b_files s) name)"

text \<open>\<open>open(name, "w")\<close> truncates or creates the file, then its contents are written.\<close>

definition put_file :: "'w benv \<Rightarrow> string \<Rightarrow> content \<Rightarrow> ('w bmon, unit) prog" where
  "put_file E name c =
     bnd (btick (be_time E)) (\<lambda>now. modify (\<lambda>s. s\<lparr>b_files := dict_set name \<lparr>f_content = c, f_mtime = now\<rparr> (b_files s)\<rparr>))"

definition write_file :: "'w benv \<Rightarrow> string \<Rightarrow> content \<Rightarrow> ('w bmon, unit) prog" where
  "write_file E name c =
     thn (file_op E (Fs_create name)) (thn (put_file E name (Bytes []))
    (thn (file_op E (Fs_write name)) (put_file E name c)))"

definition read_content :: "'w benv \<Rightarrow> string \<Rightarrow> ('w bmon, content) prog" where
  "read_content E name =
     thn (file_op E (Fs_read name))
    (bnd (gets (\<lambda>s. map_of (b_files s) name)) (\<lambda>f. case f of
        None \<Rightarrow> raise file_not_found
      | Some f \<Rightarrow> ret (f_content f)))"

definition unlink :: "'w benv \<Rightarrow> string \<Rightarrow> ('w bmon, unit) prog" where
  "unlink E name =
     thn (file_op E (Fs_unlink name))
    (bnd (exists_file name) (\<lambda>there.
     if there then modify (\<lambda>s. s\<lparr>b_files := dict_pop name (b_files s)\<rparr>) else raise file_not_found))"

text \<open>\<open>os.replace\<close>: one step, with the old file's content and time.\<close>

definition replace_file :: "'w benv \<Rightarrow> string \<Rightarrow> string \<Rightarrow> ('w bmon, unit) prog" where
  "replace_file E src dst =
     thn (file_op E (Fs_replace src dst))
    (bnd (gets (\<lambda>s. map_of (b_files s) src)) (\<lambda>f. case f of
        None \<Rightarrow> raise file_not_found
      | Some f \<Rightarrow> modify (\<lambda>s. s\<lparr>b_files := dict_set dst f (dict_pop src (b_files s))\<rparr>)))"

text \<open>\<open>except FileNotFoundError: pass\<close>.\<close>

definition if_missing :: "('s, 'a) prog \<Rightarrow> ('s, 'a) prog \<Rightarrow> ('s, 'a) prog" where
  "if_missing m h = catch m (\<lambda>e. if type_name e = ''FileNotFoundError'' then h else raise e)"

section \<open>Configuration\<close>

definition env_or :: "'w benv \<Rightarrow> string \<Rightarrow> string \<Rightarrow> string" where
  "env_or E k dflt = (case environ E k of None \<Rightarrow> dflt | Some v \<Rightarrow> v)"

text \<open>The exception's text holds the value's \<open>repr\<close>; the quotes of a plain value are written.\<close>

definition retention_keep :: "'w benv \<Rightarrow> exn + int" where
  "retention_keep E =
     (let raw = env_or E ''BACKUP_RETENTION_KEEP'' ''14'' in
      case parse_int raw of
        None \<Rightarrow> Inl (ValueError (''BACKUP_RETENTION_KEEP must be an int, got '' @ in_quotes raw))
      | Some v \<Rightarrow>
          if v < 1 then Inl (ValueError (''BACKUP_RETENTION_KEEP must be >= 1, got '' @ str_of_int v)) else Inr v)"

definition fasttak_version :: "'w benv \<Rightarrow> string" where
  "fasttak_version E = env_or E ''FASTTAK_VERSION'' ''dev''"

definition fasttak_commit :: "'w benv \<Rightarrow> string" where
  "fasttak_commit E = env_or E ''FASTTAK_COMMIT'' ''unknown''"

section \<open>The state file\<close>

definition state_name :: string where
  "state_name = ''.state.json''"

definition state_temp :: string where
  \<comment> \<open>the name \<open>mkstemp\<close> makes up from this prefix\<close>
  "state_temp = ''.state.json.tmp''"

definition state_defaults :: jobj where
  "state_defaults = [(''key_downloaded_at'', J_null), (''last_run'', J_null)]"

text \<open>\<open>{**DEFAULTS, **loaded}\<close>; a value that is no dictionary is a \<open>TypeError\<close>.\<close>

definition merged_defaults :: "json \<Rightarrow> exn + jobj" where
  "merged_defaults j = (case j of
     J_obj d \<Rightarrow> Inr (fold (\<lambda>(k, v). dict_set k v) d state_defaults)
   | _ \<Rightarrow> Inl TypeError)"

definition read_state :: "'w benv \<Rightarrow> ('w bmon, jobj) prog" where
  "read_state E =
     bnd (exists_file state_name) (\<lambda>there.
     if \<not> there then ret state_defaults else
     bnd (catch (bnd (read_content E state_name) (\<lambda>c. ret (Some c)))
            (\<lambda>e. if is_os_error e then ret None else raise e)) (\<lambda>c. case c of
        None \<Rightarrow> ret state_defaults
      | Some (Json j) \<Rightarrow> of_sum (merged_defaults j)
      | Some (Bytes b) \<Rightarrow>
          if utf8_ok E b then ret state_defaults else raise (OtherError ''UnicodeDecodeError'' ''utf-8'')))"

definition write_state :: "'w benv \<Rightarrow> jobj \<Rightarrow> ('w bmon, unit) prog" where
  "write_state E payload =
     thn (file_op E Fs_mkdir)
    (thn (file_op E (Fs_create state_temp))
    (thn (put_file E state_temp (Bytes []))
    (catch (thn (file_op E (Fs_write state_temp))
           (thn (put_file E state_temp (Json (J_obj payload)))
                (replace_file E state_temp state_name)))
           (\<lambda>e. thn (if_missing (unlink E state_temp) (ret ())) (raise e)))))"

definition mark_key_downloaded :: "'w benv \<Rightarrow> ('w bmon, unit) prog" where
  "mark_key_downloaded E =
     bnd (read_state E) (\<lambda>current.
     bnd (btick (be_now E)) (\<lambda>now.
     write_state E (dict_set ''key_downloaded_at'' (J_str (isoformat E now)) current)))"

definition write_last_run :: "'w benv \<Rightarrow> json \<Rightarrow> ('w bmon, unit) prog" where
  "write_last_run E last_run =
     bnd (read_state E) (\<lambda>current. write_state E (dict_set ''last_run'' last_run current))"

section \<open>The age identity\<close>

definition identity_name :: string where
  "identity_name = ''.age-identity''"

definition read_identity :: "'w benv \<Rightarrow> ('w bmon, content option) prog" where
  "read_identity E =
     bnd (exists_file identity_name) (\<lambda>there.
     if \<not> there then ret None else bnd (read_content E identity_name) (\<lambda>c. ret (Some c)))"

text \<open>\<open>age-keygen -o\<close> writes the file unless it fails; the umask is part of the program's run.\<close>

text \<open>\<open>ensure_backup_dir\<close>: the directory, with mode 0700.\<close>

definition ensure_backup_dir :: "'w benv \<Rightarrow> ('w bmon, unit) prog" where
  "ensure_backup_dir E = thn (file_op E Fs_mkdir) (file_op E Fs_chmod)"

definition generate_identity :: "'w benv \<Rightarrow> ('w bmon, unit) prog" where
  "generate_identity E =
     thn (file_op E Fs_mkdir)
    (bnd (bnd (btick (run_proc E Age_keygen)) of_sum) (\<lambda>p.
     if pr_code p \<noteq> 0 then raise (RuntimeError (''age-keygen failed: '' @ strip (pr_err p)))
     else thn (put_file E identity_name (Bytes (pr_out p))) (file_op E Fs_chmod)))"

definition identity_line :: "string \<Rightarrow> string \<times> string \<Rightarrow> string \<times> string" where
  "identity_line line acc =
     (if startswith line ''AGE-SECRET-KEY-'' then (strip line, snd acc)
      else if startswith line ''# public key:''
      then (fst acc, case split_once (CHR '':'') line of _ # v # _ \<Rightarrow> strip v | _ \<Rightarrow> [])
      else acc)"

definition parse_identity :: "string \<Rightarrow> exn + string \<times> string" where
  "parse_identity text =
     (let (identity, recipient) = fold identity_line (splitlines text) ([], []) in
      if identity = [] \<or> recipient = []
      then Inl (RuntimeError (''identity file '' @ identity_name @ '' is malformed''))
      else Inr (identity, recipient))"

definition load_or_create :: "'w benv \<Rightarrow> ('w bmon, string \<times> string) prog" where
  "load_or_create E =
     bnd (exists_file identity_name) (\<lambda>there.
     thn (if there then ret () else generate_identity E)
    (bnd (read_content E identity_name) (\<lambda>c. of_sum (parse_identity (file_text E c)))))"

section \<open>Retention\<close>

definition backup_prefix :: string where
  "backup_prefix = ''fasttak-backup-''"

text \<open>\<open>glob("fasttak-backup-*.age")\<close>, then \<open>_BACKUP_NAME\<close>: a stamp, a hyphen, at least one character
  that is no newline, and the suffix.\<close>

definition globbed :: "string \<Rightarrow> string \<Rightarrow> bool" where
  "globbed suffix name \<longleftrightarrow> length backup_prefix + length suffix \<le> length name \<and>
     startswith name backup_prefix \<and> endswith name suffix"

definition taken_at :: "string \<Rightarrow> datetime option" where
  "taken_at name =
     (let rest = drop (length backup_prefix) name in
      if globbed ''.age'' name \<and> 21 < length rest \<and> rest ! 16 = CHR ''-'' \<and>
         newline \<notin> set (take (length rest - 21) (drop 17 rest))
      then parse_stamp (take 16 rest) else None)"

definition stamped_names :: "string list \<Rightarrow> (datetime \<times> string) list" where
  "stamped_names names =
     rev (sort (List.map_filter (\<lambda>n. map_option (\<lambda>t. (t, n)) (taken_at n)) names))"

definition stamped_backups :: "('w bmon, (datetime \<times> string) list) prog" where
  "stamped_backups = gets (\<lambda>s. stamped_names (map fst (b_files s)))"

definition default_partial_age :: int where
  "default_partial_age = 6 * 3600"

definition partial_reap_age :: "'w benv \<Rightarrow> int" where
  "partial_reap_age E =
     (case environ E ''BACKUP_PARTIAL_REAP_AGE_SECONDS'' of
        None \<Rightarrow> default_partial_age
      | Some raw \<Rightarrow> if raw = [] then default_partial_age else
          (case parse_int raw of None \<Rightarrow> default_partial_age | Some n \<Rightarrow> max 60 n))"

definition reap_partial :: "'w benv \<Rightarrow> int \<Rightarrow> real \<Rightarrow> string \<Rightarrow> ('w bmon, unit) prog" where
  "reap_partial E max_age now name =
     if_missing
       (thn (file_op E (Fs_stat name))
       (bnd (gets (\<lambda>s. map_of (b_files s) name)) (\<lambda>f. case f of
           None \<Rightarrow> raise file_not_found
         | Some f \<Rightarrow> if real_of_int max_age < now - f_mtime f then unlink E name else ret ())))
       (ret ())"

definition reap_partials :: "'w benv \<Rightarrow> ('w bmon, unit) prog" where
  "reap_partials E =
     bnd (btick (be_time E)) (\<lambda>now.
     bnd (gets (\<lambda>s. filter (globbed ''.partial'') (map fst (b_files s)))) (\<lambda>names.
     for_each names (reap_partial E (partial_reap_age E) now)))"

text \<open>\<open>xs[n:]\<close>, where a negative \<open>n\<close> counts from the end.\<close>

definition slice_from :: "int \<Rightarrow> 'a list \<Rightarrow> 'a list" where
  "slice_from n xs = (if 0 \<le> n then drop (nat n) xs else drop (length xs - nat (- n)) xs)"

definition sidecar :: "string \<Rightarrow> string" where
  "sidecar name = name @ ''.sha256''"

definition prune_one :: "'w benv \<Rightarrow> string \<Rightarrow> string list \<Rightarrow> ('w bmon, string list) prog" where
  "prune_one E name deleted =
     bnd (if_missing (thn (unlink E name) (ret (deleted @ [name]))) (ret deleted)) (\<lambda>deleted.
     thn (if_missing (unlink E (sidecar name)) (ret ()))
         (ret deleted))"

definition prune :: "'w benv \<Rightarrow> int \<Rightarrow> ('w bmon, string list) prog" where
  "prune E keep =
     thn (reap_partials E)
    (bnd stamped_backups (\<lambda>backups.
     fold_prog (prune_one E) (map snd (slice_from keep backups)) []))"

end
