(* ===== verification/BackupRun.thy ===== *)
theory BackupRun
  imports BackupStore
begin

text \<open>
  \<open>monitor/app/backup/manifest.py\<close> and \<open>runner.py\<close>: one backup from the lock to the retention. The
  staging directories are part of the state. The em dash of one message lies outside the modelled
  code points and is written \<open>--\<close>.
\<close>

section \<open>Manifest\<close>

definition components :: "string list" where
  "components = [''postgres/cot.sql'', ''postgres/lldap.sql'', ''postgres/nodered.sql'', ''postgres/fastak.sql'',
     ''tak-certs.tar'', ''tak-config.tar'', ''nodered-data.tar'', ''env'']"

definition build_manifest :: "'w benv \<Rightarrow> datetime \<Rightarrow> string \<Rightarrow> jobj \<Rightarrow> jobj" where
  "build_manifest E created_at hn versions =
     [(''schema_version'', J_int 1),
      (''fasttak_version'', J_str (fasttak_version E)),
      (''git_commit'', J_str (fasttak_commit E)),
      (''created_at'', J_str (isoformat E created_at)),
      (''producer_hostname'', J_str hn),
      (''postgres_versions'', J_obj versions),
      (''components'', J_list (map J_str components))]"

definition query_version :: "'w benv \<Rightarrow> dsn \<Rightarrow> ('w bmon, string) prog" where
  "query_version E db =
     bnd (bnd (btick (server_version E db)) of_sum) (\<lambda>row.
     ret (case row of No_row \<Rightarrow> ''unknown'' | Row_text v \<Rightarrow> v | Row_bytes v \<Rightarrow> v))"

definition collect_version :: "'w benv \<Rightarrow> dsn \<Rightarrow> jobj \<Rightarrow> ('w bmon, jobj) prog" where
  "collect_version E db versions =
     bnd (catch (query_version E db) (\<lambda>e. ret (''unknown ('' @ type_name e @ '')''))) (\<lambda>v.
     ret (dict_set (dbname db) (J_str v) versions))"

definition collect_postgres_versions :: "'w benv \<Rightarrow> dsn list \<Rightarrow> ('w bmon, jobj) prog" where
  "collect_postgres_versions E dbs = fold_prog (collect_version E) dbs []"

section \<open>Staging\<close>

definition database_dsns :: "settings \<Rightarrow> dsn list" where
  "database_dsns st =
     [\<lparr>dbname = ''cot'', host = ''tak-database'', db_user = ''martiuser'', db_password = tak_db_password st, port = 5432\<rparr>,
      \<lparr>dbname = ''lldap'', host = ''app-db'', db_user = ''fastak'', db_password = fastak_db_password st, port = 5432\<rparr>,
      \<lparr>dbname = ''nodered'', host = ''app-db'', db_user = ''fastak'', db_password = fastak_db_password st, port = 5432\<rparr>,
      \<lparr>dbname = ''fastak'', host = ''app-db'', db_user = ''fastak'', db_password = fastak_db_password st, port = 5432\<rparr>]"

definition staged :: "string \<Rightarrow> 'w bmon \<Rightarrow> (string \<times> content) list" where
  "staged d s = (case map_of (b_staging s) d of None \<Rightarrow> [] | Some fs \<Rightarrow> fs)"

definition stage_file :: "'w benv \<Rightarrow> string \<Rightarrow> string \<Rightarrow> content \<Rightarrow> ('w bmon, unit) prog" where
  "stage_file E d name c =
     thn (file_op E (Fs_write name))
         (modify (\<lambda>s. s\<lparr>b_staging := dict_set d (dict_set name c (staged d s)) (b_staging s)\<rparr>))"

text \<open>A program whose output goes to a file of the staging directory, whether it succeeds or not.\<close>

definition stage_output :: "'w benv \<Rightarrow> string \<Rightarrow> string \<Rightarrow> proc \<Rightarrow> string \<Rightarrow> ('w bmon, unit) prog" where
  "stage_output E d name p what =
     thn (file_op E (Fs_create name))
    (bnd (bnd (btick (run_proc E p)) of_sum) (\<lambda>r.
     thn (stage_file E d name (Bytes (pr_out r)))
         (if pr_code r \<noteq> 0 then raise (RuntimeError (what @ '' failed: '' @ pr_err r)) else ret ())))"

definition dump_postgres :: "'w benv \<Rightarrow> string \<Rightarrow> dsn \<Rightarrow> ('w bmon, unit) prog" where
  "dump_postgres E d db =
     stage_output E d (''postgres/'' @ dbname db @ ''.sql'') (Pg_dump db) (''pg_dump '' @ dbname db)"

definition tar_certs :: "'w benv \<Rightarrow> string \<Rightarrow> ('w bmon, unit) prog" where
  "tar_certs E d = stage_output E d ''tak-certs.tar'' (Tar ''/tak-certs'' [''.'']) ''tar tak-certs''"

definition tak_config_files :: "string list" where
  "tak_config_files = [''CoreConfig.xml'', ''TAKIgniteConfig.xml'']"

definition tar_tak_config :: "'w benv \<Rightarrow> string \<Rightarrow> ('w bmon, unit) prog" where
  "tar_tak_config E d =
     bnd (blook (\<lambda>w. filter (\<lambda>n. \<not> host_exists E (''/tak-src/'' @ n) w) tak_config_files)) (\<lambda>missing.
     if missing \<noteq> []
     then raise (RuntimeError (''tak-config: required file(s) missing from /tak-src: '' @ join '', '' missing @
            '' -- TAK Server has not finished first-boot init. Wait for the stack to become healthy before taking a backup.''))
     else stage_output E d ''tak-config.tar'' (Tar ''/tak-src'' tak_config_files) ''tar tak-config'')"

definition tar_nodered_data :: "'w benv \<Rightarrow> string \<Rightarrow> ('w bmon, unit) prog" where
  "tar_nodered_data E d = stage_output E d ''nodered-data.tar'' (Tar ''/nodered-data'' [''.'']) ''tar nodered-data''"

definition copy_env :: "'w benv \<Rightarrow> string \<Rightarrow> ('w bmon, unit) prog" where
  "copy_env E d = bnd (bnd (blook (host_files E ''/host/.env'')) of_sum) (\<lambda>c. stage_file E d ''env'' (Bytes c))"

definition populate_staging :: "'w benv \<Rightarrow> string \<Rightarrow> jobj \<Rightarrow> ('w bmon, unit) prog" where
  "populate_staging E d manifest =
     thn (file_op E Fs_mkdir)
    (thn (stage_file E d ''MANIFEST.json'' (Json (J_obj manifest)))
    (thn (for_each (database_dsns (be_cfg E)) (dump_postgres E d))
    (thn (tar_certs E d)
    (thn (tar_tak_config E d)
    (thn (tar_nodered_data E d)
         (copy_env E d))))))"

text \<open>\<open>tar | gzip | age > out\<close>; \<open>age\<close> is looked at first, then \<open>tar\<close>, then \<open>gzip\<close>.\<close>

definition stream_encrypted_archive :: "'w benv \<Rightarrow> string \<Rightarrow> string \<Rightarrow> string \<Rightarrow> ('w bmon, unit) prog" where
  "stream_encrypted_archive E d out recipient =
     thn (file_op E (Fs_create out))
    (thn (put_file E out (Bytes []))
    (bnd (gets (staged d)) (\<lambda>files.
     bnd (bnd (btick (run_archive E files recipient)) of_sum) (\<lambda>r.
     thn (put_file E out (Bytes (pr_out (ar_age r))))
    (if pr_code (ar_age r) \<noteq> 0 then raise (RuntimeError (''age failed: '' @ pr_err (ar_age r)))
     else if ar_tar r \<noteq> 0 then raise (RuntimeError ''tar (staging) failed'')
     else if ar_gzip r \<noteq> 0 then raise (RuntimeError ''gzip failed'')
     else ret ())))))"

section \<open>The lock\<close>

definition lock_name :: string where
  "lock_name = ''.backup.lock''"

definition already_running :: exn where
  "already_running = OtherError ''BackupAlreadyRunning'' ''a backup is already in progress''"

definition open_lock :: "'w benv \<Rightarrow> ('w bmon, unit) prog" where
  "open_lock E =
     thn (file_op E Fs_mkdir) (thn (file_op E Fs_lock)
    (bnd (exists_file lock_name) (\<lambda>there. if there then ret () else put_file E lock_name (Bytes []))))"

definition take_lock :: "'w benv \<Rightarrow> ('w bmon, unit) prog" where
  "take_lock E =
     bnd (btick (flock E)) (\<lambda>r. case r of
        Lock_granted \<Rightarrow> ret ()
      | Lock_held \<Rightarrow> raise already_running
      | Lock_error m \<Rightarrow> raise (OSError m))"

text \<open>Unlocking and closing the descriptor, at the end on every path, do not fail.\<close>

definition exclusive_lock :: "'w benv \<Rightarrow> ('w bmon, 'a) prog \<Rightarrow> ('w bmon, 'a) prog" where
  "exclusive_lock E m = thn (open_lock E) (thn (take_lock E) m)"

section \<open>One run\<close>

definition backup_event :: "'w benv \<Rightarrow> event \<Rightarrow> ('w bmon, unit) prog" where
  \<comment> \<open>\<open>record_event\<close>, which logs and swallows a database error\<close>
  "backup_event E e =
     catch (bnd (btick (be_insert_event E e)) (\<lambda>r.
            thn (modify (\<lambda>s. s\<lparr>b_events := b_events s @ [e]\<rparr>)) (of_sum r)))
           (\<lambda>_. ret ())"

definition audit_row :: "string \<Rightarrow> string option \<Rightarrow> string \<Rightarrow> string \<Rightarrow> string \<Rightarrow> jobj \<Rightarrow> event" where
  "audit_row actor ip action ttype tid detail =
     \<lparr>evt_source = ''audit'', evt_actor = actor, evt_action = action, evt_target_type = Some ttype,
      evt_target_id = Some tid, evt_detail = Some (J_obj detail), evt_ip = ip\<rparr>"

definition last_run_value :: "json \<Rightarrow> json \<Rightarrow> string \<Rightarrow> string \<Rightarrow> json \<Rightarrow> json" where
  "last_run_value started finished status filename err =
     J_obj [(''started_at'', started), (''finished_at'', finished), (''status'', J_str status),
            (''filename'', J_str filename), (''error'', err)]"

definition backup_filename :: "'w benv \<Rightarrow> datetime \<Rightarrow> string" where
  "backup_filename E t = backup_prefix @ stamp t @ ''-'' @ fasttak_version E @ ''.age''"

definition partial_name :: "string \<Rightarrow> string" where
  "partial_name filename = filename @ ''.partial''"

definition cleanup_partial :: "'w benv \<Rightarrow> string \<Rightarrow> ('w bmon, unit) prog" where
  "cleanup_partial E name = if_missing (unlink E name) (ret ())"

definition write_sha256_sidecar :: "'w benv \<Rightarrow> string \<Rightarrow> ('w bmon, unit) prog" where
  "write_sha256_sidecar E archive =
     bnd (read_content E archive) (\<lambda>c.
     write_file E (sidecar archive) (Bytes (sha256_hex E (file_text E c) @ ''  '' @ archive @ [newline])))"

definition file_size :: "'w benv \<Rightarrow> string \<Rightarrow> ('w bmon, int) prog" where
  "file_size E name =
     thn (file_op E (Fs_stat name))
    (bnd (gets (\<lambda>s. map_of (b_files s) name)) (\<lambda>f. case f of
        None \<Rightarrow> raise file_not_found
      | Some f \<Rightarrow> ret (int (length (file_text E (f_content f))))))"

record backup_result =
  br_filename :: string
  br_size_bytes :: int

definition remove_staging :: "string \<Rightarrow> ('w bmon, unit) prog" where
  "remove_staging d = modify (\<lambda>s. s\<lparr>b_staging := dict_pop d (b_staging s)\<rparr>)"

text \<open>The \<open>try\<close> block of \<open>run\<close>: up to the archive, and from there on.\<close>

definition make_archive :: "'w benv \<Rightarrow> string \<Rightarrow> datetime \<Rightarrow> string \<Rightarrow> ('w bmon, unit) prog" where
  "make_archive E d started filename =
     bnd (load_or_create E) (\<lambda>(_, recipient).
     bnd (collect_postgres_versions E (database_dsns (be_cfg E))) (\<lambda>versions.
     bnd (blook (hostname E)) (\<lambda>hn.
     thn (populate_staging E d (build_manifest E started hn versions))
    (thn (stream_encrypted_archive E d (partial_name filename) recipient)
    (thn (replace_file E (partial_name filename) filename)
         (write_sha256_sidecar E filename))))))"

definition finish_backup ::
    "'w benv \<Rightarrow> string \<Rightarrow> string option \<Rightarrow> datetime \<Rightarrow> string \<Rightarrow> ('w bmon, backup_result) prog" where
  "finish_backup E actor ip started filename =
     bnd (file_size E filename) (\<lambda>size.
     bnd (btick (be_now E)) (\<lambda>finished.
     thn (write_last_run E (last_run_value (J_str (isoformat E started)) (J_str (isoformat E finished))
            ''success'' filename J_null))
    (thn (backup_event E (audit_row actor ip ''backup.completed'' ''backup'' filename
            [(''size_bytes'', J_int size), (''components'', J_list (map J_str components))]))
    (bnd (of_sum (retention_keep E)) (\<lambda>keep.
     bnd (prune E keep) (\<lambda>pruned.
     thn (for_each pruned (\<lambda>name. backup_event E
            (audit_row actor ip ''backup.pruned'' ''backup'' name [(''reason'', J_str ''retention'')])))
         (ret \<lparr>br_filename = filename, br_size_bytes = size\<rparr>)))))))"

definition backup_failed ::
    "'w benv \<Rightarrow> string \<Rightarrow> string option \<Rightarrow> string \<Rightarrow> datetime \<Rightarrow> string \<Rightarrow> exn \<Rightarrow> ('w bmon, 'a) prog" where
  "backup_failed E actor ip run_id started filename e =
     thn (cleanup_partial E (partial_name filename))
    (bnd (btick (be_now E)) (\<lambda>finished.
     thn (write_last_run E (last_run_value (J_str (isoformat E started)) (J_str (isoformat E finished))
            ''failed'' filename (J_str (type_name e))))
    (thn (backup_event E (audit_row actor ip ''backup.failed'' ''backup'' run_id
            [(''error'', J_str (type_name e @ '': '' @ exn_str e))]))
         (raise e))))"

definition locked_run ::
    "'w benv \<Rightarrow> string \<Rightarrow> string option \<Rightarrow> string \<Rightarrow> string \<Rightarrow> datetime \<Rightarrow> string \<Rightarrow> ('w bmon, backup_result) prog" where
  "locked_run E actor ip run_id d started filename =
     thn (write_last_run E (last_run_value (J_str (isoformat E started)) J_null ''running'' filename J_null))
    (thn (backup_event E (audit_row actor ip ''backup.started'' ''backup'' run_id
            [(''filename'', J_str filename), (''fasttak_version'', J_str (fasttak_version E))]))
    (always
       (catch (thn (make_archive E d started filename) (finish_backup E actor ip started filename))
              (backup_failed E actor ip run_id started filename))
       (remove_staging d)))"

definition run_backup :: "'w benv \<Rightarrow> string \<Rightarrow> string option \<Rightarrow> ('w bmon, backup_result) prog" where
  "run_backup E actor ip =
     thn (file_op E Fs_mkdir)
    (bnd (btick (be_uuid_hex E)) (\<lambda>hex.
     let run_id = take 12 hex; d = ''fasttak-backup-'' @ run_id in
     bnd (btick (be_now E)) (\<lambda>started.
     let filename = backup_filename E started in
     thn (file_op E Fs_mkdtemp)
    (thn (modify (\<lambda>s. s\<lparr>b_staging := dict_set d [] (b_staging s)\<rparr>))
         (exclusive_lock E (locked_run E actor ip run_id d started filename))))))"

end
