(* ===== verification/BackupApi.thy ===== *)
theory BackupApi
  imports BackupRun
begin

text \<open>
  \<open>monitor/app/api/backup/router.py\<close>, \<open>monitor/app/backup/cli.py\<close> and the version check of
  \<open>runner.py\<close>: the routes behind the backup group, the commands, the comparison of the
  \<open>pg_dump\<close> version with the servers'.
\<close>

section \<open>The routes\<close>

definition gated :: "'w benv \<Rightarrow> auth_context \<Rightarrow> ('w bmon, 'a) prog \<Rightarrow> ('w bmon, 'a) prog" where
  "gated E ctx m = thn (of_sum (require_group (environ E) ''BACKUP_ADMIN_GROUP'' admin_group_default ctx)) m"

text \<open>\<open>_FILENAME_RE\<close>: a stamp, a hyphen, a version that starts with a letter or digit and holds no
  two dots in a row, the suffix; the final \<open>$\<close> lets one trailing newline through.\<close>

definition alnum_char :: "char \<Rightarrow> bool" where
  "alnum_char c = (name_char c \<and> c \<noteq> CHR ''.'' \<and> c \<noteq> CHR ''_'' \<and> c \<noteq> CHR ''-'')"

definition backup_name_re :: "string \<Rightarrow> bool" where
  "backup_name_re name =
     (let body = dollar_body name; rest = drop (length backup_prefix) body;
          version = take (length rest - 21) (drop 17 rest) in
      globbed ''.age'' body \<and> 21 < length rest \<and> stamp_shape (take 16 rest) \<and> rest ! 16 = CHR ''-'' \<and>
      alnum_char (hd version) \<and> list_all name_char version \<and> \<not> contains (drop 17 rest) ''..'')"

definition safe_filename :: "string \<Rightarrow> exn + string" where
  "safe_filename name = (if backup_name_re name then Inr name else Inl (HTTPException 400 ''invalid backup filename''))"

record backup_entry =
  be_filename :: string
  be_size :: int
  be_age_seconds :: int

text \<open>\<open>int((now - taken_at).total_seconds())\<close>, rounding toward zero.\<close>

definition age_seconds :: "datetime \<Rightarrow> datetime \<Rightarrow> int" where
  "age_seconds now taken = (let d = micros now - micros taken in sgn d * (\<bar>d\<bar> div 1000000))"

definition list_entry :: "'w benv \<Rightarrow> datetime \<Rightarrow> datetime \<times> string \<Rightarrow> ('w bmon, backup_entry) prog" where
  "list_entry E now e =
     bnd (file_size E (snd e)) (\<lambda>n.
     ret \<lparr>be_filename = snd e, be_size = n, be_age_seconds = age_seconds now (fst e)\<rparr>)"

definition list_backups :: "'w benv \<Rightarrow> auth_context \<Rightarrow> ('w bmon, jobj \<times> backup_entry list) prog" where
  "list_backups E ctx = gated E ctx
     (bnd (btick (be_now E)) (\<lambda>now.
      bnd (read_state E) (\<lambda>st.
      bnd stamped_backups (\<lambda>backups.
      bnd (collect (list_entry E now) backups) (\<lambda>entries. ret (st, entries))))))"

definition backup_status :: "'w benv \<Rightarrow> auth_context \<Rightarrow> ('w bmon, jobj) prog" where
  "backup_status E ctx = gated E ctx (read_state E)"

definition run_backup_preflight :: "'w benv \<Rightarrow> ('w bmon, unit) prog" where
  "run_backup_preflight E = thn (open_lock E) (take_lock E)"

text \<open>The response of the route; the run itself is a background task.\<close>

definition trigger_run :: "'w benv \<Rightarrow> auth_context \<Rightarrow> ('w bmon, string) prog" where
  "trigger_run E ctx = gated E ctx
     (bnd (btick (be_uuid_hex E)) (\<lambda>hex.
      thn (catch (run_backup_preflight E)
             (\<lambda>e. if e = already_running then raise (HTTPException 409 (exn_str e)) else raise e))
          (ret (take 12 hex))))"

definition run_in_thread :: "'w benv \<Rightarrow> auth_context \<Rightarrow> string \<Rightarrow> ('w bmon, unit) prog" where
  "run_in_thread E ctx job_id =
     (let actor = ac_username ctx; ip = ac_client_ip ctx in
      catch (bnd (run_backup E actor ip) (\<lambda>_. ret ())) (\<lambda>e.
        if type_name e = ''BackupAlreadyRunning'' then
          bnd (btick (be_now E)) (\<lambda>now.
          let t = J_str (isoformat E now) in
          thn (write_last_run E (last_run_value t t ''failed'' [] (J_str ''BackupAlreadyRunning'')))
         (thn (backup_event E (audit_row actor ip ''backup.started'' ''backup'' job_id []))
              (backup_event E (audit_row actor ip ''backup.failed'' ''backup'' job_id
                 [(''error'', J_str ''BackupAlreadyRunning''), (''reason'', J_str ''lock_held_at_dispatch'')]))))
        else ret ()))"

definition existing_backup :: "string \<Rightarrow> ('w bmon, string) prog" where
  "existing_backup filename =
     bnd (of_sum (safe_filename filename)) (\<lambda>safe.
     bnd (exists_file safe) (\<lambda>there.
     if there then ret safe else raise (HTTPException 404 ''not found'')))"

definition download_backup :: "'w benv \<Rightarrow> auth_context \<Rightarrow> string \<Rightarrow> ('w bmon, string) prog" where
  "download_backup E ctx filename = gated E ctx
     (bnd (existing_backup filename) (\<lambda>safe.
      bnd (file_size E safe) (\<lambda>n.
      thn (backup_event E (audit_row (ac_username ctx) (ac_client_ip ctx) ''backup.downloaded'' ''backup'' safe
             [(''size_bytes'', J_int n)]))
          (ret safe))))"

definition delete_backup :: "'w benv \<Rightarrow> auth_context \<Rightarrow> string \<Rightarrow> ('w bmon, unit) prog" where
  "delete_backup E ctx filename = gated E ctx
     (bnd (existing_backup filename) (\<lambda>safe.
      thn (unlink E safe)
          (backup_event E (audit_row (ac_username ctx) (ac_client_ip ctx) ''backup.deleted'' ''backup'' safe []))))"

definition download_key :: "'w benv \<Rightarrow> auth_context \<Rightarrow> ('w bmon, content) prog" where
  "download_key E ctx = gated E ctx
     (bnd (read_identity E) (\<lambda>raw. case raw of
        None \<Rightarrow> raise (HTTPException 404 ''no key yet -- take a backup first'')
      | Some c \<Rightarrow>
          thn (mark_key_downloaded E)
         (thn (backup_event E (audit_row (ac_username ctx) (ac_client_ip ctx) ''backup.key_downloaded'' ''backup_key'' [] []))
              (ret c))))"

section \<open>The commands\<close>

text \<open>Each gives its exit code and the lines it prints; \<open>fmt\<close> is the format \<open>.1f\<close>.\<close>

definition cli_actor :: "'w benv \<Rightarrow> string option \<Rightarrow> string" where
  "cli_actor E arg =
     (let or_else = (\<lambda>v k. case v of Some a \<Rightarrow> if a = [] then k else a | None \<Rightarrow> k) in
      or_else arg (or_else (environ E ''LOGNAME'') ''system''))"

definition cmd_run :: "'w benv \<Rightarrow> string option \<Rightarrow> ('w bmon, int \<times> string list) prog" where
  "cmd_run E actor =
     catch (bnd (run_backup E (cli_actor E actor) None) (\<lambda>r.
            ret (0, [''ok: '' @ br_filename r @ '' ('' @ str_of_int (br_size_bytes r) @ '' bytes)''])))
       (\<lambda>e. if type_name e = ''BackupAlreadyRunning'' then ret (2, [''error: '' @ exn_str e])
            else ret (1, [''backup failed: '' @ type_name e @ '': '' @ exn_str e]))"

definition list_line :: "'w benv \<Rightarrow> (real \<Rightarrow> string) \<Rightarrow> datetime \<Rightarrow> datetime \<times> string \<Rightarrow> ('w bmon, string) prog" where
  "list_line E fmt now e =
     bnd (file_size E (snd e)) (\<lambda>n.
     ret (snd e @ [CHR 0x09] @ str_of_int n @ [CHR 0x09] @ fmt (total_seconds now (fst e) / 60) @ ''m ago''))"

definition cmd_list :: "'w benv \<Rightarrow> (real \<Rightarrow> string) \<Rightarrow> ('w bmon, int \<times> string list) prog" where
  "cmd_list E fmt =
     bnd stamped_backups (\<lambda>backups.
     if backups = [] then ret (0, [''(no backups)'']) else
     bnd (btick (be_now E)) (\<lambda>now.
     bnd (collect (list_line E fmt now) backups) (\<lambda>ls. ret (0, ls))))"

definition cmd_prune :: "'w benv \<Rightarrow> int option \<Rightarrow> ('w bmon, int \<times> string list) prog" where
  "cmd_prune E arg =
     bnd (of_sum (case arg of Some k \<Rightarrow> Inr k | None \<Rightarrow> retention_keep E)) (\<lambda>keep.
     bnd (prune E keep) (\<lambda>deleted.
     ret (0, map (\<lambda>n. ''pruned: '' @ n) deleted @ [''('' @ str_of_int (int (length deleted)) @ '' removed)''])))"

text \<open>\<open>main\<close>: the arguments as \<open>argparse\<close> has read them.\<close>

datatype cli_args = Args_run "string option" | Args_list | Args_prune "int option"

definition cli_main :: "'w benv \<Rightarrow> (real \<Rightarrow> string) \<Rightarrow> cli_args \<Rightarrow> ('w bmon, int \<times> string list) prog" where
  "cli_main E fmt args = (case args of
     Args_run actor \<Rightarrow> cmd_run E actor
   | Args_list \<Rightarrow> cmd_list E fmt
   | Args_prune keep \<Rightarrow> cmd_prune E keep)"

section \<open>The version check\<close>

definition word_char :: "char \<Rightarrow> bool" where
  \<comment> \<open>\<open>\w\<close> on Latin-1\<close>
  "word_char c = (let n = codepoint c in
     48 \<le> n \<and> n \<le> 57 \<or> 65 \<le> n \<and> n \<le> 90 \<or> n = 95 \<or> 97 \<le> n \<and> n \<le> 122 \<or>
     n \<in> {170, 178, 179, 181, 185, 186, 188, 189, 190} \<or> 192 \<le> n \<and> n \<noteq> 215 \<and> n \<noteq> 247)"

text \<open>\<open>re.search(r"(\d+)\.\d+", s)\<close>: the first run of digits followed by a dot and a digit.
  \<open>run\<close> is the run read so far, reversed.\<close>

fun dotted_major :: "string \<Rightarrow> string \<Rightarrow> string option" where
  "dotted_major run [] = None"
| "dotted_major run (c # s) =
     (if is_digit c then dotted_major (c # run) s
      else if c = CHR ''.'' \<and> run \<noteq> [] \<and> s \<noteq> [] \<and> is_digit (hd s) then Some (rev run)
      else dotted_major [] s)"

text \<open>\<open>re.search(r"\b(\d+)\b", s)\<close>: the first run of digits between two non-word characters or ends.
  \<open>free\<close> says that the run may begin here.\<close>

fun plain_major :: "bool \<Rightarrow> string \<Rightarrow> string \<Rightarrow> string option" where
  "plain_major free run [] = (if free \<and> run \<noteq> [] then Some (rev run) else None)"
| "plain_major free run (c # s) =
     (if is_digit c then plain_major free (c # run) s
      else if free \<and> run \<noteq> [] \<and> \<not> word_char c then Some (rev run)
      else plain_major (\<not> word_char c) [] s)"

definition parse_pg_major :: "string \<Rightarrow> int option" where
  "parse_pg_major s =
     (case dotted_major [] s of
        Some d \<Rightarrow> parse_int d
      | None \<Rightarrow> Option.bind (plain_major True [] s) parse_int)"

text \<open>The warnings of \<open>log_postgres_version_skew\<close>: the client's version, the database and the server's
  version. \<open>client\<close> is the output of \<open>pg_dump --version\<close>, if it ran. The servers are asked one after
  the other and a failure skips its server; searching bytes for a text pattern is a \<open>TypeError\<close>.\<close>

definition row_major :: "version_row \<Rightarrow> exn + int option" where
  "row_major row = (case row of No_row \<Rightarrow> Inr (parse_pg_major []) | Row_text v \<Rightarrow> Inr (parse_pg_major v)
     | Row_bytes _ \<Rightarrow> Inl TypeError)"

definition skew_of :: "'w benv \<Rightarrow> int option \<Rightarrow> dsn \<Rightarrow> (int \<times> string \<times> int) list \<Rightarrow> ('w bmon, (int \<times> string \<times> int) list) prog" where
  "skew_of E client db acc =
     catch (bnd (bnd (btick (server_version E db)) of_sum) (\<lambda>row.
            bnd (of_sum (row_major row)) (\<lambda>server.
            ret (case (client, server) of
                   (Some c, Some v) \<Rightarrow> if c \<noteq> 0 \<and> v \<noteq> 0 \<and> c < v then acc @ [(c, dbname db, v)] else acc
                 | _ \<Rightarrow> acc))))
           (\<lambda>_. ret acc)"

definition log_postgres_version_skew :: "'w benv \<Rightarrow> string option \<Rightarrow> ('w bmon, (int \<times> string \<times> int) list) prog" where
  "log_postgres_version_skew E client =
     (case client of
        None \<Rightarrow> ret []
      | Some text \<Rightarrow> fold_prog (skew_of E (parse_pg_major text)) (database_dsns (be_cfg E)) [])"

end
