(* ===== verification/BackupFacts.thy ===== *)
theory BackupFacts
  imports BackupApi
begin

text \<open>
  What the backup module guarantees: which files an operation may touch, that the age identity is
  never lost, that the state file is replaced as a whole, that the retention keeps exactly the
  newest archives, that a failed run leaves nothing behind.
\<close>

section \<open>Running the primitives\<close>

lemma btick_run [run_simps]: "btick f s = (Inr (fst (f (b_world s))), s\<lparr>b_world := snd (f (b_world s))\<rparr>)"
  by (simp add: btick_def split: prod.splits)

lemma blook_run [run_simps]: "blook f s = (Inr (f (b_world s)), s)"
  by (simp add: blook_def run_simps)

section \<open>What an operation may touch\<close>

text \<open>\<open>touches P s t\<close>: only files whose name satisfies \<open>P\<close> differ, and no name occurs twice where none did.\<close>

definition names :: "'w bmon \<Rightarrow> string list" where
  "names s = map fst (b_files s)"

definition touches :: "(string \<Rightarrow> bool) \<Rightarrow> 'w bmon \<Rightarrow> 'w bmon \<Rightarrow> bool" where
  "touches P s t \<longleftrightarrow> (\<forall>n. \<not> P n \<longrightarrow> map_of (b_files t) n = map_of (b_files s) n) \<and>
     (distinct (names s) \<longrightarrow> distinct (names t))"

named_theorems touch_rules

lemma touches_preorder [simp]: "preorder_rel (touches P)"
  by (auto simp: preorder_rel_def reflp_def transp_def touches_def)

lemma touches_weaken: "touches P s t \<Longrightarrow> (\<And>n. P n \<Longrightarrow> Q n) \<Longrightarrow> touches Q s t"
  by (auto simp: touches_def)

lemma keeps_touches_weaken: "keeps (touches P) m \<Longrightarrow> (\<And>n. P n \<Longrightarrow> Q n) \<Longrightarrow> keeps (touches Q) m"
  unfolding keeps_def by (blast intro: touches_weaken)

lemma touch_btick [touch_rules]: "keeps (touches P) (btick f)"
  by (rule keepsI) (auto simp: run_simps touches_def names_def)

lemma touch_blook [touch_rules]: "keeps (touches P) (blook f)"
  by (simp add: blook_def keeps_gets)

lemma touch_modify [touch_rules]:
  "(\<And>s n. \<not> P n \<Longrightarrow> map_of (b_files (f s)) n = map_of (b_files s) n) \<Longrightarrow>
   (\<And>s. distinct (map fst (b_files s)) \<Longrightarrow> distinct (map fst (b_files (f s)))) \<Longrightarrow> keeps (touches P) (modify f)"
  by (rule keepsI) (auto simp: run_simps touches_def names_def)

lemma distinct_dict_pop [simp]: "distinct (map fst d) \<Longrightarrow> distinct (map fst (dict_pop k d))"
  by (simp add: dict_pop_def distinct_map_filter)

declare distinct_dict_set [simp]

lemma touch_file_op [touch_rules]: "keeps (touches P) (file_op E op)"
  unfolding file_op_def by (intro keeps_rules touch_rules) simp_all

lemma touch_exists [touch_rules]: "keeps (touches P) (exists_file n)"
  unfolding exists_file_def by (intro keeps_rules) simp

lemma touch_put [touch_rules]: "P n \<Longrightarrow> keeps (touches P) (put_file E n c)"
  unfolding put_file_def
  by (intro keeps_rules touch_rules) auto

lemma touch_write [touch_rules]: "P n \<Longrightarrow> keeps (touches P) (write_file E n c)"
  unfolding write_file_def by (intro keeps_rules touch_rules) simp_all

lemma touch_read [touch_rules]: "keeps (touches P) (read_content E n)"
  unfolding read_content_def by (intro keeps_rules touch_rules) simp_all

lemma touch_unlink [touch_rules]: "P n \<Longrightarrow> keeps (touches P) (unlink E n)"
  unfolding unlink_def
  by (intro keeps_rules touch_rules) auto

lemma touch_replace [touch_rules]: "P a \<Longrightarrow> P b \<Longrightarrow> keeps (touches P) (replace_file E a b)"
  unfolding replace_file_def
  by (intro keeps_rules touch_rules) auto

lemma touch_if_missing [touch_rules]:
  "keeps (touches P) m \<Longrightarrow> keeps (touches P) h \<Longrightarrow> keeps (touches P) (if_missing m h)"
  unfolding if_missing_def by (intro keeps_rules) simp_all

lemma keeps_always [keeps_rules]:
  assumes "preorder_rel I" and "keeps I m" and "keeps I f"
  shows "keeps I (always m f)"
proof (rule keepsI)
  fix s r t
  assume run: "always m f s = (r, t)"
  obtain q u where m: "m s = (q, u)" by (cases "m s")
  obtain q' v where f: "f u = (q', v)" by (cases "f u")
  have "I s u" "I u v" using assms(2,3) m f by (auto dest: keepsD)
  moreover have "v = t" using run m f by (cases q') (auto simp: run_simps)
  ultimately show "I s t" using assms(1) unfolding preorder_rel_def by (blast dest: transpD)
qed

lemma touch_read_state [touch_rules]: "keeps (touches P) (read_state E)"
  unfolding read_state_def by (intro keeps_rules touch_rules) (auto split: content.split intro!: keeps_rules)

definition state_files :: "string \<Rightarrow> bool" where
  "state_files n \<longleftrightarrow> n = state_name \<or> n = state_temp"

lemma touch_write_state: "keeps (touches state_files) (write_state E p)"
  unfolding write_state_def by (intro keeps_rules touch_rules) (simp_all add: state_files_def)

lemma touch_write_state' [touch_rules]: "(\<And>n. state_files n \<Longrightarrow> P n) \<Longrightarrow> keeps (touches P) (write_state E p)"
  by (rule keeps_touches_weaken [OF touch_write_state])

lemma touch_last_run [touch_rules]: "(\<And>n. state_files n \<Longrightarrow> P n) \<Longrightarrow> keeps (touches P) (write_last_run E v)"
  and touch_key_downloaded [touch_rules]: "(\<And>n. state_files n \<Longrightarrow> P n) \<Longrightarrow> keeps (touches P) (mark_key_downloaded E)"
  unfolding write_last_run_def mark_key_downloaded_def by (intro keeps_rules touch_rules; simp)+

lemma touch_event [touch_rules]: "keeps (touches P) (backup_event E e)"
  unfolding backup_event_def by (intro keeps_rules touch_rules) simp_all

text \<open>What the retention may remove: partial files, recognised archives, their checksums.\<close>

definition prunable :: "string \<Rightarrow> bool" where
  "prunable n \<longleftrightarrow> globbed ''.partial'' n \<or> taken_at n \<noteq> None \<or> (\<exists>m. n = sidecar m \<and> taken_at m \<noteq> None)"


lemma keeps_gets_bnd: "(\<And>s. keeps I (k (f s))) \<Longrightarrow> keeps I (bnd (gets f) k)"
  by (auto simp: keeps_def run_simps)

lemma keeps_for_each_mem:
  "preorder_rel I \<Longrightarrow> (\<And>x. x \<in> set xs \<Longrightarrow> keeps I (f x)) \<Longrightarrow> keeps I (for_each xs f)"
  by (induction xs) (simp_all add: keeps_ret keeps_thn)

lemma keeps_fold_mem:
  "preorder_rel I \<Longrightarrow> (\<And>x acc. x \<in> set xs \<Longrightarrow> keeps I (f x acc)) \<Longrightarrow> keeps I (fold_prog f xs acc)"
  by (induction xs arbitrary: acc) (simp_all add: keeps_ret keeps_bnd)

lemma touch_reap: "keeps (touches (globbed ''.partial'')) (reap_partials E)"
proof -
  have one: "globbed ''.partial'' n \<Longrightarrow> keeps (touches (globbed ''.partial'')) (reap_partial E a now n)" for n a now
    unfolding reap_partial_def by (intro keeps_rules touch_rules) simp_all
  show ?thesis unfolding reap_partials_def
    by (intro keeps_rules touch_rules keeps_gets_bnd keeps_for_each_mem) (auto intro: one)
qed

lemma touch_prune_one: "keeps (touches (\<lambda>m. m = n \<or> m = sidecar n)) (prune_one E n d)"
  unfolding prune_one_def by (intro keeps_rules touch_rules) simp_all

lemma set_map_filter: "set (List.map_filter f xs) = {y. \<exists>x\<in>set xs. f x = Some y}"
  by (force simp: List.map_filter_def)

lemma stamped_set: "set (stamped_names ns) = {(t, n). n \<in> set ns \<and> taken_at n = Some t}"
  by (auto simp: stamped_names_def set_map_filter)

lemma in_slice: "x \<in> set (slice_from k xs) \<Longrightarrow> x \<in> set xs"
  by (auto simp: slice_from_def dest: in_set_dropD split: if_splits)

lemma touch_prune: "keeps (touches prunable) (prune E keep)"
proof -
  have one: "keeps (touches prunable) (prune_one E n d)" if "taken_at n = Some t" for n t d
    using that by (intro keeps_touches_weaken [OF touch_prune_one]) (auto simp: prunable_def)
  show ?thesis unfolding prune_def stamped_backups_def
    by (intro keeps_rules keeps_gets_bnd keeps_fold_mem keeps_touches_weaken [OF touch_reap])
      (auto simp: prunable_def stamped_set dest!: in_slice intro: one)
qed

section \<open>Retention\<close>

lemma endswith_iff: "endswith s p \<longleftrightarrow> (\<exists>a. s = a @ p)"
  by (auto simp: endswith_def startswith_iff rev_eq_append_conv) (metis rev_append rev_swap)+

lemma globbed_last: "globbed suf n \<Longrightarrow> suf \<noteq> [] \<Longrightarrow> last n = last suf"
  by (auto simp: globbed_def endswith_iff)

lemma taken_last: "taken_at n = Some t \<Longrightarrow> last n = CHR ''e''"
  using globbed_last [of "''.age''" n] by (auto simp: taken_at_def Let_def split: if_splits)

lemma sidecar_last: "last (sidecar n) = CHR ''6''"
  by (simp add: sidecar_def)

lemma not_taken: "taken_at (sidecar n) = None" "globbed ''.partial'' n \<Longrightarrow> taken_at n = None"
  using taken_last [of "sidecar n"] taken_last [of n] globbed_last [of "''.partial''" n]
  by (auto simp: sidecar_last intro: option.exhaust)

text \<open>The archives of a directory are determined by its names.\<close>

abbreviation stamped_of :: "string \<Rightarrow> (datetime \<times> string) option" where
  "stamped_of n \<equiv> map_option (\<lambda>t. (t, n)) (taken_at n)"

lemma snd_stamped: "map snd (List.map_filter stamped_of ns) = filter (\<lambda>n. taken_at n \<noteq> None) ns"
proof (induction ns)
  case (Cons n ns)
  then show ?case by (cases "taken_at n") (simp_all add: map_filter_simps)
qed (simp add: map_filter_simps)

lemma distinct_stamped: "distinct ns \<Longrightarrow> distinct (map snd (List.map_filter stamped_of ns))"
  by (simp add: snd_stamped)

lemma stamped_subset:
  assumes "\<And>n. taken_at n \<noteq> None \<Longrightarrow> n \<in> set ns \<Longrightarrow> n \<in> set ms"
  shows "set (List.map_filter stamped_of ns) \<subseteq> set (List.map_filter stamped_of ms)"
  unfolding set_map_filter using assms by auto

lemma stamped_unique:
  assumes "distinct ns" and "distinct ms"
    and "\<And>n. taken_at n \<noteq> None \<Longrightarrow> n \<in> set ns \<longleftrightarrow> n \<in> set ms"
  shows "stamped_names ns = stamped_names ms"
proof -
  have "set (List.map_filter stamped_of ns) = set (List.map_filter stamped_of ms)"
    by (rule equalityI; rule stamped_subset) (simp_all add: assms(3))
  moreover have "distinct (List.map_filter stamped_of ns)" "distinct (List.map_filter stamped_of ms)"
    using distinct_stamped [OF assms(1)] distinct_stamped [OF assms(2)] by (auto simp: distinct_map)
  ultimately have "sort (List.map_filter stamped_of ns) = sort (List.map_filter stamped_of ms)"
    by (intro sorted_distinct_set_unique) simp_all
  then show ?thesis by (simp add: stamped_names_def)
qed

lemma stamped_eqI:
  assumes "distinct ns" and "sorted (rev xs)" and "distinct xs"
    and "set xs = {(d, n). n \<in> set ns \<and> taken_at n = Some d}"
  shows "stamped_names ns = xs"
proof -
  have "distinct (List.map_filter stamped_of ns)"
    using distinct_stamped [OF assms(1)] by (simp add: distinct_map)
  then have "sort (List.map_filter stamped_of ns) = rev xs"
    using assms(2-4) by (intro sorted_distinct_set_unique) (auto simp: set_map_filter)
  then show ?thesis by (simp add: stamped_names_def)
qed

lemma stamped_sorted: "sorted (rev (stamped_names ns))"
  by (simp add: stamped_names_def)

lemma stamped_distinct: "distinct ns \<Longrightarrow> distinct (map snd (stamped_names ns))"
  using distinct_stamped [of ns] unfolding stamped_names_def
  by (simp add: rev_map [symmetric] distinct_map)

lemma stamped_of_state:
  assumes "touches P s t" and "\<And>n. taken_at n \<noteq> None \<Longrightarrow> \<not> P n" and "distinct (names s)"
  shows "stamped_names (names t) = stamped_names (names s)"
proof (rule stamped_unique)
  show "n \<in> set (names t) \<longleftrightarrow> n \<in> set (names s)" if "taken_at n \<noteq> None" for n
  proof -
    have "map_of (b_files t) n = map_of (b_files s) n" using assms(1,2) that by (auto simp: touches_def)
    then show ?thesis unfolding names_def by (metis map_of_eq_None_iff set_map)
  qed
qed (use assms(1,3) in \<open>auto simp: touches_def\<close>)

lemma has_key_names: "has_key (b_files s) n \<longleftrightarrow> n \<in> set (names s)"
  by (simp add: has_key_def names_def)

lemma names_pop [simp]: "set (names (s\<lparr>b_files := dict_pop n (b_files s)\<rparr>)) = set (names s) - {n}"
  by (auto simp: names_def dict_pop_def)

lemma names_world [simp]: "names (s\<lparr>b_world := w\<rparr>) = names s"
  by (simp add: names_def)

text \<open>The operating system reports a missing file only where there is none.\<close>

definition honest :: "'w benv \<Rightarrow> bool" where
  "honest E \<longleftrightarrow> (\<forall>op w e. fst (fs_fault E op w) = Some e \<longrightarrow> type_name e \<noteq> ''FileNotFoundError'')"

lemma unlink_cases:
  assumes "unlink E n s = (r, t)"
  obtains (fault) e where "fst (fs_fault E (Fs_unlink n) (b_world s)) = Some e" "r = Inl e" "names t = names s"
    | (gone) "n \<in> set (names s)" "r = Inr ()" "set (names t) = set (names s) - {n}"
    | (missing) "n \<notin> set (names s)" "r = Inl file_not_found" "names t = names s"
  using assms
  by (fastforce simp: unlink_def file_op_def exists_file_def run_simps has_key_names dict_pop_def names_def
      split: option.splits if_splits)

lemma prune_one_done:
  assumes "honest E" and "prune_one E n d s = (Inr d', t)" and "n \<in> set (names s)"
  shows "d' = d @ [n] \<and> set (names t) \<subseteq> set (names s) - {n}"
proof -
  obtain r u where u: "unlink E n s = (r, u)" by (cases "unlink E n s")
  then have r: "r = Inr () \<and> set (names u) = set (names s) - {n}"
  proof (cases rule: unlink_cases)
    case (fault e)
    then have "type_name e \<noteq> ''FileNotFoundError''" using assms(1) by (auto simp: honest_def)
    with fault(2) u assms(2) show ?thesis by (simp add: prune_one_def if_missing_def run_simps)
  qed (use assms(3) in auto)
  obtain r' v where v: "unlink E (sidecar n) u = (r', v)" by (cases "unlink E (sidecar n) u")
  then have "set (names v) \<subseteq> set (names u)" by (cases rule: unlink_cases) auto
  with r u v assms(2) show ?thesis
    by (auto simp: prune_one_def if_missing_def run_simps split: sum.splits if_splits)
qed

lemma prune_fold_done:
  assumes "honest E" and "fold_prog (prune_one E) ns acc s = (Inr del, t)" and "distinct ns"
    and "\<forall>n\<in>set ns. n \<in> set (names s) \<and> taken_at n \<noteq> None"
  shows "del = acc @ ns \<and> set (names t) \<subseteq> set (names s) - set ns"
  using assms(2-4)
proof (induction ns arbitrary: acc s)
  case (Cons n ns)
  obtain r u where u: "prune_one E n acc s = (r, u)" by (cases "prune_one E n acc s")
  with Cons.prems(1) obtain d where d: "r = Inr d" and rest: "fold_prog (prune_one E) ns d u = (Inr del, t)"
    by (auto simp: run_simps split: sum.splits)
  have one: "d = acc @ [n]" "set (names u) \<subseteq> set (names s) - {n}"
    using prune_one_done [OF assms(1) u [unfolded d]] Cons.prems(3) by auto
  have "m \<in> set (names u)" if "m \<in> set ns" for m
  proof -
    have "m \<noteq> n" "m \<noteq> sidecar n" using that Cons.prems(2,3) not_taken(1) [of n] by auto
    moreover have "touches (\<lambda>m. m = n \<or> m = sidecar n) s u" using touch_prune_one u by (rule keepsD)
    ultimately have "map_of (b_files u) m = map_of (b_files s) m" by (auto simp: touches_def)
    then show ?thesis using Cons.prems(3) that unfolding names_def by (metis list.set_intros(2) map_of_eq_None_iff set_map)
  qed
  with Cons.IH [OF rest] Cons.prems(2,3) one show ?case by auto
qed (simp add: run_simps)

lemma touch_prune_fold:
  "keeps (touches (\<lambda>m. m \<in> set ns \<or> m \<in> sidecar ` set ns)) (fold_prog (prune_one E) ns acc)"
  by (intro keeps_fold_mem keeps_touches_weaken [OF touch_prune_one]) auto

lemma prune_split:
  assumes "prune E keep s = (r, t)"
  obtains e where "reap_partials E s = (Inl e, t)" "r = Inl e"
    | u where "reap_partials E s = (Inr (), u)"
        "fold_prog (prune_one E) (map snd (slice_from keep (stamped_names (names u)))) [] u = (r, t)"
  using assms by (auto simp: prune_def stamped_backups_def run_simps names_def split: prod.splits sum.splits)


text \<open>A quiet machine, for the witnesses: every file operation and program succeeds.\<close>

definition sample_day :: datetime where
  "sample_day = DateTime 2026 5 11 12 0 0 0"

definition quiet_env :: "unit benv" where
  "quiet_env = \<lparr>
     be_cfg = default_settings, environ = (\<lambda>_. None), be_now = (\<lambda>w. (sample_day, w)),
     be_time = (\<lambda>w. (0, w)), be_uuid_hex = (\<lambda>w. (''0123456789abcdef'', w)),
     fs_fault = (\<lambda>_ w. (None, w)), flock = (\<lambda>w. (Lock_granted, w)),
     run_proc = (\<lambda>p w. (Inr \<lparr>pr_code = 0,
       pr_out = (if p = Age_keygen then ''# public key: age1'' @ [newline] @ ''AGE-SECRET-KEY-1'' else ''data''),
       pr_err = []\<rparr>, w)),
     run_archive = (\<lambda>_ _ w. (Inr \<lparr>ar_tar = 0, ar_gzip = 0,
       ar_age = \<lparr>pr_code = 0, pr_out = ''archive'', pr_err = []\<rparr>\<rparr>, w)),
     server_version = (\<lambda>_ w. (Inr (Row_text ''15.5''), w)),
     be_insert_event = (\<lambda>_ w. (Inr (), w)), hostname = (\<lambda>_. ''host''),
     host_files = (\<lambda>_ _. Inr ''A=1''), host_exists = (\<lambda>_ _. True), sha256_hex = (\<lambda>s. s),
     json_text = (\<lambda>_. ''json''), utf8_ok = (\<lambda>_. True), isoformat = stamp\<rparr>"

definition sample_dir :: "unit bmon" where
  "sample_dir = \<lparr>b_world = (),
     b_files = map (\<lambda>n. (n, \<lparr>f_content = Bytes n, f_mtime = 0\<rparr>))
       [''fasttak-backup-20260101T000000Z-v1.age'', ''fasttak-backup-20260301T000000Z-v1.age'',
        ''fasttak-backup-20260101T000000Z-v1.age.sha256'', ''fasttak-backup-20260201T000000Z-v1.age'', ''.age-identity''],
     b_staging = [], b_events = []\<rparr>"


section \<open>Names\<close>

lemma prefix_not_identity: "startswith n backup_prefix \<Longrightarrow> n \<noteq> identity_name"
  and prefix_not_state: "startswith n backup_prefix \<Longrightarrow> \<not> state_files n"
  and prefix_not_lock: "startswith n backup_prefix \<Longrightarrow> n \<noteq> lock_name"
  by (auto simp: startswith_iff backup_prefix_def identity_name_def state_files_def state_name_def state_temp_def
      lock_name_def)

lemma own_names: "state_name \<noteq> identity_name" "state_temp \<noteq> identity_name" "lock_name \<noteq> identity_name"
  "state_name \<noteq> state_temp" "\<not> state_files identity_name" "\<not> state_files lock_name"
  by (simp_all add: state_name_def state_temp_def identity_name_def lock_name_def state_files_def)

lemma taken_prefix: "taken_at n = Some d \<Longrightarrow> startswith n backup_prefix"
  by (auto simp: taken_at_def globbed_def Let_def split: if_splits)

lemma startswith_more: "startswith n p \<Longrightarrow> startswith (n @ x) p"
  by (auto simp: startswith_iff)

lemma prunable_prefix: "prunable n \<Longrightarrow> startswith n backup_prefix"
  by (auto simp: prunable_def globbed_def sidecar_def intro: taken_prefix startswith_more)

lemma run_names_prefix: "startswith (backup_filename E t) backup_prefix"
    "startswith (partial_name (backup_filename E t)) backup_prefix"
    "startswith (sidecar (backup_filename E t)) backup_prefix"
  by (simp_all add: backup_filename_def partial_name_def sidecar_def)

lemma safe_prefix:
  assumes "backup_name_re n"
  shows "startswith n backup_prefix"
proof -
  have "startswith (dollar_body n) backup_prefix"
    using assms by (simp add: backup_name_re_def globbed_def Let_def)
  moreover have "\<exists>x. n = dollar_body n @ x" by (metis append_Nil2 append_butlast_last_id dollar_body_def)
  ultimately show ?thesis by (metis startswith_more)
qed

text \<open>C31. The name a run gives its archive is read back by the retention as the time of the run, to the
  second, so the new archive takes part in the order; with a version of the form the routes expect
  it can also be downloaded and deleted.\<close>

theorem backup_name_round_trip:
  assumes "valid_datetime t" and "fasttak_version E \<noteq> []" and "list_all name_char (fasttak_version E)"
  shows "taken_at (backup_filename E t) = Some (DateTime (dt_year t) (dt_month t) (dt_day t)
      (dt_hour t) (dt_minute t) (dt_second t) 0)"
    (is "_ = Some ?t")
proof -
  have t: "valid_datetime ?t" using assms(1) by (simp add: valid_datetime_def)
  then have p: "parse_stamp (stamp ?t) = Some ?t" by (rule parse_stamp_stamp) simp
  then have len: "length (stamp ?t) = 16" by (simp add: parse_stamp_def stamp_shape_def split: if_splits)
  have st: "stamp t = stamp ?t" by (simp add: stamp_def)
  have no_nl: "newline \<notin> set (fasttak_version E)"
    using assms(3) by (auto simp: list_all_iff name_char_def newline_def codepoint_def)
  let ?n = "backup_filename E t"
  have glob: "globbed ''.age'' ?n"
    unfolding globbed_def endswith_iff by (auto simp: backup_filename_def)
  have rest: "drop (length backup_prefix) ?n = stamp ?t @ ''-'' @ fasttak_version E @ ''.age''"
    by (simp add: backup_filename_def st)
  show ?thesis
    unfolding taken_at_def rest Let_def using glob len p no_nl assms(2) by (simp add: nth_append)
qed

lemma backup_name_safe:
  assumes "valid_datetime t" and "fasttak_version E \<noteq> []" and "list_all name_char (fasttak_version E)"
    and "alnum_char (hd (fasttak_version E))" and "\<not> contains (fasttak_version E @ ''.age'') ''..''"
  shows "safe_filename (backup_filename E t) = Inr (backup_filename E t)"
proof -
  have "valid_datetime (DateTime (dt_year t) (dt_month t) (dt_day t) (dt_hour t) (dt_minute t) (dt_second t) 0)"
    (is "valid_datetime ?t") using assms(1) by (simp add: valid_datetime_def)
  then have "parse_stamp (stamp ?t) = Some ?t" by (rule parse_stamp_stamp) simp
  moreover have st: "stamp t = stamp ?t" by (simp add: stamp_def)
  ultimately have shape: "stamp_shape (stamp t)" by (simp add: parse_stamp_def split: if_splits)
  then have len: "length (stamp t) = 16" by (simp add: stamp_shape_def)
  let ?n = "backup_filename E t"
  have body: "dollar_body ?n = ?n" by (simp add: dollar_body_def backup_filename_def newline_def)
  have glob: "globbed ''.age'' ?n"
    unfolding globbed_def endswith_iff by (auto simp: backup_filename_def)
  have rest: "drop (length backup_prefix) ?n = stamp t @ ''-'' @ fasttak_version E @ ''.age''"
    by (simp add: backup_filename_def)
  show ?thesis
    unfolding safe_filename_def backup_name_re_def body rest Let_def
    using glob len shape assms by (simp add: nth_append)
qed

theorem backup_name_round_trip_witness:
  "taken_at (backup_filename quiet_env sample_day) = Some sample_day"
  using backup_name_round_trip [of sample_day quiet_env]
  by (simp add: sample_day_def valid_datetime_def days_in_month_def fasttak_version_def env_or_def quiet_env_def
      name_char_def codepoint_def)

lemma digit_name_char: "is_digit c \<Longrightarrow> name_char c"
  by (auto simp: is_digit_def name_char_def Let_def)

lemma shape_chars:
  assumes "stamp_shape s"
  shows "list_all name_char s"
  unfolding list_all_length
proof (intro allI impI)
  fix i
  assume i: "i < length s"
  have len: "length s = 16" and s: "s ! 8 = CHR ''T''" "s ! 15 = CHR ''Z''"
    using assms by (simp_all add: stamp_shape_def)
  have d: "is_digit (s ! k)" if "k < 8" for k
    using assms len that by (simp add: stamp_shape_def list_all_length)
  have t: "is_digit (s ! (9 + k))" if "k < 6" for k
    using assms len that by (simp add: stamp_shape_def list_all_length)
  consider "i < 8" | "i = 8" | "i = 9 + (i - 9)" "i - 9 < 6" | "i = 15"
    using i len by linarith
  then show "name_char (s ! i)"
  proof cases
    case 3
    with t [of "i - 9"] digit_name_char show ?thesis by metis
  qed (use d s digit_name_char in \<open>auto simp: name_char_def codepoint_def\<close>)
qed

lemma split_at_16: "16 < length R \<Longrightarrow> R = take 16 R @ R ! 16 # take k (drop 17 R) @ drop k (drop 17 R)"
  using Cons_nth_drop_Suc [of 16 R] append_take_drop_id [of 16 R] append_take_drop_id [of k "drop 17 R"] by simp

lemma drop_end:
  assumes "length x \<le> length R" and "p @ R = a @ x"
  shows "drop (length R - length x) R = x"
proof -
  have "length a = length p + (length R - length x)"
    using arg_cong [OF assms(2), of length] assms(1) by simp
  then have "drop (length a) (p @ R) = drop (length R - length x) R" by simp
  then show ?thesis by (simp add: assms(2))
qed

lemma dollar_set: "set s \<subseteq> insert newline (set (dollar_body s))"
  by (cases s rule: rev_cases) (auto simp: dollar_body_def)

text \<open>A file name the routes accept names an archive in the backup directory itself: it holds no
  path separator and is none of the files the module keeps there.\<close>

lemma safe_filename_stays_inside:
  assumes "safe_filename n = Inr m"
  shows "m = n \<and> CHR ''/'' \<notin> set n \<and> n \<notin> {identity_name, state_name, lock_name}"
proof -
  have re: "backup_name_re n" and m: "m = n" using assms by (auto simp: safe_filename_def split: if_splits)
  define b where "b = dollar_body n"
  define R where "R = drop (length backup_prefix) b"
  have g: "globbed ''.age'' b" "21 < length R" "stamp_shape (take 16 R)" "R ! 16 = CHR ''-''"
    "list_all name_char (take (length R - 21) (drop 17 R))"
    using re by (simp_all add: backup_name_re_def Let_def b_def R_def)
  obtain a where a: "b = a @ ''.age''" using g(1) by (auto simp: globbed_def endswith_iff)
  have pre: "backup_prefix @ R = b" using g(1) by (simp add: R_def globbed_def startswith_drop)
  have "drop (length R - 4) R = ''.age''" using drop_end [of "''.age''" R backup_prefix a] g(2) pre a by (simp add: eval_nat_numeral)
  then have "drop (length R - 21) (drop 17 R) = ''.age''" using g(2) by simp
  then have "list_all name_char R"
    using g(2-5) shape_chars by (subst split_at_16 [of R "length R - 21"]) (auto simp: name_char_def codepoint_def)
  then have "list_all name_char b" unfolding pre [symmetric] by (simp add: backup_prefix_def name_char_def codepoint_def)
  moreover have "set n \<subseteq> insert newline (set b)" unfolding b_def by (rule dollar_set)
  ultimately have "CHR ''/'' \<notin> set n" by (force simp: list_all_iff name_char_def newline_def codepoint_def)
  moreover have "startswith n backup_prefix" using re by (rule safe_prefix)
  ultimately show ?thesis
    using m prefix_not_identity prefix_not_lock prefix_not_state by (auto simp: state_files_def)
qed

section \<open>The age identity is never replaced\<close>

definition identity_kept :: "'w bmon \<Rightarrow> 'w bmon \<Rightarrow> bool" where
  "identity_kept s t \<longleftrightarrow>
     (\<forall>f. map_of (b_files s) identity_name = Some f \<longrightarrow> map_of (b_files t) identity_name = Some f)"

lemma identity_kept_preorder [simp]: "preorder_rel identity_kept"
  by (auto simp: preorder_rel_def reflp_def transp_def identity_kept_def)

lemma kept_touch: "keeps (touches P) m \<Longrightarrow> \<not> P identity_name \<Longrightarrow> keeps identity_kept m"
  by (auto simp: keeps_def touches_def identity_kept_def)

lemma touch_stage_file [touch_rules]: "keeps (touches P) (stage_file E d n c)"
  unfolding stage_file_def by (intro keeps_rules touch_rules) simp_all

lemma touch_stage_output [touch_rules]: "keeps (touches P) (stage_output E d n p what)"
  unfolding stage_output_def by (intro keeps_rules touch_rules) simp_all

lemma touch_populate [touch_rules]: "keeps (touches P) (populate_staging E d m)"
  unfolding populate_staging_def dump_postgres_def tar_certs_def tar_tak_config_def tar_nodered_data_def copy_env_def
  by (intro keeps_rules touch_rules) simp_all

lemma touch_versions [touch_rules]: "keeps (touches P) (collect_postgres_versions E dbs)"
  unfolding collect_postgres_versions_def collect_version_def query_version_def
  by (intro keeps_rules touch_rules) simp_all

lemma touch_stream [touch_rules]: "P out \<Longrightarrow> keeps (touches P) (stream_encrypted_archive E d out r)"
  unfolding stream_encrypted_archive_def by (intro keeps_rules touch_rules) simp_all

lemma touch_sidecar [touch_rules]: "P (sidecar n) \<Longrightarrow> keeps (touches P) (write_sha256_sidecar E n)"
  unfolding write_sha256_sidecar_def by (intro keeps_rules touch_rules) simp_all

lemma touch_size [touch_rules]: "keeps (touches P) (file_size E n)"
  unfolding file_size_def by (intro keeps_rules touch_rules) simp_all

lemma touch_lock [touch_rules]: "P lock_name \<Longrightarrow> keeps (touches P) (open_lock E)" "keeps (touches P) (take_lock E)"
  unfolding open_lock_def take_lock_def
  by (intro keeps_rules touch_rules; (auto split: lock_reply.split intro!: keeps_rules)?)+

lemma kept_load: "keeps identity_kept (load_or_create E)"
proof -
  have "keeps identity_kept (thn (if has_key (b_files s) identity_name then ret () else generate_identity E)
      (bnd (read_content E identity_name) (\<lambda>c. of_sum (parse_identity (file_text E c)))))"
    if "has_key (b_files s) identity_name" for s :: "'a bmon"
    using that by (simp add: thn_def)
      (intro keeps_rules kept_touch [where P = "\<lambda>_. False"] touch_rules; simp)
  then have "identity_kept s (snd (load_or_create E s))" for s
    by (cases "has_key (b_files s) identity_name")
      (auto simp: load_or_create_def exists_file_def run_simps keeps_def identity_kept_def has_key_iff)
  then show ?thesis by (simp add: keeps_def)
qed

lemma kept_leaf: "keeps (touches (\<lambda>n. n \<noteq> identity_name)) m \<Longrightarrow> keeps identity_kept m"
  by (erule kept_touch) simp

lemma kept_prune: "keeps identity_kept (prune E k)"
  using prunable_prefix [of identity_name] prefix_not_identity [of identity_name]
  by (intro kept_touch [OF touch_prune]) blast

lemma not_identity:
  "backup_filename E t \<noteq> identity_name" "partial_name (backup_filename E t) \<noteq> identity_name"
  "sidecar (backup_filename E t) \<noteq> identity_name"
  using prefix_not_identity run_names_prefix by metis+

lemma state_not_identity: "state_files n \<Longrightarrow> n \<noteq> identity_name"
  using own_names by (auto simp: state_files_def)

lemma kept_run: "keeps identity_kept (run_backup E actor ip)"
  unfolding run_backup_def exclusive_lock_def locked_run_def make_archive_def finish_backup_def backup_failed_def
    cleanup_partial_def remove_staging_def Let_def
  by (intro keeps_rules kept_load kept_prune identity_kept_preorder;
      intro kept_leaf touch_rules keeps_rules; simp add: not_identity own_names state_not_identity)

text \<open>Every operation of the routes and the commands, with any arguments and in any order.\<close>

inductive backup_step :: "'w benv \<Rightarrow> 'w bmon \<Rightarrow> 'w bmon \<Rightarrow> bool" for E where
  list: "backup_step E s (snd (list_backups E ctx s))"
| status: "backup_step E s (snd (backup_status E ctx s))"
| trigger: "backup_step E s (snd (trigger_run E ctx s))"
| run: "backup_step E s (snd (run_in_thread E ctx job s))"
| download: "backup_step E s (snd (download_backup E ctx f s))"
| delete: "backup_step E s (snd (delete_backup E ctx f s))"
| key: "backup_step E s (snd (download_key E ctx s))"
| cmd_run: "backup_step E s (snd (cmd_run E a s))"
| cmd_list: "backup_step E s (snd (cmd_list E fmt s))"
| cmd_prune: "backup_step E s (snd (cmd_prune E k s))"

lemma kept_existing:
  assumes "\<And>safe. startswith safe backup_prefix \<Longrightarrow> keeps identity_kept (k safe)"
  shows "keeps identity_kept (bnd (existing_backup f) k)"
proof (rule keepsI)
  fix s r t
  assume run: "bnd (existing_backup f) k s = (r, t)"
  show "identity_kept s t"
  proof (cases "safe_filename f")
    case (Inl e)
    with run show ?thesis by (simp add: existing_backup_def run_simps identity_kept_def)
  next
    case (Inr n)
    then have "startswith n backup_prefix" using safe_prefix by (auto simp: safe_filename_def split: if_splits)
    then have k: "keeps identity_kept (k n)" by (rule assms)
    show ?thesis
      using run Inr keepsD [OF k, of s r t] identity_kept_preorder
      by (auto simp: existing_backup_def exists_file_def run_simps identity_kept_def split: if_splits)
  qed
qed

lemma kept_ops:
  "keeps identity_kept (list_backups E ctx)"
  "keeps identity_kept (backup_status E ctx)"
  "keeps identity_kept (trigger_run E ctx)"
  "keeps identity_kept (download_key E ctx)"
  "keeps identity_kept (cmd_list E fmt)"
  unfolding list_backups_def gated_def list_entry_def stamped_backups_def backup_status_def trigger_run_def
    run_backup_preflight_def download_key_def read_identity_def cmd_list_def list_line_def
  by (intro keeps_rules identity_kept_preorder; (intro kept_leaf touch_rules)?; simp add: own_names state_not_identity)+

lemma kept_ops':
  "keeps identity_kept (run_in_thread E ctx job)"
  "keeps identity_kept (cmd_run E a)"
  "keeps identity_kept (cmd_prune E k)"
  unfolding run_in_thread_def cmd_run_def cmd_prune_def Let_def
  by (intro keeps_rules kept_run kept_prune identity_kept_preorder; (intro kept_leaf touch_rules)?;
      simp add: own_names state_not_identity)+

lemma kept_ops'':
  "keeps identity_kept (download_backup E ctx f)"
  "keeps identity_kept (delete_backup E ctx f)"
  unfolding download_backup_def delete_backup_def gated_def
  by (intro keeps_rules kept_existing identity_kept_preorder; (intro kept_leaf touch_rules)?;
      simp add: prefix_not_identity)+

lemma keeps_snd: "keeps I m \<Longrightarrow> I s (snd (m s))"
  by (simp add: keeps_def)

lemma step_keeps: "backup_step E s t \<Longrightarrow> identity_kept s t"
  by (erule backup_step.cases)
    (simp_all add: kept_ops [THEN keeps_snd] kept_ops' [THEN keeps_snd] kept_ops'' [THEN keeps_snd])

text \<open>C16. Once the age identity is there, no sequence of operations changes or removes it, whatever fails
  on the way: every archive made stays decryptable with the key that was downloaded.\<close>

theorem identity_never_lost:
  assumes "(backup_step E)\<^sup>*\<^sup>* s t" and "map_of (b_files s) identity_name = Some f"
  shows "map_of (b_files t) identity_name = Some f"
  using assms(1)
proof (induction rule: rtranclp_induct)
  case (step u v)
  then show ?case using step_keeps [of E u v] by (simp add: identity_kept_def)
qed (fact assms(2))

theorem identity_never_lost_witness:
  "map_of (b_files (snd (delete_backup quiet_env \<lparr>ac_username = ''a'', ac_groups = [''monitor_admin''], ac_client_ip = None\<rparr>
     ''.age-identity'' (snd (cmd_prune quiet_env (Some 0) sample_dir))))) ''.age-identity'' =
   Some \<lparr>f_content = Bytes ''.age-identity'', f_mtime = 0\<rparr>"
proof -
  let ?f = "\<lparr>f_content = Bytes ''.age-identity'', f_mtime = 0\<rparr>" and
    ?ctx = "\<lparr>ac_username = ''a'', ac_groups = [''monitor_admin''], ac_client_ip = None\<rparr>"
  have "(backup_step quiet_env)\<^sup>*\<^sup>* sample_dir
      (snd (delete_backup quiet_env ?ctx ''.age-identity'' (snd (cmd_prune quiet_env (Some 0) sample_dir))))"
    by (rule rtranclp.rtrancl_into_rtrancl [OF r_into_rtranclp]) (rule backup_step.cmd_prune backup_step.delete)+
  from identity_never_lost [OF this, of ?f] show ?thesis
    by (simp add: identity_name_def sample_dir_def)
qed

section \<open>The state file is replaced as a whole\<close>

definition state_file :: "'w bmon \<Rightarrow> bfile option" where
  "state_file s = map_of (b_files s) state_name"

lemma file_op_run [run_simps]:
  "file_op E op s = (case fst (fs_fault E op (b_world s)) of None \<Rightarrow> Inr () | Some e \<Rightarrow> Inl e,
     s\<lparr>b_world := snd (fs_fault E op (b_world s))\<rparr>)"
  by (simp add: file_op_def run_simps split: option.splits)

lemma put_file_run [run_simps]:
  "put_file E n c s = (Inr (), s\<lparr>b_world := snd (be_time E (b_world s)),
     b_files := dict_set n \<lparr>f_content = c, f_mtime = fst (be_time E (b_world s))\<rparr> (b_files s)\<rparr>)"
  by (simp add: put_file_def run_simps)

lemma replace_cases:
  assumes "replace_file E a b s = (r, t)"
  shows "(\<exists>e. r = Inl e \<and> b_files t = b_files s) \<or>
    (\<exists>f. r = Inr () \<and> map_of (b_files s) a = Some f \<and> b_files t = dict_set b f (dict_pop a (b_files s)))"
  using assms by (auto simp: replace_file_def run_simps split: option.splits)

lemma state_touch: "keeps (touches P) m \<Longrightarrow> m s = (r, t) \<Longrightarrow> \<not> P state_name \<Longrightarrow> state_file t = state_file s"
  by (drule (1) keepsD) (simp add: touches_def state_file_def)

lemma write_state_atomic:
  assumes "write_state E p s = (r, t)"
  shows "(\<exists>e. r = Inl e \<and> state_file t = state_file s) \<or>
    (r = Inr () \<and> (\<exists>m. state_file t = Some \<lparr>f_content = Json (J_obj p), f_mtime = m\<rparr>))"
proof -
  let ?body = "thn (file_op E (Fs_write state_temp))
    (thn (put_file E state_temp (Json (J_obj p))) (replace_file E state_temp state_name))"
  let ?handler = "\<lambda>e. thn (if_missing (unlink E state_temp) (ret ())) (raise e) :: ('a bmon, unit) prog"
  have n: "state_temp \<noteq> state_name" using own_names by metis
  have body: "(\<exists>e. q = Inl e \<and> state_file v = state_file u) \<or>
      (q = Inr () \<and> (\<exists>m. state_file v = Some \<lparr>f_content = Json (J_obj p), f_mtime = m\<rparr>))"
    if "?body u = (q, v)" for u v q
    using that n
    by (auto simp: run_simps state_file_def split: option.splits dest!: replace_cases)
  have handler: "\<exists>e. q = Inl e \<and> state_file v = state_file u" if "?handler e u = (q, v)" for e u v q
  proof -
    have k: "keeps (touches (\<lambda>n. n = state_temp)) (?handler e)" by (intro keeps_rules touch_rules) simp_all
    have "state_file v = state_file u" using state_touch [OF k that] n by simp
    then show ?thesis using that by (auto simp: run_simps split: prod.splits sum.splits)
  qed
  define C where "C = catch ?body ?handler"
  have C: "(\<exists>e. q = Inl e \<and> state_file v = state_file u) \<or>
      (q = Inr () \<and> (\<exists>m. state_file v = Some \<lparr>f_content = Json (J_obj p), f_mtime = m\<rparr>))"
    if "C u = (q, v)" for u v q
    using that unfolding C_def
  proof (cases rule: catchE)
    case (returned x)
    with body [OF returned(1)] show ?thesis by auto
  next
    case (caught e w)
    with body [OF caught(1)] handler [OF caught(2)] show ?thesis by auto
  qed
  have "thn (file_op E Fs_mkdir) (thn (file_op E (Fs_create state_temp)) (thn (put_file E state_temp (Bytes [])) C)) s = (r, t)"
    using assms by (simp add: write_state_def C_def)
  then show ?thesis
    by (elim thnE) (use n in \<open>auto simp: run_simps state_file_def split: option.splits dest!: C\<close>)
qed

text \<open>Recording the last run is all or nothing: where it fails at any step the state file is the one before, and
  where it succeeds the file holds the new value and every other entry as it was read.\<close>

lemma last_run_written:
  assumes "write_last_run E v s = (r, t)"
  shows "(\<exists>e. r = Inl e \<and> state_file t = state_file s) \<or>
    (\<exists>old u new m. r = Inr () \<and> read_state E s = (Inr old, u) \<and>
       state_file t = Some \<lparr>f_content = Json (J_obj new), f_mtime = m\<rparr> \<and>
       map_of new ''last_run'' = Some v \<and> (\<forall>k. k \<noteq> ''last_run'' \<longrightarrow> map_of new k = map_of old k))"
  using assms unfolding write_last_run_def
proof (cases rule: bndE)
  case (raised e)
  then show ?thesis using state_touch [OF touch_read_state [where P = "\<lambda>_. False"] raised(1)] by simp
next
  case (goes_on old u)
  have "state_file u = state_file s"
    using state_touch [OF touch_read_state [where P = "\<lambda>_. False"] goes_on(1)] by simp
  with write_state_atomic [OF goes_on(2)] goes_on(1) show ?thesis by fastforce
qed

section \<open>How a run ends\<close>

definition last_run :: "'w bmon \<Rightarrow> json option" where
  "last_run s = (case state_file s of
     Some f \<Rightarrow> (case f_content f of Json (J_obj d) \<Rightarrow> map_of d ''last_run'' | _ \<Rightarrow> None)
   | None \<Rightarrow> None)"

text \<open>The file operations work; programs, databases and the lock may fail.\<close>

definition reliable :: "'w benv \<Rightarrow> bool" where
  "reliable E \<longleftrightarrow> (\<forall>op w. fst (fs_fault E op w) = None)"

text \<open>The state file is missing, a text, or a JSON object, as the program writes it.\<close>

definition state_ok :: "'w benv \<Rightarrow> 'w bmon \<Rightarrow> bool" where
  "state_ok E s \<longleftrightarrow> (case state_file s of None \<Rightarrow> True | Some f \<Rightarrow>
     (case f_content f of Bytes b \<Rightarrow> utf8_ok E b | Json (J_obj _) \<Rightarrow> True | Json _ \<Rightarrow> False))"

definition state_kept_ok :: "'w benv \<Rightarrow> 'w bmon \<Rightarrow> 'w bmon \<Rightarrow> bool" where
  "state_kept_ok E s t \<longleftrightarrow> (state_ok E s \<longrightarrow> state_ok E t)"

lemma state_kept_ok_preorder [simp]: "preorder_rel (state_kept_ok E)"
  by (auto simp: preorder_rel_def reflp_def transp_def state_kept_ok_def)

lemma ok_touch: "keeps (touches (\<lambda>n. n \<noteq> state_name)) m \<Longrightarrow> keeps (state_kept_ok E) m"
  by (auto simp: keeps_def touches_def state_kept_ok_def state_ok_def state_file_def)

lemma ok_last_run: "keeps (state_kept_ok E) (write_last_run E v)"
proof (rule keepsI)
  fix s r t
  assume "write_last_run E v s = (r, t)"
  from last_run_written [OF this] show "state_kept_ok E s t"
    by (auto simp: state_kept_ok_def state_ok_def)
qed

lemma read_state_ok:
  assumes "reliable E" and "state_ok E s"
  shows "\<exists>old u. read_state E s = (Inr old, u)"
  using assms
  by (auto simp: read_state_def exists_file_def read_content_def run_simps reliable_def state_ok_def state_file_def
      has_key_iff merged_defaults_def split: option.splits content.splits json.splits)

lemma write_state_ok:
  assumes "reliable E"
  shows "\<exists>t. write_state E p s = (Inr (), t)"
proof -
  have "state_temp \<noteq> state_name" using own_names by metis
  with assms show ?thesis
    by (auto simp: write_state_def replace_file_def run_simps reliable_def)
qed

lemma write_last_run_ok:
  assumes "reliable E" and "state_ok E s"
  shows "\<exists>t. write_last_run E v s = (Inr (), t) \<and> last_run t = Some v \<and> state_ok E t"
proof -
  obtain old u where "read_state E s = (Inr old, u)" using read_state_ok [OF assms] by blast
  moreover obtain t where "write_state E (dict_set ''last_run'' v old) u = (Inr (), t)"
    using write_state_ok [OF assms(1)] by blast
  ultimately have run: "write_last_run E v s = (Inr (), t)" by (simp add: write_last_run_def run_simps)
  moreover have "last_run t = Some v"
    using last_run_written [OF run] by (auto simp: last_run_def)
  moreover have "state_ok E t" using assms(2) keepsD [OF ok_last_run run] by (simp add: state_kept_ok_def)
  ultimately show ?thesis by blast
qed

lemma prefix_not_state_name: "startswith n backup_prefix \<Longrightarrow> n \<noteq> state_name"
  using prefix_not_state by (auto simp: state_files_def)

lemma not_state_name:
  "backup_filename E t \<noteq> state_name" "partial_name (backup_filename E t) \<noteq> state_name"
  "sidecar (backup_filename E t) \<noteq> state_name" "lock_name \<noteq> state_name" "identity_name \<noteq> state_name"
  "prunable n \<Longrightarrow> n \<noteq> state_name"
  subgoal by (intro prefix_not_state_name run_names_prefix)
  subgoal by (intro prefix_not_state_name run_names_prefix)
  subgoal by (intro prefix_not_state_name run_names_prefix)
  subgoal using own_names by (simp add: state_files_def)
  subgoal using own_names by simp
  subgoal by (intro prefix_not_state_name prunable_prefix)
  done

lemma touch_load [touch_rules]: "P identity_name \<Longrightarrow> keeps (touches P) (load_or_create E)"
  unfolding load_or_create_def generate_identity_def by (intro keeps_rules touch_rules) simp_all

lemma touch_prune_state: "keeps (touches (\<lambda>n. n \<noteq> state_name)) (prune E k)"
  by (rule keeps_touches_weaken [OF touch_prune]) (rule not_state_name)

lemma ok_make_archive: "keeps (state_kept_ok E) (make_archive E d started (backup_filename E t))"
  unfolding make_archive_def
  by (intro ok_touch keeps_rules touch_rules; simp add: not_state_name)

lemma ok_finish: "keeps (state_kept_ok E) (finish_backup E actor ip started (backup_filename E t))"
  unfolding finish_backup_def
  by (intro keeps_rules ok_last_run ok_touch [OF touch_prune_state] state_kept_ok_preorder;
      intro ok_touch touch_rules keeps_rules; simp)

lemma backup_event_run: "\<exists>u. backup_event E e s = (Inr (), u) \<and> b_files u = b_files s"
  by (auto simp: backup_event_def run_simps split: sum.splits)

lemma finish_outcome:
  assumes "finish_backup E actor ip started fn s = (Inr res, t)"
  shows "br_filename res = fn \<and>
    (\<exists>fin. last_run t = Some (last_run_value (J_str (isoformat E started)) fin ''success'' fn J_null))"
proof -
  define rest where "rest size = (thn (backup_event E (audit_row actor ip ''backup.completed'' ''backup'' fn
            [(''size_bytes'', J_int size), (''components'', J_list (map J_str components))]))
    (bnd (of_sum (retention_keep E)) (\<lambda>keep.
     bnd (prune E keep) (\<lambda>pruned.
     thn (for_each pruned (\<lambda>name. backup_event E
            (audit_row actor ip ''backup.pruned'' ''backup'' name [(''reason'', J_str ''retention'')])))
         (ret \<lparr>br_filename = fn, br_size_bytes = size\<rparr>)))))" for size
  have keeps: "keeps (touches (\<lambda>n. n \<noteq> state_name)) (rest size)" for size
    unfolding rest_def by (intro keeps_rules touch_rules touch_prune_state) simp_all
  have name: "br_filename res = fn" if "rest size u = (Inr res, v)" for size u v
    using that unfolding rest_def by (elim thnE bndE) (auto simp: run_simps)
  obtain size u fin v w where run: "write_last_run E (last_run_value (J_str (isoformat E started)) (J_str (isoformat E fin))
      ''success'' fn J_null) v = (Inr (), w)" "rest size w = (Inr res, t)"
    using assms unfolding finish_backup_def rest_def [symmetric]
    by (elim bndE thnE) (auto simp: run_simps)
  have "state_file t = state_file w" using state_touch [OF keeps run(2)] by simp
  then have "last_run t = last_run w" by (simp add: last_run_def)
  moreover have "last_run w = Some (last_run_value (J_str (isoformat E started)) (J_str (isoformat E fin)) ''success'' fn J_null)"
    using last_run_written [OF run(1)] by (auto simp: last_run_def)
  ultimately show ?thesis using name [OF run(2)] by auto
qed

lemma cleanup_reliable:
  assumes "reliable E"
  shows "\<exists>u. cleanup_partial E n s = (Inr (), u) \<and> n \<notin> set (names u)"
proof -
  obtain r u where u: "unlink E n s = (r, u)" by (cases "unlink E n s")
  then show ?thesis
  proof (cases rule: unlink_cases)
    case (fault e)
    with assms show ?thesis by (simp add: reliable_def)
  next
    case gone
    with u show ?thesis by (simp add: cleanup_partial_def if_missing_def run_simps)
  next
    case missing
    with u show ?thesis by (simp add: cleanup_partial_def if_missing_def run_simps file_not_found_def)
  qed
qed

lemma failed_outcome:
  assumes "reliable E" and "state_ok E s" and fn: "fn = backup_filename E t0"
  shows "\<exists>fin t. backup_failed E actor ip run_id started fn e s = (Inl e, t) \<and>
    last_run t = Some (last_run_value (J_str (isoformat E started)) fin ''failed'' fn (J_str (type_name e))) \<and>
    partial_name fn \<notin> set (names t)"
proof -
  let ?p = "partial_name fn"
  obtain u where u: "cleanup_partial E ?p s = (Inr (), u)" "?p \<notin> set (names u)"
    using cleanup_reliable [OF assms(1)] by blast
  have "keeps (touches (\<lambda>n. n \<noteq> state_name)) (cleanup_partial E ?p)"
    unfolding cleanup_partial_def fn by (intro touch_rules keeps_rules) (simp_all add: not_state_name)
  then have ok: "state_ok E u"
    using u(1) assms(2) keepsD [OF ok_touch [where E = E]] by (fastforce simp: state_kept_ok_def)
  let ?now = "fst (be_now E (b_world u))" and ?u = "u\<lparr>b_world := snd (be_now E (b_world u))\<rparr>"
  let ?v = "last_run_value (J_str (isoformat E started)) (J_str (isoformat E ?now)) ''failed'' fn (J_str (type_name e))"
  have "state_ok E ?u" using ok by (simp add: state_ok_def state_file_def)
  then obtain v where v: "write_last_run E ?v ?u = (Inr (), v)" "last_run v = Some ?v"
    using write_last_run_ok [OF assms(1)] by blast
  have "touches state_files ?u v" using touch_last_run [of state_files E ?v] v(1) by (auto dest: keepsD)
  moreover have "\<not> state_files ?p" unfolding fn using run_names_prefix prefix_not_state by blast
  ultimately have "map_of (b_files v) ?p = map_of (b_files u) ?p" by (simp add: touches_def)
  then have gone: "?p \<notin> set (names v)" using u(2) by (simp add: has_key_names [symmetric] has_key_iff)
  obtain w where w: "backup_event E (audit_row actor ip ''backup.failed'' ''backup'' run_id
      [(''error'', J_str (type_name e @ '': '' @ exn_str e))]) v = (Inr (), w)" "b_files w = b_files v"
    using backup_event_run by blast
  have "backup_failed E actor ip run_id started fn e s = (Inl e, w)"
    using w(1) by (simp add: backup_failed_def run_simps u(1) v(1) del: append_Cons)
  moreover have "last_run w = Some ?v" using v(2) w(2) by (simp add: last_run_def state_file_def)
  moreover have "?p \<notin> set (names w)" using gone w(2) by (simp add: names_def)
  ultimately show ?thesis by blast
qed

text \<open>The staging directory a run makes.\<close>

definition run_staging :: "'w benv \<Rightarrow> 'w bmon \<Rightarrow> string" where
  "run_staging E s = ''fasttak-backup-'' @ take 12 (fst (be_uuid_hex E (snd (fs_fault E Fs_mkdir (b_world s)))))"

lemma always_end:
  assumes "always m (remove_staging d) s = (r, t)"
  obtains u where "m s = (r, u)" "t = u\<lparr>b_staging := dict_pop d (b_staging u)\<rparr>"
  using assms by (auto simp: remove_staging_def run_simps split: prod.splits)

lemma locked_outcome:
  assumes "reliable E" and "state_ok E s" and fn: "fn = backup_filename E t0"
    and run: "locked_run E actor ip run_id d started fn s = (r, t)"
  shows "\<not> has_key (b_staging t) d \<and> (case r of
      Inr res \<Rightarrow> br_filename res = fn \<and>
        (\<exists>fin. last_run t = Some (last_run_value (J_str (isoformat E started)) fin ''success'' fn J_null))
    | Inl e \<Rightarrow> (\<exists>fin. last_run t = Some (last_run_value (J_str (isoformat E started)) fin ''failed'' fn (J_str (type_name e)))) \<and>
        partial_name fn \<notin> set (names t))"
proof -
  let ?running = "last_run_value (J_str (isoformat E started)) J_null ''running'' fn J_null"
  let ?body = "thn (make_archive E d started fn) (finish_backup E actor ip started fn)"
  let ?all = "catch ?body (backup_failed E actor ip run_id started fn)"
  obtain u where u: "write_last_run E ?running s = (Inr (), u)" "state_ok E u"
    using write_last_run_ok [OF assms(1,2)] by blast
  obtain v where v: "backup_event E (audit_row actor ip ''backup.started'' ''backup'' run_id
      [(''filename'', J_str fn), (''fasttak_version'', J_str (fasttak_version E))]) u = (Inr (), v)" "b_files v = b_files u"
    using backup_event_run by blast
  have okv: "state_ok E v" using u(2) v(2) by (simp add: state_ok_def state_file_def)
  have "always ?all (remove_staging d) v = (r, t)"
    using run u(1) v(1) unfolding locked_run_def by (simp add: run_simps del: append_Cons)
  then obtain w where w: "?all v = (r, w)" and t: "t = w\<lparr>b_staging := dict_pop d (b_staging w)\<rparr>"
    by (rule always_end)
  have same: "last_run t = last_run w" "names t = names w" "\<not> has_key (b_staging t) d"
    by (simp_all add: t last_run_def state_file_def names_def has_key_iff)
  from w show ?thesis
  proof (cases rule: catchE)
    case (returned res)
    then obtain x where "finish_backup E actor ip started fn x = (Inr res, w)"
      by (auto elim: thnE)
    with finish_outcome returned(2) same show ?thesis by fastforce
  next
    case (caught e x)
    have "keeps (state_kept_ok E) ?body"
      unfolding fn by (intro keeps_rules ok_make_archive ok_finish) simp
    then have "state_ok E x" using caught(1) okv keepsD by (fastforce simp: state_kept_ok_def)
    from failed_outcome [OF assms(1) this fn, of actor ip run_id started e]
    obtain fin ta where f: "backup_failed E actor ip run_id started fn e x = (Inl e :: exn + backup_result, ta)"
      "last_run ta = Some (last_run_value (J_str (isoformat E started)) fin ''failed'' fn (J_str (type_name e)))"
      "partial_name fn \<notin> set (names ta)" by blast
    from f(1) caught(2) have "r = Inl e" "w = ta" by simp_all
    with f(2,3) same show ?thesis by auto
  qed
qed


definition no_keygen :: "unit benv" where
  "no_keygen = quiet_env\<lparr>run_proc := (\<lambda>_ w. (Inr \<lparr>pr_code = 1, pr_out = [], pr_err = ''no entropy''\<rparr>, w))\<rparr>"


text \<open>With a retention setting that is no positive number a run never succeeds, although its archive is
  made and its completion recorded.\<close>

lemma bad_retention_never_succeeds:
  assumes "retention_keep E = Inl err" and "finish_backup E actor ip started fn s = (r, t)"
  shows "\<exists>e. r = Inl e"
  using assms by (auto simp: finish_backup_def run_simps split: prod.splits sum.splits)

text \<open>A run the lock refuses leaves its staging directory behind.\<close>

lemma refused_run_leaks_staging:
  "map fst (b_staging (snd (run_backup (quiet_env\<lparr>flock := (\<lambda>w. (Lock_held, w))\<rparr>) ''admin'' None sample_dir))) =
   [''fasttak-backup-0123456789ab'']"
  by (simp add: run_backup_def exclusive_lock_def open_lock_def take_lock_def exists_file_def run_simps Let_def
    quiet_env_def sample_dir_def)

text \<open>Deleting an archive through the route leaves its checksum file, which the retention removes.\<close>

lemma delete_leaves_sidecar:
  "(let t = snd (delete_backup quiet_env \<lparr>ac_username = ''a'', ac_groups = [''monitor_admin''], ac_client_ip = None\<rparr>
        ''fasttak-backup-20260101T000000Z-v1.age'' sample_dir)
    in (''fasttak-backup-20260101T000000Z-v1.age'' \<in> set (names t),
        ''fasttak-backup-20260101T000000Z-v1.age.sha256'' \<in> set (names t))) = (False, True)"
  by code_simp

text \<open>The \<open>cot\<close> database answers in bytes, so the version check never compares it.\<close>

lemma skew_check_skips_bytes:
  "fst (server_version E db (b_world s)) = Inr (Row_bytes v) \<Longrightarrow> fst (skew_of E client db acc s) = Inr acc"
  by (simp add: skew_of_def row_major_def run_simps)

text \<open>\<open>prune --keep\<close> takes a negative number: the oldest archives go, as many as its amount.\<close>

lemma negative_keep_prunes_oldest: "n < length xs \<Longrightarrow> slice_from (- int (Suc n)) xs = drop (length xs - Suc n) xs"
  by (simp add: slice_from_def nat_add_distrib)

section \<open>The listing\<close>

text \<open>The listing and the retention agree on age: in the newest-first order of the archives the ages
  never decrease.\<close>

lemma listing_ages_sorted:
  "sorted (map (\<lambda>e. age_seconds now (fst e)) (stamped_names ns))"
proof -
  have valid: "valid_datetime d" if "(d, n) \<in> set (stamped_names ns)" for d n
    using that by (auto simp: stamped_set taken_at_def parse_stamp_def Let_def split: if_splits)
  have mono: "age_seconds now a \<le> age_seconds now b" if "micros b \<le> micros a" for a b
    using that by (auto simp: age_seconds_def Let_def sgn_if zdiv_mono1 minus_le_iff intro: order_trans [of _ 0])
  have "sorted_wrt (\<lambda>a b. b \<le> a) (stamped_names ns)"
    using stamped_sorted [of ns] by (simp add: sorted_wrt_rev)
  then have "sorted_wrt (\<lambda>a b. age_seconds now (fst a) \<le> age_seconds now (fst b)) (stamped_names ns)"
    by (rule sorted_wrt_mono_rel [rotated]) (use valid in \<open>auto simp: less_eq_prod_def intro!: mono micros_mono\<close>)
  then show ?thesis by (simp add: sorted_wrt_map)
qed

end
