(* ===== verification/Database.thy ===== *)
theory Database
  imports World Enrollment DateTime
begin

text \<open>
  \<open>monitor/app/db.py\<close> and \<open>monitor/app/fastak_db.py\<close>: the connection strings of the two databases
  and the queries on them. PostgreSQL is a parameter that answers a statement with rows; so are
  the other services the probes and the TAK routes read, gathered in \<open>penv\<close>.
\<close>

section \<open>Outside world\<close>

text \<open>A value of a row or of a parameter. Bytes are what psycopg gives for the text of a \<open>SQL_ASCII\<close>
  database, one character for each byte.\<close>

datatype sql_value =
    S_null
  | S_int int
  | S_num real
  | S_text string
  | S_bytes string
  | S_time datetime
  | S_texts "string list"

type_synonym row = "sql_value list"

text \<open>The SQL text, with its runs of white space written as one space, and its parameters.\<close>

datatype sql = Sql string "sql_value list"

record statvfs =
  f_fsid :: "int option"
  f_frsize :: int
  f_blocks :: int
  f_bavail :: int

datatype openssl_run =
    Ossl_ran int string string     \<comment> \<open>exit code, standard output, standard error\<close>
  | Ossl_timeout
  | Ossl_raised exn

text \<open>\<open>xml\<close> is an element of an XML tree: tag, attributes, children in order.\<close>

datatype xml = Xml (x_tag: string) (x_attrs: "(string \<times> string) list") (x_children: "xml list")

record 'w penv =
  pe_env :: "'w env"
  pe_now :: "'w \<Rightarrow> datetime \<times> 'w"
  pg_query :: "string \<Rightarrow> sql \<Rightarrow> 'w \<Rightarrow> (exn + row list) \<times> 'w"
  pg_execute :: "string \<Rightarrow> sql \<Rightarrow> 'w \<Rightarrow> (exn + unit) \<times> 'w"
  os_statvfs :: "string \<Rightarrow> 'w \<Rightarrow> exn + statvfs"
  openssl_run_on :: "string \<Rightarrow> 'w \<Rightarrow> openssl_run"
  enddate :: "string \<Rightarrow> datetime option"
  tls_leaf :: "string \<Rightarrow> int \<Rightarrow> 'w \<Rightarrow> (exn + string) \<times> 'w"
  der_not_after :: "string \<Rightarrow> exn + datetime"
  github_latest :: "string \<Rightarrow> 'w \<Rightarrow> (exn + int \<times> json option) \<times> 'w"
  env_file :: "'w \<Rightarrow> exn + string"
  digest_hex :: "string \<Rightarrow> string"
  container_stats :: "container \<Rightarrow> 'w \<Rightarrow> (exn + json) \<times> 'w"
  container_logs :: "container \<Rightarrow> int \<Rightarrow> 'w \<Rightarrow> (exn + string) \<times> 'w"
  decode_utf8 :: "string \<Rightarrow> exn + string"
  decode_replacing :: "string \<Rightarrow> string"
  parse_xml :: "string \<Rightarrow> xml option"
  float_text :: "string \<Rightarrow> real option"
  str_of :: "sql_value \<Rightarrow> string"
  iso_of :: "datetime \<Rightarrow> string"

section \<open>Connection strings\<close>

text \<open>\<open>quote_plus\<close>: as \<open>quote\<close>, and a space becomes a plus sign.\<close>

definition quote_plus :: "string \<Rightarrow> string" where
  "quote_plus s = concat (map (\<lambda>b. if b = 32 then ''+'' else quote_byte b) (concat (map utf8 s)))"

definition build_dsn :: "settings \<Rightarrow> exn + string" where
  "build_dsn st =
     (if tak_db_url st \<noteq> [] then Inr (tak_db_url st)
      else if tak_db_password st = []
      then Inl (ValueError ''TAK_DB_PASSWORD must be set (or provide TAK_DB_URL for custom connections)'')
      else Inr (''postgresql://martiuser:'' @ quote_plus (tak_db_password st) @ ''@tak-database:5432/cot''))"

definition build_fastak_dsn :: "settings \<Rightarrow> exn + string" where
  "build_fastak_dsn st =
     (if fastak_db_url st \<noteq> [] then Inr (fastak_db_url st)
      else if fastak_db_password st = []
      then Inl (ValueError ''FASTAK_DB_PASSWORD must be set (or provide FASTAK_DB_URL)'')
      else Inr (''postgresql://'' @ app_db_user st @ '':'' @ quote_plus (fastak_db_password st) @ ''@'' @
                app_db_host st @ '':5432/fastak''))"

section \<open>Statements\<close>

definition run_query :: "'w penv \<Rightarrow> sql \<Rightarrow> ('w mon, row list) prog" where
  "run_query E q =
     bnd (of_sum (build_dsn (cfg (pe_env E)))) (\<lambda>dsn. bnd (tick (pg_query E dsn q)) of_sum)"

definition execute :: "'w penv \<Rightarrow> sql \<Rightarrow> ('w mon, unit) prog" where
  "execute E q =
     bnd (of_sum (build_dsn (cfg (pe_env E)))) (\<lambda>dsn. bnd (tick (pg_execute E dsn q)) of_sum)"

definition fastak_execute :: "'w penv \<Rightarrow> sql \<Rightarrow> ('w mon, unit) prog" where
  "fastak_execute E q =
     bnd (of_sum (build_fastak_dsn (cfg (pe_env E)))) (\<lambda>dsn. bnd (tick (pg_execute E dsn q)) of_sum)"

definition fastak_fetch :: "'w penv \<Rightarrow> sql \<Rightarrow> ('w mon, row list) prog" where
  "fastak_fetch E q =
     bnd (of_sum (build_fastak_dsn (cfg (pe_env E)))) (\<lambda>dsn. bnd (tick (pg_query E dsn q)) of_sum)"

text \<open>\<open>int(v)\<close> and \<open>float(v)\<close> of a value of a row; \<open>rows[0][0]\<close>.\<close>

definition sql_int :: "sql_value \<Rightarrow> exn + int" where
  "sql_int v =
     (let of_text = (\<lambda>s. case parse_int s of Some i \<Rightarrow> Inr i
        | None \<Rightarrow> Inl (ValueError (''invalid literal for int() with base 10: '' @ in_quotes s))) in
      case v of
        S_int i \<Rightarrow> Inr i
      | S_num x \<Rightarrow> Inr (if 0 \<le> x then \<lfloor>x\<rfloor> else \<lceil>x\<rceil>)
      | S_text s \<Rightarrow> of_text s
      | S_bytes s \<Rightarrow> of_text s
      | _ \<Rightarrow> Inl TypeError)"

definition sql_float :: "'w penv \<Rightarrow> sql_value \<Rightarrow> exn + real" where
  "sql_float E v =
     (let of_text = (\<lambda>s. case float_text E s of Some x \<Rightarrow> Inr x
        | None \<Rightarrow> Inl (ValueError (''could not convert string to float: '' @ in_quotes s))) in
      case v of
        S_int i \<Rightarrow> Inr (real_of_int i)
      | S_num x \<Rightarrow> Inr x
      | S_text s \<Rightarrow> of_text s
      | S_bytes s \<Rightarrow> of_text s
      | _ \<Rightarrow> Inl TypeError)"

definition first_value :: "row list \<Rightarrow> exn + sql_value" where
  "first_value rows = (case rows of (v # _) # _ \<Rightarrow> Inr v | _ \<Rightarrow> Inl IndexError)"

section \<open>What the database reads\<close>

text \<open>The password in a connection URI as libpq reads it: between the first colon after the scheme and
  the at sign, percent-decoded (a plus sign is a plus sign).\<close>

definition dsn_password :: "string \<Rightarrow> string option" where
  "dsn_password uri = (case split_once (CHR '':'') (drop (length ''postgresql://'') uri) of
     [_, rest] \<Rightarrow> unquote (takeWhile (\<lambda>c. c \<noteq> CHR ''@'') rest)
   | _ \<Rightarrow> None)"

lemma quote_plus_quote: "CHR '' '' \<notin> set s \<Longrightarrow> quote_plus s = quote s"
proof -
  assume s: "CHR '' '' \<notin> set s"
  have "32 \<notin> set (utf8 c)" if "c \<in> set s" for c
  proof -
    have "of_char (CHR '' '') = (32 :: nat)" by simp
    with s that have "codepoint c \<noteq> 32" unfolding codepoint_def by (metis of_char_eq_iff)
    then show ?thesis by (auto simp: utf8_def Let_def)
  qed
  then have "32 \<notin> set (concat (map utf8 s))" by simp
  then have "map (\<lambda>b. if b = 32 then ''+'' else quote_byte b) (concat (map utf8 s)) =
      map quote_byte (concat (map utf8 s))"
    by (intro map_cong) auto
  then show ?thesis unfolding quote_plus_def quote_def by (rule arg_cong)
qed

lemma quote_no_at: "CHR ''@'' \<notin> set (quote s)"
proof
  assume "CHR ''@'' \<in> set (quote s)"
  then have "url_safe (codepoint (CHR ''@'')) \<or> CHR ''@'' = CHR ''%''"
    unfolding quote_def by (auto dest: quote_byte_chars utf8_bytes)
  then show False by (auto simp: url_safe_def codepoint_def)
qed

lemma takeWhile_until: "c \<notin> set s \<Longrightarrow> takeWhile (\<lambda>d. d \<noteq> c) (s @ c # t) = s"
  by (induction s) auto

section \<open>Properties\<close>

text \<open>The connection string carries the password intact: for every password without a space, whatever
  reserved characters it holds, the database reads back the configured password.\<close>

lemma dsn_password_round_trip:
  assumes "tak_db_url st = []" and "tak_db_password st \<noteq> []" and "CHR '' '' \<notin> set (tak_db_password st)"
  shows "\<exists>uri. build_dsn st = Inr uri \<and> dsn_password uri = Some (tak_db_password st)"
proof -
  let ?p = "tak_db_password st"
  let ?rest = "quote ?p @ ''@tak-database:5432/cot''"
  have "build_dsn st = Inr (''postgresql://martiuser:'' @ ?rest)"
    using assms by (simp add: build_dsn_def quote_plus_quote)
  moreover have "split_once (CHR '':'') (''martiuser'' @ CHR '':'' # ?rest) = [''martiuser'', ?rest]"
    by (rule split_once_app) simp
  moreover have "takeWhile (\<lambda>c. c \<noteq> CHR ''@'') ?rest = quote ?p"
    using takeWhile_until [OF quote_no_at, of ?p "''tak-database:5432/cot''"] by simp
  ultimately show ?thesis by (simp add: dsn_password_def unquote_quote)
qed

text \<open>A space is lost: it is written as a plus sign, which libpq does not decode.\<close>

lemma dsn_space_lost:
  "dsn_password (projr (build_dsn (default_settings\<lparr>tak_db_password := ''a b''\<rparr>))) = Some ''a+b''"
  by code_simp

end
