(* ===== verification/Probes.thy ===== *)
theory Probes
  imports Database DockerClient Evaluator
begin

text \<open>
  The probes of \<open>monitor/app/api/health\<close>: \<open>database.py\<close>, \<open>autovacuum.py\<close>, \<open>disk.py\<close>, \<open>certs.py\<close>,
  \<open>tls.py\<close>, \<open>containers.py\<close>, \<open>config_drift.py\<close> and \<open>updates.py\<close>. Each gives the dictionary the
  evaluator reads. Floats are real numbers; \<open>round\<close> and the format \<open>.1f\<close> round half to even.
\<close>

section \<open>Numbers\<close>

definition half_even :: "real \<Rightarrow> int" where
  "half_even x = (let f = \<lfloor>x\<rfloor>; d = x - of_int f in
     if d < 1 / 2 then f else if 1 / 2 < d then f + 1 else if even f then f else f + 1)"

definition round_to :: "nat \<Rightarrow> real \<Rightarrow> real" where
  "round_to n x = real_of_int (half_even (x * 10 ^ n)) / 10 ^ n"

definition fixed1 :: "real \<Rightarrow> string" where
  "fixed1 x = (let n = half_even (\<bar>x\<bar> * 10) in
     (if x < 0 then ''-'' else []) @ str_of_int (n div 10) @ ''.'' @ str_of_int (n mod 10))"

definition probe_error :: "string \<Rightarrow> jobj" where
  "probe_error m = [(''error'', J_str m)]"

definition probe_items :: "json list \<Rightarrow> jobj" where
  "probe_items xs = [(''items'', J_list xs)]"

section \<open>Database size and autovacuum\<close>

fun human_from :: "string list \<Rightarrow> real \<Rightarrow> string" where
  "human_from [] b = fixed1 b @ '' PB''"
| "human_from (u # us) b = (if b < 1024 then fixed1 b @ '' '' @ u else human_from us (b / 1024))"

definition human_size :: "int \<Rightarrow> string" where
  "human_size b = human_from [''B'', ''KB'', ''MB'', ''GB'', ''TB''] (real_of_int b)"

definition query_int :: "'w penv \<Rightarrow> string \<Rightarrow> ('w mon, int) prog" where
  "query_int E q = bnd (run_query E (Sql q [])) (\<lambda>rows. of_sum (andthen (first_value rows) sql_int))"

definition get_cot_db_size :: "'w penv \<Rightarrow> ('w mon, jobj) prog" where
  "get_cot_db_size E =
     catch
      (bnd (query_int E ''SELECT pg_database_size('cot')'') (\<lambda>size_bytes.
       bnd (query_int E ''SELECT COALESCE(SUM(pg_total_relation_size(relid)), 0) FROM pg_stat_user_tables'')
         (\<lambda>live_bytes.
       ret [(''size_bytes'', J_int size_bytes), (''size_human'', J_str (human_size size_bytes)),
            (''live_bytes'', J_int live_bytes), (''live_human'', J_str (human_size live_bytes))])))
      (\<lambda>e. ret (probe_error (take 200 (exn_str e))))"

definition autovacuum_sql :: string where
  "autovacuum_sql = ''SELECT relname, n_dead_tup, n_live_tup, '' @
     ''ROUND(100.0 * n_dead_tup / NULLIF(n_live_tup + n_dead_tup, 0), 1) AS dead_pct '' @
     ''FROM pg_stat_user_tables ORDER BY n_dead_tup DESC; ''"

definition sql_json :: "'w penv \<Rightarrow> sql_value \<Rightarrow> json" where
  "sql_json E v = (case v of
     S_null \<Rightarrow> J_null
   | S_int i \<Rightarrow> J_int i
   | S_num x \<Rightarrow> J_float x
   | S_text s \<Rightarrow> J_str s
   | S_bytes s \<Rightarrow> J_str s
   | S_time t \<Rightarrow> J_str (iso_of E t)
   | S_texts ts \<Rightarrow> J_list (map J_str ts))"

definition autovacuum_item :: "'w penv \<Rightarrow> row \<Rightarrow> exn + json" where
  "autovacuum_item E r = (case r of
     [relname, dead, live, dead_pct] \<Rightarrow>
       andthen (case relname of S_bytes b \<Rightarrow> decode_utf8 E b | v \<Rightarrow> Inr (str_of E v)) (\<lambda>name.
       andthen (if dead_pct = S_null then Inr 0 else sql_float E dead_pct) (\<lambda>pct.
       Inr (J_obj [(''table'', J_str name), (''dead_tuples'', sql_json E dead),
                   (''live_tuples'', sql_json E live), (''dead_pct'', J_float pct)])))
   | _ \<Rightarrow> Inl (ValueError ''wrong number of values to unpack''))"

definition get_autovacuum_health :: "'w penv \<Rightarrow> ('w mon, jobj) prog" where
  "get_autovacuum_health E =
     bnd (catch (bnd (run_query E (Sql autovacuum_sql [])) (\<lambda>rows. ret (Inr rows)))
                (\<lambda>e. ret (Inl (take 200 (exn_str e))))) (\<lambda>r.
     case r of
       Inl m \<Rightarrow> ret (probe_error m)
     | Inr rows \<Rightarrow> bnd (collect (\<lambda>row. of_sum (autovacuum_item E row)) rows) (\<lambda>items. ret (probe_items items)))"

section \<open>Disks\<close>

definition mount_points :: "(string \<times> string) list" where
  "mount_points = [(''root'', ''/''), (''tak-certs'', ''/opt/tak/certs'')]"

definition gigabytes :: "int \<Rightarrow> json" where
  "gigabytes b = J_float (round_to 1 (real_of_int b / 1024 / 1024 / 1024))"

definition disk_item :: "string \<Rightarrow> string \<Rightarrow> statvfs \<Rightarrow> json" where
  "disk_item label path st =
     (let total = f_frsize st * f_blocks st; free = f_frsize st * f_bavail st; used = total - free in
      J_obj [(''mount'', J_str label), (''path'', J_str path), (''total_gb'', gigabytes total),
             (''used_gb'', gigabytes used), (''free_gb'', gigabytes free),
             (''percent'', if 0 < total then J_float (round_to 1 (real_of_int used / real_of_int total * 100))
                         else J_int 0)])"

definition disk_step ::
    "'w penv \<Rightarrow> string \<times> string \<Rightarrow> int list \<times> json list \<Rightarrow> ('w mon, int list \<times> json list) prog" where
  "disk_step E e acc = (case (e, acc) of ((label, path), (seen, results)) \<Rightarrow>
     bnd (look (path_exists (pe_env E) path)) (\<lambda>there.
     if \<not> there then ret acc else
     bnd (look (os_statvfs E path)) (\<lambda>r. case r of
       Inl ex \<Rightarrow> if is_os_error ex then ret acc else raise ex
     | Inr st \<Rightarrow>
         let device = (case f_fsid st of None \<Rightarrow> 0 | Some d \<Rightarrow> d) in
         if device \<in> set seen \<and> device \<noteq> 0 then ret acc
         else ret (device # seen, results @ [disk_item label path st]))))"

definition get_disk_usage :: "'w penv \<Rightarrow> ('w mon, jobj) prog" where
  "get_disk_usage E = bnd (fold_prog (disk_step E) mount_points ([], [])) (\<lambda>(_, results). ret (probe_items results))"

section \<open>TAK certificates\<close>

definition health_cert_dir :: string where
  "health_cert_dir = ''/opt/tak/certs/files''"

definition infra_names :: "string list" where
  "infra_names = [''ca'', ''root-ca'', ''ca-trusted'', ''root-ca-trusted'', ''takserver'']"

definition categorize_cert :: "string \<Rightarrow> string" where
  "categorize_cert filename =
     (let stem = removesuffix filename ''.pem'' in
      if stem \<in> set infra_names then ''infrastructure''
      else if startswith stem ''svc_'' then ''service''
      else if CHR ''.'' \<in> set stem \<and> stem \<notin> set infra_names then ''infrastructure''
      else ''user'')"

text \<open>Whole days from one time to another, rounded down: \<open>(a - b).days\<close>.\<close>

definition days_between :: "datetime \<Rightarrow> datetime \<Rightarrow> int" where
  "days_between a b = (micros a - micros b) div 86400000000"

definition iso_date :: "datetime \<Rightarrow> string" where
  "iso_date t = str_of_int (dt_year t) @ ''-'' @ pad 2 (dt_month t) @ ''-'' @ pad 2 (dt_day t)"

definition cert_line :: "string \<times> string \<Rightarrow> string \<Rightarrow> string \<times> string" where
  "cert_line acc line = (case acc of (subject, expiry) \<Rightarrow>
     if startswith line ''subject='' then (strip (drop 8 line), expiry)
     else if startswith line ''notAfter='' then (subject, strip (drop 9 line))
     else acc)"

definition parse_cert_expiry :: "'w penv \<Rightarrow> string \<Rightarrow> ('w mon, jobj) prog" where
  "parse_cert_expiry E name =
     (let failed = (\<lambda>m. [(''file'', J_str name), (''error'', J_str m)]) in
      bnd (look (openssl_run_on E (health_cert_dir @ ''/'' @ name))) (\<lambda>run. case run of
        Ossl_raised e \<Rightarrow> raise e
      | Ossl_timeout \<Rightarrow> ret (failed ''openssl timed out after 5s'')
      | Ossl_ran code out err \<Rightarrow>
          if code \<noteq> 0 then
            ret (failed (''openssl: '' @ (case splitlines (strip err) of
                   reason # _ \<Rightarrow> reason | [] \<Rightarrow> ''exit '' @ str_of_int code)))
          else
            let (subject, expiry) = foldl cert_line ([], []) (split_on newline (strip out)) in
            if expiry = [] then ret (failed ''no notAfter in openssl output'')
            else (case enddate E expiry of
                None \<Rightarrow> ret (failed (''unparseable notAfter: '' @ expiry))
              | Some t \<Rightarrow>
                  bnd (tick (pe_now E)) (\<lambda>now.
                  ret [(''file'', J_str name), (''subject'', J_str subject), (''expires'', J_str (iso_date t)),
                       (''days_left'', J_int (days_between t now))]))))"

definition monitored_certs :: "string list \<Rightarrow> string list" where
  "monitored_certs files = filter (\<lambda>n. categorize_cert n \<noteq> ''user'') (sort (filter (\<lambda>n. endswith n ''.pem'') files))"

definition cert_item :: "'w penv \<Rightarrow> string \<Rightarrow> ('w mon, json) prog" where
  "cert_item E name =
     bnd (parse_cert_expiry E name) (\<lambda>info. ret (J_obj (dict_set ''category'' (J_str (categorize_cert name)) info)))"

definition get_cert_status :: "'w penv \<Rightarrow> ('w mon, jobj) prog" where
  "get_cert_status E =
     bnd (look (path_exists (pe_env E) health_cert_dir)) (\<lambda>there.
     if \<not> there then ret (probe_items []) else
     bnd (look (cert_dir_files (pe_env E))) (\<lambda>files.
     catch (bnd (collect (cert_item E) (monitored_certs files)) (\<lambda>items. ret (probe_items items)))
       (\<lambda>e. if is_os_error e then ret (probe_error (''openssl could not run: '' @ exn_str e)) else raise e)))"

section \<open>Served TLS certificates\<close>

definition tls_domain :: "string \<Rightarrow> int \<Rightarrow> string" where
  "tls_domain hostname port = (if port \<noteq> 443 then hostname @ '':'' @ str_of_int port else hostname)"

definition tls_failed :: "string \<Rightarrow> string \<Rightarrow> jobj" where
  "tls_failed domain m = [(''domain'', J_str domain), (''error'', J_str m)]"

text \<open>\<open>tls_leaf\<close> is the connection and the handshake; it gives the certificate presented.\<close>

definition probe_tls_expiry :: "'w penv \<Rightarrow> string \<times> int \<Rightarrow> ('w mon, jobj) prog" where
  "probe_tls_expiry E ep = (case ep of (hostname, port) \<Rightarrow>
     let domain = tls_domain hostname port in
     bnd (tick (tls_leaf E hostname port)) (\<lambda>r. case r of
       Inl e \<Rightarrow> ret (tls_failed domain (take 200 (type_name e @ (if exn_str e \<noteq> [] then '': '' @ exn_str e else []))))
     | Inr der \<Rightarrow>
         if der = [] then ret (tls_failed domain ''no certificate presented'') else
         (case der_not_after E der of
            Inl (ValueError m) \<Rightarrow> ret (tls_failed domain (take 200 (''unparseable certificate: '' @ m)))
          | Inl e \<Rightarrow> raise e
          | Inr t \<Rightarrow>
              bnd (tick (pe_now E)) (\<lambda>now.
              ret [(''domain'', J_str domain), (''expires'', J_str (iso_date t)),
                   (''days_left'', J_int (days_between t now))]))))"

definition tls_endpoints :: "settings \<Rightarrow> (string \<times> int) list" where
  "tls_endpoints st =
     (let a = server_address st in
      if deploy_mode st = ''direct''
      then [(a, 443), (a, takserver_admin_port st), (a, nodered_port st), (a, monitor_port st), (a, mediamtx_port st)]
      else [(takserver_subdomain st @ ''.'' @ a, 443), (nodered_subdomain st @ ''.'' @ a, 443),
            (mediamtx_subdomain st @ ''.'' @ a, 443)])"

definition tls_step ::
    "'w penv \<Rightarrow> string \<times> int \<Rightarrow> json list \<times> json list \<Rightarrow> ('w mon, json list \<times> json list) prog" where
  "tls_step E ep acc = (case acc of (seen, results) \<Rightarrow>
     bnd (probe_tls_expiry E ep) (\<lambda>info.
     if has_key info ''error'' then ret (seen, results @ [J_obj info])
     else if jget info ''expires'' \<in> set seen then ret acc
     else ret (jget info ''expires'' # seen, results @ [J_obj info])))"

definition get_tls_status :: "'w penv \<Rightarrow> ('w mon, jobj) prog" where
  "get_tls_status E =
     (let st = cfg (pe_env E) in
      if server_address st = [] \<or> server_address st = ''localhost'' then ret (probe_items []) else
      bnd (fold_prog (tls_step E) (tls_endpoints st) ([], [])) (\<lambda>(_, results). ret (probe_items results)))"

section \<open>Containers\<close>

definition container_health :: "container \<Rightarrow> string" where
  "container_health c = (case con_health c of None \<Rightarrow> ''unknown'' | Some h \<Rightarrow> h)"

definition container_row :: "string \<Rightarrow> container \<Rightarrow> json" where
  "container_row name c =
     J_obj [(''name'', J_str name), (''status'', J_str (con_status c)), (''health'', J_str (container_health c)),
            (''image'', J_str (case con_image_tags c of t # _ \<Rightarrow> t | [] \<Rightarrow> []))]"

definition container_rows :: "'w penv \<Rightarrow> string \<Rightarrow> ('w mon, json list) prog" where
  "container_rows E name =
     bnd (find_container (pe_env E) name) (\<lambda>c. case c of
       None \<Rightarrow> ret [J_obj [(''name'', J_str name), (''status'', J_str ''not_found''), (''health'', J_str ''unknown'')]]
     | Some c \<Rightarrow>
         if con_status c = ''exited'' \<and> con_exit_code c = Some 0 then ret [] else ret [container_row name c])"

definition get_all_container_health :: "'w penv \<Rightarrow> ('w mon, jobj) prog" where
  "get_all_container_health E =
     catch (bnd (discover_services (pe_env E)) (\<lambda>names.
            bnd (collect (container_rows E) names) (\<lambda>rows. ret (probe_items (concat rows)))))
       (\<lambda>_. ret (probe_error ''Docker not available''))"

section \<open>Configuration drift\<close>

text \<open>The module keeps the hash of \<open>.env\<close> taken at startup beside the monitor's other state.\<close>

record 'w pmon =
  pm_mon :: "'w mon"
  pm_startup_hash :: "string option"

definition on_mon :: "('w mon, 'a) prog \<Rightarrow> ('w pmon, 'a) prog" where
  "on_mon m = (\<lambda>s. case m (pm_mon s) of (r, t) \<Rightarrow> (r, s\<lparr>pm_mon := t\<rparr>))"

definition hash_env_file :: "'w penv \<Rightarrow> ('w pmon, string option) prog" where
  "hash_env_file E =
     bnd (on_mon (look (env_file E))) (\<lambda>r. case r of
       Inr contents \<Rightarrow> ret (Some (digest_hex E contents))
     | Inl e \<Rightarrow> if is_os_error e then ret None else raise e)"

definition init_config_hash :: "'w penv \<Rightarrow> ('w pmon, unit) prog" where
  "init_config_hash E = bnd (hash_env_file E) (\<lambda>h. modify (\<lambda>s. s\<lparr>pm_startup_hash := h\<rparr>))"

definition drift_message :: string where
  "drift_message = ''Configuration has changed since startup. Restart init-config and tak-server to apply: '' @
     ''docker compose up -d --force-recreate init-config tak-server''"

definition check_config_drift :: "'w penv \<Rightarrow> ('w pmon, jobj) prog" where
  "check_config_drift E =
     bnd (gets pm_startup_hash) (\<lambda>startup.
     if startup = None then ret [(''changed'', J_bool False), (''message'', J_str ''.env not mounted'')] else
     bnd (hash_env_file E) (\<lambda>current.
     if current = None then ret (probe_error ''.env file unreadable'')
     else if current \<noteq> startup then ret [(''changed'', J_bool True), (''message'', J_str drift_message)]
     else ret [(''changed'', J_bool False)]))"

section \<open>Updates\<close>

definition update_components :: "settings \<Rightarrow> (string \<times> string \<times> string) list" where
  "update_components st =
     [(''lldap'', ''lldap/lldap'', lldap_version st), (''mediamtx'', ''bluenviron/mediamtx'', mediamtx_version st),
      (''nodered'', ''node-red/node-red'', nodered_version st)]"

definition extract_version :: "string \<Rightarrow> string" where
  "extract_version tag =
     (if startswith tag ''version/'' then drop 8 tag else if startswith tag ''v'' then drop 1 tag else tag)"

definition update_failed :: "string \<Rightarrow> string \<Rightarrow> string \<Rightarrow> json" where
  "update_failed name current m =
     J_obj [(''name'', J_str name), (''current'', J_str current), (''latest'', J_str ''unknown''),
            (''update_available'', J_bool False), (''error'', J_str m)]"

definition update_found :: "string \<Rightarrow> string \<Rightarrow> json option \<Rightarrow> exn + json" where
  "update_found name current reply =
     andthen (case reply of None \<Rightarrow> Inl (ValueError ''JSONDecodeError'') | Some j \<Rightarrow> as_obj j) (\<lambda>data.
     andthen (case get_or data ''tag_name'' (J_str []) of J_str t \<Rightarrow> Inr (extract_version t) | _ \<Rightarrow> Inl AttributeError)
       (\<lambda>latest.
     let current_clean = extract_version current in
     Inr (J_obj [(''name'', J_str name), (''current'', J_str current_clean), (''latest'', J_str latest),
                 (''update_available'', J_bool (latest \<noteq> current_clean \<and> latest \<noteq> [])),
                 (''release_url'', get_or data ''html_url'' (J_str []))])))"

definition update_item :: "'w penv \<Rightarrow> string \<times> string \<times> string \<Rightarrow> ('w mon, json) prog" where
  "update_item E c = (case c of (name, repo, current) \<Rightarrow>
     catch
      (bnd (bnd (tick (github_latest E repo)) of_sum) (\<lambda>(status_code, reply).
       if status_code = 200 then of_sum (update_found name current reply)
       else ret (update_failed name current (''HTTP '' @ str_of_int status_code))))
      (\<lambda>e. ret (update_failed name current (take 100 (exn_str e)))))"

definition check_updates :: "'w penv \<Rightarrow> ('w mon, jobj) prog" where
  "check_updates E =
     bnd (collect (update_item E) (update_components (cfg (pe_env E)))) (\<lambda>items. ret (probe_items items))"

end
