(* ===== verification/MonConfig.thy ===== *)
theory MonConfig
  imports Evaluator "HOL-Library.Sublist"
begin

text \<open>
  \<open>monitor/app/monitoring_config.py\<close>: the thresholds file with the overrides of the environment,
  and \<open>monitor/config/thresholds.yml\<close> as it is shipped. The text of a float is read by the
  parameter \<open>fl\<close> (\<open>float(value)\<close>, nothing where it raises).
\<close>

section \<open>Loading\<close>

definition env_prefix :: string where
  "env_prefix = ''FASTAK_MON_''"

text \<open>\<open>s.split("__")\<close>; \<open>w\<close> is the part read so far, reversed.\<close>

fun split_dunder :: "string \<Rightarrow> string \<Rightarrow> string list" where
  "split_dunder w (c # d # s) =
     (if c = CHR ''_'' \<and> d = CHR ''_'' then rev w # split_dunder [] s else split_dunder (c # w) (d # s))"
| "split_dunder w s = [rev w @ s]"

text \<open>\<open>k in obj\<close> and \<open>obj[k]\<close> for a string \<open>k\<close>: a list or a string has no such index.\<close>

definition json_in :: "string \<Rightarrow> json \<Rightarrow> exn + bool" where
  "json_in k obj = (case obj of
     J_obj d \<Rightarrow> Inr (has_key d k)
   | J_list xs \<Rightarrow> Inr (J_str k \<in> set xs)
   | J_str s \<Rightarrow> Inr (contains s k)
   | _ \<Rightarrow> Inl TypeError)"

definition json_dict :: "json \<Rightarrow> exn + jobj" where
  "json_dict obj = (case obj of J_obj d \<Rightarrow> Inr d | _ \<Rightarrow> Inl TypeError)"

text \<open>The override in the type of the value it replaces; a \<open>bool\<close> is an \<open>int\<close>.\<close>

definition coerced :: "(string \<Rightarrow> real option) \<Rightarrow> json \<Rightarrow> string \<Rightarrow> exn + json" where
  "coerced fl existing value =
     (let as_int = (case parse_int value of
            Some i \<Rightarrow> Inr (J_int i)
          | None \<Rightarrow> Inl (ValueError (''invalid literal for int() with base 10: '' @ in_quotes value))) in
      case existing of
        J_int _ \<Rightarrow> as_int
      | J_bool _ \<Rightarrow> as_int
      | J_float _ \<Rightarrow> (case fl value of
            Some x \<Rightarrow> Inr (J_float x)
          | None \<Rightarrow> Inl (ValueError (''could not convert string to float: '' @ in_quotes value)))
      | _ \<Rightarrow> Inr (J_str value))"

fun apply_override :: "(string \<Rightarrow> real option) \<Rightarrow> json \<Rightarrow> string list \<Rightarrow> string \<Rightarrow> exn + json" where
  "apply_override fl obj [] value = Inl IndexError"
| "apply_override fl obj (part # path) value =
     andthen (json_in (lower part) obj) (\<lambda>there.
     if \<not> there then Inr obj else
     andthen (json_dict obj) (\<lambda>d.
     andthen (if path = [] then coerced fl (jget d (lower part)) value
              else apply_override fl (jget d (lower part)) path value) (\<lambda>v.
     Inr (J_obj (dict_set (lower part) v d)))))"

definition apply_env :: "(string \<Rightarrow> real option) \<Rightarrow> string \<times> string \<Rightarrow> jobj \<Rightarrow> exn + jobj" where
  "apply_env fl e config = (case e of (key, value) \<Rightarrow>
     if \<not> startswith key env_prefix then Inr config else
     let parts = split_dunder [] (drop (length env_prefix) key) in
     if length parts < 2 then Inr config else
     let service = lower (hd parts) in
     case map_of config service of
       None \<Rightarrow> Inr config
     | Some obj \<Rightarrow> andthen (apply_override fl obj (tl parts) value) (\<lambda>v. Inr (dict_set service v config)))"

definition load_config :: "(string \<Rightarrow> real option) \<Rightarrow> jobj \<Rightarrow> (string \<times> string) list \<Rightarrow> exn + jobj" where
  "load_config fl file environ = sum_fold (apply_env fl) environ file"

section \<open>The shipped file\<close>

definition two_levels :: "json \<Rightarrow> json \<Rightarrow> json" where
  "two_levels w c = J_obj [(''warning'', w), (''critical'', c)]"

definition service_conf :: "int \<Rightarrow> string \<Rightarrow> jobj \<Rightarrow> json" where
  "service_conf interval min_level thresholds =
     J_obj [(''interval'', J_int interval), (''alert_min_level'', J_str min_level), (''thresholds'', J_obj thresholds)]"

definition flag_levels :: json where
  "flag_levels = J_obj [(''true'', J_str ''note''), (''false'', J_str ''ok'')]"

definition thresholds_yml :: jobj where
  "thresholds_yml =
   [(''alert_cooldown'', J_int 300),
    (''database'', service_conf 60 ''warning''
       [(''size_bytes'', two_levels (J_int 25000000000) (J_int 40000000000))]),
    (''autovacuum'', service_conf 60 ''warning''
       [(''dead_pct'', two_levels (J_float 5) (J_float 15)), (''min_dead_tuples'', J_int 1000)]),
    (''disk'', service_conf 300 ''warning'' [(''percent'', two_levels (J_int 80) (J_int 90))]),
    (''certs'', service_conf 3600 ''warning'' [(''days_left'', two_levels (J_int 30) (J_int 7))]),
    (''tls'', service_conf 3600 ''warning'' [(''days_left'', two_levels (J_int 30) (J_int 7))]),
    (''containers'', service_conf 60 ''warning''
       [(''default_status'', J_str ''warning''),
        (''health'', J_obj [(''healthy'', J_str ''ok''), (''starting'', J_str ''note''), (''unhealthy'', J_str ''critical'')]),
        (''status'', J_obj [(''running'', J_str ''ok''), (''exited'', J_str ''critical''), (''not_found'', J_str ''critical'')])]),
    (''config'', service_conf 60 ''note'' [(''changed'', flag_levels)]),
    (''updates'', service_conf 21600 ''note'' [(''update_available'', flag_levels), (''error_status'', J_str ''note'')])]"

section \<open>What an override may change\<close>

text \<open>\<open>kept_kind a b\<close>: \<open>b\<close> may stand where the file has \<open>a\<close>. A number stays a number of its kind (a
  truth value becomes an integer), a dictionary keeps its keys in order unless it is replaced as
  a whole, and a text is what everything else becomes.\<close>

inductive kept_kind :: "json \<Rightarrow> json \<Rightarrow> bool" where
  same: "kept_kind a a"
| int: "kept_kind (J_int i) (J_int k)"
| bool: "kept_kind (J_bool b) (J_int k)"
| float: "kept_kind (J_float x) (J_float y)"
| replaced: "num_of a = None \<Longrightarrow> kept_kind a (J_str s)"
| dict: "list_all2 (\<lambda>e f. fst e = fst f \<and> kept_kind (snd e) (snd f)) d d' \<Longrightarrow> kept_kind (J_obj d) (J_obj d')"

inductive_cases kept_intE: "kept_kind (J_int i) b"
inductive_cases kept_floatE: "kept_kind (J_float x) b"
inductive_cases kept_strE: "kept_kind (J_str s) b"
inductive_cases kept_objE: "kept_kind (J_obj d) b"

abbreviation kept_entries :: "jobj \<Rightarrow> jobj \<Rightarrow> bool" where
  "kept_entries \<equiv> list_all2 (\<lambda>e f. fst e = fst f \<and> kept_kind (snd e) (snd f))"

lemma kept_trans: "kept_kind a b \<Longrightarrow> kept_kind b c \<Longrightarrow> kept_kind a c"
proof (induction a b arbitrary: c rule: kept_kind.induct)
  case (dict d d')
  from dict.prems show ?case
  proof (cases rule: kept_kind.cases)
    case (dict d'')
    have "kept_entries d d''"
      by (rule list_all2_trans [OF _ dict.IH dict(2)]) auto
    then show ?thesis using dict by (simp add: kept_kind.dict)
  qed (auto intro: kept_kind.intros dict.IH list_all2_mono)
qed (auto elim: kept_intE kept_floatE kept_strE intro: kept_kind.intros)

lemma kept_entries_refl [simp]: "kept_entries d d"
  by (simp add: list_all2_refl kept_kind.same)

lemma kept_entries_trans: "kept_entries a b \<Longrightarrow> kept_entries b c \<Longrightarrow> kept_entries a c"
  by (erule (1) list_all2_trans [rotated]) (auto intro: kept_trans)

lemma kept_dict_set:
  "map_of d k = Some a \<Longrightarrow> kept_kind a b \<Longrightarrow> kept_entries d (dict_set k b d)"
  by (induction d) (auto intro: kept_kind.same split: if_splits)

lemma kept_lookup:
  "kept_entries d d' \<Longrightarrow> map_of d k = Some a \<Longrightarrow> \<exists>b. map_of d' k = Some b \<and> kept_kind a b"
  by (induction d d' rule: list_all2_induct) (auto split: if_splits)

lemma coerced_kind: "coerced fl a val = Inr b \<Longrightarrow> kept_kind a b"
  by (cases a) (auto simp: coerced_def Let_def intro: kept_kind.intros split: option.splits)

lemma json_dict_Inr [simp]: "json_dict obj = Inr d \<longleftrightarrow> obj = J_obj d"
  by (cases obj) (auto simp: json_dict_def)

lemma override_kind: "apply_override fl obj path val = Inr obj' \<Longrightarrow> kept_kind obj obj'"
proof (induction fl obj path val arbitrary: obj' rule: apply_override.induct)
  case (2 fl obj part path val)
  then obtain there where there: "json_in (lower part) obj = Inr there" by auto
  show ?case
  proof (cases there)
    case False
    with 2 there show ?thesis by (simp add: kept_kind.same)
  next
    case True
    with 2 there obtain d v where d: "obj = J_obj d" and
      v: "(if path = [] then coerced fl (jget d (lower part)) val
           else apply_override fl (jget d (lower part)) path val) = Inr v" and
      obj': "obj' = J_obj (dict_set (lower part) v d)" by auto
    have "kept_kind (jget d (lower part)) v"
      using v 2(1) [of there d] there True d by (auto split: if_splits intro: coerced_kind)
    moreover have "map_of d (lower part) = Some (jget d (lower part))"
      using there True d by (auto simp: json_in_def has_key_iff jget_def)
    ultimately show ?thesis using obj' d by (auto intro: kept_kind.dict kept_dict_set)
  qed
qed simp

lemma env_kind: "apply_env fl e config = Inr config' \<Longrightarrow> kept_entries config config'"
  by (auto simp: apply_env_def Let_def intro: kept_dict_set override_kind split: if_splits prod.splits option.splits)

lemma load_kind: "load_config fl base environ = Inr config \<Longrightarrow> kept_entries base config"
  unfolding load_config_def
  by (induction environ arbitrary: base) (auto dest: env_kind intro: kept_entries_trans)

section \<open>Where an override acts\<close>

text \<open>The value at a path of keys.\<close>

fun at_path :: "json \<Rightarrow> string list \<Rightarrow> json option" where
  "at_path j [] = Some j"
| "at_path (J_obj d) (k # ks) = (case map_of d k of None \<Rightarrow> None | Some v \<Rightarrow> at_path v ks)"
| "at_path j (k # ks) = None"

lemma override_missing:
  "apply_override fl obj path val = Inr obj' \<Longrightarrow> at_path obj (map lower path) = None \<Longrightarrow> obj' = obj"
proof (induction fl obj path val arbitrary: obj' rule: apply_override.induct)
  case (2 fl obj part path val)
  then obtain there where there: "json_in (lower part) obj = Inr there" by auto
  show ?case
  proof (cases there)
    case True
    with 2(2) there obtain d v where d: "obj = J_obj d" and
      v: "(if path = [] then coerced fl (jget d (lower part)) val
           else apply_override fl (jget d (lower part)) path val) = Inr v" and
      obj': "obj' = J_obj (dict_set (lower part) v d)" by auto
    have k: "map_of d (lower part) = Some (jget d (lower part))"
      using there True d by (auto simp: json_in_def has_key_iff jget_def)
    with 2(3) d have "path \<noteq> []" and "at_path (jget d (lower part)) (map lower path) = None" by auto
    with v 2(1) [of there d] there True d have "v = jget d (lower part)" by auto
    with k obj' d show ?thesis by (simp add: dict_set_same)
  qed (use 2(2) there in auto)
qed simp

lemma override_at:
  "apply_override fl obj path val = Inr obj' \<Longrightarrow> at_path obj (map lower path) = Some a \<Longrightarrow>
   \<exists>b. coerced fl a val = Inr b \<and> at_path obj' (map lower path) = Some b"
proof (induction fl obj path val arbitrary: obj' rule: apply_override.induct)
  case (2 fl obj part path val)
  from 2(3) obtain d w where d: "obj = J_obj d" and w: "map_of d (lower part) = Some w"
    and a: "at_path w (map lower path) = Some a"
    by (cases obj) (auto split: option.splits)
  then have there: "json_in (lower part) obj = Inr True" and j: "jget d (lower part) = w"
    by (simp_all add: json_in_def has_key_iff jget_def)
  from 2(2) there d j obtain v where
    v: "(if path = [] then coerced fl w val else apply_override fl w path val) = Inr v" and
    obj': "obj' = J_obj (dict_set (lower part) v d)" by auto
  show ?case
  proof (cases "path = []")
    case False
    with v 2(1) [of True d v] there d j a obj' show ?thesis by simp
  qed (use v a obj' in simp)
qed simp

lemma override_elsewhere:
  "apply_override fl obj path val = Inr obj' \<Longrightarrow> \<not> prefix q (map lower path) \<Longrightarrow>
   \<not> prefix (map lower path) q \<Longrightarrow> at_path obj' q = at_path obj q"
proof (induction fl obj path val arbitrary: obj' q rule: apply_override.induct)
  case (2 fl obj part path val)
  then obtain there where there: "json_in (lower part) obj = Inr there" by auto
  from 2(3) obtain k ks where q: "q = k # ks" by (cases q) auto
  show ?case
  proof (cases there)
    case True
    with 2(2) there obtain d v where d: "obj = J_obj d" and
      v: "(if path = [] then coerced fl (jget d (lower part)) val
           else apply_override fl (jget d (lower part)) path val) = Inr v" and
      obj': "obj' = J_obj (dict_set (lower part) v d)" by auto
    have w: "map_of d (lower part) = Some (jget d (lower part))"
      using there True d by (auto simp: json_in_def has_key_iff jget_def)
    show ?thesis
    proof (cases "k = lower part")
      case same: True
      with 2(3,4) q have "path \<noteq> []" "\<not> prefix ks (map lower path)" "\<not> prefix (map lower path) ks" by auto
      with 2(1) [of there d v ks] there True d v have "at_path v ks = at_path (jget d (lower part)) ks" by simp
      with same q d obj' w show ?thesis by simp
    qed (use q d obj' in simp)
  qed (use 2(2) there in auto)
qed simp

section \<open>Properties\<close>



text \<open>An override acts at its path and nowhere else: the value there is replaced by the override
  read in its type, a path the file does not have changes nothing, and every other path, neither
  above nor below, keeps its value.\<close>

lemma override_acts_at_path:
  assumes "apply_override fl obj path val = Inr obj'"
  shows "case at_path obj (map lower path) of
      None \<Rightarrow> obj' = obj
    | Some a \<Rightarrow> (\<exists>b. coerced fl a val = Inr b \<and> at_path obj' (map lower path) = Some b) \<and>
        (\<forall>q. \<not> prefix q (map lower path) \<and> \<not> prefix (map lower path) q \<longrightarrow> at_path obj' q = at_path obj q)"
  using override_missing [OF assms] override_at [OF assms] override_elsewhere [OF assms]
  by (auto split: option.splits)

text \<open>A setting that is no dictionary cannot be overridden, and trying to is an error that stops the
  loading: the cooldown, the one such setting, has no variable.\<close>

lemma cooldown_not_overridable:
  "load_config fl thresholds_yml [(''FASTAK_MON_ALERT_COOLDOWN'', ''60'')] = Inr thresholds_yml"
  "load_config fl thresholds_yml [(''FASTAK_MON_ALERT_COOLDOWN__SECONDS'', ''60'')] = Inl TypeError"
  by code_simp+

end
