(* ===== verification/Polling.thy ===== *)
theory Polling
  imports Probes Alerts MonConfig
begin

text \<open>
  The health side of \<open>monitor/app/scheduler.py\<close>: \<open>_poll\<close>, which runs a probe, evaluates what it
  gives, writes the cache and tells the alert engine, and \<open>start_scheduler\<close>. The state is that of
  the cache and the engine; its outside world is the monitor's other state, on which the probes
  run. APScheduler is a parameter: what it is given is the list of jobs, and a run of the monitor
  is a sequence of polls.
\<close>

section \<open>One poll\<close>

definition in_world :: "('v, 'a) prog \<Rightarrow> ('v hmon, 'a) prog" where
  "in_world m = (\<lambda>s. case m (h_world s) of (r, w) \<Rightarrow> (r, s\<lparr>h_world := w\<rparr>))"

definition health_functions :: "'w penv \<Rightarrow> (string \<times> ('w pmon, jobj) prog) list" where
  "health_functions E =
     [(''database'', on_mon (get_cot_db_size E)),
      (''autovacuum'', on_mon (get_autovacuum_health E)),
      (''disk'', on_mon (get_disk_usage E)),
      (''certs'', on_mon (get_cert_status E)),
      (''tls'', on_mon (get_tls_status E)),
      (''containers'', on_mon (get_all_container_health E)),
      (''config'', check_config_drift E),
      (''updates'', on_mon (check_updates E))]"

definition poll_raw :: "('v, jobj) prog \<Rightarrow> ('v hmon, jobj) prog" where
  "poll_raw health_fn = catch (in_world health_fn) (\<lambda>e. ret (probe_error (take 200 (exn_str e))))"

text \<open>\<open>evaluated.get("message")\<close>.\<close>

definition message_json :: "string option \<Rightarrow> json" where
  "message_json m = (case m of None \<Rightarrow> J_null | Some t \<Rightarrow> J_str t)"

definition poll :: "'v henv \<Rightarrow> string \<Rightarrow> ('v, jobj) prog \<Rightarrow> jobj \<Rightarrow> ('v hmon, unit) prog" where
  "poll H service_name health_fn service_config =
     bnd (poll_raw health_fn) (\<lambda>raw.
     case map_of raw ''error'' of
       Some err \<Rightarrow>
         thn (store_update H service_name raw ''critical'' err J_null)
             (check_and_alert H service_name ''critical'' (py_str (he_show H) err) True)
     | None \<Rightarrow>
         bnd (of_sum (evaluate (he_show H) raw service_config)) (\<lambda>ev.
         let st = status_name (ev_status ev) in
         thn (store_update H service_name raw st (message_json (ev_message ev)) (jget service_config ''thresholds''))
             (check_and_alert H service_name st (case ev_message ev of None \<Rightarrow> [] | Some m \<Rightarrow> m)
                (ev_should_alert ev))))"

section \<open>Starting\<close>

definition service_config_of :: "jobj \<Rightarrow> string \<Rightarrow> exn + jobj" where
  "service_config_of config name = as_obj (get_or config name (J_obj []))"

text \<open>The jobs, each with its interval.\<close>

definition poll_jobs :: "jobj \<Rightarrow> string list \<Rightarrow> exn + (string \<times> json) list" where
  "poll_jobs config names =
     sum_fold (\<lambda>name jobs. andthen (service_config_of config name) (\<lambda>sc.
       Inr (jobs @ [(name, get_or sc ''interval'' (J_int 60))]))) names []"

definition expiry_jobs :: "settings \<Rightarrow> (string \<times> json) list" where
  "expiry_jobs st =
     (if ldap_admin_password st \<noteq> [] then [(''user_expiry'', J_int (user_expiry_check_interval st))] else [])"

text \<open>A cooldown that is no number would fail at the first comparison; the model fails when it is set.\<close>

definition cooldown_of :: "jobj \<Rightarrow> exn + real" where
  "cooldown_of config =
     (case num_of (get_or config ''alert_cooldown'' (J_int 300)) of Some x \<Rightarrow> Inr x | None \<Rightarrow> Inl TypeError)"

definition first_poll ::
    "'v henv \<Rightarrow> jobj \<Rightarrow> string \<times> ('v, jobj) prog \<Rightarrow> ('v hmon, unit) prog" where
  "first_poll H config f =
     bnd (of_sum (service_config_of config (fst f))) (\<lambda>sc.
     catch (poll H (fst f) (snd f) sc) (\<lambda>_. ret ()))"

definition start_scheduler ::
    "'w pmon henv \<Rightarrow> 'w penv \<Rightarrow> jobj \<Rightarrow> (string \<times> string) list \<Rightarrow> ('w pmon hmon, (string \<times> json) list) prog" where
  "start_scheduler H E file environ =
     bnd (of_sum (load_config (float_text E) file environ)) (\<lambda>config.
     bnd (of_sum (cooldown_of config)) (\<lambda>cooldown.
     thn (modify (\<lambda>s. s\<lparr>h_cooldown := cooldown\<rparr>))
    (bnd (of_sum (poll_jobs config (map fst (health_functions E)))) (\<lambda>jobs.
     thn (for_each (health_functions E) (first_poll H config))
         (ret (jobs @ expiry_jobs (he_cfg H)))))))"

section \<open>What a poll leaves behind\<close>

lemma in_world_run [run_simps]: "in_world m s = (fst (m (h_world s)), s\<lparr>h_world := snd (m (h_world s))\<rparr>)"
  by (simp add: in_world_def split: prod.splits)

lemma poll_raw_run:
  "poll_raw f s = (Inr (case fst (f (h_world s)) of Inl e \<Rightarrow> probe_error (take 200 (exn_str e)) | Inr raw \<Rightarrow> raw),
     s\<lparr>h_world := snd (f (h_world s))\<rparr>)"
  by (simp add: poll_raw_def run_simps split: sum.splits)

text \<open>\<open>known n st s\<close>: the cache holds \<open>st\<close> for \<open>n\<close>, and so does the engine.\<close>

definition known :: "string \<Rightarrow> string \<Rightarrow> 'v hmon \<Rightarrow> bool" where
  "known n st s \<longleftrightarrow> map_option hc_status (map_of (h_cache s) n) = Some st \<and> last_state (h_alerts s) n = Some st"

abbreviation same_tables :: "'v hmon \<Rightarrow> 'v hmon \<Rightarrow> bool" where
  "same_tables s t \<equiv> h_cache t = h_cache s \<and> h_alerts t = h_alerts s"

lemma same_tables_preorder [simp, keeps_rules]: "preorder_rel same_tables"
  by (auto simp: preorder_rel_def reflp_def transp_def)

lemma keeps_send_out [keeps_rules]: "keeps same_tables (send_out c f)"
  by (rule keepsI) (auto simp: run_simps)

lemma keeps_record_event [keeps_rules]: "keeps same_tables (record_event H e)"
  unfolding record_event_def by (intro keeps_rules)

lemma keeps_email [keeps_rules]: "keeps same_tables (send_alert_email H a b)"
  unfolding send_alert_email_def Let_def by (intro keeps_rules)

lemma keeps_sms [keeps_rules]: "keeps same_tables (send_alert_sms H m)"
  unfolding send_alert_sms_def send_each_def note_failure_def sms_ok_def by (intro keeps_rules)

text \<open>The engine's step always records the new state; everything after it is sending.\<close>

lemma check_and_alert_effect:
  "\<exists>t. check_and_alert H n st detail should s = (Inr (), t) \<and> h_cache t = h_cache s \<and>
     last_state (h_alerts t) = (last_state (h_alerts s))(n \<mapsto> st)"
proof -
  have total: "never_raises (check_and_alert H n st detail should)"
    unfolding check_and_alert_def Let_def by (intro total_rules)
  then obtain t where t: "check_and_alert H n st detail should s = (Inr (), t)"
    by (auto simp: never_raises_def)
  let ?now = "fst (he_now H (h_world s))"
  let ?s = "s\<lparr>h_world := snd (he_now H (h_world s))\<rparr>"
  let ?u = "?s\<lparr>h_alerts := snd (decide (h_cooldown ?s) ?now n st should (h_alerts ?s))\<rparr>"
  have "same_tables ?u t"
    using t unfolding check_and_alert_def Let_def
    by (simp only: bnd_run thn_run [of "modify f" for f] gets_run modify_run clock_run prod.case sum.case)
      (rule keepsD [where I = same_tables, rotated], assumption, intro keeps_rules)
  with t decide_state [of "h_cooldown s" ?now n st should "h_alerts s"] show ?thesis by simp
qed

end
