(* ===== verification/ProbeFacts.thy ===== *)
theory ProbeFacts
  imports Probes MonConfig Sample
begin

text \<open>
  What the probes give: the shape of their results, whatever the outside world answers, and that
  the shipped thresholds can evaluate every such result.
\<close>

section \<open>Results\<close>

text \<open>\<open>gives P m\<close>: whenever \<open>m\<close> returns, its result satisfies \<open>P\<close>.\<close>

definition gives :: "('a \<Rightarrow> bool) \<Rightarrow> ('s, 'a) prog \<Rightarrow> bool" where
  "gives P m \<longleftrightarrow> (\<forall>s x t. m s = (Inr x, t) \<longrightarrow> P x)"

named_theorems gives_rules

lemma givesD: "gives P m \<Longrightarrow> m s = (Inr x, t) \<Longrightarrow> P x"
  by (auto simp: gives_def)

lemma gives_ret [gives_rules]: "P x \<Longrightarrow> gives P (ret x)"
  and gives_raise [gives_rules]: "gives P (raise e)"
  and gives_of_sum [gives_rules]: "(\<And>x. r = Inr x \<Longrightarrow> P x) \<Longrightarrow> gives P (of_sum r)"
  by (auto simp: gives_def run_simps)

lemma gives_weaken: "gives Q m \<Longrightarrow> (\<And>x. Q x \<Longrightarrow> P x) \<Longrightarrow> gives P m"
  by (auto simp: gives_def)

lemma gives_bnd: "gives Q m \<Longrightarrow> (\<And>x. Q x \<Longrightarrow> gives P (f x)) \<Longrightarrow> gives P (bnd m f)"
  unfolding gives_def by (fastforce elim!: bndE)

lemma gives_then [gives_rules]: "(\<And>x. gives P (f x)) \<Longrightarrow> gives P (bnd m f)"
  by (rule gives_bnd [where Q = "\<lambda>_. True"]) (simp_all add: gives_def)

lemma gives_catch [gives_rules]: "gives P m \<Longrightarrow> (\<And>e. gives P (h e)) \<Longrightarrow> gives P (catch m h)"
  unfolding gives_def by (fastforce elim!: catchE)

lemma gives_if [gives_rules]: "(b \<Longrightarrow> gives P m) \<Longrightarrow> (\<not> b \<Longrightarrow> gives P k) \<Longrightarrow> gives P (if b then m else k)"
  by simp

lemma gives_let [gives_rules]: "(\<And>x. gives P (f x)) \<Longrightarrow> gives P (let x = e in f x)"
  by simp

lemma gives_collect_each:
  assumes "\<And>x. x \<in> set xs \<Longrightarrow> gives (R x) (f x)"
  shows "gives (list_all2 R xs) (collect f xs)"
  using assms
proof (induction xs)
  case (Cons x xs)
  show ?case
    unfolding collect.simps
  proof (rule gives_bnd)
    show "gives (R x) (f x)" using Cons.prems by simp
    show "gives (list_all2 R (x # xs)) (bnd (collect f xs) (\<lambda>ys. ret (y # ys)))" if "R x y" for y
      using Cons that by (intro gives_bnd [where Q = "list_all2 R xs"] gives_ret) simp_all
  qed
qed (simp add: gives_ret)

lemma gives_collect: "(\<And>x. x \<in> set xs \<Longrightarrow> gives P (f x)) \<Longrightarrow> gives (list_all P) (collect f xs)"
  by (rule gives_weaken [OF gives_collect_each [where R = "\<lambda>_. P"]])
    (auto simp: list_all2_conv_all_nth list_all_length)

lemma gives_fold: "(\<And>x acc. P acc \<Longrightarrow> gives P (f x acc)) \<Longrightarrow> P acc \<Longrightarrow> gives P (fold_prog f xs acc)"
  by (induction xs arbitrary: acc) (auto intro: gives_bnd gives_rules)

section \<open>What the thresholds accept\<close>

lemma worse_Inr: "status_of (fst v) = Inr st \<Longrightarrow> worse v acc = Inr (if fst acc < st then (st, snd v) else acc)"
  by (simp add: worse_def del: andthen_Inr)

definition accepts :: "json \<Rightarrow> json \<Rightarrow> bool" where
  "accepts levels v \<longleftrightarrow> levels = flag_levels \<or>
     (\<exists>w c. levels = two_levels w c \<and> num_of w \<noteq> None \<and> num_of c \<noteq> None \<and> num_of v \<noteq> None)"

lemma accepts_intros [simp]:
  "num_of w \<noteq> None \<Longrightarrow> num_of c \<noteq> None \<Longrightarrow> num_of v \<noteq> None \<Longrightarrow> accepts (two_levels w c) v"
  "accepts flag_levels v"
  unfolding accepts_def by blast+

lemma accepts_total:
  assumes "accepts levels v"
  shows "\<exists>x st. check_threshold shw k v levels = Inr x \<and> status_of (fst x) = Inr st"
  using assms unfolding accepts_def
proof
  assume l: "levels = flag_levels"
  let ?d = "[(''true'', J_str ''note''), (''false'', J_str ''ok'')]" and ?t = "lower (py_str shw v)"
  have m: "check_threshold shw k v levels = check_mapped shw k v ?d"
    by (simp add: l flag_levels_def check_threshold_def is_numeric_threshold_def has_key_def)
  have s: "status_of ''note'' = Inr St_note" "status_of ''ok'' = Inr St_ok" "status_of ''warning'' = Inr St_warning"
    by (simp_all add: status_of_def)
  consider "?t = ''true''" | "?t = ''false''" | "jget ?d ?t = J_null" by (fastforce simp: jget_def)
  then show ?thesis
    by cases (simp_all add: m check_mapped_def jget_def as_str_def s)
next
  assume "\<exists>w c. levels = two_levels w c \<and> num_of w \<noteq> None \<and> num_of c \<noteq> None \<and> num_of v \<noteq> None"
  then obtain w c x y z where l: "levels = two_levels w c"
    and n: "num_of w = Some x" "num_of c = Some y" "num_of v = Some z" by auto
  from n have "w \<noteq> J_null" "c \<noteq> J_null" by auto
  with n show ?thesis
    unfolding l two_levels_def
    by (auto simp: check_threshold_def is_numeric_threshold_def has_key_def jget_def check_numeric_def Let_def
        status_of_def)
qed

definition fits :: "jobj \<Rightarrow> jobj \<Rightarrow> bool" where
  "fits thresholds d \<longleftrightarrow> (\<forall>(k, l) \<in> set thresholds. k \<notin> set not_threshold \<longrightarrow>
     (\<forall>v. map_of d k = Some v \<longrightarrow> accepts l v))"

lemma keys_total: "fits thresholds d \<Longrightarrow> \<exists>a. sum_fold (check_key shw lab d) thresholds acc = Inr a"
proof (induction thresholds arbitrary: acc)
  case (Cons e th)
  obtain k l where e: "e = (k, l)" by (cases e)
  have "\<exists>a. check_key shw lab d e acc = Inr a"
  proof (cases "k \<in> set not_threshold \<or> map_of d k = None")
    case True
    then show ?thesis by (auto simp: check_key_def e split: option.splits)
  next
    case False
    then obtain v where v: "map_of d k = Some v" "k \<notin> set not_threshold" by auto
    with Cons.prems e have "accepts l v" by (auto simp: fits_def)
    from accepts_total [OF this, of shw k] v show ?thesis by (auto simp: check_key_def e worse_Inr simp del: andthen_Inr)
  qed
  moreover have "fits th d" using Cons.prems by (simp add: fits_def)
  ultimately show ?case using Cons.IH by fastforce
qed simp

definition readable :: "jobj \<Rightarrow> json \<Rightarrow> bool" where
  "readable thresholds j \<longleftrightarrow> (\<exists>d. j = J_obj d \<and> fits thresholds d \<and>
     (has_key d ''error'' \<or> jget thresholds ''min_dead_tuples'' = J_null \<or>
      num_of (jget thresholds ''min_dead_tuples'') \<noteq> None \<and> num_of (get_or d ''dead_tuples'' (J_int 0)) \<noteq> None))"

definition error_level :: "jobj \<Rightarrow> string \<Rightarrow> bool" where
  "error_level thresholds n \<longleftrightarrow> get_or thresholds ''error_status'' (J_str ''warning'') = J_str n"

lemma list_total:
  assumes "list_all (readable thresholds) xs" and "error_level thresholds n" and "status_of n = Inr st"
  shows "\<exists>a. sum_fold (list_item shw thresholds) xs acc = Inr a"
  using assms(1)
proof (induction xs arbitrary: acc)
  case (Cons j xs)
  then obtain d where j: "j = J_obj d" and f: "fits thresholds d" and
    m: "has_key d ''error'' \<or> jget thresholds ''min_dead_tuples'' = J_null \<or>
      num_of (jget thresholds ''min_dead_tuples'') \<noteq> None \<and> num_of (get_or d ''dead_tuples'' (J_int 0)) \<noteq> None"
    by (auto simp: readable_def)
  from m have "\<exists>skip. below_min_dead d (jget thresholds ''min_dead_tuples'') = Inr skip"
    by (auto simp: below_min_dead_def)
  then obtain skip where skip: "below_min_dead d (jget thresholds ''min_dead_tuples'') = Inr skip" ..
  have "\<exists>v st'. item_status shw d thresholds = Inr v \<and> status_of (fst v) = Inr st'"
    using keys_total [OF f, of shw "labelled shw (item_name d)" "(St_ok, None)"] assms(2,3)
    by (auto simp: item_status_def Let_def error_level_def as_str_def)
  with skip have "\<exists>a. list_item shw thresholds j acc = Inr a"
    by (auto simp: list_item_def j as_obj_def worse_Inr simp del: andthen_Inr)
  with Cons show ?case by fastforce
qed simp

lemma containers_total:
  assumes "list_all (\<lambda>j. \<exists>d. j = J_obj d) xs"
    and "\<And>h d. \<exists>n st. container_status hm sm dflt h d = J_str n \<and> status_of n = Inr st"
  shows "\<exists>a. sum_fold (container_item shw hm sm dflt) xs acc = Inr a"
  using assms(1)
proof (induction xs arbitrary: acc)
  case (Cons j xs)
  then obtain d where j: "j = J_obj d" by auto
  from assms(2) [of "get_or d ''health'' (J_str ''unknown'')" "get_or d ''status'' (J_str ''unknown'')"]
  have "\<exists>a. container_item shw hm sm dflt j acc = Inr a"
    by (auto simp: container_item_def j as_obj_def Let_def as_str_def worse_Inr simp del: andthen_Inr)
  with Cons show ?case by fastforce
qed simp

section \<open>Whole services\<close>

text \<open>\<open>conf i m th\<close>: the configuration of a service in the file.\<close>

definition conf :: "int \<Rightarrow> string \<Rightarrow> jobj \<Rightarrow> jobj" where
  "conf i m th = [(''interval'', J_int i), (''alert_min_level'', J_str m), (''thresholds'', J_obj th)]"

definition usable :: "(json \<Rightarrow> string) \<Rightarrow> jobj \<Rightarrow> jobj \<Rightarrow> bool" where
  "usable shw sc raw \<longleftrightarrow> has_key raw ''error'' \<or> (\<exists>ev. evaluate shw raw sc = Inr ev)"

lemma conf_lookup [simp]:
  "get_or (conf i m th) ''thresholds'' d = J_obj th" "get_or (conf i m th) ''alert_min_level'' d = J_str m"
  by (simp_all add: conf_def get_or_def)

lemma usable_error [simp]: "usable shw sc (probe_error m)"
  by (simp add: usable_def probe_error_def has_key_def)

lemma usable_list:
  assumes "list_all (readable th) xs" and "error_level th n" and "status_of n = Inr st"
    and "\<not> (has_key th ''health'' \<and> has_key th ''status'')" and "status_of m = Inr min_st"
  shows "usable shw (conf i m th) (probe_items xs)"
proof -
  obtain a where "evaluate_list shw xs th = Inr a"
    using list_total [OF assms(1-3)] unfolding evaluate_list_def by blast
  with assms(4,5) show ?thesis
    by (cases a) (auto simp: usable_def evaluate_def probe_items_def as_obj_def as_list_def as_str_def simp del: andthen_Inr)
qed

lemma usable_single:
  assumes "fits th raw" and "map_of raw ''items'' = None" and "status_of m = Inr min_st"
  shows "usable shw (conf i m th) raw"
proof -
  obtain a where "evaluate_single shw raw th = Inr a"
    using keys_total [OF assms(1), of shw "\<lambda>m. m"] unfolding evaluate_single_def by blast
  with assms(2,3) show ?thesis
    by (cases a) (auto simp: usable_def evaluate_def as_obj_def as_str_def simp del: andthen_Inr)
qed

lemma warning_levels [simp]:
  "status_of ''warning'' = Inr St_warning" "status_of ''note'' = Inr St_note" "status_of ''ok'' = Inr St_ok"
  "status_of ''critical'' = Inr St_critical"
  by (simp_all add: status_of_def)

subsection \<open>Database and autovacuum\<close>

abbreviation size_thresholds :: jobj where
  "size_thresholds \<equiv> [(''size_bytes'', two_levels (J_int 25000000000) (J_int 40000000000))]"

lemma database_usable: "gives (usable shw (conf i ''warning'' size_thresholds)) (get_cot_db_size E)"
  unfolding get_cot_db_size_def query_int_def
  by (intro gives_rules usable_error usable_single [where min_st = St_warning]) (auto simp: fits_def)

abbreviation vacuum_thresholds :: jobj where
  "vacuum_thresholds \<equiv> [(''dead_pct'', two_levels (J_float 5) (J_float 15)), (''min_dead_tuples'', J_int 1000)]"

text \<open>PostgreSQL gives the number of dead tuples as an integer.\<close>

definition counts_tuples :: "'w penv \<Rightarrow> bool" where
  "counts_tuples E \<longleftrightarrow> (\<forall>dsn w rows a d l p. fst (pg_query E dsn (Sql autovacuum_sql []) w) = Inr rows \<longrightarrow>
     [a, d, l, p] \<in> set rows \<longrightarrow> (\<exists>i. d = S_int i))"

definition typed_rows :: "row list \<Rightarrow> bool" where
  "typed_rows rows \<longleftrightarrow> (\<forall>a d l p. [a, d, l, p] \<in> set rows \<longrightarrow> (\<exists>i. d = S_int i))"

lemma autovacuum_item_readable:
  assumes "autovacuum_item E r = Inr j" and "\<And>a d l p. r = [a, d, l, p] \<Longrightarrow> \<exists>i. d = S_int i"
  shows "readable vacuum_thresholds j"
proof -
  obtain a d l p where r: "r = [a, d, l, p]"
    using assms(1) by (auto simp: autovacuum_item_def split: list.splits)
  with assms(2) obtain i where "d = S_int i" by blast
  with assms(1) r obtain name pct where j: "j = J_obj [(''table'', J_str name), (''dead_tuples'', J_int i),
      (''live_tuples'', sql_json E l), (''dead_pct'', J_float pct)]"
    by (auto simp: autovacuum_item_def sql_json_def)
  show ?thesis unfolding j readable_def
    by (auto simp: fits_def not_threshold_def jget_def get_or_def)
qed

lemma autovacuum_usable:
  assumes "counts_tuples E"
  shows "gives (usable shw (conf i ''warning'' vacuum_thresholds)) (get_autovacuum_health E)"
proof -
  have rows: "gives (\<lambda>r. case r of Inl _ \<Rightarrow> True | Inr rows \<Rightarrow> typed_rows rows)
      (catch (bnd (run_query E (Sql autovacuum_sql [])) (\<lambda>rows. ret (Inr rows))) (\<lambda>e. ret (Inl (take 200 (exn_str e)))))"
    using assms unfolding gives_def run_query_def counts_tuples_def
    by (auto simp: run_simps typed_rows_def split: sum.splits prod.splits)
  have items: "gives (list_all (readable vacuum_thresholds)) (collect (\<lambda>row. of_sum (autovacuum_item E row)) rows)"
    if "typed_rows rows" for rows
    using that by (intro gives_collect gives_of_sum) (erule autovacuum_item_readable, force simp: typed_rows_def)
  show ?thesis
    unfolding get_autovacuum_health_def
  proof (rule gives_bnd [OF rows])
    show "gives (usable shw (conf i ''warning'' vacuum_thresholds))
        (case r of Inl m \<Rightarrow> ret (probe_error m)
         | Inr rows \<Rightarrow> bnd (collect (\<lambda>row. of_sum (autovacuum_item E row)) rows) (\<lambda>items. ret (probe_items items)))"
      if "case r of Inl _ \<Rightarrow> True | Inr rows \<Rightarrow> typed_rows rows" for r :: "string + row list"
      using that
    proof (cases r)
      case (Inr rows)
      with that have "typed_rows rows" by simp
      then show ?thesis unfolding Inr sum.case
        by (intro gives_bnd [OF items] gives_ret usable_list [where min_st = St_warning and n = "''warning''"])
          (simp_all add: error_level_def get_or_def has_key_def)
    qed (simp add: gives_ret)
  qed
qed

subsection \<open>Disks, certificates and TLS\<close>

abbreviation disk_levels :: jobj where
  "disk_levels \<equiv> [(''percent'', two_levels (J_int 80) (J_int 90))]"

lemma disk_item_readable: "readable disk_levels (disk_item label path st)"
  unfolding readable_def disk_item_def Let_def
  by (auto simp: fits_def jget_def)

lemma disk_usable: "gives (usable shw (conf i ''warning'' disk_levels)) (get_disk_usage E)"
proof -
  have "gives (\<lambda>acc. list_all (readable disk_levels) (snd acc)) (fold_prog (disk_step E) mount_points ([], []))"
  proof (rule gives_fold)
    show "gives (\<lambda>acc. list_all (readable disk_levels) (snd acc)) (disk_step E x acc)"
      if "list_all (readable disk_levels) (snd acc)" for x and acc :: "int list \<times> json list"
      using that unfolding disk_step_def
      by (auto intro!: gives_rules simp: Let_def disk_item_readable split: prod.splits sum.splits)
  qed simp
  then show ?thesis
    unfolding get_disk_usage_def
    by (rule gives_bnd) (auto intro!: gives_ret usable_list [where min_st = St_warning and n = "''warning''"]
        simp: error_level_def get_or_def has_key_def)
qed

abbreviation days_levels :: jobj where
  "days_levels \<equiv> [(''days_left'', two_levels (J_int 30) (J_int 7))]"

text \<open>Any dictionary is readable whose \<open>days_left\<close>, if it has one, is a number.\<close>

lemma days_readable:
  "(\<And>v. map_of d ''days_left'' = Some v \<Longrightarrow> num_of v \<noteq> None) \<Longrightarrow> readable days_levels (J_obj d)"
  by (auto simp: readable_def fits_def jget_def)

lemma cert_item_readable: "gives (readable days_levels) (cert_item E name)"
proof -
  have "gives (\<lambda>d. \<forall>v. map_of d ''days_left'' = Some v \<longrightarrow> num_of v \<noteq> None) (parse_cert_expiry E name)"
    unfolding parse_cert_expiry_def Let_def
    by (auto intro!: gives_rules split: openssl_run.splits option.splits prod.splits)
  then show ?thesis
    unfolding cert_item_def by (rule gives_bnd) (auto intro!: gives_ret days_readable split: if_splits)
qed

lemma usable_days: "list_all (readable days_levels) xs \<Longrightarrow> usable shw (conf i ''warning'' days_levels) (probe_items xs)"
  by (rule usable_list [where min_st = St_warning and n = "''warning''"])
    (auto simp: error_level_def get_or_def has_key_def)

lemma certs_usable: "gives (usable shw (conf i ''warning'' days_levels)) (get_cert_status E)"
  unfolding get_cert_status_def
  by (intro gives_rules gives_bnd [OF gives_collect [OF cert_item_readable]] usable_error)
    (simp_all add: usable_days)

lemma tls_step_readable:
  assumes "list_all (readable days_levels) (snd acc)"
  shows "gives (\<lambda>acc. list_all (readable days_levels) (snd acc)) (tls_step E ep acc)"
proof -
  have "gives (\<lambda>d. readable days_levels (J_obj d)) (probe_tls_expiry E ep)"
    unfolding probe_tls_expiry_def Let_def
    by (auto intro!: gives_rules days_readable simp: tls_failed_def split: prod.splits sum.splits exn.splits)
  then show ?thesis
    unfolding tls_step_def using assms
    by (auto intro!: gives_rules elim!: gives_bnd split: prod.splits)
qed

lemma tls_usable: "gives (usable shw (conf i ''warning'' days_levels)) (get_tls_status E)"
proof -
  have fold: "gives (\<lambda>acc. list_all (readable days_levels) (snd acc)) (fold_prog (tls_step E) (tls_endpoints st) ([], []))" for st
    by (rule gives_fold [where P = "\<lambda>acc. list_all (readable days_levels) (snd acc)"]) (auto intro: tls_step_readable)
  show ?thesis
    unfolding get_tls_status_def Let_def
    by (auto intro!: gives_if gives_ret usable_days gives_bnd [OF fold])
qed

subsection \<open>Containers, drift and updates\<close>

abbreviation container_levels :: jobj where
  "container_levels \<equiv>
     [(''default_status'', J_str ''warning''),
      (''health'', J_obj [(''healthy'', J_str ''ok''), (''starting'', J_str ''note''), (''unhealthy'', J_str ''critical'')]),
      (''status'', J_obj [(''running'', J_str ''ok''), (''exited'', J_str ''critical''), (''not_found'', J_str ''critical'')])]"

lemma usable_containers:
  assumes "list_all (\<lambda>j. \<exists>d. j = J_obj d) xs"
  shows "usable shw (conf i ''warning'' container_levels) (probe_items xs)"
proof -
  let ?hm = "[(''healthy'', J_str ''ok''), (''starting'', J_str ''note''), (''unhealthy'', J_str ''critical'')]"
  let ?sm = "[(''running'', J_str ''ok''), (''exited'', J_str ''critical''), (''not_found'', J_str ''critical'')]"
  have "\<exists>n st. container_status ?hm ?sm (J_str ''warning'') h d = J_str n \<and> status_of n = Inr st" for h d
    by (cases h; cases d) (auto simp: container_status_def lookup_def)
  from containers_total [OF assms this] obtain a where
    "sum_fold (container_item shw ?hm ?sm (J_str ''warning'')) xs (St_ok, None) = Inr a" by blast
  then have "evaluate_containers shw xs container_levels = Inr a"
    by (simp add: evaluate_containers_def get_or_def as_obj_def)
  then show ?thesis
    by (cases a) (auto simp: usable_def evaluate_def probe_items_def has_key_def as_obj_def as_list_def as_str_def
        simp del: andthen_Inr)
qed

lemma containers_usable:
  "gives (usable shw (conf i ''warning'' container_levels)) (get_all_container_health E)"
proof -
  have "gives (list_all (\<lambda>j. \<exists>d. j = J_obj d)) (container_rows E name)" for name
    unfolding container_rows_def by (auto intro!: gives_rules simp: container_row_def split: option.splits)
  then have rows: "gives (list_all (list_all (\<lambda>j. \<exists>d. j = J_obj d))) (collect (container_rows E) names)" for names
    by (intro gives_collect)
  show ?thesis
    unfolding get_all_container_health_def
    by (intro gives_catch gives_then gives_bnd [OF rows] gives_ret usable_error usable_containers)
      (auto simp: list_all_iff)
qed

lemma drift_usable: "gives (usable shw (conf i ''note'' [(''changed'', flag_levels)])) (check_config_drift E)"
  unfolding check_config_drift_def
  by (intro gives_rules usable_error usable_single [where min_st = St_note]) (auto simp: fits_def)

abbreviation update_levels :: jobj where
  "update_levels \<equiv> [(''update_available'', flag_levels), (''error_status'', J_str ''note'')]"

lemma update_item_readable: "gives (readable update_levels) (update_item E c)"
proof -
  have "readable update_levels (J_obj d)" for d
    by (auto simp: readable_def fits_def not_threshold_def jget_def)
  then show ?thesis
    unfolding update_item_def
    by (auto intro!: gives_rules simp: update_found_def update_failed_def Let_def split: prod.splits)
qed

lemma updates_usable: "gives (usable shw (conf i ''note'' update_levels)) (check_updates E)"
  unfolding check_updates_def
  by (rule gives_bnd [OF gives_collect [OF update_item_readable]])
    (auto intro!: gives_ret usable_list [where min_st = St_note and n = "''note''"]
      simp: error_level_def get_or_def has_key_def)

section \<open>Nothing is left out\<close>

definition item_field :: "string \<Rightarrow> json \<Rightarrow> json" where
  "item_field k j = (case j of J_obj d \<Rightarrow> jget d k | _ \<Rightarrow> J_null)"

lemma same_fields: "list_all2 (\<lambda>n j. item_field k j = J_str (g n)) ns js \<Longrightarrow> map (item_field k) js = map (J_str \<circ> g) ns"
  by (induction ns js rule: list_all2_induct) auto

text \<open>C36. No monitored certificate vanishes from the report: if the probe reports a list, it names exactly
  the certificates of the system and of the service accounts in the directory, in order, each with
  an expiry or with the reason it could not be read.\<close>

theorem cert_report_complete:
  assumes "get_cert_status E s = (Inr raw, t)" and "path_exists (pe_env E) health_cert_dir (world s)"
    and "\<not> has_key raw ''error''"
  shows "\<exists>items. raw = probe_items items \<and>
    map (item_field ''file'') items = map J_str (monitored_certs (cert_dir_files (pe_env E) (world s))) \<and>
    (\<forall>j\<in>set items. item_field ''error'' j \<noteq> J_null \<or> (\<exists>d. item_field ''days_left'' j = J_int d))"
proof -
  let ?ns = "monitored_certs (cert_dir_files (pe_env E) (world s))"
  define R where "R = (\<lambda>n j. item_field ''file'' j = J_str n \<and>
    (item_field ''error'' j \<noteq> J_null \<or> (\<exists>d. item_field ''days_left'' j = J_int d)))"
  have "gives (\<lambda>d. jget d ''file'' = J_str n \<and> (jget d ''error'' \<noteq> J_null \<or> (\<exists>i. jget d ''days_left'' = J_int i)))
      (parse_cert_expiry E n)" for n
    unfolding parse_cert_expiry_def Let_def
    by (auto intro!: gives_rules simp: jget_def split: openssl_run.splits option.splits prod.splits)
  then have item: "gives (R n) (cert_item E n)" for n
    unfolding cert_item_def by (rule gives_bnd) (auto intro!: gives_ret simp: R_def item_field_def jget_def)
  have report: "gives (\<lambda>raw. has_key raw ''error'' \<or> (\<exists>items. raw = probe_items items \<and> list_all2 R ?ns items))
      (catch (bnd (collect (cert_item E) ?ns) (\<lambda>items. ret (probe_items items)))
       (\<lambda>e. if is_os_error e then ret (probe_error (''openssl could not run: '' @ exn_str e)) else raise e))"
    by (intro gives_rules gives_bnd [OF gives_collect_each [OF item]])
      (auto simp: probe_error_def has_key_def)
  have "catch (bnd (collect (cert_item E) ?ns) (\<lambda>items. ret (probe_items items)))
       (\<lambda>e. if is_os_error e then ret (probe_error (''openssl could not run: '' @ exn_str e)) else raise e) s = (Inr raw, t)"
    using assms(1,2) by (simp add: get_cert_status_def bnd_run look_run)
  from givesD [OF report this] assms(3) obtain items where raw: "raw = probe_items items" and R: "list_all2 R ?ns items"
    by blast
  from R have "map (item_field ''file'') items = map (J_str \<circ> id) ?ns"
    by (intro same_fields) (auto simp: R_def elim: list_all2_mono)
  moreover have "\<forall>j\<in>set items. item_field ''error'' j \<noteq> J_null \<or> (\<exists>d. item_field ''days_left'' j = J_int d)"
    using R by (auto simp: R_def list_all2_conv_all_nth in_set_conv_nth)
  ultimately show ?thesis using raw by auto
qed

text \<open>A world in which only the database answers.\<close>

definition sample_services :: "sample penv" where
  "sample_services = \<lparr>pe_env = sample_env default_settings, pe_now = (\<lambda>w. (DateTime 2026 1 1 0 0 0 0, w)),
     pg_query = (\<lambda>_ _ w. (Inr [[S_text ''cot_router'', S_int 5, S_int 10, S_null]], w)), pg_execute = (\<lambda>_ _ w. (Inl (OSError ''down''), w)),
     os_statvfs = (\<lambda>_ _. Inl (OSError ''down'')), openssl_run_on = (\<lambda>_ _. Ossl_timeout), enddate = (\<lambda>_. None),
     tls_leaf = (\<lambda>_ _ w. (Inl (OSError ''refused''), w)), der_not_after = (\<lambda>_. Inl (ValueError [])),
     github_latest = (\<lambda>_ w. (Inl (OSError ''down''), w)), env_file = (\<lambda>_. Inl (OSError ''down'')),
     digest_hex = (\<lambda>s. s), container_stats = (\<lambda>_ w. (Inl (OSError ''down''), w)),
     container_logs = (\<lambda>_ _ w. (Inl (OSError ''down''), w)), decode_utf8 = Inr, decode_replacing = (\<lambda>s. s),
     parse_xml = (\<lambda>_. None), float_text = (\<lambda>_. None), str_of = (\<lambda>_. []), iso_of = (\<lambda>_. [])\<rparr>"

definition sample_item :: jobj where
  "sample_item = [(''file'', J_str ''ca.pem''), (''error'', J_str ''openssl timed out after 5s''),
     (''category'', J_str ''infrastructure'')]"

text \<open>A directory with a certificate of the system and one of a user; \<open>openssl\<close> does not answer.\<close>

definition sample_dir_state :: "sample mon" where
  "sample_dir_state = sample_state [] (sample_world\<lparr>sw_files := [health_cert_dir, ''ca.pem'', ''bob.pem'']\<rparr>)"

lemma sample_report:
  "get_cert_status sample_services sample_dir_state = (Inr (probe_items [J_obj sample_item]), sample_dir_state)"
proof -
  have "monitored_certs [health_cert_dir, ''ca.pem'', ''bob.pem''] = [''ca.pem'']" by code_simp
  then show ?thesis
    by (simp add: get_cert_status_def run_simps sample_services_def sample_env_def sample_state_def cert_item_def
        parse_cert_expiry_def sample_item_def categorize_cert_def infra_names_def removesuffix_def sample_dir_state_def)
qed

theorem cert_report_complete_witness:
  "\<exists>items. probe_items [J_obj sample_item] = probe_items items \<and>
    map (item_field ''file'') items = map J_str (monitored_certs [health_cert_dir, ''ca.pem'', ''bob.pem''])"
  using cert_report_complete [OF sample_report]
  by (auto simp: sample_services_def sample_env_def sample_dir_state_def sample_state_def probe_items_def has_key_def)

text \<open>Each component has its one row, whatever GitHub answers for it or the others.\<close>

lemma update_report_complete:
  "gives (\<lambda>raw. \<exists>items. raw = probe_items items \<and>
     map (item_field ''name'') items = map (J_str \<circ> fst) (update_components (cfg (pe_env E)))) (check_updates E)"
proof -
  have "gives (\<lambda>j. item_field ''name'' j = J_str (fst c)) (update_item E c)" for c
    unfolding update_item_def
    by (auto intro!: gives_rules simp: update_found_def update_failed_def item_field_def jget_def Let_def split: prod.splits)
  then have "gives (list_all2 (\<lambda>c j. item_field ''name'' j = J_str (fst c)) cs) (collect (update_item E) cs)" for cs
    by (rule gives_collect_each)
  then show ?thesis
    unfolding check_updates_def by (rule gives_bnd) (auto intro!: gives_ret dest: same_fields)
qed

section \<open>What is read as fine\<close>

text \<open>A file system that cannot be read leaves the report without a trace: with none readable the service
  is fine.\<close>

lemma unreadable_disks_fine:
  assumes "\<And>p w. os_statvfs E p w = Inl (OSError m)"
  shows "get_disk_usage E s = (Inr (probe_items []), s)"
    and "evaluate shw (probe_items []) (conf i ''warning'' disk_levels) =
      Inr \<lparr>ev_status = St_ok, ev_message = None, ev_should_alert = False\<rparr>"
proof -
  have "disk_step E e acc u = (Inr acc, u)" for e acc u
    using assms by (cases e; cases acc) (simp add: disk_step_def run_simps is_os_error_def)
  then show "get_disk_usage E s = (Inr (probe_items []), s)"
    by (simp add: get_disk_usage_def mount_points_def run_simps)
  show "evaluate shw (probe_items []) (conf i ''warning'' disk_levels) =
      Inr \<lparr>ev_status = St_ok, ev_message = None, ev_should_alert = False\<rparr>"
    by (simp add: evaluate_def probe_items_def as_obj_def as_list_def as_str_def has_key_def evaluate_list_def
        kept_message_def less_eq_status_def)
qed

text \<open>A release check that failed with an exception without a text is no error for the evaluator, which
  asks for a non-empty one.\<close>

lemma silent_failure_fine:
  "evaluate (\<lambda>_. []) (probe_items [update_failed ''lldap'' ''0.6'' []]) (conf 21600 ''note'' update_levels) =
     Inr \<lparr>ev_status = St_ok, ev_message = None, ev_should_alert = False\<rparr>"
  by code_simp

end
