(* ===== verification/PollingFacts.thy ===== *)
theory PollingFacts
  imports Polling ProbeFacts Sample
begin

text \<open>
  What the polls guarantee: each is one update of a board that maps services to statuses, kept
  alike by the cache and the alert engine; with the shipped thresholds no poll fails, whatever
  the probes meet, so every service is on the board once the monitor has started.
\<close>

section \<open>The board\<close>

text \<open>The specification: a poll gives the service a status, or fails where the evaluation does.\<close>

definition verdict_of :: "(json \<Rightarrow> string) \<Rightarrow> jobj \<Rightarrow> exn + jobj \<Rightarrow> exn + string" where
  "verdict_of shw service_config answer = (case answer of
     Inl _ \<Rightarrow> Inr ''critical''
   | Inr raw \<Rightarrow> if has_key raw ''error'' then Inr ''critical''
       else map_sum id (\<lambda>ev. status_name (ev_status ev)) (evaluate shw raw service_config))"

definition board :: "'v hmon \<Rightarrow> string \<Rightarrow> string option" where
  "board s = map_option hc_status \<circ> map_of (h_cache s)"

abbreviation engine_states :: "'v hmon \<Rightarrow> string \<Rightarrow> string option" where
  "engine_states s \<equiv> last_state (h_alerts s)"

lemma store_update_run:
  "\<exists>now. store_update H n raw st msg th s = (Inr (), s\<lparr>h_world := snd (he_iso_now H (h_world s)),
     h_cache := dict_set n \<lparr>hc_status = st, hc_message = msg, hc_data = raw, hc_thresholds = th, hc_updated_at = now\<rparr>
       (h_cache s)\<rparr>)"
  by (auto simp: store_update_def run_simps)

lemma store_then_alert:
  "\<exists>t now. thn (store_update H n raw st msg th) (check_and_alert H n st detail should) s = (Inr (), t) \<and>
     h_cache t = dict_set n \<lparr>hc_status = st, hc_message = msg, hc_data = raw, hc_thresholds = th, hc_updated_at = now\<rparr>
       (h_cache s) \<and> engine_states t = (engine_states s)(n \<mapsto> st)"
proof -
  obtain now where u: "store_update H n raw st msg th s = (Inr (), s\<lparr>h_world := snd (he_iso_now H (h_world s)),
     h_cache := dict_set n \<lparr>hc_status = st, hc_message = msg, hc_data = raw, hc_thresholds = th, hc_updated_at = now\<rparr>
       (h_cache s)\<rparr>)" (is "_ = (_, ?u)") using store_update_run by blast
  from check_and_alert_effect [of H n st detail should ?u] u show ?thesis by (auto simp: thn_run)
qed

lemma store_then_alert_board:
  "thn (store_update H n raw st msg th) (check_and_alert H n st detail should) s = (r, t) \<Longrightarrow>
   r = Inr () \<and> board t = (board s)(n \<mapsto> st) \<and> engine_states t = (engine_states s)(n \<mapsto> st)"
  using store_then_alert [of H n raw st msg th detail should s] by (auto simp: board_def fun_eq_iff)

lemma poll_board:
  assumes "poll H n f sc s = (r, t)"
  shows "case verdict_of (he_show H) sc (fst (f (h_world s))) of
      Inl e \<Rightarrow> r = Inl e \<and> board t = board s \<and> engine_states t = engine_states s
    | Inr st \<Rightarrow> r = Inr () \<and> board t = (board s)(n \<mapsto> st) \<and> engine_states t = (engine_states s)(n \<mapsto> st)"
proof -
  define raw where "raw = (case fst (f (h_world s)) of Inl e \<Rightarrow> probe_error (take 200 (exn_str e)) | Inr raw \<Rightarrow> raw)"
  let ?s = "s\<lparr>h_world := snd (f (h_world s))\<rparr>"
  have same: "board ?s = board s" "engine_states ?s = engine_states s" by (simp_all add: board_def)
  show ?thesis
  proof (cases "map_of raw ''error''")
    case (Some err)
    then have "verdict_of (he_show H) sc (fst (f (h_world s))) = Inr ''critical''"
      by (auto simp: verdict_of_def raw_def has_key_iff split: sum.splits)
    moreover have "thn (store_update H n raw ''critical'' err J_null)
        (check_and_alert H n ''critical'' (py_str (he_show H) err) True) ?s = (r, t)"
      using assms Some by (simp add: poll_def bnd_run poll_raw_run raw_def)
    ultimately show ?thesis using store_then_alert_board [of H n raw "''critical''"] same by fastforce
  next
    case None
    then obtain x where x: "fst (f (h_world s)) = Inr x" and raw: "raw = x"
      by (auto simp: raw_def probe_error_def split: sum.splits)
    with None have no: "\<not> has_key x ''error''" by (simp add: has_key_iff)
    show ?thesis
    proof (cases "evaluate (he_show H) x sc")
      case (Inl e)
      with assms None x raw no show ?thesis
        by (auto simp: poll_def bnd_run poll_raw_run of_sum_run verdict_of_def board_def)
    next
      case (Inr ev)
      let ?st = "status_name (ev_status ev)"
      have "thn (store_update H n x ?st (message_json (ev_message ev)) (jget sc ''thresholds''))
         (check_and_alert H n ?st (case ev_message ev of None \<Rightarrow> [] | Some m \<Rightarrow> m) (ev_should_alert ev)) ?s = (r, t)"
        using assms None x raw Inr by (simp add: poll_def bnd_run poll_raw_run of_sum_run Let_def)
      from store_then_alert_board [OF this] same x no Inr show ?thesis by (simp add: verdict_of_def)
    qed
  qed
qed

text \<open>A run of the monitor: polls in any order, of any service with any probe and configuration.\<close>

inductive polls :: "'v henv \<Rightarrow> 'v hmon \<Rightarrow> 'v hmon \<Rightarrow> bool" for H where
  none: "polls H s s"
| one: "polls H s t \<Longrightarrow> poll H n f sc t = (r, u) \<Longrightarrow> polls H s u"

lemma poll_keeps_agreement:
  assumes "poll H n f sc s = (r, t)" and "board s = engine_states s"
  shows "board t = engine_states t"
  using poll_board [OF assms(1)] assms(2) by (simp split: sum.splits)

section \<open>Properties of a poll\<close>

text \<open>C4. A poll refines one update of the board: where the evaluation succeeds it returns, and both the
  cache and the alert engine hold exactly the new status of the service and what they held of the
  others; a probe that raises or reports an error makes its service critical; and where the
  evaluation fails neither table changes.\<close>

theorem poll_refines_board:
  assumes "poll H n f sc s = (r, t)"
  shows "case verdict_of (he_show H) sc (fst (f (h_world s))) of
      Inl e \<Rightarrow> r = Inl e \<and> board t = board s \<and> engine_states t = engine_states s
    | Inr st \<Rightarrow> r = Inr () \<and> board t = (board s)(n \<mapsto> st) \<and> engine_states t = (engine_states s)(n \<mapsto> st)"
  using assms by (rule poll_board)

theorem poll_refines_board_witness:
  "board (snd (poll sms_env ''tls'' (raise (OSError ''unreachable'')) [] (quiet_state 0))) ''tls'' = Some ''critical''"
proof -
  obtain r t where p: "poll sms_env ''tls'' (raise (OSError ''unreachable'')) [] (quiet_state 0) = (r, t)" by fastforce
  from poll_refines_board [OF p] show ?thesis unfolding p by (simp add: verdict_of_def raise_run)
qed

text \<open>C39. The dashboard and the alerts never disagree: after any sequence of polls, failing or not, the
  status the cache holds for a service is the one the alert engine acted on last.\<close>

theorem cache_agrees_with_engine:
  assumes "polls H s t" and "board s = engine_states s"
  shows "board t = engine_states t"
  using assms by (induction rule: polls.induct) (auto dest: poll_keeps_agreement)

theorem cache_agrees_with_engine_witness:
  "board (snd (poll sms_env ''disk'' (ret [(''items'', J_list [])]) [] (quiet_state 0))) =
   engine_states (snd (poll sms_env ''disk'' (ret [(''items'', J_list [])]) [] (quiet_state 0)))"
proof (rule cache_agrees_with_engine [where H = sms_env and s = "quiet_state 0"])
  show "polls sms_env (quiet_state 0) (snd (poll sms_env ''disk'' (ret [(''items'', J_list [])]) [] (quiet_state 0)))"
    by (rule polls.one [OF polls.none prod.collapse [symmetric]])
qed (simp add: quiet_state_def board_def no_alerts_def fun_eq_iff)

section \<open>The shipped thresholds\<close>

lemma gives_on_mon [gives_rules]: "gives P m \<Longrightarrow> gives P (on_mon m)"
  by (auto simp: gives_def on_mon_def split: prod.splits)

text \<open>The eight services with their configuration in the file.\<close>

definition shipped :: "(string \<times> jobj) list" where
  "shipped =
     [(''database'', conf 60 ''warning'' size_thresholds), (''autovacuum'', conf 60 ''warning'' vacuum_thresholds),
      (''disk'', conf 300 ''warning'' disk_levels), (''certs'', conf 3600 ''warning'' days_levels),
      (''tls'', conf 3600 ''warning'' days_levels), (''containers'', conf 60 ''warning'' container_levels),
      (''config'', conf 60 ''note'' [(''changed'', flag_levels)]), (''updates'', conf 21600 ''note'' update_levels)]"

lemma thresholds_shipped:
  "thresholds_yml = (''alert_cooldown'', J_int 300) # map (\<lambda>(n, c). (n, J_obj c)) shipped"
  by (simp add: thresholds_yml_def shipped_def service_conf_def conf_def)

lemma shipped_config:
  assumes "(n, c) \<in> set shipped"
  shows "service_config_of thresholds_yml n = Inr c"
proof -
  have "distinct (map fst shipped)" and no: "''alert_cooldown'' \<notin> set (map fst shipped)" by (simp_all add: shipped_def)
  then have "map_of shipped n = Some c" using assms by simp
  moreover have "n \<noteq> ''alert_cooldown''" using assms no by force
  ultimately show ?thesis
    by (simp add: service_config_of_def thresholds_shipped get_or_def as_obj_def map_of_map)
qed

lemma list_all2_member: "list_all2 P xs ys \<Longrightarrow> x \<in> set xs \<Longrightarrow> \<exists>y\<in>set ys. P x y"
  by (induction xs ys rule: list_all2_induct) auto

lemma health_names: "map fst (health_functions E) = map fst shipped"
  by (simp add: health_functions_def shipped_def)

lemma shipped_usable:
  assumes "counts_tuples E" and "(n, f) \<in> set (health_functions E)" and "service_config_of thresholds_yml n = Inr sc"
  shows "gives (usable shw sc) f"
proof -
  have "list_all2 (\<lambda>(n, f) (m, c). n = m \<and> gives (usable shw c) f) (health_functions E) shipped"
    unfolding health_functions_def shipped_def
    by (simp add: gives_on_mon database_usable autovacuum_usable [OF assms(1)] disk_usable certs_usable tls_usable
        containers_usable drift_usable updates_usable)
  from list_all2_member [OF this assms(2)] obtain d where d: "(n, d) \<in> set shipped" "gives (usable shw d) f" by auto
  with assms(3) shipped_config have "sc = d" by force
  with d show ?thesis by simp
qed

lemma shipped_verdict:
  assumes "counts_tuples E" and "(n, f) \<in> set (health_functions E)" and "service_config_of thresholds_yml n = Inr sc"
  shows "\<exists>st. verdict_of shw sc (fst (f w)) = Inr st"
proof (cases "fst (f w)")
  case (Inr raw)
  then obtain v where "f w = (Inr raw, v)" by (cases "f w") auto
  with shipped_usable [OF assms] have "usable shw sc raw" by (rule givesD)
  with Inr show ?thesis by (auto simp: verdict_of_def usable_def)
qed (simp add: verdict_of_def)

lemma shipped_poll:
  assumes "counts_tuples E" and "(n, f) \<in> set (health_functions E)" and "service_config_of thresholds_yml n = Inr sc"
    and "poll H n f sc s = (r, t)"
  shows "r = Inr () \<and> (\<exists>st. board t = (board s)(n \<mapsto> st))"
proof -
  obtain st where "verdict_of (he_show H) sc (fst (f (h_world s))) = Inr st"
    using shipped_verdict [OF assms(1-3)] by blast
  with poll_board [OF assms(4)] show ?thesis by auto
qed

lemma no_overrides: "list_all (\<lambda>e. \<not> startswith (fst e) env_prefix) environ \<Longrightarrow> load_config fl file environ = Inr file"
  unfolding load_config_def by (induction environ) (auto simp: apply_env_def split: prod.splits)

lemma first_polls:
  assumes "counts_tuples E" and "set fs \<subseteq> set (health_functions E)"
  shows "\<exists>t. for_each fs (first_poll H thresholds_yml) s = (Inr (), t) \<and> h_cooldown t = h_cooldown t \<and>
    (\<forall>n. board s n \<noteq> None \<or> n \<in> set (map fst fs) \<longrightarrow> board t n \<noteq> None)"
  using assms(2)
proof (induction fs arbitrary: s)
  case (Cons e fs)
  obtain n f where e: "e = (n, f)" by (cases e)
  with Cons.prems have nf: "(n, f) \<in> set (health_functions E)" by simp
  then have "n \<in> fst ` set shipped" using health_names [of E] by (metis fst_conv image_eqI list.set_map)
  then obtain c where c: "service_config_of thresholds_yml n = Inr c" using shipped_config by force
  obtain r u where p: "poll H n f c s = (r, u)" by fastforce
  from shipped_poll [OF assms(1) nf c p] obtain st where u: "r = Inr ()" "board u = (board s)(n \<mapsto> st)" by blast
  with p c e have first: "first_poll H thresholds_yml e s = (Inr (), u)" by (simp add: first_poll_def run_simps)
  from Cons.IH [of u] Cons.prems obtain t where t: "for_each fs (first_poll H thresholds_yml) u = (Inr (), t)"
    "\<forall>m. board u m \<noteq> None \<or> m \<in> set (map fst fs) \<longrightarrow> board t m \<noteq> None" by auto
  show ?case by (rule exI [of _ t]) (use t first u e in \<open>auto simp: thn_run\<close>)
qed (simp add: run_simps)

text \<open>The jobs of a start with the shipped file.\<close>

definition shipped_jobs :: "(string \<times> json) list" where
  "shipped_jobs =
     [(''database'', J_int 60), (''autovacuum'', J_int 60), (''disk'', J_int 300), (''certs'', J_int 3600),
      (''tls'', J_int 3600), (''containers'', J_int 60), (''config'', J_int 60), (''updates'', J_int 21600)]"

lemma shipped_poll_jobs: "poll_jobs thresholds_yml (map fst (health_functions E)) = Inr shipped_jobs"
  unfolding health_names by code_simp

lemma shipped_cooldown: "cooldown_of thresholds_yml = Inr 300"
  by (simp add: cooldown_of_def get_or_def thresholds_shipped)

definition sample_monitor :: "sample pmon hmon" where
  "sample_monitor = quiet_state \<lparr>pm_mon = sample_state [] sample_world, pm_startup_hash = None\<rparr>"

definition sample_henv :: "sample pmon henv" where
  "sample_henv = \<lparr>he_cfg = default_settings, he_show = (\<lambda>_. []), he_now = (\<lambda>w. (1000, w)), he_iso_now = (\<lambda>w. ([], w)),
     insert_event = (\<lambda>_ w. (Inl (OSError ''down''), w)), smtp_send = (\<lambda>_ w. (Inr (), w)), sms_post = (\<lambda>_ w. (Inr 200, w))\<rparr>"

lemma sample_counts: "counts_tuples sample_services"
  by (simp add: counts_tuples_def sample_services_def)

text \<open>C19. With the shipped thresholds no poll of any of the eight services fails, whatever the probes meet:
  every result a probe can give, its error items included, is one the evaluator has a status for.\<close>

theorem shipped_polls_succeed:
  assumes "counts_tuples E" and "(n, f) \<in> set (health_functions E)" and "service_config_of thresholds_yml n = Inr sc"
  shows "fst (poll H n f sc s) = Inr () \<and> board (snd (poll H n f sc s)) n \<noteq> None"
  using shipped_poll [OF assms, of H s] by (cases "poll H n f sc s") fastforce

theorem shipped_polls_succeed_witness:
  "fst (poll sample_henv ''tls'' (on_mon (get_tls_status sample_services)) (conf 3600 ''warning'' days_levels)
     sample_monitor) = Inr ()"
proof -
  have "(''tls'', on_mon (get_tls_status sample_services)) \<in> set (health_functions sample_services)"
    by (simp add: health_functions_def)
  moreover have "service_config_of thresholds_yml ''tls'' = Inr (conf 3600 ''warning'' days_levels)"
    by (rule shipped_config) (simp add: shipped_def)
  ultimately show ?thesis using shipped_polls_succeed [OF sample_counts] by blast
qed

text \<open>Starting the scheduler with the shipped file always succeeds and leaves a status for every service
  in the cache: whatever fails in one first poll, the others still run. Each service gets its job at
  the interval of the file, and the alert engine its cooldown.\<close>

lemma startup_fills_cache:
  assumes "counts_tuples E" and "list_all (\<lambda>e. \<not> startswith (fst e) env_prefix) environ"
  shows "\<exists>t. start_scheduler H E thresholds_yml environ s = (Inr (shipped_jobs @ expiry_jobs (he_cfg H)), t) \<and>
    (\<forall>n\<in>set (map fst (health_functions E)). board t n \<noteq> None)"
proof -
  obtain t where t: "for_each (health_functions E) (first_poll H thresholds_yml) (s\<lparr>h_cooldown := 300\<rparr>) = (Inr (), t)"
    and b: "\<forall>n. n \<in> set (map fst (health_functions E)) \<longrightarrow> board t n \<noteq> None"
    using first_polls [OF assms(1) subset_refl, of H "s\<lparr>h_cooldown := 300\<rparr>"] by blast
  have "start_scheduler H E thresholds_yml environ s = (Inr (shipped_jobs @ expiry_jobs (he_cfg H)), t)"
    unfolding start_scheduler_def no_overrides [OF assms(2)]
    by (simp add: bnd_run thn_run of_sum_run modify_run ret_run shipped_cooldown shipped_poll_jobs t)
  with b show ?thesis by blast
qed

section \<open>From a certificate to an alert\<close>

lemma raw_board:
  assumes "f (h_world s) = (Inr raw, w)" and "\<not> has_key raw ''error''"
    and "evaluate (he_show H) raw sc = Inr ev" and "poll H n f sc s = (r, t)"
  shows "board t n = Some (status_name (ev_status ev))"
  using poll_board [OF assms(4)] assms(1-3) by (simp add: verdict_of_def)

lemma evaluate_days_list:
  assumes "evaluate shw (probe_items xs) (conf i m th) = Inr ev"
    and "\<not> (has_key th ''health'' \<and> has_key th ''status'')"
  shows "\<exists>msg. evaluate_list shw xs th = Inr (ev_status ev, msg)"
  using assms by (auto simp: evaluate_def probe_items_def as_obj_def as_list_def)

text \<open>C37. A certificate that is about to expire or cannot be read is seen: if the probe reports a monitored
  certificate with at most seven days left, the poll makes the service critical, and if it reports
  one it could not read, at least a warning.\<close>

theorem bad_certificate_shows:
  assumes "get_cert_status E (pm_mon (h_world s)) = (Inr (probe_items items), u)" and "J_obj item \<in> set items"
    and "poll H ''certs'' (on_mon (get_cert_status E)) (conf 3600 ''warning'' days_levels) s = (r, t)"
  shows "(\<forall>d. map_of item ''days_left'' = Some (J_int d) \<longrightarrow> d \<le> 7 \<longrightarrow> map_of item ''error'' = None \<longrightarrow>
      board t ''certs'' = Some ''critical'') \<and>
    (truthy (jget item ''error'') \<longrightarrow> board t ''certs'' \<in> {Some ''warning'', Some ''critical''})"
proof -
  have f: "on_mon (get_cert_status E) (h_world s) = (Inr (probe_items items), (h_world s)\<lparr>pm_mon := u\<rparr>)"
    using assms(1) by (simp add: on_mon_def)
  have no: "\<not> has_key (probe_items items) ''error''" by (simp add: probe_items_def has_key_def)
  have "usable (he_show H) (conf 3600 ''warning'' days_levels) (probe_items items)"
    using certs_usable assms(1) by (rule givesD)
  with no obtain ev where ev: "evaluate (he_show H) (probe_items items) (conf 3600 ''warning'' days_levels) = Inr ev"
    by (auto simp: usable_def)
  from raw_board [OF f no ev assms(3)] have b: "board t ''certs'' = Some (status_name (ev_status ev))" .
  obtain msg where el: "evaluate_list (he_show H) items days_levels = Inr (ev_status ev, msg)"
    using evaluate_days_list [OF ev] by (auto simp: has_key_def)
  have shown: "shown days_levels (J_obj item)" by (simp add: shown_def as_obj_def below_min_dead_def jget_def)
  have worst: "l \<le> ev_status ev" if "item_level (he_show H) days_levels (J_obj item) = Some l" for l
    using items.fold_bounds [OF el [unfolded evaluate_list_def]] assms(2) that shown by simp
  have "board t ''certs'' = Some ''critical''"
    if d: "map_of item ''days_left'' = Some (J_int d)" "d \<le> 7" "map_of item ''error'' = None" for d
  proof -
    have "item_level (he_show H) days_levels (J_obj item) = Some St_critical"
      using d by (simp add: item_level_def as_obj_def item_status_def Let_def jget_def check_key_def not_threshold_def
          check_threshold_def two_levels_def is_numeric_threshold_def has_key_def check_numeric_def worse_def right_def
          less_status_def)
    from worst [OF this] b show ?thesis by (cases "ev_status ev") (simp_all add: less_eq_status_def)
  qed
  moreover have "board t ''certs'' \<in> {Some ''warning'', Some ''critical''}" if e: "truthy (jget item ''error'')"
  proof -
    have "item_level (he_show H) days_levels (J_obj item) = Some St_warning"
      using e by (simp add: item_level_def as_obj_def item_status_def Let_def get_or_def as_str_def right_def)
    from worst [OF this] b show ?thesis by (cases "ev_status ev") (simp_all add: less_eq_status_def)
  qed
  ultimately show ?thesis by blast
qed

theorem bad_certificate_shows_witness:
  "board (snd (poll sample_henv ''certs'' (on_mon (get_cert_status sample_services)) (conf 3600 ''warning'' days_levels)
     (sample_monitor\<lparr>h_world := \<lparr>pm_mon = sample_dir_state, pm_startup_hash = None\<rparr>\<rparr>))) ''certs''
   \<in> {Some ''warning'', Some ''critical''}"
    (is "board (snd (poll _ _ _ _ ?s)) _ \<in> _")
proof -
  obtain r t where p: "poll sample_henv ''certs'' (on_mon (get_cert_status sample_services))
      (conf 3600 ''warning'' days_levels) ?s = (r, t)" by fastforce
  show ?thesis
    using bad_certificate_shows [of sample_services ?s "[J_obj sample_item]" sample_dir_state sample_item sample_henv r t]
      sample_report unfolding p by (simp add: jget_def sample_item_def)
qed

end
