(* ===== verification/HealthApi.thy ===== *)
theory HealthApi
  imports PollingFacts
begin

text \<open>
  \<open>monitor/app/api/health/router.py\<close>, the container statistics of \<open>health/containers.py\<close>, the
  operations of \<open>monitor/app/api/ops\<close> and the links of \<open>monitor/app/dashboard/services.py\<close>.
\<close>

section \<open>The summary\<close>

text \<open>The compact view names the services with their message, the full one is the cache.\<close>

datatype health_view =
    Compact string "(string \<times> string \<times> json option) list"
  | Full string "(string \<times> cache_entry) list"

definition compact_entry :: "string \<times> cache_entry \<Rightarrow> string \<times> string \<times> json option" where
  "compact_entry e = (case e of (n, c) \<Rightarrow>
     (n, hc_status c, if truthy (hc_message c) then Some (hc_message c) else None))"

definition compact_step ::
    "string \<times> cache_entry \<Rightarrow> (string \<times> string \<times> json option) list \<times> status \<Rightarrow>
     exn + (string \<times> string \<times> json option) list \<times> status" where
  "compact_step e acc = (case acc of (services, worst) \<Rightarrow>
     andthen (summary_step (hc_status (snd e)) worst) (\<lambda>w. Inr (services @ [compact_entry e], w)))"

definition health_summary :: "string option \<Rightarrow> ('v hmon, health_view) prog" where
  "health_summary view =
     bnd store_fetch_all (\<lambda>all_data.
     if view = Some ''status'' then
       bnd (of_sum (sum_fold compact_step all_data ([], St_ok))) (\<lambda>(services, worst).
       ret (Compact (status_name worst) services))
     else
       bnd (of_sum (overall_status (map (\<lambda>e. hc_status (snd e)) all_data))) (\<lambda>worst.
       ret (Full (status_name worst) all_data)))"

fun view_overall :: "health_view \<Rightarrow> string" where
  "view_overall (Compact w _) = w"
| "view_overall (Full w _) = w"

section \<open>Container statistics\<close>

text \<open>\<open>j[k]\<close>, and a number as arithmetic needs it.\<close>

definition json_item :: "string \<Rightarrow> json \<Rightarrow> exn + json" where
  "json_item k j = (case j of
     J_obj d \<Rightarrow> (case map_of d k of Some v \<Rightarrow> Inr v | None \<Rightarrow> Inl (KeyError k))
   | _ \<Rightarrow> Inl TypeError)"

definition number_of :: "json \<Rightarrow> exn + real" where
  "number_of j = (case num_of j of Some x \<Rightarrow> Inr x | None \<Rightarrow> Inl TypeError)"

definition total_usage :: "string \<Rightarrow> json \<Rightarrow> exn + json" where
  "total_usage part stats =
     andthen (json_item part stats) (\<lambda>c. andthen (json_item ''cpu_usage'' c) (json_item ''total_usage''))"

definition difference :: "exn + json \<Rightarrow> exn + json \<Rightarrow> exn + real" where
  "difference a b =
     andthen a (\<lambda>x. andthen b (\<lambda>y. andthen (number_of x) (\<lambda>u. andthen (number_of y) (\<lambda>v. Inr (u - v)))))"

definition stats_of :: "string \<Rightarrow> json \<Rightarrow> exn + json" where
  "stats_of name stats =
     andthen (difference (total_usage ''cpu_stats'' stats) (total_usage ''precpu_stats'' stats)) (\<lambda>cpu_delta.
     andthen (difference (andthen (json_item ''cpu_stats'' stats) (json_item ''system_cpu_usage''))
                         (andthen (json_item ''precpu_stats'' stats) (json_item ''system_cpu_usage''))) (\<lambda>system_delta.
     andthen (andthen (json_item ''cpu_stats'' stats) as_obj) (\<lambda>cpu_stats.
     andthen (if 0 < system_delta
              then andthen (number_of (get_or cpu_stats ''online_cpus'' (J_int 1))) (\<lambda>n.
                   Inr (cpu_delta / system_delta * n * 100))
              else Inr 0) (\<lambda>cpu_pct.
     andthen (andthen (json_item ''memory_stats'' stats) as_obj) (\<lambda>memory_stats.
     let limit_json = get_or memory_stats ''limit'' (J_int 1) in
     andthen (number_of (get_or memory_stats ''usage'' (J_int 0))) (\<lambda>mem_usage.
     andthen (number_of limit_json) (\<lambda>mem_limit.
     Inr (J_obj [(''name'', J_str name), (''cpu_percent'', J_float (round_to 2 cpu_pct)),
       (''memory_mb'', J_float (round_to 1 (mem_usage / 1024 / 1024))),
       (''memory_limit_mb'', J_float (round_to 1 (mem_limit / 1024 / 1024))),
       (''memory_percent'', if truthy limit_json then J_float (round_to 1 (mem_usage / mem_limit * 100)) else J_int 0)]))))))))"

definition get_container_stats :: "'w penv \<Rightarrow> string \<Rightarrow> ('w mon, json option) prog" where
  "get_container_stats E name =
     bnd (find_container (pe_env E) name) (\<lambda>c. case c of
       None \<Rightarrow> ret None
     | Some c \<Rightarrow>
         if con_status c \<noteq> ''running'' then ret None else
         catch (bnd (bnd (tick (container_stats E c)) of_sum) (\<lambda>stats.
                of_sum (andthen (stats_of name stats) (\<lambda>j. Inr (Some j)))))
           (\<lambda>e. case e of KeyError _ \<Rightarrow> ret None | TypeError \<Rightarrow> ret None | _ \<Rightarrow> raise e))"

definition resources :: "'w penv \<Rightarrow> ('w mon, json list) prog" where
  "resources E =
     bnd (discover_running_services (pe_env E)) (\<lambda>names.
     bnd (collect (get_container_stats E) names) (\<lambda>stats. ret (List.map_filter (\<lambda>s. s) stats)))"

text \<open>The routes that run one probe and answer with what it gives.\<close>

definition containers_route :: "'w penv \<Rightarrow> ('w mon, jobj) prog" where
  "containers_route E = get_all_container_health E"

definition certs_route :: "'w penv \<Rightarrow> ('w mon, jobj) prog" where
  "certs_route E = get_cert_status E"

definition database_route :: "'w penv \<Rightarrow> ('w mon, jobj) prog" where
  "database_route E = get_cot_db_size E"

definition updates_route :: "'w penv \<Rightarrow> ('w mon, jobj) prog" where
  "updates_route E = check_updates E"

definition disk_route :: "'w penv \<Rightarrow> ('w mon, jobj) prog" where
  "disk_route E = get_disk_usage E"

definition tls_route :: "'w penv \<Rightarrow> ('w mon, jobj) prog" where
  "tls_route E = get_tls_status E"

definition config_route :: "'w penv \<Rightarrow> ('w pmon, jobj) prog" where
  "config_route E = check_config_drift E"

definition autovacuum_route :: "'w penv \<Rightarrow> ('w mon, jobj) prog" where
  "autovacuum_route E = get_autovacuum_health E"

section \<open>Operations\<close>

definition validate_container :: "'w penv \<Rightarrow> string \<Rightarrow> ('w mon, unit) prog" where
  "validate_container E name =
     bnd (discover_services (pe_env E)) (\<lambda>names.
     if name \<notin> set names then raise (HTTPException 400 (''Unknown container: '' @ name)) else ret ())"

definition svc_logs :: "'w penv \<Rightarrow> string \<Rightarrow> int \<Rightarrow> ('w mon, string) prog" where
  "svc_logs E name tail =
     (if tail < 1 \<or> 5000 < tail then raise (HTTPException 422 ''Unprocessable Entity'') else
      thn (validate_container E name)
     (bnd (find_container (pe_env E) name) (\<lambda>c. case c of
        None \<Rightarrow> raise (HTTPException 404 (''Container '' @ in_quotes name @ '' not found''))
      | Some c \<Rightarrow>
          catch (bnd (tick (container_logs E c tail)) of_sum)
            (\<lambda>e. raise (HTTPException 500 (take 300 (exn_str e)))))))"

definition vacuum_database :: "'w penv \<Rightarrow> ('w mon, string option) prog" where
  \<comment> \<open>the error, if it failed\<close>
  "vacuum_database E =
     catch (thn (execute E (Sql ''VACUUM FULL ANALYZE'' [])) (ret None)) (\<lambda>e. ret (Some (take 300 (exn_str e))))"

definition db_vacuum :: "'w penv \<Rightarrow> ('w mon, unit) prog" where
  "db_vacuum E =
     bnd (vacuum_database E) (\<lambda>r. case r of None \<Rightarrow> ret () | Some e \<Rightarrow> raise (HTTPException 500 e))"

definition test_email :: "'v henv \<Rightarrow> ('v hmon, bool) prog" where
  "test_email H = send_alert_email H ''Test Alert''
     (''This is a test alert from FastTAK Monitor.'' @ '' If you received this, email alerting is working.'')"

definition test_sms :: "'v henv \<Rightarrow> ('v hmon, bool) prog" where
  "test_sms H = send_alert_sms H ''[FastTAK] Test alert. SMS alerting is working.''"

section \<open>Service links\<close>

definition link_services :: "settings \<Rightarrow> (string \<times> string \<times> int) list" where
  "link_services st =
     [(''TAK Server'', takserver_subdomain st, takserver_admin_port st), (''Node-RED'', nodered_subdomain st, nodered_port st),
      (''Monitor'', monitor_subdomain st, monitor_port st), (''MediaMTX'', mediamtx_subdomain st, mediamtx_port st)]"

definition service_link :: "settings \<Rightarrow> string \<times> string \<times> int \<Rightarrow> string \<times> string" where
  "service_link st e = (case e of (name, subdomain, port) \<Rightarrow>
     (name, if deploy_mode st = ''direct'' then ''https://'' @ server_address st @ '':'' @ str_of_int port
            else ''https://'' @ subdomain @ ''.'' @ server_address st))"

definition get_service_links :: "settings \<Rightarrow> (string \<times> string) list" where
  "get_service_links st = (if server_address st = [] then [] else map (service_link st) (link_services st))"

section \<open>Facts\<close>

lemma compact_fold:
  "sum_fold compact_step es (xs, w) =
   andthen (sum_fold summary_step (map (\<lambda>e. hc_status (snd e)) es) w) (\<lambda>v. Inr (xs @ map compact_entry es, v))"
proof (induction es arbitrary: xs w)
  case (Cons e es)
  then show ?case by (cases "summary_step (hc_status (snd e)) w") (simp_all add: compact_step_def)
qed simp

lemma summary_runs:
  "health_summary view s =
    (case overall_status (map (\<lambda>e. hc_status (snd e)) (h_cache s)) of
       Inl e \<Rightarrow> (Inl e, s)
     | Inr w \<Rightarrow> (Inr (if view = Some ''status'' then Compact (status_name w) (map compact_entry (h_cache s))
                      else Full (status_name w) (h_cache s)), s))"
  by (auto simp: health_summary_def store_fetch_all_def run_simps compact_fold overall_status_def split: sum.splits)

lemma level_name: "status_of n = Inr st \<Longrightarrow> n = status_name st"
  by (auto simp: status_of_def split: if_splits)

text \<open>C38. The overall health is the worst status the board holds above a note: both views of the summary
  give it, no service with a warning or worse is lost in it, and it is ok only if there is none.\<close>

theorem summary_is_worst:
  assumes "health_summary view s = (Inr v, t)" and "distinct (map fst (h_cache s))"
  shows "\<exists>w. view_overall v = status_name w \<and>
    (\<forall>n st. board s n = Some (status_name st) \<longrightarrow> St_note < st \<longrightarrow> st \<le> w) \<and>
    (w = St_ok \<or> St_note < w \<and> (\<exists>n. board s n = Some (status_name w)))"
proof -
  let ?names = "map (\<lambda>e. hc_status (snd e)) (h_cache s)"
  obtain w where w: "sum_fold summary_step ?names St_ok = Inr w" and v: "view_overall v = status_name w"
    using assms(1) by (auto simp: summary_runs overall_status_def split: sum.splits if_splits)
  have upper: "st \<le> w" if b: "board s n = Some (status_name st)" and above: "St_note < st" for n st
  proof -
    from b obtain c where "map_of (h_cache s) n = Some c" and c: "hc_status c = status_name st" by (auto simp: board_def)
    then have "(n, c) \<in> set (h_cache s)" by (simp add: map_of_SomeD)
    moreover have "counted (hc_status c) = Some st" using c above by (simp add: counted_iff)
    ultimately show ?thesis using summary.fold_bounds [OF w] by auto
  qed
  have "w = St_ok \<or> St_note < w \<and> (\<exists>n. board s n = Some (status_name w))"
  proof (cases "w = St_ok")
    case False
    with summary.fold_attained [OF w] obtain n c where e: "(n, c) \<in> set (h_cache s)" and w': "status_of (hc_status c) = Inr w"
      and above: "St_note < w" by (auto simp: counted_iff)
    from e assms(2) have "map_of (h_cache s) n = Some c" by simp
    with level_name [OF w'] have "board s n = Some (status_name w)" by (simp add: board_def)
    with above show ?thesis by blast
  qed simp
  with upper v show ?thesis by blast
qed

theorem summary_is_worst_witness:
  "\<exists>w. ''critical'' = status_name w \<and> St_critical \<le> w"
proof -
  let ?c = "\<lambda>st. \<lparr>hc_status = st, hc_message = J_null, hc_data = [], hc_thresholds = J_null, hc_updated_at = []\<rparr>"
  let ?s = "(quiet_state (0 :: nat))\<lparr>h_cache := [(''disk'', ?c ''critical''), (''updates'', ?c ''note'')]\<rparr>"
  have o: "overall_status [''critical'', ''note''] = Inr St_critical" by code_simp
  have r: "health_summary None ?s = (Inr (Full ''critical'' (h_cache ?s)), ?s)"
    by (simp add: summary_runs o)
  have "board ?s ''disk'' = Some (status_name St_critical)" by (simp add: board_def)
  moreover have "St_note < St_critical" by (simp add: less_status_def)
  moreover have "distinct (map fst (h_cache ?s))" by simp
  ultimately show ?thesis using summary_is_worst [OF r] by auto
qed

end
