(* ===== verification/TakApi.thy ===== *)
theory TakApi
  imports Users Database Evaluator Sample
begin

text \<open>
  \<open>monitor/app/api/tak/positions.py\<close> and \<open>monitor/app/api/tak/router.py\<close>: last known positions from
  the \<open>cot\<close> database and the lists of TAK Server, without the service accounts. A position, a client
  and a contact is the dictionary the code has. The XML parser is a parameter.
\<close>

section \<open>Positions\<close>

definition decode_value :: "'w penv \<Rightarrow> sql_value \<Rightarrow> json" where
  "decode_value E v = (case v of
     S_null \<Rightarrow> J_null
   | S_int i \<Rightarrow> J_int i
   | S_num x \<Rightarrow> J_float x
   | S_text s \<Rightarrow> J_str s
   | S_bytes b \<Rightarrow> J_str (decode_replacing E b)
   | S_time t \<Rightarrow> J_str (iso_of E t)
   | S_texts ts \<Rightarrow> J_list (map J_str ts))"

definition float_or_none :: "'w penv \<Rightarrow> sql_value \<Rightarrow> exn + json" where
  "float_or_none E v = (if v = S_null then Inr J_null else andthen (sql_float E v) (\<lambda>x. Inr (J_float x)))"

definition position_of :: "'w penv \<Rightarrow> sql_value \<Rightarrow> sql_value \<Rightarrow> sql_value \<Rightarrow> sql_value \<Rightarrow> sql_value \<Rightarrow> sql_value \<Rightarrow> exn + jobj" where
  "position_of E uid lat lon hae servertime cot_type =
     andthen (float_or_none E lat) (\<lambda>la.
     andthen (float_or_none E lon) (\<lambda>lo.
     andthen (float_or_none E hae) (\<lambda>ha.
     Inr [(''uid'', decode_value E uid), (''lat'', la), (''lon'', lo), (''hae'', ha),
          (''servertime'', decode_value E servertime), (''cot_type'', decode_value E cot_type)])))"

definition unpack_error :: exn where
  "unpack_error = ValueError ''wrong number of values to unpack''"

definition row_to_position :: "'w penv \<Rightarrow> row \<Rightarrow> exn + jobj" where
  "row_to_position E r = (case r of
     [uid, lat, lon, hae, servertime, cot_type] \<Rightarrow> position_of E uid lat lon hae servertime cot_type
   | _ \<Rightarrow> Inl unpack_error)"

text \<open>\<open>root.find(".//tag")\<close>: the first descendant with the tag, in document order.\<close>

fun find_in :: "string \<Rightarrow> xml list \<Rightarrow> xml option" where
  "find_in tag [] = None"
| "find_in tag (Xml t as cs # xs) =
     (if t = tag then Some (Xml t as cs)
      else case find_in tag cs of Some y \<Rightarrow> Some y | None \<Rightarrow> find_in tag xs)"

definition element_or_descendant :: "string \<Rightarrow> xml \<Rightarrow> xml option" where
  "element_or_descendant tag doc = (if x_tag doc = tag then Some doc else find_in tag (x_children doc))"

text \<open>\<open>v = e.get(name); if v: out[key] = v\<close>.\<close>

definition kept_attribute :: "string \<Rightarrow> string \<Rightarrow> xml \<Rightarrow> jobj" where
  "kept_attribute name key e = (case map_of (x_attrs e) name of
     Some v \<Rightarrow> if v = [] then [] else [(key, J_str v)] | None \<Rightarrow> [])"

definition parse_detail :: "'w penv \<Rightarrow> sql_value \<Rightarrow> exn + jobj" where
  "parse_detail E v =
     (let parsed = (\<lambda>s. case parse_xml E s of
            None \<Rightarrow> []
          | Some doc \<Rightarrow>
              (case element_or_descendant ''contact'' doc of
                 None \<Rightarrow> []
               | Some e \<Rightarrow> kept_attribute ''callsign'' ''callsign'' e @ kept_attribute ''endpoint'' ''endpoint'' e) @
              (case element_or_descendant ''__group'' doc of
                 None \<Rightarrow> []
               | Some e \<Rightarrow> kept_attribute ''name'' ''team'' e @ kept_attribute ''role'' ''role'' e)) in
      case v of
        S_null \<Rightarrow> Inr []
      | S_text s \<Rightarrow> if s = [] then Inr [] else Inr (parsed s)
      | S_bytes b \<Rightarrow> if b = [] then Inr [] else Inr (parsed (decode_replacing E b))
      | _ \<Rightarrow> Inl TypeError)"

definition lkp_sql :: "nat \<Rightarrow> string" where
  "lkp_sql n = '' SELECT DISTINCT ON (uid) uid, ST_Y(event_pt) AS lat, ST_X(event_pt) AS lon, '' @
     ''point_hae, servertime, cot_type FROM cot_router WHERE uid IN ('' @ join '','' (replicate n ''%s'') @
     '') ORDER BY uid, servertime DESC ''"

definition first_column :: "row \<Rightarrow> exn + sql_value" where
  "first_column r = (case r of v # _ \<Rightarrow> Inr v | [] \<Rightarrow> Inl IndexError)"

definition add_position :: "'w penv \<Rightarrow> row \<Rightarrow> (json \<times> jobj) list \<Rightarrow> exn + (json \<times> jobj) list" where
  "add_position E r acc =
     andthen (first_column r) (\<lambda>uid.
     andthen (row_to_position E r) (\<lambda>p. Inr (dict_set (decode_value E uid) p acc)))"

definition get_lkp_for_uids :: "'w penv \<Rightarrow> string list \<Rightarrow> ('w mon, (json \<times> jobj) list) prog" where
  "get_lkp_for_uids E uids =
     (if uids = [] then ret [] else
      bnd (catch (run_query E (Sql (lkp_sql (length uids)) (map S_text uids))) (\<lambda>_. ret [])) (\<lambda>rows.
      of_sum (sum_fold (add_position E) rows [])))"

definition recent_sql :: string where
  "recent_sql = '' SELECT DISTINCT ON (uid) uid, ST_Y(event_pt) AS lat, ST_X(event_pt) AS lon, '' @
     ''point_hae, servertime, cot_type, detail FROM cot_router '' @
     ''WHERE servertime >= NOW() - make_interval(secs => %s) AND cot_type ILIKE ANY(%s) '' @
     ''ORDER BY uid, servertime DESC ''"

definition recent_position :: "'w penv \<Rightarrow> row \<Rightarrow> exn + jobj" where
  "recent_position E r = (case r of
     [uid, lat, lon, hae, servertime, cot_type, detail] \<Rightarrow>
       andthen (position_of E uid lat lon hae servertime cot_type) (\<lambda>p.
       andthen (parse_detail E detail) (\<lambda>d. Inr (p @ [(''detail'', J_obj d)])))
   | _ \<Rightarrow> Inl unpack_error)"

text \<open>An error of the database is not caught here.\<close>

definition get_recent_lkp :: "'w penv \<Rightarrow> int \<Rightarrow> string list \<Rightarrow> ('w mon, jobj list) prog" where
  "get_recent_lkp E max_age prefixes =
     (if prefixes = [] then ret [] else
      bnd (run_query E (Sql recent_sql [S_int max_age, S_texts (map (\<lambda>p. p @ ''%'') prefixes)])) (\<lambda>rows.
      collect (\<lambda>r. of_sum (recent_position E r)) rows))"

section \<open>The lists of TAK Server\<close>

definition client_503 :: "'w penv \<Rightarrow> ('w mon, tak_client) prog" where
  \<comment> \<open>\<open>_client\<close>\<close>
  "client_503 E =
     bnd (get_tak_server (pe_env E) Users_router) (\<lambda>c. case c of
       Some c \<Rightarrow> if tk_ready c then ret c else raise (HTTPException 503 ''TAK Server client not configured'')
     | None \<Rightarrow> raise (HTTPException 503 ''TAK Server client not configured''))"

definition tak_hidden_prefixes :: "settings \<Rightarrow> string list" where
  "tak_hidden_prefixes st = csv_lower (users_hidden_prefixes st)"

definition either :: "json \<Rightarrow> json \<Rightarrow> json" where
  \<comment> \<open>\<open>a or b\<close>\<close>
  "either a b = (if truthy a then a else b)"

definition is_service_account :: "settings \<Rightarrow> json \<Rightarrow> exn + bool" where
  "is_service_account st entry =
     andthen (as_obj entry) (\<lambda>d.
     case either (either (jget d ''username'') (jget d ''notes'')) (J_str []) of
       J_str raw \<Rightarrow>
         let actor = lower (strip raw) in
         Inr (actor \<noteq> [] \<and> list_ex (startswith actor) (tak_hidden_prefixes st))
     | _ \<Rightarrow> Inl AttributeError)"

definition keep_entry :: "settings \<Rightarrow> json \<Rightarrow> json list \<Rightarrow> exn + json list" where
  "keep_entry st entry acc =
     andthen (is_service_account st entry) (\<lambda>service. Inr (if service then acc else acc @ [entry]))"

definition without_service :: "settings \<Rightarrow> json \<Rightarrow> exn + json list" where
  "without_service st j = andthen (json_iter j) (\<lambda>xs. sum_fold (keep_entry st) xs [])"

definition build_groups_response :: "'w penv \<Rightarrow> ('w mon, json) prog" where
  "build_groups_response E = bnd (client_503 E) (list_tak_groups (pe_env E))"

definition build_missions_response :: "'w penv \<Rightarrow> ('w mon, json) prog" where
  "build_missions_response E = bnd (client_503 E) (list_missions (pe_env E))"

text \<open>The uids of the entries that have one. Marti's uids are strings; another type, which the database
  driver would be handed as it is, is a \<open>TypeError\<close> here.\<close>

definition entry_uid :: "json \<Rightarrow> string list \<Rightarrow> exn + string list" where
  "entry_uid entry acc =
     andthen (as_obj entry) (\<lambda>d.
     if \<not> truthy (jget d ''uid'') then Inr acc else
     case jget d ''uid'' of J_str u \<Rightarrow> Inr (acc @ [u]) | _ \<Rightarrow> Inl TypeError)"

text \<open>A list or a dictionary is no key of a dictionary.\<close>

definition hashable :: "json \<Rightarrow> exn + unit" where
  "hashable j = (case j of J_list _ \<Rightarrow> Inl TypeError | J_obj _ \<Rightarrow> Inl TypeError | _ \<Rightarrow> Inr ())"

definition with_lkp :: "(json \<times> jobj) list \<Rightarrow> json \<Rightarrow> json list \<Rightarrow> exn + json list" where
  "with_lkp positions entry acc =
     andthen (as_obj entry) (\<lambda>d.
     andthen (hashable (jget d ''uid'')) (\<lambda>_.
     Inr (acc @ [J_obj (dict_set ''lkp''
       (case map_of positions (jget d ''uid'') of None \<Rightarrow> J_null | Some p \<Rightarrow> J_obj p) d)])))"

definition build_clients_response :: "'w penv \<Rightarrow> bool \<Rightarrow> bool \<Rightarrow> ('w mon, json list) prog" where
  "build_clients_response E include_lkp include_service =
     (let st = cfg (pe_env E) in
      bnd (bnd (client_503 E) (list_clients (pe_env E))) (\<lambda>j.
      bnd (of_sum (if include_service then json_iter j else without_service st j)) (\<lambda>clients.
      if \<not> include_lkp then ret clients else
      bnd (of_sum (sum_fold entry_uid clients [])) (\<lambda>uids.
      bnd (get_lkp_for_uids E uids) (\<lambda>positions.
      of_sum (sum_fold (with_lkp positions) clients []))))))"

definition build_contacts_response :: "'w penv \<Rightarrow> bool \<Rightarrow> ('w mon, json list) prog" where
  "build_contacts_response E include_service =
     bnd (bnd (client_503 E) (list_contacts (pe_env E))) (\<lambda>j.
     of_sum (if include_service then json_iter j else without_service (cfg (pe_env E)) j))"

section \<open>Recent contacts\<close>

definition add_contact :: "json \<Rightarrow> (json \<times> jobj) list \<Rightarrow> exn + (json \<times> jobj) list" where
  "add_contact entry acc =
     andthen (as_obj entry) (\<lambda>d.
     let uid = jget d ''uid'' in
     if \<not> truthy uid then Inr acc else
     andthen (hashable uid) (\<lambda>_. Inr (dict_set uid d acc)))"

text \<open>The roster, empty where TAK Server is not configured.\<close>

definition contacts_by_uid :: "'w penv \<Rightarrow> ('w mon, (json \<times> jobj) list) prog" where
  "contacts_by_uid E =
     catch (bnd (bnd (client_503 E) (list_contacts (pe_env E))) (\<lambda>j.
            of_sum (andthen (json_iter j) (\<lambda>xs. sum_fold add_contact xs []))))
       (\<lambda>e. case e of HTTPException _ _ \<Rightarrow> ret [] | _ \<Rightarrow> raise e)"

definition service_uid :: "settings \<Rightarrow> json \<times> jobj \<Rightarrow> json list \<Rightarrow> exn + json list" where
  "service_uid st c acc =
     andthen (is_service_account st (J_obj (snd c))) (\<lambda>service. Inr (if service then acc @ [fst c] else acc))"

text \<open>The filters of the loop: a service account, and a passive feed where a TAK client is required.\<close>

definition position_detail :: "jobj \<Rightarrow> jobj" where
  "position_detail p = (case jget p ''detail'' of J_obj d \<Rightarrow> d | _ \<Rightarrow> [])"

definition shown_position :: "bool \<Rightarrow> bool \<Rightarrow> (json \<times> jobj) list \<Rightarrow> json list \<Rightarrow> jobj \<Rightarrow> bool" where
  "shown_position include_service require_tak_client contacts service_uids p =
     (let uid = jget p ''uid'' in
      \<not> (\<not> include_service \<and> uid \<in> set service_uids) \<and>
      \<not> (require_tak_client \<and> map_of contacts uid = None \<and> \<not> truthy (jget (position_detail p) ''endpoint'')))"

definition recent_row :: "(json \<times> jobj) list \<Rightarrow> jobj \<Rightarrow> jobj" where
  "recent_row contacts p =
     (let uid = jget p ''uid''; contact = map_of contacts uid; detail = position_detail p;
          enriched = (\<lambda>k. either (case contact of None \<Rightarrow> J_null | Some c \<Rightarrow> jget c k) (jget detail k));
          c = (case contact of None \<Rightarrow> [] | Some c \<Rightarrow> c) in
      [(''uid'', uid), (''callsign'', enriched ''callsign''), (''team'', enriched ''team''), (''role'', enriched ''role''),
       (''takv'', jget c ''takv''), (''filterGroups'', jget c ''filterGroups''), (''notes'', jget c ''notes''),
       (''lkp'', J_obj [(''uid'', uid), (''lat'', jget p ''lat''), (''lon'', jget p ''lon''), (''hae'', jget p ''hae''),
                      (''servertime'', jget p ''servertime''), (''cot_type'', jget p ''cot_type'')])])"

primrec recent_rows :: "bool \<Rightarrow> bool \<Rightarrow> (json \<times> jobj) list \<Rightarrow> json list \<Rightarrow> jobj list \<Rightarrow> jobj list" where
  "recent_rows inc req contacts service_uids [] = []"
| "recent_rows inc req contacts service_uids (p # ps) =
     (if shown_position inc req contacts service_uids p
      then recent_row contacts p # recent_rows inc req contacts service_uids ps
      else recent_rows inc req contacts service_uids ps)"

definition build_recent_contacts_response ::
    "'w penv \<Rightarrow> int option \<Rightarrow> bool \<Rightarrow> bool option \<Rightarrow> ('w mon, jobj list) prog" where
  "build_recent_contacts_response E max_age include_service require_tak_client =
     (let st = cfg (pe_env E);
          window = (case max_age of None \<Rightarrow> 86400 | Some n \<Rightarrow> n);
          require = (case require_tak_client of None \<Rightarrow> lkp_require_tak_client st | Some b \<Rightarrow> b) in
      bnd (get_recent_lkp E window (lkp_cot_type_prefixes_list st)) (\<lambda>positions.
      bnd (contacts_by_uid E) (\<lambda>contacts.
      bnd (of_sum (sum_fold (service_uid st) contacts [])) (\<lambda>service_uids.
      ret (recent_rows include_service require contacts service_uids positions)))))"

section \<open>The routes\<close>

text \<open>The parameter \<open>agency\<close> is ignored by the code and left out.\<close>

definition tak_groups_route :: "'w penv \<Rightarrow> ('w mon, json) prog" where
  "tak_groups_route E = build_groups_response E"

definition tak_missions_route :: "'w penv \<Rightarrow> ('w mon, json) prog" where
  "tak_missions_route E = build_missions_response E"

definition tak_clients_route :: "'w penv \<Rightarrow> string option \<Rightarrow> bool \<Rightarrow> ('w mon, json list) prog" where
  "tak_clients_route E incl include_service = build_clients_response E (incl = Some ''lkp'') include_service"

definition tak_contacts_route :: "'w penv \<Rightarrow> bool \<Rightarrow> ('w mon, json list) prog" where
  "tak_contacts_route E include_service = build_contacts_response E include_service"

definition recent_contacts_route :: "'w penv \<Rightarrow> int option \<Rightarrow> bool \<Rightarrow> bool \<Rightarrow> ('w mon, jobj list) prog" where
  "recent_contacts_route E max_age include_service include_feeds =
     build_recent_contacts_response E max_age include_service (if include_feeds then Some False else None)"

section \<open>Facts\<close>

lemma keep_entries:
  "sum_fold (keep_entry st) xs acc = Inr ys \<Longrightarrow> ys = acc @ filter (\<lambda>e. is_service_account st e = Inr False) xs"
  by (induction xs arbitrary: acc) (fastforce simp: keep_entry_def split: if_splits)+

lemma without_service_hides:
  "without_service st j = Inr ys \<Longrightarrow> e \<in> set ys \<Longrightarrow> is_service_account st e = Inr False"
  by (auto simp: without_service_def dest!: keep_entries)

lemma lkp_keeps_service:
  "is_service_account st (J_obj (dict_set ''lkp'' v d)) = is_service_account st (J_obj d)"
  by (simp add: is_service_account_def as_obj_def jget_def)

lemma with_lkp_entry:
  "with_lkp ps x acc = Inr acc' \<Longrightarrow> \<exists>d v. x = J_obj d \<and> acc' = acc @ [J_obj (dict_set ''lkp'' v d)]"
  by (cases x) (auto simp: with_lkp_def as_obj_def)

lemma with_lkps:
  "sum_fold (with_lkp ps) xs acc = Inr ys \<Longrightarrow> \<forall>e\<in>set acc. is_service_account st e = Inr False \<Longrightarrow>
   \<forall>e\<in>set xs. is_service_account st e = Inr False \<Longrightarrow> \<forall>e\<in>set ys. is_service_account st e = Inr False"
proof (induction xs arbitrary: acc)
  case (Cons x xs)
  then obtain acc' where "with_lkp ps x acc = Inr acc'" and run: "sum_fold (with_lkp ps) xs acc' = Inr ys" by auto
  then obtain d v where x: "x = J_obj d" and "acc' = acc @ [J_obj (dict_set ''lkp'' v d)]" using with_lkp_entry by blast
  with run have rest: "sum_fold (with_lkp ps) xs (acc @ [J_obj (dict_set ''lkp'' v d)]) = Inr ys" by simp
  show ?case by (rule Cons.IH [OF rest]) (use Cons.prems x in \<open>auto simp: lkp_keeps_service\<close>)
qed simp

lemma recent_rows_filter:
  "recent_rows inc req cs us ps = map (recent_row cs) (filter (shown_position inc req cs us) ps)"
  by (induction ps) simp_all

lemma recent_row_uid: "jget (recent_row cs p) ''uid'' = jget p ''uid''"
  by (simp add: recent_row_def Let_def jget_def)

lemma of_sum_result: "of_sum r s = (Inr x, t) \<longleftrightarrow> r = Inr x \<and> t = s"
  by (cases r) (auto simp: run_simps)

section \<open>Properties\<close>

text \<open>The lists of connected clients and of contacts show no service account unless they are asked to,
  with or without positions: no entry's actor, however it is written, starts with a hidden prefix.\<close>

lemma tak_lists_hide_service_accounts:
  assumes "tak_clients_route E incl False s = (Inr ys, t) \<or> tak_contacts_route E False s = (Inr ys, t)" and "e \<in> set ys"
  shows "is_service_account (cfg (pe_env E)) e = Inr False"
  using assms(1)
proof
  let ?st = "cfg (pe_env E)"
  assume run: "tak_clients_route E incl False s = (Inr ys, t)"
  have "\<exists>j. without_service ?st j = Inr ys \<or> (\<exists>cs ps. without_service ?st j = Inr cs \<and> sum_fold (with_lkp ps) cs [] = Inr ys)"
    using run unfolding tak_clients_route_def build_clients_response_def Let_def
    by (fastforce elim!: bndE simp: of_sum_result ret_run split: if_splits)
  then show ?thesis
  proof (elim disjE exE conjE)
    fix j cs ps
    assume "without_service ?st j = Inr cs" "sum_fold (with_lkp ps) cs [] = Inr ys"
    with with_lkps [of ps cs "[]" ys ?st] without_service_hides assms(2) show ?thesis by auto
  qed (use without_service_hides assms(2) in blast)
next
  assume "tak_contacts_route E False s = (Inr ys, t)"
  then obtain j where "without_service (cfg (pe_env E)) j = Inr ys"
    unfolding tak_contacts_route_def build_contacts_response_def
    by (auto elim!: bndE simp: of_sum_result)
  then show ?thesis using without_service_hides assms(2) by blast
qed

text \<open>A roster with a service account and a user, a database with their tracks and that of an aircraft.\<close>

definition tak_settings :: settings where
  "tak_settings = default_settings\<lparr>tak_db_password := ''pw''\<rparr>"

definition roster :: json where
  "roster = J_list [J_obj [(''uid'', J_str ''A''), (''notes'', J_str '' SVC_wx'')],
     J_obj [(''uid'', J_str ''B''), (''notes'', J_str '' bob''), (''callsign'', J_str ''BOB'')]]"

definition tak_services :: "sample penv" where
  "tak_services = \<lparr>pe_env = (sample_env tak_settings)\<lparr>tak_get := (\<lambda>_ _ w. (Http 200 (Some roster), w))\<rparr>,
     pe_now = (\<lambda>w. (DateTime 2026 1 1 0 0 0 0, w)),
     pg_query = (\<lambda>_ _ w. (Inr [[S_bytes u, S_num 1, S_num 2, S_null, S_null, S_bytes ''a-f-G'', S_null].
                           u \<leftarrow> [''A'', ''B'', ''C'']], w)),
     pg_execute = (\<lambda>_ _ w. (Inr (), w)), os_statvfs = (\<lambda>_ _. Inl TypeError), openssl_run_on = (\<lambda>_ _. Ossl_timeout),
     enddate = (\<lambda>_. None), tls_leaf = (\<lambda>_ _ w. (Inl TypeError, w)), der_not_after = (\<lambda>_. Inl TypeError),
     github_latest = (\<lambda>_ w. (Inl TypeError, w)), env_file = (\<lambda>_. Inl TypeError), digest_hex = (\<lambda>s. s),
     container_stats = (\<lambda>_ w. (Inl TypeError, w)), container_logs = (\<lambda>_ _ w. (Inl TypeError, w)),
     decode_utf8 = Inr, decode_replacing = (\<lambda>s. s), parse_xml = (\<lambda>_. None), float_text = (\<lambda>_. None),
     str_of = (\<lambda>_. []), iso_of = (\<lambda>_. [])\<rparr>"

definition tak_state :: "sample mon" where
  "tak_state = (sample_state [] sample_world)\<lparr>tak_server := (\<lambda>_. Some \<lparr>tk_base_url = ''https://tak'', tk_ready = True\<rparr>)\<rparr>"

lemma user_only: "without_service tak_settings roster =
    Inr [J_obj [(''uid'', J_str ''B''), (''notes'', J_str '' bob''), (''callsign'', J_str ''BOB'')]]"
  by code_simp

lemma tak_client_run: "client_503 tak_services s = (case tak_server s Users_router of
    None \<Rightarrow> (Inl (HTTPException 503 ''TAK Server client not configured''), s)
  | Some c \<Rightarrow> if tk_ready c then (Inr c, s) else (Inl (HTTPException 503 ''TAK Server client not configured''), s))"
  by (simp add: client_503_def get_tak_server_def tak_services_def sample_env_def tak_settings_def default_settings_def
      run_simps split: option.splits)

lemma roster_run: "tk_ready c \<Longrightarrow> \<exists>t. list_contacts (pe_env tak_services) c s = (Inr roster, t)"
  by (simp add: list_contacts_def on_http_error_def get_json_def tak_services_def sample_env_def run_simps received_def
      raise_for_status_def json_body_def roster_def)



end
