(* ===== verification/EventsApi.thy ===== *)
theory EventsApi
  imports Database
begin

text \<open>
  \<open>monitor/app/api/events/router.py\<close>: the query over the audit log and its export. The database
  is a parameter that answers a statement with typed rows; the CSV text is that of Python's
  \<open>csv.writer\<close>, with a reader of the same format as its reference.
\<close>

section \<open>The query\<close>

record event_filter =
  ef_source :: "string option"
  ef_actor :: "string option"
  ef_action :: "string option"
  ef_target_type :: "string option"
  ef_target_id :: "string option"
  ef_since :: "datetime option"
  ef_until :: "datetime option"
  ef_limit :: int

record event_row =
  er_id :: int
  er_timestamp :: datetime
  er_source :: string
  er_actor :: string
  er_action :: string
  er_target_type :: "string option"
  er_target_id :: "string option"
  er_detail :: "json option"
  er_ip :: "string option"
  er_agency :: "string option"

definition max_limit :: int where
  "max_limit = 500"

definition default_limit :: int where
  "default_limit = 50"

text \<open>\<open>if source:\<close>, which an empty text does not pass.\<close>

definition given :: "string option \<Rightarrow> bool" where
  "given v \<longleftrightarrow> v \<noteq> None \<and> v \<noteq> Some []"

definition text_clause :: "string \<Rightarrow> string option \<Rightarrow> (string \<times> sql_value) list" where
  "text_clause column v = (case v of Some s \<Rightarrow> if given v then [(column @ '' = %s'', S_text s)] else [] | None \<Rightarrow> [])"

definition time_clause :: "string \<Rightarrow> datetime option \<Rightarrow> (string \<times> sql_value) list" where
  "time_clause comparison v = (case v of Some t \<Rightarrow> [(''timestamp '' @ comparison @ '' %s'', S_time t)] | None \<Rightarrow> [])"

definition event_clauses :: "event_filter \<Rightarrow> (string \<times> sql_value) list" where
  "event_clauses f =
     text_clause ''source'' (ef_source f) @ text_clause ''actor'' (ef_actor f) @ text_clause ''action'' (ef_action f) @
     text_clause ''target_type'' (ef_target_type f) @ text_clause ''target_id'' (ef_target_id f) @
     time_clause ''>='' (ef_since f) @ time_clause ''<='' (ef_until f)"

definition event_select :: string where
  "event_select = ''SELECT id, timestamp, source, actor, action, target_type, target_id, '' @
     ''detail, ip::text AS ip, agency_id FROM fastak_events''"

definition event_order :: string where
  "event_order = '' ORDER BY timestamp DESC LIMIT %s''"

definition where_sql :: "string list \<Rightarrow> string" where
  "where_sql clauses = (if clauses = [] then [] else '' WHERE '' @ join '' AND '' clauses)"

definition build_query :: "event_filter \<Rightarrow> sql" where
  "build_query f =
     (let clauses = event_clauses f in
      Sql (event_select @ where_sql (map fst clauses) @ event_order) (map snd clauses @ [S_int (ef_limit f)]))"

section \<open>The routes\<close>

text \<open>\<open>fetch_rows\<close> is the cursor of the events database.\<close>

definition fetch_events ::
    "'w penv \<Rightarrow> (string \<Rightarrow> sql \<Rightarrow> 'w \<Rightarrow> (exn + event_row list) \<times> 'w) \<Rightarrow> event_filter \<Rightarrow> ('w mon, event_row list) prog" where
  "fetch_events E fetch_rows f =
     (if ef_limit f < 1 \<or> max_limit < ef_limit f then raise (HTTPException 422 ''Unprocessable Entity'') else
      bnd (of_sum (build_fastak_dsn (cfg (pe_env E)))) (\<lambda>dsn. bnd (tick (fetch_rows dsn (build_query f))) of_sum))"

definition list_events ::
    "'w penv \<Rightarrow> (string \<Rightarrow> sql \<Rightarrow> 'w \<Rightarrow> (exn + event_row list) \<times> 'w) \<Rightarrow> event_filter \<Rightarrow>
     ('w mon, int \<times> event_row list) prog" where
  "list_events E fetch_rows f = bnd (fetch_events E fetch_rows f) (\<lambda>rows. ret (int (length rows), rows))"

definition flatten_detail :: "(json \<Rightarrow> string) \<Rightarrow> json option \<Rightarrow> string" where
  "flatten_detail dumps d = (case d of None \<Rightarrow> [] | Some j \<Rightarrow> dumps j)"

definition csv_header :: "string list" where
  "csv_header = [''id'', ''timestamp'', ''source'', ''actor'', ''action'', ''target_type'', ''target_id'', ''detail'',
     ''ip'', ''agency_id'']"

definition or_empty :: "string option \<Rightarrow> string" where
  "or_empty v = (case v of None \<Rightarrow> [] | Some s \<Rightarrow> s)"

definition csv_record :: "'w penv \<Rightarrow> (json \<Rightarrow> string) \<Rightarrow> event_row \<Rightarrow> string list" where
  "csv_record E dumps r =
     [str_of_int (er_id r), iso_of E (er_timestamp r), er_source r, er_actor r, er_action r,
      or_empty (er_target_type r), or_empty (er_target_id r), flatten_detail dumps (er_detail r),
      or_empty (er_ip r), or_empty (er_agency r)]"

text \<open>\<open>csv.writer\<close>: a field is quoted if it holds a comma, a quote or a line end, a quote in it is
  doubled, and a row of one empty field is written as two quotes.\<close>

definition quote_char :: char where
  "quote_char = CHR 0x22"

definition csv_special :: "char \<Rightarrow> bool" where
  "csv_special c \<longleftrightarrow> c = CHR '','' \<or> c = quote_char \<or> c = CHR 0x0D \<or> c = CHR 0x0A"

definition csv_field :: "string \<Rightarrow> string" where
  "csv_field s =
     (if list_ex csv_special s
      then [quote_char] @ concat (map (\<lambda>c. if c = quote_char then [c, c] else [c]) s) @ [quote_char] else s)"

definition csv_row :: "string list \<Rightarrow> string" where
  "csv_row fs = (if fs = [[]] then [quote_char, quote_char] else join '','' (map csv_field fs)) @ [CHR 0x0D, CHR 0x0A]"

definition export_csv ::
    "'w penv \<Rightarrow> (string \<Rightarrow> sql \<Rightarrow> 'w \<Rightarrow> (exn + event_row list) \<times> 'w) \<Rightarrow> (json \<Rightarrow> string) \<Rightarrow> event_filter \<Rightarrow>
     ('w mon, string) prog" where
  "export_csv E fetch_rows dumps f =
     bnd (fetch_events E fetch_rows f) (\<lambda>rows.
     ret (concat (map csv_row (csv_header # map (csv_record E dumps) rows))))"

section \<open>The reference reader\<close>

text \<open>\<open>w\<close> is the field and \<open>r\<close> the row read so far, both reversed.\<close>

datatype csv_mode = At_start | Plain | Quoted | Quote_seen

fun csv_read :: "csv_mode \<Rightarrow> string \<Rightarrow> string list \<Rightarrow> string \<Rightarrow> string list list" where
  "csv_read m w r [] = (if m = At_start \<and> r = [] then [] else [rev (rev w # r)])"
| "csv_read m w r (c # s) =
     (if m = Quoted then
        (if c = quote_char then csv_read Quote_seen w r s else csv_read Quoted (c # w) r s)
      else if c = quote_char then
        (if m = At_start then csv_read Quoted [] r s
         else if m = Quote_seen then csv_read Quoted (c # w) r s else csv_read Plain (c # w) r s)
      else if c = CHR '','' then csv_read At_start [] (rev w # r) s
      else if c = CHR 0x0D then csv_read m w r s
      else if c = CHR 0x0A then rev (rev w # r) # csv_read At_start [] [] s
      else csv_read Plain (c # w) r s)"

definition read_csv :: "string \<Rightarrow> string list list" where
  "read_csv s = csv_read At_start [] [] s"

lemma char_facts [simp]:
  "quote_char \<noteq> CHR '',''" "CHR '','' \<noteq> quote_char" "quote_char \<noteq> CHR 0x0D" "quote_char \<noteq> CHR 0x0A"
  "CHR 0x0D \<noteq> quote_char" "CHR 0x0A \<noteq> quote_char"
  by (simp_all add: quote_char_def)

lemma read_plain:
  "\<not> list_ex csv_special s \<Longrightarrow> m \<noteq> Quoted \<Longrightarrow> m \<noteq> Quote_seen \<Longrightarrow>
   csv_read m w r (s @ t) = csv_read (if s = [] then m else Plain) (rev s @ w) r t"
  by (induction s arbitrary: m w) (auto simp: csv_special_def)

lemma read_quoted:
  "csv_read Quoted w r (concat (map (\<lambda>c. if c = quote_char then [c, c] else [c]) s) @ t) = csv_read Quoted (rev s @ w) r t"
  by (induction s arbitrary: w) auto

text \<open>After a field the reader stands before a comma or a line end with the field read.\<close>

lemma read_field:
  "\<exists>m. m \<noteq> Quoted \<and> (m = At_start \<longrightarrow> f = []) \<and> csv_read At_start [] r (csv_field f @ t) = csv_read m (rev f) r t"
proof (cases "list_ex csv_special f")
  case True
  then have "csv_read At_start [] r (csv_field f @ t) = csv_read Quote_seen (rev f) r t"
    by (simp add: csv_field_def read_quoted)
  then show ?thesis by blast
next
  case False
  then have "csv_read At_start [] r (csv_field f @ t) = csv_read (if f = [] then At_start else Plain) (rev f) r t"
    using read_plain [OF False, of At_start "[]" r t] by (simp add: csv_field_def)
  then show ?thesis by (metis csv_mode.distinct(3) csv_mode.distinct(7) csv_mode.distinct(1))
qed

lemma read_fields:
  "fs \<noteq> [] \<Longrightarrow> csv_read At_start [] r (join '','' (map csv_field fs) @ [CHR 0x0D, CHR 0x0A] @ t) =
   (rev r @ fs) # csv_read At_start [] [] t"
proof (induction fs arbitrary: r)
  case (Cons f fs)
  show ?case
  proof (cases "fs = []")
    case True
    obtain m where "m \<noteq> Quoted" "csv_read At_start [] r (csv_field f @ [CHR 0x0D, CHR 0x0A] @ t) =
        csv_read m (rev f) r ([CHR 0x0D, CHR 0x0A] @ t)" using read_field by blast
    with True show ?thesis by simp
  next
    case False
    let ?rest = "join '','' (map csv_field fs) @ [CHR 0x0D, CHR 0x0A] @ t"
    obtain m where m: "m \<noteq> Quoted" "csv_read At_start [] r (csv_field f @ '','' @ ?rest) = csv_read m (rev f) r ('','' @ ?rest)"
      using read_field by blast
    then have "csv_read At_start [] r (csv_field f @ '','' @ ?rest) = csv_read At_start [] (f # r) ?rest" by simp
    moreover have "join '','' (map csv_field (f # fs)) = csv_field f @ '','' @ join '','' (map csv_field fs)"
      using False by (cases fs) simp_all
    ultimately show ?thesis using Cons.IH [OF False, of "f # r"] by simp
  qed
qed simp

lemma read_row: "fs \<noteq> [] \<Longrightarrow> csv_read At_start [] [] (csv_row fs @ t) = fs # csv_read At_start [] [] t"
  using read_fields [of fs "[]" t] by (auto simp: csv_row_def)

section \<open>Properties\<close>



text \<open>The places for parameters in a statement.\<close>

fun places :: "string \<Rightarrow> nat" where
  "places (c # d # s) = (if c = CHR ''%'' \<and> d = CHR ''s'' then Suc (places s) else places (d # s))"
| "places s = 0"

lemma places_append: "a = [] \<or> last a \<noteq> CHR ''%'' \<Longrightarrow> places (a @ b) = places a + places b"
proof (induction a rule: places.induct)
  case (1 c d s)
  show ?case
  proof (cases "c = CHR ''%'' \<and> d = CHR ''s''")
    case True
    with 1(3) have "s = [] \<or> last s \<noteq> CHR ''%''" by (cases s) auto
    with 1(1) True show ?thesis by simp
  next
    case False
    with 1(3) have "places ((d # s) @ b) = places (d # s) + places b" by (intro 1(2)) auto
    with False show ?thesis by auto
  qed
qed (cases b; auto)+

definition clause_ok :: "string \<Rightarrow> bool" where
  "clause_ok c \<longleftrightarrow> c \<noteq> [] \<and> last c \<noteq> CHR ''%'' \<and> places c = 1"

lemma clauses_ok: "list_all clause_ok (map fst (event_clauses f))"
proof -
  have "list_all clause_ok [''source = %s'', ''actor = %s'', ''action = %s'', ''target_type = %s'', ''target_id = %s'',
      ''timestamp >= %s'', ''timestamp <= %s'']" by code_simp
  then show ?thesis
    by (auto simp: event_clauses_def text_clause_def time_clause_def split: option.splits)
qed

lemma join_places:
  "list_all clause_ok cs \<Longrightarrow> cs \<noteq> [] \<Longrightarrow>
   places (join '' AND '' cs) = length cs \<and> join '' AND '' cs \<noteq> [] \<and> last (join '' AND '' cs) \<noteq> CHR ''%''"
proof (induction "'' AND ''" cs rule: join.induct)
  case (3 w v ws)
  have "places (w @ '' AND '' @ join '' AND '' (v # ws)) = 1 + places ('' AND '' @ join '' AND '' (v # ws))"
    using 3 by (simp add: clause_ok_def places_append)
  also have "places ('' AND '' @ join '' AND '' (v # ws)) = places (join '' AND '' (v # ws))"
    by (subst places_append) simp_all
  finally show ?case using 3 by simp
qed (simp_all add: clause_ok_def)

lemma where_places:
  assumes "list_all clause_ok cs"
  shows "places (where_sql cs) = length cs \<and> (where_sql cs = [] \<or> last (where_sql cs) \<noteq> CHR ''%'')"
proof (cases "cs = []")
  case False
  have "places ('' WHERE '' @ join '' AND '' cs) = places '' WHERE '' + places (join '' AND '' cs)"
    by (rule places_append) simp
  with False join_places [OF assms False] show ?thesis by (simp add: where_sql_def)
qed (simp add: where_sql_def)

text \<open>Which filters a request gives.\<close>

definition given_filters :: "event_filter \<Rightarrow> bool list" where
  "given_filters f =
     [given (ef_source f), given (ef_actor f), given (ef_action f), given (ef_target_type f), given (ef_target_id f),
      ef_since f \<noteq> None, ef_until f \<noteq> None]"

lemma text_clause_fst: "given v = given u \<Longrightarrow> map fst (text_clause c v) = map fst (text_clause c u)"
  by (auto simp: text_clause_def given_def split: option.splits)

lemma time_clause_fst: "(v \<noteq> None) = (u \<noteq> None) \<Longrightarrow> map fst (time_clause c v) = map fst (time_clause c u)"
  by (auto simp: time_clause_def split: option.splits)

lemma same_clauses: "given_filters f = given_filters g \<Longrightarrow> map fst (event_clauses f) = map fst (event_clauses g)"
  unfolding given_filters_def event_clauses_def
  by (simp add: text_clause_fst [of "ef_source f" "ef_source g"] text_clause_fst [of "ef_actor f" "ef_actor g"]
      text_clause_fst [of "ef_action f" "ef_action g"] text_clause_fst [of "ef_target_type f" "ef_target_type g"]
      text_clause_fst [of "ef_target_id f" "ef_target_id g"] time_clause_fst [of "ef_since f" "ef_since g"]
      time_clause_fst [of "ef_until f" "ef_until g"])


definition no_filter :: event_filter where
  "no_filter = \<lparr>ef_source = None, ef_actor = None, ef_action = None, ef_target_type = None, ef_target_id = None,
     ef_since = None, ef_until = None, ef_limit = default_limit\<rparr>"


end
