(* ===== verification/Dashboard.thy ===== *)
theory Dashboard
  imports HealthApi TakApi BackupApi EventsApi ServiceAccounts
begin

text \<open>
  \<open>monitor/app/dashboard/routes.py\<close>: what each page and partial hands to its template, and
  \<open>get_activity_log\<close> of \<open>monitor/app/api/alerts/engine.py\<close>. The templates and the rendering are not
  part of the model.
\<close>

section \<open>Pages\<close>

definition windows :: "(int \<times> string) list" where
  "windows = [(86400, ''24h''), (172800, ''48h''), (345600, ''96h''), (604800, ''1 week''), (2592000, ''1 month'')]"

record page_context =
  pc_service_links :: "(string \<times> string) list"
  pc_backup_admin_group :: string

definition page_context_of :: "settings \<Rightarrow> (string \<Rightarrow> string option) \<Rightarrow> page_context" where
  "page_context_of st envir =
     \<lparr>pc_service_links = get_service_links st,
      pc_backup_admin_group = (case envir ''BACKUP_ADMIN_GROUP'' of None \<Rightarrow> admin_group_default | Some g \<Rightarrow> g)\<rparr>"

definition logs_page :: "'w penv \<Rightarrow> (string \<Rightarrow> string option) \<Rightarrow> ('w mon, page_context \<times> string list) prog" where
  "logs_page E envir =
     bnd (discover_services (pe_env E)) (\<lambda>names. ret (page_context_of (cfg (pe_env E)) envir, names))"

text \<open>The pages that show nothing else.\<close>

definition dashboard_page :: "settings \<Rightarrow> (string \<Rightarrow> string option) \<Rightarrow> page_context" where
  "dashboard_page st envir = page_context_of st envir"

definition ops_page :: "settings \<Rightarrow> (string \<Rightarrow> string option) \<Rightarrow> page_context" where
  "ops_page st envir = page_context_of st envir"

definition users_page :: "settings \<Rightarrow> (string \<Rightarrow> string option) \<Rightarrow> page_context" where
  "users_page st envir = page_context_of st envir"

definition service_accounts_page :: "settings \<Rightarrow> (string \<Rightarrow> string option) \<Rightarrow> page_context" where
  "service_accounts_page st envir = page_context_of st envir"

text \<open>One partial asks Docker itself; a container without statistics is left out.\<close>

definition ui_resources :: "'w penv \<Rightarrow> ('w mon, json list) prog" where
  "ui_resources E =
     bnd (discover_running_services (pe_env E)) (\<lambda>names.
     fold_prog (\<lambda>name results.
       bnd (get_container_stats E name) (\<lambda>stats.
       ret (case stats of Some j \<Rightarrow> if truthy j then results @ [j] else results | None \<Rightarrow> results))) names [])"

section \<open>Cached health\<close>

text \<open>\<open>entry["data"].get("items", [])\<close> of a cached service, and of one not polled yet.\<close>

definition entry_items :: "cache_entry option \<Rightarrow> json" where
  "entry_items entry = (case entry of None \<Rightarrow> J_list [] | Some c \<Rightarrow> get_or (hc_data c) ''items'' (J_list []))"

definition cached_items :: "string \<Rightarrow> ('v hmon, json) prog" where
  "cached_items service = bnd (store_fetch service) (\<lambda>entry. ret (entry_items entry))"

text \<open>Three partials show the items as they are.\<close>

definition ui_health_grid :: "('v hmon, json) prog" where
  "ui_health_grid = cached_items ''containers''"

definition ui_update_status :: "('v hmon, json) prog" where
  "ui_update_status = cached_items ''updates''"

definition ui_disk_usage :: "('v hmon, json) prog" where
  "ui_disk_usage = cached_items ''disk''"

text \<open>\<open>_rows_with_status\<close> and \<open>_probe_error\<close>: each item with the status \<open>item_status\<close> gives it, and the
  error of the whole probe.\<close>

definition row_with_status :: "(json \<Rightarrow> string) \<Rightarrow> jobj \<Rightarrow> json \<Rightarrow> jobj list \<Rightarrow> exn + jobj list" where
  "row_with_status shw thresholds j rows =
     andthen (as_obj j) (\<lambda>item.
     andthen (item_status shw item thresholds) (\<lambda>v.
     let reason = (if truthy (jget item ''error'') then jget item ''error'' else J_str []) in
     Inr (rows @ [dict_set ''reason'' reason (dict_set ''status'' (J_str (fst v)) item)])))"

definition rows_with_status :: "(json \<Rightarrow> string) \<Rightarrow> cache_entry option \<Rightarrow> exn + jobj list" where
  "rows_with_status shw entry = (case entry of
     None \<Rightarrow> Inr []
   | Some c \<Rightarrow>
       andthen (as_obj (if truthy (hc_thresholds c) then hc_thresholds c else J_obj [])) (\<lambda>thresholds.
       andthen (as_list (entry_items entry)) (\<lambda>items. sum_fold (row_with_status shw thresholds) items [])))"

definition probe_error_text :: "cache_entry option \<Rightarrow> json" where
  "probe_error_text entry = (case entry of
     Some c \<Rightarrow> if has_key (hc_data c) ''error'' then hc_message c else J_str []
   | None \<Rightarrow> J_str [])"

definition status_rows :: "'v henv \<Rightarrow> string \<Rightarrow> ('v hmon, jobj list \<times> json) prog" where
  "status_rows H service =
     bnd (store_fetch service) (\<lambda>entry.
     bnd (of_sum (rows_with_status (he_show H) entry)) (\<lambda>rows. ret (rows, probe_error_text entry)))"

definition ui_cert_status :: "'v henv \<Rightarrow> ('v hmon, jobj list \<times> json) prog" where
  "ui_cert_status H = status_rows H ''certs''"

definition ui_tls_status :: "'v henv \<Rightarrow> ('v hmon, jobj list \<times> json) prog" where
  "ui_tls_status H = status_rows H ''tls''"

definition entry_data :: "cache_entry option \<Rightarrow> jobj" where
  "entry_data entry = (case entry of None \<Rightarrow> [] | Some c \<Rightarrow> hc_data c)"

definition entry_status :: "cache_entry option \<Rightarrow> string" where
  "entry_status entry = (case entry of None \<Rightarrow> ''ok'' | Some c \<Rightarrow> hc_status c)"

definition ui_config_status :: "('v hmon, jobj \<times> string) prog" where
  "ui_config_status = bnd (store_fetch ''config'') (\<lambda>e. ret (entry_data e, entry_status e))"

definition ui_database_health :: "('v hmon, jobj \<times> string \<times> string) prog" where
  "ui_database_health =
     bnd (store_fetch ''database'') (\<lambda>db.
     bnd (store_fetch ''autovacuum'') (\<lambda>av.
     bnd (of_sum (andthen (status_of (entry_status db)) (\<lambda>a.
          andthen (status_of (entry_status av)) (\<lambda>b. Inr (max a b))))) (\<lambda>combined.
     ret (entry_data db, status_name combined, entry_status av))))"

section \<open>Users and service accounts\<close>

text \<open>\<open>xs[a:b]\<close> with the indices Python allows.\<close>

definition clamp :: "nat \<Rightarrow> int \<Rightarrow> nat" where
  "clamp n i = nat (if i < 0 then max 0 (int n + i) else min (int n) i)"

definition py_slice :: "int \<Rightarrow> int \<Rightarrow> 'a list \<Rightarrow> 'a list" where
  "py_slice a b xs = take (clamp (length xs) b - clamp (length xs) a) (drop (clamp (length xs) a) xs)"

text \<open>The users of the page, their number and the page; nothing where no directory is configured. The
  page is the text of the query, read by \<open>int\<close>.\<close>

definition ui_user_list :: "'w env \<Rightarrow> string \<Rightarrow> string \<Rightarrow> ('w mon, (user list \<times> int \<times> int) option) prog" where
  "ui_user_list E search page_text =
     bnd (of_sum (case parse_int page_text of Some n \<Rightarrow> Inr n
          | None \<Rightarrow> Inl (ValueError (''invalid literal for int() with base 10: '' @ in_quotes page_text)))) (\<lambda>page.
     bnd (catch (thn (get_identity E) (ret True)) (\<lambda>e. case e of HTTPException _ _ \<Rightarrow> ret False | _ \<Rightarrow> raise e)) (\<lambda>ready.
     if \<not> ready then ret None else
     bnd (list_users E Users_router (if search = [] then None else Some search)) (\<lambda>users.
     ret (Some (py_slice ((page - 1) * 25) ((page - 1) * 25 + 25) users, int (length users), page)))))"

text \<open>The accounts, or \<open>None\<close> where no directory is configured.\<close>

definition ui_service_account_list :: "'w env \<Rightarrow> ('w mon, user list option) prog" where
  "ui_service_account_list E =
     bnd (catch (thn (sa_identity E) (ret True)) (\<lambda>e. case e of HTTPException _ _ \<Rightarrow> ret False | _ \<Rightarrow> raise e)) (\<lambda>ready.
     if \<not> ready then ret None else
     bnd (list_users E Service_accounts_router (Some ''svc_'')) (\<lambda>accounts. ret (Some accounts)))"

section \<open>TAK Server\<close>

text \<open>A failure becomes the text shown instead.\<close>

definition or_error :: "('s, 'a list) prog \<Rightarrow> ('s, 'a list \<times> string option) prog" where
  "or_error m = catch (bnd m (\<lambda>xs. ret (xs, None))) (\<lambda>e. ret ([], Some (take 200 (exn_str e))))"

definition ui_connected_clients :: "'w penv \<Rightarrow> ('w mon, json list \<times> string option) prog" where
  "ui_connected_clients E = or_error (build_clients_response E True False)"

definition window_of :: "string option \<Rightarrow> int" where
  "window_of param = (case param of
     None \<Rightarrow> 86400
   | Some s \<Rightarrow> if s = [] then 86400 else (case parse_int s of Some n \<Rightarrow> n | None \<Rightarrow> 86400))"

definition ui_recent_contacts :: "'w penv \<Rightarrow> string option \<Rightarrow> ('w mon, (jobj list \<times> string option) \<times> int) prog" where
  "ui_recent_contacts E param =
     bnd (or_error (build_recent_contacts_response E (Some (window_of param)) False None)) (\<lambda>r.
     ret (r, window_of param))"

section \<open>Backups\<close>

text \<open>The archives of the page, newest file first; equal times keep the order of the directory.\<close>

definition stat_of :: "'w benv \<Rightarrow> string \<Rightarrow> ('w bmon, string \<times> real) prog" where
  "stat_of E name =
     thn (file_op E (Fs_stat name))
    (bnd (gets (\<lambda>s. map_of (b_files s) name)) (\<lambda>f. case f of
        None \<Rightarrow> raise file_not_found
      | Some f \<Rightarrow> ret (name, f_mtime f)))"

definition page_backups :: "'w benv \<Rightarrow> ('w bmon, string list) prog" where
  "page_backups E =
     bnd (gets (\<lambda>s. filter (globbed ''.age'') (map fst (b_files s)))) (\<lambda>names.
     bnd (collect (stat_of E) names) (\<lambda>stats.
     ret (map fst (rev (sort_key snd (rev stats))))))"

definition backup_view_model :: "'w benv \<Rightarrow> real \<Rightarrow> string \<Rightarrow> ('w bmon, backup_entry) prog" where
  "backup_view_model E now name =
     bnd (file_size E name) (\<lambda>n.
     bnd (stat_of E name) (\<lambda>(_, mtime).
     ret \<lparr>be_filename = name, be_size = n,
          be_age_seconds = (let d = now - mtime in if 0 \<le> d then \<lfloor>d\<rfloor> else \<lceil>d\<rceil>)\<rparr>))"

definition backup_view_models :: "'w benv \<Rightarrow> string list \<Rightarrow> ('w bmon, backup_entry list) prog" where
  "backup_view_models E names = bnd (btick (be_time E)) (\<lambda>now. collect (backup_view_model E now) names)"

definition state_entry :: "string \<Rightarrow> jobj \<Rightarrow> exn + json" where
  "state_entry k st = (case map_of st k of Some v \<Rightarrow> Inr v | None \<Rightarrow> Inl (KeyError k))"

text \<open>The banner asks for the key to be downloaded.\<close>

definition backups_page :: "'w benv \<Rightarrow> auth_context \<Rightarrow> ('w bmon, bool \<times> json \<times> backup_entry list) prog" where
  "backups_page E ctx = gated E ctx
     (bnd (read_state E) (\<lambda>st.
      bnd (page_backups E) (\<lambda>names.
      bnd (of_sum (state_entry ''key_downloaded_at'' st)) (\<lambda>downloaded.
      bnd (of_sum (state_entry ''last_run'' st)) (\<lambda>last_run.
      bnd (backup_view_models E names) (\<lambda>entries.
      ret (downloaded = J_null \<and> names \<noteq> [], last_run, entries)))))))"

text \<open>The response: the last run, and whether another run held the lock. The run itself is a background
  task, \<open>dashboard_run\<close>, when there was none.\<close>

definition backups_run :: "'w benv \<Rightarrow> auth_context \<Rightarrow> ('w bmon, json \<times> bool) prog" where
  "backups_run E ctx = gated E ctx
     (bnd (catch (thn (run_backup_preflight E) (ret True))
             (\<lambda>e. if e = already_running then ret False else raise e)) (\<lambda>will_kick.
      bnd (read_state E) (\<lambda>st.
      bnd (of_sum (state_entry ''last_run'' st)) (\<lambda>last_run. ret (last_run, \<not> will_kick)))))"

definition dashboard_run :: "'w benv \<Rightarrow> auth_context \<Rightarrow> ('w bmon, unit) prog" where
  "dashboard_run E ctx =
     catch (bnd (run_backup E (ac_username ctx) (ac_client_ip ctx)) (\<lambda>_. ret ())) (\<lambda>_. ret ())"

definition backups_status_partial :: "'w benv \<Rightarrow> auth_context \<Rightarrow> ('w bmon, json) prog" where
  "backups_status_partial E ctx = gated E ctx
     (bnd (read_state E) (\<lambda>st. of_sum (state_entry ''last_run'' st)))"

definition backups_list_partial :: "'w benv \<Rightarrow> auth_context \<Rightarrow> ('w bmon, backup_entry list) prog" where
  "backups_list_partial E ctx = gated E ctx (bnd (page_backups E) (backup_view_models E))"

section \<open>The activity log\<close>

record activity_row =
  ar_timestamp :: datetime
  ar_source :: "string option"
  ar_level :: string
  ar_detail :: json

definition activity_sql :: string where
  "activity_sql = '' SELECT timestamp, target_id AS source, action AS level, detail '' @
     ''FROM fastak_events WHERE source = 'health' ORDER BY timestamp DESC LIMIT %s ''"

text \<open>Time, source, level and message.\<close>

definition activity_entry :: "activity_row \<Rightarrow> exn + real \<times> string option \<times> string \<times> json" where
  "activity_entry r =
     andthen (as_obj (if truthy (ar_detail r) then ar_detail r else J_obj [])) (\<lambda>d.
     Inr (real_of_int (micros (ar_timestamp r)) / 1000000, ar_source r, ar_level r, get_or d ''message'' (J_str [])))"

definition get_activity_log ::
    "'w penv \<Rightarrow> (string \<Rightarrow> sql \<Rightarrow> 'w \<Rightarrow> (exn + activity_row list) \<times> 'w) \<Rightarrow> int \<Rightarrow>
     ('w mon, (real \<times> string option \<times> string \<times> json) list) prog" where
  "get_activity_log E fetch_rows limit =
     bnd (catch (bnd (of_sum (build_fastak_dsn (cfg (pe_env E)))) (\<lambda>dsn.
                 bnd (tick (fetch_rows dsn (Sql activity_sql [S_int limit]))) of_sum))
            (\<lambda>_. ret [])) (\<lambda>rows.
     collect (\<lambda>r. of_sum (activity_entry r)) rows)"

definition ui_activity_log ::
    "'w penv \<Rightarrow> (string \<Rightarrow> sql \<Rightarrow> 'w \<Rightarrow> (exn + activity_row list) \<times> 'w) \<Rightarrow>
     ('w mon, (real \<times> string option \<times> string \<times> json) list) prog" where
  "ui_activity_log E fetch_rows = get_activity_log E fetch_rows 50"

end
