(* ===== verification/DashboardFacts.thy ===== *)
theory DashboardFacts
  imports Dashboard BackupFacts
begin

text \<open>
  What the dashboard shows agrees with what the monitor alerts on: the rows of a list service carry
  the statuses its own status was computed from.
\<close>

section \<open>The rows of a list\<close>

lemma status_of_inj: "status_of x = Inr l \<Longrightarrow> x = status_name l"
  by (auto simp: status_of_def split: if_splits)

text \<open>Where the evaluation of an item succeeds, so does its row, with the same status.\<close>

lemma row_follows_item:
  assumes "list_item shw th x acc = Inr acc'" and "jget th ''min_dead_tuples'' = J_null"
  shows "\<exists>r l. row_with_status shw th x rows = Inr (rows @ [r]) \<and> item_level shw th x = Some l \<and>
    jget r ''status'' = J_str (status_name l)"
proof -
  obtain item v where item: "as_obj x = Inr item" and v: "item_status shw item th = Inr v"
    and w: "worse v acc = Inr acc'"
    using assms by (auto simp: list_item_def below_min_dead_def)
  obtain l where l: "status_of (fst v) = Inr l" using worse_sev [OF w] by blast
  with item v have "item_level shw th x = Some l" by (simp add: item_level_def right_def)
  with item v status_of_inj [OF l] show ?thesis by (simp add: row_with_status_def Let_def jget_def)
qed

lemma rows_follow_items:
  assumes "sum_fold (list_item shw th) xs acc = Inr acc'" and "jget th ''min_dead_tuples'' = J_null"
  shows "\<exists>rs. sum_fold (row_with_status shw th) xs rows = Inr (rows @ rs) \<and>
    list_all2 (\<lambda>x r. \<exists>l. item_level shw th x = Some l \<and> jget r ''status'' = J_str (status_name l)) xs rs"
  using assms(1)
proof (induction xs arbitrary: acc rows)
  case (Cons x xs)
  then obtain a where a: "list_item shw th x acc = Inr a" and more: "sum_fold (list_item shw th) xs a = Inr acc'"
    by auto
  obtain r l where r: "row_with_status shw th x rows = Inr (rows @ [r])" "item_level shw th x = Some l"
      "jget r ''status'' = J_str (status_name l)"
    using row_follows_item [OF a assms(2)] by blast
  obtain rs where "sum_fold (row_with_status shw th) xs (rows @ [r]) = Inr ((rows @ [r]) @ rs)"
    "list_all2 (\<lambda>x r. \<exists>l. item_level shw th x = Some l \<and> jget r ''status'' = J_str (status_name l)) xs rs"
    using Cons.IH [OF more] by blast
  with r show ?case by (intro exI [of _ "r # rs"]) simp
qed simp

text \<open>The cache entry of a poll whose probe reported.\<close>

lemma poll_entry:
  assumes "f (h_world s) = (Inr raw, w)" and "map_of raw ''error'' = None" and "poll H n f sc s = (Inr (), t)"
  shows "\<exists>ev e. evaluate (he_show H) raw sc = Inr ev \<and> map_of (h_cache t) n = Some e \<and>
    hc_status e = status_name (ev_status ev) \<and> hc_data e = raw \<and> hc_thresholds e = jget sc ''thresholds''"
proof -
  let ?s = "s\<lparr>h_world := w\<rparr>"
  obtain ev where ev: "evaluate (he_show H) raw sc = Inr ev"
    using assms by (cases "evaluate (he_show H) raw sc") (auto simp: poll_def bnd_run poll_raw_run of_sum_run)
  let ?st = "status_name (ev_status ev)"
  have "thn (store_update H n raw ?st (message_json (ev_message ev)) (jget sc ''thresholds''))
     (check_and_alert H n ?st (case ev_message ev of None \<Rightarrow> [] | Some m \<Rightarrow> m) (ev_should_alert ev)) ?s = (Inr (), t)"
    using assms ev by (simp add: poll_def bnd_run poll_raw_run of_sum_run Let_def)
  with store_then_alert [of H n raw ?st "message_json (ev_message ev)" "jget sc ''thresholds''"
      "case ev_message ev of None \<Rightarrow> [] | Some m \<Rightarrow> m" "ev_should_alert ev" ?s] ev
  show ?thesis by auto
qed

section \<open>Properties\<close>



section \<open>Two orders of the archives\<close>

text \<open>The page orders the archives by their file times, retention and \<open>backup list\<close> by the times in their
  names: after a copy that resets the file times they differ.\<close>

lemma listing_orders_differ:
  "fst (page_backups quiet_env sample_dir) =
     Inr [''fasttak-backup-20260101T000000Z-v1.age'', ''fasttak-backup-20260301T000000Z-v1.age'',
          ''fasttak-backup-20260201T000000Z-v1.age''] \<and>
   map snd (stamped_names (map fst (b_files sample_dir))) =
     [''fasttak-backup-20260301T000000Z-v1.age'', ''fasttak-backup-20260201T000000Z-v1.age'',
      ''fasttak-backup-20260101T000000Z-v1.age'']"
proof
  have n: "map fst (b_files sample_dir) =
     [''fasttak-backup-20260101T000000Z-v1.age'', ''fasttak-backup-20260301T000000Z-v1.age'',
      ''fasttak-backup-20260101T000000Z-v1.age.sha256'', ''fasttak-backup-20260201T000000Z-v1.age'', ''.age-identity'']"
    by (simp add: sample_dir_def)
  show "map snd (stamped_names (map fst (b_files sample_dir))) =
     [''fasttak-backup-20260301T000000Z-v1.age'', ''fasttak-backup-20260201T000000Z-v1.age'',
      ''fasttak-backup-20260101T000000Z-v1.age'']" unfolding n by code_simp
  have g: "filter (globbed ''.age'') (map fst (b_files sample_dir)) =
     [''fasttak-backup-20260101T000000Z-v1.age'', ''fasttak-backup-20260301T000000Z-v1.age'',
      ''fasttak-backup-20260201T000000Z-v1.age'']" unfolding n by code_simp
  show "fst (page_backups quiet_env sample_dir) =
     Inr [''fasttak-backup-20260101T000000Z-v1.age'', ''fasttak-backup-20260301T000000Z-v1.age'',
          ''fasttak-backup-20260201T000000Z-v1.age'']"
    unfolding page_backups_def stat_of_def file_op_def btick_def
    by (simp add: run_simps g) (simp add: run_simps sample_dir_def quiet_env_def)
qed

end
