(* ===== verification/App.thy ===== *)
theory App
  imports DashboardFacts
begin

text \<open>
  \<open>monitor/app/main.py\<close>: the start of the monitor, the table of its routes with the gates they stand
  behind, and the way a request takes through the middlewares to a route. The routers of FastAPI
  are modelled as far as the program uses them: templates of paths, dependencies given to a
  router or a route, the first route that matches a path and a method. A path has no line end.
\<close>

section \<open>Starting\<close>

text \<open>The statements of \<open>SCHEMA_SQL\<close> and \<open>INDEX_SQL\<close>, with their line breaks as blanks.\<close>

definition schema_sql :: string where
  "schema_sql = ''CREATE TABLE IF NOT EXISTS fastak_events (id BIGSERIAL PRIMARY KEY, '' @
     ''timestamp TIMESTAMPTZ NOT NULL DEFAULT NOW(), source TEXT NOT NULL, actor TEXT NOT NULL, '' @
     ''action TEXT NOT NULL, target_type TEXT, target_id TEXT, detail JSONB, ip INET, agency_id UUID)''"

definition index_sql :: "string list" where
  "index_sql =
     [''CREATE INDEX IF NOT EXISTS idx_fastak_events_timestamp ON fastak_events (timestamp DESC)'',
      ''CREATE INDEX IF NOT EXISTS idx_fastak_events_source_ts ON fastak_events (source, timestamp DESC)'',
      ''CREATE INDEX IF NOT EXISTS idx_fastak_events_actor_ts ON fastak_events (actor, timestamp DESC)'',
      ''CREATE INDEX IF NOT EXISTS idx_fastak_events_agency_ts ON fastak_events (agency_id, timestamp DESC) '' @
        ''WHERE agency_id IS NOT NULL'']"

definition init_schema :: "'w penv \<Rightarrow> ('w mon, unit) prog" where
  "init_schema E =
     thn (fastak_execute E (Sql schema_sql [])) (for_each index_sql (\<lambda>q. fastak_execute E (Sql q [])))"

text \<open>The state of the whole monitor: the health side, which contains that of users and certificates,
  and the backup directory. Each has an outside world of its own.\<close>

record ('w, 'v) app =
  ap_health :: "'w pmon hmon"
  ap_backup :: "'v bmon"

definition in_health :: "('w pmon hmon, 'a) prog \<Rightarrow> (('w, 'v) app, 'a) prog" where
  "in_health m = (\<lambda>s. case m (ap_health s) of (r, h) \<Rightarrow> (r, s\<lparr>ap_health := h\<rparr>))"

definition in_backup :: "('v bmon, 'a) prog \<Rightarrow> (('w, 'v) app, 'a) prog" where
  "in_backup m = (\<lambda>s. case m (ap_backup s) of (r, b) \<Rightarrow> (r, s\<lparr>ap_backup := b\<rparr>))"

text \<open>\<open>lifespan\<close> up to its \<open>yield\<close>; it gives the jobs of the scheduler. \<open>client\<close> is what
  \<open>pg_dump --version\<close> prints, if it runs.\<close>

definition backup_checks :: "'v benv \<Rightarrow> string option \<Rightarrow> ('v bmon, unit) prog" where
  "backup_checks B client =
     thn (ensure_backup_dir B) (bnd (log_postgres_version_skew B client) (\<lambda>_. ret ()))"

definition lifespan ::
    "'w pmon henv \<Rightarrow> 'w penv \<Rightarrow> 'v benv \<Rightarrow> string option \<Rightarrow> jobj \<Rightarrow> (string \<times> string) list \<Rightarrow>
     (('w, 'v) app, (string \<times> json) list) prog" where
  "lifespan H E B client file envir =
     thn (in_health (in_world (init_config_hash E)))
    (thn (catch (in_health (in_world (on_mon (init_schema E)))) (\<lambda>_. ret ()))
    (thn (catch (in_backup (backup_checks B client)) (\<lambda>_. ret ()))
         (in_health (start_scheduler H E file envir))))"

section \<open>Routes\<close>

datatype gate = Admin | Backup_admin

datatype segment = Literal string | Part | Rest

text \<open>\<open>{name}\<close> stands for one non-empty part of a path, \<open>{name:path}\<close> for all that follows.\<close>

definition segment_of :: "string \<Rightarrow> segment" where
  "segment_of t = (if startswith t ''{'' then if endswith t '':path}'' then Rest else Part else Literal t)"

record app_route =
  rt_method :: string
  rt_path :: string
  rt_gates :: "gate list"
  rt_endpoint :: string

definition route :: "string \<Rightarrow> string \<Rightarrow> gate list \<Rightarrow> string \<Rightarrow> app_route" where
  "route m p gates endpoint = \<lparr>rt_method = m, rt_path = p, rt_gates = gates, rt_endpoint = endpoint\<rparr>"

text \<open>\<open>prefix=\<close> of a router, and \<open>dependencies=\<close> of a router or an \<open>include_router\<close>.\<close>

definition under :: "string \<Rightarrow> app_route list \<Rightarrow> app_route list" where
  "under base rts = map (\<lambda>rt. rt\<lparr>rt_path := base @ rt_path rt\<rparr>) rts"

definition behind :: "gate list \<Rightarrow> app_route list \<Rightarrow> app_route list" where
  "behind gates rts = map (\<lambda>rt. rt\<lparr>rt_gates := gates @ rt_gates rt\<rparr>) rts"

definition health_routes :: "app_route list" where
  "health_routes =
     under ''/api/health''
     [route ''GET'' [] [] ''health_summary'',
      route ''GET'' ''/containers'' [] ''containers'',
      route ''GET'' ''/resources'' [] ''resources'',
      route ''GET'' ''/certs'' [] ''certs'',
      route ''GET'' ''/database'' [] ''database'',
      route ''GET'' ''/updates'' [] ''updates'',
      route ''GET'' ''/disk'' [] ''disk'',
      route ''GET'' ''/tls'' [] ''tls'',
      route ''GET'' ''/config'' [] ''config'',
      route ''GET'' ''/autovacuum'' [] ''autovacuum'']"

definition ops_routes :: "app_route list" where
  "ops_routes =
     under ''/api/ops''
     [route ''GET'' ''/service/{name}/logs'' [] ''svc_logs'',
      route ''POST'' ''/database/vacuum'' [] ''db_vacuum'',
      route ''POST'' ''/alerts/test-email'' [] ''test_email'',
      route ''POST'' ''/alerts/test-sms'' [] ''test_sms'']"

definition users_routes :: "app_route list" where
  "users_routes =
     [route ''GET'' ''/api/users'' [] ''list_users'',
      route ''POST'' ''/api/users'' [] ''create_user'',
      route ''GET'' ''/api/users/{user_id}'' [] ''get_user'',
      route ''PATCH'' ''/api/users/{user_id}'' [] ''update_user'',
      route ''DELETE'' ''/api/users/{user_id}'' [] ''delete_user'',
      route ''POST'' ''/api/users/{user_id}/password'' [] ''set_password'',
      route ''POST'' ''/api/users/{user_id}/enroll'' [] ''enroll_user'',
      route ''GET'' ''/api/users/{user_id}/certs'' [] ''list_user_certs'',
      route ''POST'' ''/api/users/{user_id}/certs/generate'' [] ''generate_user_cert'',
      route ''POST'' ''/api/users/{user_id}/certs/revoke'' [] ''revoke_user_cert'',
      route ''GET'' ''/api/users/{user_id}/certs/download/{cert_name}'' [] ''download_user_cert'',
      route ''GET'' ''/api/users/{user_id}/certs/download_data_package/{cert_name}'' [] ''download_data_package'',
      route ''GET'' ''/api/groups'' [] ''list_groups'',
      route ''POST'' ''/api/groups'' [] ''create_group'',
      route ''GET'' ''/api/groups/{group_id}'' [] ''get_group'',
      route ''DELETE'' ''/api/groups/{group_id}'' [] ''delete_group'',
      route ''PUT'' ''/api/users/{user_id}/groups'' [] ''set_user_groups'']"

definition service_account_routes :: "app_route list" where
  "service_account_routes =
     [route ''GET'' ''/api/service-accounts'' [] ''list_service_accounts'',
      route ''POST'' ''/api/service-accounts'' [] ''create_service_account'',
      route ''PATCH'' ''/api/service-accounts/{account_id}'' [] ''update_service_account'',
      route ''GET'' ''/api/service-accounts/{account_id}'' [] ''get_service_account'',
      route ''DELETE'' ''/api/service-accounts/{account_id}'' [] ''delete_service_account'',
      route ''GET'' ''/api/service-accounts/{account_id}/certs/download'' [] ''download_cert'']"

definition tak_routes :: "app_route list" where
  "tak_routes =
     under ''/api/tak''
     [route ''GET'' ''/groups'' [] ''list_groups'',
      route ''GET'' ''/clients'' [] ''list_clients'',
      route ''GET'' ''/contacts'' [] ''list_contacts'',
      route ''GET'' ''/missions'' [] ''list_missions'',
      route ''GET'' ''/contacts/recent'' [] ''recent_contacts'']"

definition events_routes :: "app_route list" where
  "events_routes =
     [route ''GET'' ''/api/events'' [] ''list_events'',
      route ''GET'' ''/api/events.csv'' [] ''export_csv'']"

definition backup_routes :: "app_route list" where
  "backup_routes =
     behind [Backup_admin] (under ''/api/backup''
     [route ''GET'' ''/'' [] ''list_backups'',
      route ''GET'' ''/status'' [] ''status'',
      route ''POST'' ''/run'' [] ''trigger_run'',
      route ''GET'' ''/files/{filename:path}'' [] ''download'',
      route ''DELETE'' ''/files/{filename:path}'' [] ''delete'',
      route ''GET'' ''/key'' [] ''download_key''])"

definition dashboard_routes :: "app_route list" where
  "dashboard_routes =
     [route ''GET'' ''/'' [Admin] ''dashboard'',
      route ''GET'' ''/ops'' [Admin] ''ops_page'',
      route ''GET'' ''/logs'' [Admin] ''logs_page'',
      route ''GET'' ''/users'' [Admin] ''users_page'',
      route ''GET'' ''/service-accounts'' [Admin] ''service_accounts_page'',
      route ''GET'' ''/dashboard/backups'' [Backup_admin] ''backups_page'',
      route ''POST'' ''/dashboard/backups/run'' [Backup_admin] ''backups_run'',
      route ''GET'' ''/dashboard/backups/status'' [Backup_admin] ''backups_status_partial'',
      route ''GET'' ''/dashboard/backups/list'' [Backup_admin] ''backups_list_partial'',
      route ''GET'' ''/ui/partials/health-grid'' [Admin] ''ui_health_grid'',
      route ''GET'' ''/ui/partials/cert-status'' [Admin] ''ui_cert_status'',
      route ''GET'' ''/ui/partials/update-status'' [Admin] ''ui_update_status'',
      route ''GET'' ''/ui/partials/resources'' [Admin] ''ui_resources'',
      route ''GET'' ''/ui/partials/activity-log'' [Admin] ''ui_activity_log'',
      route ''GET'' ''/ui/partials/disk-usage'' [Admin] ''ui_disk_usage'',
      route ''GET'' ''/ui/partials/tls-status'' [Admin] ''ui_tls_status'',
      route ''GET'' ''/ui/partials/config-status'' [Admin] ''ui_config_status'',
      route ''GET'' ''/ui/partials/user-list'' [Admin] ''ui_user_list'',
      route ''GET'' ''/ui/partials/service-account-list'' [Admin] ''ui_service_account_list'',
      route ''GET'' ''/ui/partials/database-health'' [Admin] ''ui_database_health'',
      route ''GET'' ''/ui/partials/connected-clients'' [Admin] ''ui_connected_clients'',
      route ''GET'' ''/ui/partials/recent-contacts'' [Admin] ''ui_recent_contacts'']"

text \<open>In the order in which the application registers them.\<close>

definition app_routes :: "app_route list" where
  "app_routes =
     [route ''GET'' ''/api/openapi.json'' [Admin] ''openapi_json'', route ''GET'' ''/api/docs'' [Admin] ''swagger_ui''] @
     behind [Admin] health_routes @ behind [Admin] ops_routes @ behind [Admin] users_routes @
     behind [Admin] service_account_routes @ behind [Admin] tak_routes @ behind [Admin] events_routes @
     backup_routes @ dashboard_routes @ [route ''GET'' ''/api/ping'' [] ''ping'']"

section \<open>A request\<close>

fun matches :: "segment list \<Rightarrow> string list \<Rightarrow> bool" where
  "matches [] ps \<longleftrightarrow> ps = []"
| "matches (Literal l # sg) ps \<longleftrightarrow> (case ps of p # ps' \<Rightarrow> p = l \<and> matches sg ps' | [] \<Rightarrow> False)"
| "matches (Part # sg) ps \<longleftrightarrow> (case ps of p # ps' \<Rightarrow> p \<noteq> [] \<and> matches sg ps' | [] \<Rightarrow> False)"
| "matches (Rest # sg) ps \<longleftrightarrow> ps \<noteq> []"

definition parts :: "string \<Rightarrow> string list" where
  "parts = split_on (CHR ''/'')"

definition segments :: "app_route \<Rightarrow> segment list" where
  "segments rt = map segment_of (parts (rt_path rt))"

definition answers :: "request \<Rightarrow> app_route \<Rightarrow> bool" where
  "answers rq rt \<longleftrightarrow> rt_method rt = rq_method rq \<and> matches (segments rt) (parts (rq_path rq))"

definition find_route :: "request \<Rightarrow> app_route option" where
  "find_route rq = List.find (answers rq) app_routes"

definition check_gate :: "(string \<Rightarrow> string option) \<Rightarrow> auth_context \<Rightarrow> gate \<Rightarrow> exn + unit" where
  "check_gate envir ctx g = (case g of
     Admin \<Rightarrow> require_admin envir ctx
   | Backup_admin \<Rightarrow> require_group envir ''BACKUP_ADMIN_GROUP'' admin_group_default ctx)"

definition check_gates :: "(string \<Rightarrow> string option) \<Rightarrow> gate list \<Rightarrow> auth_context \<Rightarrow> exn + unit" where
  "check_gates envir gates ctx = sum_fold (\<lambda>g _. check_gate envir ctx g) gates ()"

text \<open>\<open>endpoint\<close> is a route's function together with the checks FastAPI makes on its arguments;
  \<open>unrouted\<close> is what the framework answers where no route fits. (A body that is no JSON at all is
  refused with 422 before the gates, without running any code of the program.)\<close>

definition serve ::
    "(event \<Rightarrow> ('s, unit) prog) \<Rightarrow> (string \<Rightarrow> string option) \<Rightarrow>
     (app_route \<Rightarrow> request \<Rightarrow> auth_context \<Rightarrow> ('s, int) prog) \<Rightarrow> (request \<Rightarrow> ('s, int) prog) \<Rightarrow>
     request \<Rightarrow> ('s, int) prog" where
  "serve recorded envir endpoint unrouted rq = (case find_route rq of
     Some rt \<Rightarrow> handle recorded (check_gates envir (rt_gates rt)) rq (endpoint rt rq)
   | None \<Rightarrow> handle recorded (\<lambda>_. Inr ()) rq (\<lambda>_. unrouted rq))"

text \<open>\<open>/api/ping\<close>.\<close>

definition ping :: json where
  "ping = J_obj [(''status'', J_str ''ok'')]"

text \<open>\<open>_add_middleware_in_execution_order\<close>: a middleware that is added becomes the outermost.\<close>

definition add_middlewares :: "'m list \<Rightarrow> 'm list \<Rightarrow> 'm list" where
  "add_middlewares mws stack = fold (\<lambda>mw st. mw # st) (rev mws) stack"

lemma middlewares_run_in_order: "add_middlewares mws [] = mws"
  by (simp add: add_middlewares_def fold_Cons_rev)

section \<open>No route hides another\<close>

text \<open>\<open>overlap a b\<close>: some path may match both.\<close>

fun overlap :: "segment list \<Rightarrow> segment list \<Rightarrow> bool" where
  "overlap (Rest # _) _ \<longleftrightarrow> True"
| "overlap _ (Rest # _) \<longleftrightarrow> True"
| "overlap (Literal a # xs) (Literal b # ys) \<longleftrightarrow> a = b \<and> overlap xs ys"
| "overlap (Literal a # xs) (Part # ys) \<longleftrightarrow> a \<noteq> [] \<and> overlap xs ys"
| "overlap (Part # xs) (Literal b # ys) \<longleftrightarrow> b \<noteq> [] \<and> overlap xs ys"
| "overlap (Part # xs) (Part # ys) \<longleftrightarrow> overlap xs ys"
| "overlap xs ys \<longleftrightarrow> xs = [] \<and> ys = []"

lemma overlapI: "matches a ps \<Longrightarrow> matches b ps \<Longrightarrow> overlap a b"
  by (induction a b arbitrary: ps rule: overlap.induct) (auto split: list.splits)

text \<open>The routes as their methods and templates.\<close>

definition table_of :: "app_route list \<Rightarrow> (string \<times> segment list) list" where
  "table_of rts = map (\<lambda>rt. (rt_method rt, segments rt)) rts"

fun apart :: "(string \<times> segment list) list \<Rightarrow> bool" where
  "apart [] \<longleftrightarrow> True"
| "apart ((m, sg) # es) \<longleftrightarrow> list_all (\<lambda>(m', sg'). \<not> (overlap sg sg' \<and> m = m')) es \<and> apart es"

lemma app_routes_apart: "apart (table_of app_routes)"
  by code_simp

lemma apart_unique:
  assumes "apart (table_of rts)" and "rt \<in> set rts" and "rt' \<in> set rts" and "answers rq rt" and "answers rq rt'"
  shows "rt = rt'"
  using assms
  by (induction rts) (auto simp: table_of_def list_all_iff answers_def dest: overlapI)

lemma find_route_iff: "find_route rq = Some rt \<longleftrightarrow> rt \<in> set app_routes \<and> answers rq rt"
proof
  assume "rt \<in> set app_routes \<and> answers rq rt"
  moreover obtain rt' where "find_route rq = Some rt'"
    using calculation by (cases "find_route rq") (auto simp: find_route_def find_None_iff)
  ultimately show "find_route rq = Some rt"
    using apart_unique [OF app_routes_apart, of rt rt' rq] by (auto simp: find_route_def find_Some_iff)
qed (auto simp: find_route_def find_Some_iff)

section \<open>The gates of the table\<close>

definition backup_path :: "string \<Rightarrow> bool" where
  "backup_path p \<longleftrightarrow> startswith p ''/api/backup/'' \<or> startswith p ''/dashboard/backups''"

lemma gate_table:
  "list_all (\<lambda>rt. rt_gates rt = (if rt_path rt = ''/api/ping'' then [] else if backup_path (rt_path rt)
     then [Backup_admin] else [Admin])) app_routes"
  by code_simp

lemma one_gate [simp]: "check_gates envir [g] = (\<lambda>ctx. check_gate envir ctx g)"
proof
  show "check_gates envir [g] ctx = check_gate envir ctx g" for ctx
    by (cases "check_gate envir ctx g") (simp_all add: check_gates_def)
qed

text \<open>The group whose members a path is for.\<close>

definition group_for :: "(string \<Rightarrow> string option) \<Rightarrow> string \<Rightarrow> string" where
  "group_for envir p = required_group envir (if backup_path p then ''BACKUP_ADMIN_GROUP'' else ''ADMIN_GROUP'')
     ''monitor_admin''"

section \<open>Properties\<close>


definition users_request :: request where
  "users_request = \<lparr>rq_method = ''POST'', rq_path = ''/api/users'', rq_remote_user = Some ''eve'',
     rq_remote_groups = Some ''tak_users'', rq_client = None, rq_body = No_body\<rparr>"


text \<open>No route is hidden by another: every request with a route's method and a path of its template is
  answered by that route, whatever the order the routers are included in.\<close>

lemma routes_reachable:
  assumes "rt \<in> set app_routes" and "rt_method rt = rq_method rq"
    and "matches (segments rt) (parts (rq_path rq))"
  shows "find_route rq = Some rt \<and> (\<forall>rts. set rts = set app_routes \<longrightarrow> List.find (answers rq) rts = Some rt)"
proof -
  have a: "answers rq rt" using assms by (simp add: answers_def)
  have "List.find (answers rq) rts = Some rt" if "set rts = set app_routes" for rts
  proof -
    have "rt \<in> set rts" using assms(1) by (simp add: that)
    then obtain rt' where "List.find (answers rq) rts = Some rt'"
      using a by (cases "List.find (answers rq) rts") (auto simp: find_None_iff)
    moreover from this have "rt' \<in> set app_routes" "answers rq rt'" using that by (auto simp: find_Some_iff)
    ultimately show ?thesis using apart_unique [OF app_routes_apart assms(1) _ a] by blast
  qed
  then show ?thesis by (simp add: find_route_def)
qed

lemma in_health_run [run_simps]: "in_health m s = (fst (m (ap_health s)), s\<lparr>ap_health := snd (m (ap_health s))\<rparr>)"
  by (simp add: in_health_def split: prod.splits)

lemma in_backup_run [run_simps]: "in_backup m s = (fst (m (ap_backup s)), s\<lparr>ap_backup := snd (m (ap_backup s))\<rparr>)"
  by (simp add: in_backup_def split: prod.splits)

lemma init_config_hash_ok:
  assumes "\<And>w e. env_file E w = Inl e \<Longrightarrow> is_os_error e"
  shows "fst (init_config_hash E s) = Inr ()"
  using assms
  by (auto simp: init_config_hash_def hash_env_file_def on_mon_def run_simps look_def split: sum.splits)

text \<open>C18. The monitor starts, and every service has a status in the cache when it has: neither the events
  database, nor the backup directory, nor a probe can keep it from starting. It starts with the
  shipped thresholds, and an \<open>.env\<close> file that cannot be read fails as such.\<close>

theorem monitor_starts:
  assumes "counts_tuples E" and "list_all (\<lambda>e. \<not> startswith (fst e) env_prefix) envir"
    and "\<And>w e. env_file E w = Inl e \<Longrightarrow> is_os_error e"
  shows "\<exists>t. lifespan H E B client thresholds_yml envir s = (Inr (shipped_jobs @ expiry_jobs (he_cfg H)), t) \<and>
    (\<forall>n\<in>set (map fst (health_functions E)). board (ap_health t) n \<noteq> None)"
proof -
  let ?rest = "in_health (start_scheduler H E thresholds_yml envir)"
  have "\<exists>u. in_health (in_world (init_config_hash E)) s = (Inr (), u)"
    using init_config_hash_ok [OF assms(3)] by (simp add: run_simps)
  moreover have "\<exists>v. catch (in_health (in_world (on_mon (init_schema E)))) (\<lambda>_. ret ()) u = (Inr (), v)" for u :: "('a, 'b) app"
    by (simp add: run_simps split: sum.splits)
  moreover have "\<exists>v. catch (in_backup (backup_checks B client)) (\<lambda>_. ret ()) u = (Inr (), v)" for u :: "('a, 'b) app"
    by (simp add: run_simps split: sum.splits)
  ultimately obtain v where v: "lifespan H E B client thresholds_yml envir s = ?rest v"
    unfolding lifespan_def thn_run by (metis prod.case sum.case(2))
  obtain t where "start_scheduler H E thresholds_yml envir (ap_health v) = (Inr (shipped_jobs @ expiry_jobs (he_cfg H)), t)"
    "\<forall>n\<in>set (map fst (health_functions E)). board t n \<noteq> None"
    using startup_fills_cache [OF assms(1,2)] by blast
  then show ?thesis by (auto simp: v in_health_run)
qed

theorem monitor_starts_witness:
  "\<exists>t. lifespan sample_henv sample_services (quiet_env\<lparr>fs_fault := (\<lambda>_ w. (Some (OSError ''read-only''), w))\<rparr>) None
       thresholds_yml [(''PATH'', ''/bin'')] \<lparr>ap_health = sample_monitor, ap_backup = sample_dir\<rparr> =
     (Inr (shipped_jobs @ []), t) \<and> board (ap_health t) ''certs'' \<noteq> None"
proof -
  have "list_all (\<lambda>e. \<not> startswith (fst e) env_prefix) [(''PATH'', ''/bin'')]" by code_simp
  moreover have "is_os_error e" if "env_file sample_services w = Inl e" for w e
    using that by (auto simp: sample_services_def is_os_error_def)
  ultimately show ?thesis
    using monitor_starts [OF sample_counts, of "[(''PATH'', ''/bin'')]" sample_henv
        "quiet_env\<lparr>fs_fault := (\<lambda>_ w. (Some (OSError ''read-only''), w))\<rparr>" None
        "\<lparr>ap_health = sample_monitor, ap_backup = sample_dir\<rparr>"]
    by (auto simp: sample_henv_def expiry_jobs_def default_settings_def health_functions_def)
qed

end
