(* ===== verification/Bootstrap.thy ===== *)
theory Bootstrap
  imports Evaluator Retry
begin

text \<open>
  \<open>init-identity/bootstrap.py\<close>, the one-shot container that prepares the LLDAP directory before the
  monitor starts: custom attributes, the gate groups, the \<open>webadmin\<close> user and the service account.
  The HTTP requests to LLDAP and the program \<open>lldap_set_password\<close> are parameters.
\<close>

section \<open>Configuration\<close>

record boot_conf =
  bc_lldap_url :: string
  bc_admin_user :: string
  bc_admin_pass :: string
  bc_webadmin_pass :: string
  bc_admin_group :: string
  bc_backup_admin_group :: string

definition env_get :: "(string \<Rightarrow> string option) \<Rightarrow> string \<Rightarrow> string \<Rightarrow> string" where
  "env_get envir var dflt = (case envir var of None \<Rightarrow> dflt | Some x \<Rightarrow> x)"

definition group_from_env :: "(string \<Rightarrow> string option) \<Rightarrow> string \<Rightarrow> string" where
  "group_from_env envir var =
     (let g = strip (env_get envir var ''monitor_admin'') in if g = [] then ''monitor_admin'' else g)"

text \<open>The module's variables. \<open>BASE_DN\<close> is read and not used.\<close>

definition read_boot_conf :: "(string \<Rightarrow> string option) \<Rightarrow> exn + boot_conf" where
  "read_boot_conf envir =
     (case envir ''LDAP_ADMIN_PASSWORD'' of
        None \<Rightarrow> Inl (KeyError ''LDAP_ADMIN_PASSWORD'')
      | Some pass \<Rightarrow> Inr
          \<lparr>bc_lldap_url = rstrip_char (CHR ''/'') (env_get envir ''LLDAP_URL'' ''http://lldap:17170''),
           bc_admin_user = env_get envir ''LLDAP_ADMIN_USER'' ''adm_ldapservice'',
           bc_admin_pass = pass,
           bc_webadmin_pass = strip (env_get envir ''TAK_WEBADMIN_PASSWORD'' []),
           bc_admin_group = group_from_env envir ''ADMIN_GROUP'',
           bc_backup_admin_group = group_from_env envir ''BACKUP_ADMIN_GROUP''\<rparr>)"

text \<open>\<open>list(dict.fromkeys([...]))\<close>.\<close>

definition gate_groups :: "boot_conf \<Rightarrow> string list" where
  "gate_groups c = map fst (dict_set (bc_backup_admin_group c) () (dict_set (bc_admin_group c) () []))"

definition default_groups :: "boot_conf \<Rightarrow> string list" where
  "default_groups c = ''tak_ROLE_ADMIN'' # gate_groups c"

definition service_accounts :: "string list" where
  "service_accounts = [''svc_fasttakapi'']"

section \<open>Outside world and state\<close>

text \<open>The documents sent. An id is whatever LLDAP gave.\<close>

datatype boot_query =
    List_groups
  | Create_group string
  | Get_user string
  | Create_user string string string          \<comment> \<open>id, display name, e-mail\<close>
  | Add_user_to_group json json
  | Set_attribute string string string
  | Add_attribute string string

record 'w boot_env =
  bt_login :: "string \<Rightarrow> string \<Rightarrow> string \<Rightarrow> 'w \<Rightarrow> (exn + json) \<times> 'w"
  bt_graphql :: "string \<Rightarrow> json \<Rightarrow> boot_query \<Rightarrow> 'w \<Rightarrow> (exn + json) \<times> 'w"
  bt_set_password :: "string \<Rightarrow> json \<Rightarrow> string \<Rightarrow> string \<Rightarrow> 'w \<Rightarrow> (exn + int \<times> string) \<times> 'w"
  bt_show :: "json \<Rightarrow> string"

text \<open>The outside world, the login requests made and the pauses between them.\<close>

record 'w boot =
  bo_world :: 'w
  bo_logins :: nat
  bo_pauses :: nat

definition boot_ask :: "('w \<Rightarrow> (exn + 'a) \<times> 'w) \<Rightarrow> ('w boot, 'a) prog" where
  "boot_ask f = (\<lambda>s. case f (bo_world s) of (r, w) \<Rightarrow> (r, s\<lparr>bo_world := w\<rparr>))"

text \<open>\<open>j[k]\<close>.\<close>

definition item :: "json \<Rightarrow> string \<Rightarrow> exn + json" where
  "item j k = (case j of
     J_obj d \<Rightarrow> (case map_of d k of None \<Rightarrow> Inl (KeyError k) | Some v \<Rightarrow> Inr v)
   | _ \<Rightarrow> Inl TypeError)"

section \<open>Requests\<close>

definition login_retries :: nat where
  "login_retries = 60"

definition login_try :: "'w boot_env \<Rightarrow> boot_conf \<Rightarrow> ('w boot, json) prog" where
  "login_try E c =
     thn (modify (\<lambda>s. s\<lparr>bo_logins := bo_logins s + 1\<rparr>))
    (bnd (boot_ask (bt_login E (bc_lldap_url c) (bc_admin_user c) (bc_admin_pass c))) (\<lambda>data.
     of_sum (item data ''token'')))"

definition login_attempt :: "'w boot_env \<Rightarrow> boot_conf \<Rightarrow> bool \<Rightarrow> ('w boot, json step) prog" where
  "login_attempt E c final =
     catch (bnd (login_try E c) (\<lambda>t. ret (Done t))) (\<lambda>e.
       if final then raise (OtherError ''SystemExit''
         (''LLDAP not ready after '' @ str_of_int (int login_retries) @ '' attempts''))
       else thn (modify (\<lambda>s. s\<lparr>bo_pauses := bo_pauses s + 1\<rparr>)) (ret Again))"

fun login_loop :: "'w boot_env \<Rightarrow> boot_conf \<Rightarrow> nat \<Rightarrow> ('w boot, json option) prog" where
  "login_loop E c 0 = ret None"
| "login_loop E c (Suc n) =
     bnd (login_attempt E c (n = 0)) (\<lambda>r. case r of Done x \<Rightarrow> ret (Some x) | Again \<Rightarrow> login_loop E c n)"

text \<open>The function returns \<open>None\<close> after its loop, which the loop's last attempt rules out.\<close>

definition lldap_login :: "'w boot_env \<Rightarrow> boot_conf \<Rightarrow> ('w boot, json) prog" where
  "lldap_login E c =
     bnd (login_loop E c login_retries) (\<lambda>r. ret (case r of None \<Rightarrow> J_null | Some t \<Rightarrow> t))"

definition says_duplicate :: "string \<Rightarrow> bool" where
  "says_duplicate m \<longleftrightarrow> contains (lower m) ''already exists'' \<or> contains (lower m) ''duplicate''"

definition graphql_result :: "(json \<Rightarrow> string) \<Rightarrow> json \<Rightarrow> exn + json" where
  "graphql_result shw reply =
     andthen (as_obj reply) (\<lambda>data.
     if truthy (jget data ''errors'') then
       let err_msg = py_str shw (jget data ''errors'') in
       if says_duplicate err_msg then Inr (jget data ''data'')
       else Inl (RuntimeError (''GraphQL error: '' @ err_msg))
     else Inr (jget data ''data''))"

definition boot_graphql :: "'w boot_env \<Rightarrow> boot_conf \<Rightarrow> json \<Rightarrow> boot_query \<Rightarrow> ('w boot, json) prog" where
  "boot_graphql E c token q =
     bnd (boot_ask (bt_graphql E (bc_lldap_url c) token q)) (\<lambda>reply. of_sum (graphql_result (bt_show E) reply))"

section \<open>What has to be there\<close>

fun find_group :: "string \<Rightarrow> json list \<Rightarrow> exn + json option" where
  "find_group name [] = Inr None"
| "find_group name (g # gs) =
     andthen (item g ''displayName'') (\<lambda>d.
     if d = J_str name then andthen (item g ''id'') (\<lambda>i. Inr (Some i)) else find_group name gs)"

definition listed_groups :: "json \<Rightarrow> exn + json list" where
  "listed_groups data =
     andthen (if truthy data then as_obj data else Inr []) (\<lambda>d. json_iter (get_or d ''groups'' (J_list [])))"

definition ensure_group :: "'w boot_env \<Rightarrow> boot_conf \<Rightarrow> json \<Rightarrow> string \<Rightarrow> ('w boot, json) prog" where
  "ensure_group E c token name =
     bnd (boot_graphql E c token List_groups) (\<lambda>data.
     bnd (of_sum (andthen (listed_groups data) (find_group name))) (\<lambda>found.
     case found of
       Some gid \<Rightarrow> ret gid
     | None \<Rightarrow>
         bnd (boot_graphql E c token (Create_group name)) (\<lambda>data.
         of_sum (andthen (item data ''createGroup'') (\<lambda>g. item g ''id'')))))"

text \<open>\<open>data and data.get(k)\<close>, and then \<open>data[k]["id"]\<close>.\<close>

definition id_under :: "string \<Rightarrow> json \<Rightarrow> exn + json option" where
  "id_under k data =
     (if \<not> truthy data then Inr None else
      andthen (as_obj data) (\<lambda>d.
      if truthy (jget d k) then andthen (item (jget d k) ''id'') (\<lambda>i. Inr (Some i)) else Inr None))"

definition existing_user :: "'w boot_env \<Rightarrow> boot_conf \<Rightarrow> json \<Rightarrow> string \<Rightarrow> ('w boot, json option) prog" where
  "existing_user E c token username =
     catch (bnd (boot_graphql E c token (Get_user username)) (\<lambda>data. of_sum (id_under ''user'' data)))
       (\<lambda>e. case e of RuntimeError _ \<Rightarrow> ret None | _ \<Rightarrow> raise e)"

definition ensure_user :: "'w boot_env \<Rightarrow> boot_conf \<Rightarrow> json \<Rightarrow> string \<Rightarrow> string \<Rightarrow> ('w boot, json) prog" where
  "ensure_user E c token username display_name =
     bnd (existing_user E c token username) (\<lambda>found.
     case found of
       Some uid \<Rightarrow> ret uid
     | None \<Rightarrow>
         bnd (boot_graphql E c token (Create_user username display_name (username @ ''@dummy.example.com''))) (\<lambda>data.
         bnd (of_sum (id_under ''createUser'' data)) (\<lambda>uid.
         ret (case uid of Some i \<Rightarrow> i | None \<Rightarrow> J_str username))))"

definition boot_set_password :: "'w boot_env \<Rightarrow> boot_conf \<Rightarrow> json \<Rightarrow> string \<Rightarrow> string \<Rightarrow> ('w boot, unit) prog" where
  "boot_set_password E c token username password =
     bnd (boot_ask (bt_set_password E (bc_lldap_url c) token username password)) (\<lambda>(code, err).
     if code \<noteq> 0 then raise (RuntimeError (''lldap_set_password failed for '' @ username @ '': '' @ strip err))
     else ret ())"

definition add_to_group :: "'w boot_env \<Rightarrow> boot_conf \<Rightarrow> json \<Rightarrow> json \<Rightarrow> json \<Rightarrow> ('w boot, unit) prog" where
  "add_to_group E c token uid gid = bnd (boot_graphql E c token (Add_user_to_group uid gid)) (\<lambda>_. ret ())"

definition set_user_attribute ::
    "'w boot_env \<Rightarrow> boot_conf \<Rightarrow> json \<Rightarrow> string \<Rightarrow> string \<Rightarrow> string \<Rightarrow> ('w boot, unit) prog" where
  "set_user_attribute E c token username name v =
     bnd (boot_graphql E c token (Set_attribute username name v)) (\<lambda>_. ret ())"

definition custom_attributes :: "(string \<times> string) list" where
  "custom_attributes =
     [(''fastak_expires'', ''INTEGER''), (''fastak_certs_revoked'', ''STRING''), (''is_active'', ''STRING''),
      (''fastak_user_type'', ''STRING'')]"

definition register_attribute :: "'w boot_env \<Rightarrow> boot_conf \<Rightarrow> json \<Rightarrow> string \<times> string \<Rightarrow> ('w boot, unit) prog" where
  "register_attribute E c token a =
     catch (bnd (boot_graphql E c token (Add_attribute (fst a) (snd a))) (\<lambda>_. ret ()))
       (\<lambda>e. case e of RuntimeError m \<Rightarrow> if says_duplicate m then ret () else raise e | _ \<Rightarrow> raise e)"

definition ensure_custom_attributes :: "'w boot_env \<Rightarrow> boot_conf \<Rightarrow> json \<Rightarrow> ('w boot, unit) prog" where
  "ensure_custom_attributes E c token = for_each custom_attributes (register_attribute E c token)"

section \<open>The whole run\<close>

definition ensure_groups :: "'w boot_env \<Rightarrow> boot_conf \<Rightarrow> json \<Rightarrow> ('w boot, (string \<times> json) list) prog" where
  "ensure_groups E c token =
     fold_prog (\<lambda>g ids. bnd (ensure_group E c token g) (\<lambda>i. ret (dict_set g i ids))) (default_groups c) []"

definition id_of :: "(string \<times> json) list \<Rightarrow> string \<Rightarrow> exn + json" where
  "id_of ids g = (case map_of ids g of None \<Rightarrow> Inl (KeyError g) | Some i \<Rightarrow> Inr i)"

definition join_group ::
    "'w boot_env \<Rightarrow> boot_conf \<Rightarrow> json \<Rightarrow> (string \<times> json) list \<Rightarrow> json \<Rightarrow> string \<Rightarrow> ('w boot, unit) prog" where
  "join_group E c token ids uid g = bnd (of_sum (id_of ids g)) (add_to_group E c token uid)"

definition ensure_webadmin ::
    "'w boot_env \<Rightarrow> boot_conf \<Rightarrow> json \<Rightarrow> (string \<times> json) list \<Rightarrow> ('w boot, unit) prog" where
  "ensure_webadmin E c token ids =
     (if bc_webadmin_pass c = [] then ret () else
      bnd (ensure_user E c token ''webadmin'' ''Web Admin'') (\<lambda>uid.
      thn (boot_set_password E c token ''webadmin'' (bc_webadmin_pass c))
     (thn (join_group E c token ids uid ''tak_ROLE_ADMIN'')
     (thn (for_each (gate_groups c) (join_group E c token ids uid))
          (set_user_attribute E c token ''webadmin'' ''fastak_user_type'' ''user'')))))"

definition bootstrap_main :: "'w boot_env \<Rightarrow> boot_conf \<Rightarrow> ('w boot, unit) prog" where
  "bootstrap_main E c =
     bnd (lldap_login E c) (\<lambda>token.
     thn (ensure_custom_attributes E c token)
    (bnd (ensure_groups E c token) (\<lambda>ids.
     thn (ensure_webadmin E c token ids)
    (thn (for_each service_accounts (\<lambda>svc. bnd (ensure_user E c token svc svc) (\<lambda>_. ret ())))
         (set_user_attribute E c token ''svc_fasttakapi'' ''fastak_user_type'' ''svc_admin'')))))"

end
