(* ===== verification/Triples.thy ===== *)
theory Triples
  imports World
begin

text \<open>
  What a program does to a part \<open>V\<close> of the outside world: it moves it along a reflexive and transitive
  relation whatever happens, and a return says more. The rules are stated once, in a locale over the
  relation.
\<close>

section \<open>What a return says\<close>

text \<open>\<open>brings G V P m Q\<close>: where \<open>P\<close> holds of \<open>V\<close>, the program \<open>m\<close> moves it along \<open>G\<close> whatever happens, and if
  it returns \<open>x\<close> then \<open>Q x\<close> holds of it.\<close>

definition brings ::
    "('d \<Rightarrow> 'd \<Rightarrow> bool) \<Rightarrow> ('s \<Rightarrow> 'd) \<Rightarrow> ('d \<Rightarrow> bool) \<Rightarrow> ('s, 'a) prog \<Rightarrow> ('a \<Rightarrow> 'd \<Rightarrow> bool) \<Rightarrow> bool" where
  "brings G V P m Q \<longleftrightarrow> (\<forall>s r t. P (V s) \<longrightarrow> m s = (r, t) \<longrightarrow>
     G (V s) (V t) \<and> (\<forall>x. r = Inr x \<longrightarrow> Q x (V t)))"

text \<open>What moves along \<open>G\<close> keeps a property that \<open>G\<close> carries over.\<close>

definition persists :: "('d \<Rightarrow> 'd \<Rightarrow> bool) \<Rightarrow> ('d \<Rightarrow> bool) \<Rightarrow> bool" where
  "persists G P \<longleftrightarrow> (\<forall>d e. P d \<longrightarrow> G d e \<longrightarrow> P e)"

locale moves =
  fixes G :: "'d \<Rightarrow> 'd \<Rightarrow> bool"
  assumes refl: "G d d" and trans: "G d e \<Longrightarrow> G e f \<Longrightarrow> G d f"
begin

lemma bringsI:
  "(\<And>s r t. P (V s) \<Longrightarrow> m s = (r, t) \<Longrightarrow>
     G (V s) (V t) \<and> (\<forall>x. r = Inr x \<longrightarrow> Q x (V t))) \<Longrightarrow> brings G V P m Q"
  by (simp add: brings_def)

lemma bringsD:
  "brings G V P m Q \<Longrightarrow> m s = (r, t) \<Longrightarrow> P (V s) \<Longrightarrow>
   G (V s) (V t) \<and> (\<forall>x. r = Inr x \<longrightarrow> Q x (V t))"
  by (simp add: brings_def)

lemma of_ret: "(\<And>d. P d \<Longrightarrow> Q x d) \<Longrightarrow> brings G V P (ret x) Q"
  and of_raise: "brings G V P (raise e) Q"
  and of_sums: "(\<And>x d. r = Inr x \<Longrightarrow> P d \<Longrightarrow> Q x d) \<Longrightarrow> brings G V P (of_sum r) Q"
  by (auto simp: brings_def run_simps refl)

lemma of_bnd:
  assumes "brings G V P m R" and "\<And>x. brings G V (R x) (f x) Q"
  shows "brings G V P (bnd m f) Q"
proof (rule bringsI)
  fix s r t
  assume P: "P (V s)" and run: "bnd m f s = (r, t)"
  from run show "G (V s) (V t) \<and> (\<forall>y. r = Inr y \<longrightarrow> Q y (V t))"
  proof (cases rule: bndE)
    case (raised e)
    with bringsD [OF assms(1) raised(1) P] show ?thesis by simp
  next
    case (goes_on x u)
    from bringsD [OF assms(1) goes_on(1) P] bringsD [OF assms(2) goes_on(2)] trans show ?thesis by blast
  qed
qed

lemma of_thn: "brings G V P m (\<lambda>_. R) \<Longrightarrow> brings G V R k Q \<Longrightarrow> brings G V P (thn m k) Q"
  unfolding thn_def by (rule of_bnd)

lemma of_catch:
  assumes "brings G V P m Q" and "\<And>e. brings G V K (h e) Q" and "\<And>d e. P d \<Longrightarrow> G d e \<Longrightarrow> K e"
  shows "brings G V P (catch m h) Q"
proof (rule bringsI)
  fix s r t
  assume P: "P (V s)" and run: "catch m h s = (r, t)"
  from run show "G (V s) (V t) \<and> (\<forall>y. r = Inr y \<longrightarrow> Q y (V t))"
  proof (cases rule: catchE)
    case (returned x)
    with bringsD [OF assms(1) returned(1) P] show ?thesis by simp
  next
    case (caught e u)
    from bringsD [OF assms(1) caught(1) P] bringsD [OF assms(2) caught(2)] trans assms(3) [OF P] show ?thesis by blast
  qed
qed

lemma weaken:
  "brings G V P m Q \<Longrightarrow> (\<And>d. P' d \<Longrightarrow> P d) \<Longrightarrow> (\<And>x d. Q x d \<Longrightarrow> Q' x d) \<Longrightarrow> brings G V P' m Q'"
  unfolding brings_def by blast

lemma keep: "brings G V P m Q \<Longrightarrow> persists G K \<Longrightarrow> brings G V (\<lambda>d. P d \<and> K d) m (\<lambda>x d. Q x d \<and> K d)"
  unfolding brings_def persists_def by blast

lemma of_for_each:
  assumes "\<And>x. x \<in> set xs \<Longrightarrow> brings G V P (f x) (\<lambda>_. Q x)" and "persists G P" and "\<And>x. persists G (Q x)"
  shows "brings G V P (for_each xs f) (\<lambda>_ d. \<forall>x\<in>set xs. Q x d)"
  using assms(1)
proof (induction xs)
  case Nil
  then show ?case by (simp add: of_ret)
next
  case (Cons x xs)
  have a: "brings G V P (f x) (\<lambda>_ d. Q x d \<and> P d)"
    using keep [OF Cons.prems [of x] assms(2)] by (auto elim: weaken)
  have "brings G V P (for_each xs f) (\<lambda>_ d. \<forall>x\<in>set xs. Q x d)" using Cons by simp
  from keep [OF this assms(3) [of x]]
  have b: "brings G V (\<lambda>d. Q x d \<and> P d) (for_each xs f) (\<lambda>_ d. \<forall>y\<in>set (x # xs). Q y d)"
    by (rule weaken) auto
  show ?case unfolding for_each.simps by (rule of_thn [OF a b])
qed

lemma of_loop: "(\<And>x. x \<in> set xs \<Longrightarrow> brings G V P (f x) (\<lambda>_. P)) \<Longrightarrow> brings G V P (for_each xs f) (\<lambda>_. P)"
  by (induction xs) (auto intro: of_ret of_thn)

lemma of_fold:
  assumes "\<And>x acc. x \<in> set xs \<Longrightarrow> brings G V (R acc) (f x acc) R"
  shows "brings G V (R acc) (fold_prog f xs acc) R"
  using assms
proof (induction xs arbitrary: acc)
  case Nil
  then show ?case by (simp add: of_ret)
next
  case (Cons x xs)
  show ?case unfolding fold_prog.simps
    by (rule of_bnd [OF Cons.prems Cons.IH [OF Cons.prems]]) simp_all
qed

end

end
