(* ===== verification/BootstrapFacts.thy ===== *)
theory BootstrapFacts
  imports Bootstrap AuditLog Triples
begin

text \<open>
  What the bootstrap leaves: the gate groups exist and \<open>webadmin\<close> is in them, whatever was there
  before, and a second run changes nothing. LLDAP enters as a directory that its requests act on,
  with laws its documentation states.
\<close>

section \<open>The login loop\<close>

interpretation boot_login: bounded_retry "login_loop E c" "login_attempt E c" for E c
  by unfold_locales (auto simp: login_attempt_def run_simps split: prod.splits sum.splits)

lemma login_try_count: "bo_logins (snd (login_try E c s)) = bo_logins s + 1"
  by (auto simp: login_try_def boot_ask_def run_simps split: prod.splits sum.splits)

lemma login_attempt_count: "bo_logins (snd (login_attempt E c b s)) = bo_logins s + 1"
  using login_try_count [of E c s]
  by (auto simp: login_attempt_def run_simps split: prod.splits sum.splits)

text \<open>At most sixty requests, and a token that LLDAP gave, or \<open>SystemExit\<close>.\<close>

lemma login_bounded: "bo_logins (snd (lldap_login E c s)) \<le> bo_logins s + 60"
proof -
  have "bo_logins (snd (login_loop E c 60 s)) \<le> bo_logins s + 60 * 1"
    by (rule boot_login.loop_cost) (simp add: login_attempt_count)
  then show ?thesis by (auto simp: lldap_login_def login_retries_def run_simps split: prod.splits sum.splits)
qed

section \<open>The directory\<close>

record directory =
  di_groups :: "(json \<times> string) list"
  di_users :: "json list"
  di_members :: "(json \<times> json) list"

abbreviation has_group :: "directory \<Rightarrow> string \<Rightarrow> bool" where
  "has_group d n \<equiv> n \<in> snd ` set (di_groups d)"

text \<open>A request for something that is there already changes nothing.\<close>

definition changes_nothing :: "boot_query \<Rightarrow> directory \<Rightarrow> bool" where
  "changes_nothing q d = (case q of
     Create_group n \<Rightarrow> has_group d n
   | Create_user u _ _ \<Rightarrow> J_str u \<in> set (di_users d)
   | Add_user_to_group u g \<Rightarrow> (u, g) \<in> set (di_members d)
   | _ \<Rightarrow> True)"

definition grown :: "directory \<Rightarrow> directory \<Rightarrow> bool" where
  "grown d d' \<longleftrightarrow> set (di_groups d) \<subseteq> set (di_groups d') \<and> set (di_users d) \<subseteq> set (di_users d') \<and>
     set (di_members d) \<subseteq> set (di_members d')"

text \<open>What a reply means for the directory after it. \<open>refused\<close>: the reply lists errors, and not that the
  thing was there.\<close>

definition refused :: "(json \<Rightarrow> string) \<Rightarrow> jobj \<Rightarrow> bool" where
  "refused shw rp \<longleftrightarrow> truthy (jget rp ''errors'') \<and> \<not> says_duplicate (py_str shw (jget rp ''errors''))"

definition says_id :: "jobj \<Rightarrow> string \<Rightarrow> json \<Rightarrow> bool" where
  "says_id rp k i \<longleftrightarrow> (\<exists>p x. jget rp ''data'' = J_obj p \<and> map_of p k = Some (J_obj x) \<and> map_of x ''id'' = Some i)"

definition group_entry :: "json \<times> string \<Rightarrow> json" where
  "group_entry g = J_obj [(''id'', fst g), (''displayName'', J_str (snd g))]"

definition truthful :: "(json \<Rightarrow> string) \<Rightarrow> boot_query \<Rightarrow> jobj \<Rightarrow> directory \<Rightarrow> bool" where
  "truthful shw q rp d \<longleftrightarrow> (truthy (jget rp ''errors'') \<longrightarrow> jget rp ''data'' = J_null) \<and>
     (\<not> refused shw rp \<longrightarrow> (case q of
        List_groups \<Rightarrow> jget rp ''data'' = J_null \<or>
          jget rp ''data'' = J_obj [(''groups'', J_list (map group_entry (di_groups d)))]
      | Create_group n \<Rightarrow> \<forall>i. says_id rp ''createGroup'' i \<longrightarrow> (i, n) \<in> set (di_groups d)
      | Get_user u \<Rightarrow> \<forall>i. says_id rp ''user'' i \<longrightarrow> i = J_str u \<and> i \<in> set (di_users d)
      | Create_user u _ _ \<Rightarrow> J_str u \<in> set (di_users d) \<and> (\<forall>i. says_id rp ''createUser'' i \<longrightarrow> i = J_str u)
      | Add_user_to_group u g \<Rightarrow> (u, g) \<in> set (di_members d)
      | _ \<Rightarrow> True))"

text \<open>Any request may also fail, before or after it took effect.\<close>

definition lldap_directory :: "'w boot_env \<Rightarrow> ('w \<Rightarrow> directory) \<Rightarrow> bool" where
  "lldap_directory E view \<longleftrightarrow>
     (\<forall>w. distinct (map snd (di_groups (view w)))) \<and>
     (\<forall>url user pass w. view (snd (bt_login E url user pass w)) = view w) \<and>
     (\<forall>url t user pass w. view (snd (bt_set_password E url t user pass w)) = view w) \<and>
     (\<forall>url t q w. grown (view w) (view (snd (bt_graphql E url t q w))) \<and>
        (changes_nothing q (view w) \<longrightarrow> view (snd (bt_graphql E url t q w)) = view w) \<and>
        (\<forall>rp. fst (bt_graphql E url t q w) = Inr (J_obj rp) \<longrightarrow>
           truthful (bt_show E) q rp (view (snd (bt_graphql E url t q w)))))"

section \<open>What a run moves\<close>

text \<open>Two uses: a run only adds to the directory, and a run leaves it as it is.\<close>

abbreviation fixed :: "directory \<Rightarrow> directory \<Rightarrow> directory \<Rightarrow> bool" where
  "fixed d a b \<equiv> a = d \<longrightarrow> b = d"

interpretation grow: moves grown
  by unfold_locales (auto simp: grown_def)

interpretation stay: moves "fixed d" for d
  by unfold_locales auto

abbreviation gains ::
    "('w \<Rightarrow> directory) \<Rightarrow> (directory \<Rightarrow> bool) \<Rightarrow> ('w boot, 'a) prog \<Rightarrow> ('a \<Rightarrow> directory \<Rightarrow> bool) \<Rightarrow> bool" where
  "gains V \<equiv> brings grown (\<lambda>s. V (bo_world s))"

definition leaves :: "('w \<Rightarrow> directory) \<Rightarrow> directory \<Rightarrow> ('w boot, 'a) prog \<Rightarrow> ('a \<Rightarrow> bool) \<Rightarrow> bool" where
  "leaves V d m Q \<longleftrightarrow> brings (fixed d) (\<lambda>s. V (bo_world s)) (\<lambda>e. e = d) m (\<lambda>x e. e = d \<and> Q x)"

lemma leavesI:
  "(\<And>s r t. V (bo_world s) = d \<Longrightarrow> m s = (r, t) \<Longrightarrow> V (bo_world t) = d \<and> (\<forall>x. r = Inr x \<longrightarrow> Q x)) \<Longrightarrow> leaves V d m Q"
  unfolding leaves_def brings_def by blast

lemma leavesD:
  "leaves V d m Q \<Longrightarrow> m s = (r, t) \<Longrightarrow> V (bo_world s) = d \<Longrightarrow> V (bo_world t) = d \<and> (\<forall>x. r = Inr x \<longrightarrow> Q x)"
  unfolding leaves_def brings_def by blast

lemma leaves_ret: "Q x \<Longrightarrow> leaves V d (ret x) Q"
  and leaves_raise: "leaves V d (raise e) Q"
  and leaves_sum: "(\<And>x. r = Inr x \<Longrightarrow> Q x) \<Longrightarrow> leaves V d (of_sum r) Q"
  unfolding leaves_def by (rule stay.of_ret, simp) (rule stay.of_raise, rule stay.of_sums, simp)

lemma leaves_bnd:
  assumes "leaves V d m R" and "\<And>x. R x \<Longrightarrow> leaves V d (f x) Q"
  shows "leaves V d (bnd m f) Q"
  unfolding leaves_def
proof (rule stay.of_bnd [OF assms(1) [unfolded leaves_def]])
  show "brings (fixed d) (\<lambda>s. V (bo_world s)) (\<lambda>e. e = d \<and> R x) (f x) (\<lambda>x e. e = d \<and> Q x)" for x
    using assms(2) [of x] unfolding leaves_def brings_def by blast
qed

lemma leaves_thn: "leaves V d m (\<lambda>_. True) \<Longrightarrow> leaves V d k Q \<Longrightarrow> leaves V d (thn m k) Q"
  unfolding thn_def by (rule leaves_bnd)

lemma leaves_catch:
  "leaves V d m Q \<Longrightarrow> (\<And>e. leaves V d (h e) Q) \<Longrightarrow> leaves V d (catch m h) Q"
  unfolding leaves_def by (rule stay.of_catch [where K = "\<lambda>e. e = d"]) auto

lemma leaves_loop: "(\<And>x. x \<in> set xs \<Longrightarrow> leaves V d (f x) (\<lambda>_. True)) \<Longrightarrow> leaves V d (for_each xs f) (\<lambda>_. True)"
  by (induction xs) (simp_all add: leaves_ret leaves_thn)

lemma leaves_fold:
  assumes "\<And>x acc. R acc \<Longrightarrow> x \<in> set xs \<Longrightarrow> leaves V d (f x acc) R" and "R acc"
  shows "leaves V d (fold_prog f xs acc) R"
  using assms
proof (induction xs arbitrary: acc)
  case Nil
  then show ?case by (simp add: leaves_ret)
next
  case (Cons x xs)
  have "leaves V d (f x acc) R" using Cons.prems by simp
  then show ?case unfolding fold_prog.simps
    by (rule leaves_bnd) (rule Cons.IH, simp_all add: Cons.prems)
qed

section \<open>The operations\<close>

lemma boot_ask_run [run_simps]: "boot_ask f s = (fst (f (bo_world s)), s\<lparr>bo_world := snd (f (bo_world s))\<rparr>)"
  by (simp add: boot_ask_def split: prod.splits)

lemma graphql_answer:
  assumes "lldap_directory E view" and "boot_graphql E c token q s = (Inr data, t)"
  shows "\<exists>rp. truthful (bt_show E) q rp (view (bo_world t)) \<and> \<not> refused (bt_show E) rp \<and> data = jget rp ''data''"
proof -
  obtain reply where r: "fst (bt_graphql E (bc_lldap_url c) token q (bo_world s)) = Inr reply"
    and t: "bo_world t = snd (bt_graphql E (bc_lldap_url c) token q (bo_world s))"
    and d: "graphql_result (bt_show E) reply = Inr data"
    using assms(2) by (auto simp: boot_graphql_def run_simps split: sum.splits)
  from d obtain rp where rp: "reply = J_obj rp"
    by (cases reply) (auto simp: graphql_result_def as_obj_def)
  with d have "\<not> refused (bt_show E) rp" "data = jget rp ''data''"
    by (auto simp: graphql_result_def as_obj_def refused_def Let_def split: if_splits)
  with assms(1) r t rp show ?thesis unfolding lldap_directory_def by metis
qed

lemma graphql_grows:
  assumes "lldap_directory E view" and "boot_graphql E c token q s = (r, t)"
  shows "grown (view (bo_world s)) (view (bo_world t))"
  using assms by (auto simp: boot_graphql_def run_simps lldap_directory_def split: sum.splits)

lemma gains_graphql:
  assumes L: "lldap_directory E view"
    and Q: "\<And>rp d. truthful (bt_show E) q rp d \<Longrightarrow> \<not> refused (bt_show E) rp \<Longrightarrow> Q (jget rp ''data'') d"
  shows "gains view (\<lambda>_. True) (boot_graphql E c token q) Q"
proof (rule grow.bringsI)
  fix s r t
  assume "boot_graphql E c token q s = (r, t)"
  with graphql_grows [OF L this] graphql_answer [OF L, of c token q s _ t] Q
  show "grown (view (bo_world s)) (view (bo_world t)) \<and> (\<forall>x. r = Inr x \<longrightarrow> Q x (view (bo_world t)))"
    by blast
qed

lemma item_Inr: "item j k = Inr v \<longleftrightarrow> (\<exists>d. j = J_obj d \<and> map_of d k = Some v)"
  by (cases j) (auto simp: item_def split: option.splits)

lemma id_under_Some:
  "id_under k data = Inr (Some i) \<Longrightarrow> \<exists>p x. data = J_obj p \<and> map_of p k = Some (J_obj x) \<and> map_of x ''id'' = Some i"
  by (cases data) (auto simp: id_under_def as_obj_def item_Inr jget_def split: if_splits option.splits)

lemma find_group_entry: "find_group n (map group_entry gs) = Inr (Some i) \<Longrightarrow> (i, n) \<in> set gs"
  by (induction gs) (auto simp: group_entry_def item_def split: if_splits)

lemma gains_ensure_group:
  assumes "lldap_directory E view"
  shows "gains view (\<lambda>_. True) (ensure_group E c token n) (\<lambda>i d. (i, n) \<in> set (di_groups d))"
proof -
  have listed: "gains view (\<lambda>_. True) (boot_graphql E c token List_groups)
      (\<lambda>data d. data = J_null \<or> data = J_obj [(''groups'', J_list (map group_entry (di_groups d)))])"
    by (rule gains_graphql [OF assms]) (simp add: truthful_def)
  have created: "gains view (\<lambda>_. True) (boot_graphql E c token (Create_group n))
      (\<lambda>data d. \<forall>i. andthen (item data ''createGroup'') (\<lambda>g. item g ''id'') = Inr i \<longrightarrow> (i, n) \<in> set (di_groups d))"
    by (rule gains_graphql [OF assms]) (auto simp: truthful_def says_id_def item_Inr)
  show ?thesis
    unfolding ensure_group_def
  proof (rule grow.of_bnd [OF listed], rule grow.of_bnd [where R = "\<lambda>found d. \<forall>i. found = Some i \<longrightarrow> (i, n) \<in> set (di_groups d)"])
    show "gains view (\<lambda>d. data = J_null \<or> data = J_obj [(''groups'', J_list (map group_entry (di_groups d)))])
        (of_sum (andthen (listed_groups data) (find_group n))) (\<lambda>found d. \<forall>i. found = Some i \<longrightarrow> (i, n) \<in> set (di_groups d))"
      for data
    proof (rule grow.of_sums)
      fix found d
      assume r: "andthen (listed_groups data) (find_group n) = Inr found"
        and d: "data = J_null \<or> data = J_obj [(''groups'', J_list (map group_entry (di_groups d)))]"
      show "\<forall>i. found = Some i \<longrightarrow> (i, n) \<in> set (di_groups d)"
      proof (intro allI impI)
        fix i assume "found = Some i"
        with r d have "find_group n (map group_entry (di_groups d)) = Inr (Some i)"
          by (auto simp: listed_groups_def as_obj_def json_iter_def get_or_def)
        then show "(i, n) \<in> set (di_groups d)" by (rule find_group_entry)
      qed
    qed
  next
    fix found
    show "gains view (\<lambda>d. \<forall>i. found = Some i \<longrightarrow> (i, n) \<in> set (di_groups d))
        (case found of Some gid \<Rightarrow> ret gid
         | None \<Rightarrow> bnd (boot_graphql E c token (Create_group n))
             (\<lambda>data. of_sum (andthen (item data ''createGroup'') (\<lambda>g. item g ''id''))))
        (\<lambda>i d. (i, n) \<in> set (di_groups d))"
    proof (cases found)
      case None
      have "gains view (\<lambda>_. True) (bnd (boot_graphql E c token (Create_group n))
          (\<lambda>data. of_sum (andthen (item data ''createGroup'') (\<lambda>g. item g ''id''))))
          (\<lambda>i d. (i, n) \<in> set (di_groups d))"
        by (rule grow.of_bnd [OF created], rule grow.of_sums) blast
      then show ?thesis by (simp add: None)
    qed (simp add: grow.of_ret)
  qed
qed

lemma gains_existing_user:
  assumes "lldap_directory E view"
  shows "gains view (\<lambda>_. True) (existing_user E c token u)
    (\<lambda>found d. \<forall>i. found = Some i \<longrightarrow> i = J_str u \<and> J_str u \<in> set (di_users d))"
proof -
  let ?Q = "\<lambda>found d. \<forall>i. found = Some i \<longrightarrow> i = J_str u \<and> J_str u \<in> set (di_users d)"
  have answer: "gains view (\<lambda>_. True) (boot_graphql E c token (Get_user u))
      (\<lambda>data d. \<forall>i. id_under ''user'' data = Inr (Some i) \<longrightarrow> i = J_str u \<and> J_str u \<in> set (di_users d))"
    by (rule gains_graphql [OF assms]) (auto simp: truthful_def says_id_def dest!: id_under_Some)
  have tried: "gains view (\<lambda>_. True)
      (bnd (boot_graphql E c token (Get_user u)) (\<lambda>data. of_sum (id_under ''user'' data))) ?Q"
    by (rule grow.of_bnd [OF answer], rule grow.of_sums) auto
  show ?thesis
    unfolding existing_user_def
    by (rule grow.of_catch [OF tried, where K = "\<lambda>_. True"]) (auto intro: grow.of_ret grow.of_raise split: exn.splits)
qed

lemma gains_ensure_user:
  assumes "lldap_directory E view"
  shows "gains view (\<lambda>_. True) (ensure_user E c token u name) (\<lambda>i d. i = J_str u \<and> J_str u \<in> set (di_users d))"
  unfolding ensure_user_def
proof (rule grow.of_bnd [OF gains_existing_user [OF assms]])
  fix found
  let ?Q = "\<lambda>i d. i = J_str u \<and> J_str u \<in> set (di_users d)"
  have created: "gains view (\<lambda>_. True) (boot_graphql E c token (Create_user u name (u @ ''@dummy.example.com'')))
      (\<lambda>data d. J_str u \<in> set (di_users d) \<and> (\<forall>i. id_under ''createUser'' data = Inr (Some i) \<longrightarrow> i = J_str u))"
    by (rule gains_graphql [OF assms]) (auto simp: truthful_def says_id_def dest!: id_under_Some)
  have named: "gains view (\<lambda>d. J_str u \<in> set (di_users d) \<and> (\<forall>i. id_under ''createUser'' data = Inr (Some i) \<longrightarrow> i = J_str u))
      (bnd (of_sum (id_under ''createUser'' data)) (\<lambda>uid. ret (case uid of None \<Rightarrow> J_str u | Some i \<Rightarrow> i))) ?Q" for data
    by (rule grow.of_bnd [where R = "\<lambda>uid d. (\<forall>i. uid = Some i \<longrightarrow> i = J_str u) \<and> J_str u \<in> set (di_users d)"],
        rule grow.of_sums) (auto intro!: grow.of_ret split: option.splits)
  show "gains view (\<lambda>d. \<forall>i. found = Some i \<longrightarrow> ?Q i d)
    (case found of Some uid \<Rightarrow> ret uid
     | None \<Rightarrow> bnd (boot_graphql E c token (Create_user u name (u @ ''@dummy.example.com'')))
         (\<lambda>data. bnd (of_sum (id_under ''createUser'' data))
           (\<lambda>uid. ret (case uid of None \<Rightarrow> J_str u | Some i \<Rightarrow> i)))) ?Q"
    using grow.of_bnd [OF created named] by (cases found) (simp_all add: grow.of_ret)
qed

lemma gains_add:
  assumes "lldap_directory E view"
  shows "gains view (\<lambda>_. True) (add_to_group E c token u g) (\<lambda>_ d. (u, g) \<in> set (di_members d))"
  unfolding add_to_group_def
  by (rule grow.of_bnd, rule gains_graphql [OF assms, where Q = "\<lambda>_ d. (u, g) \<in> set (di_members d)"])
    (auto simp: truthful_def intro: grow.of_ret)

lemma gains_attribute:
  assumes "lldap_directory E view"
  shows "gains view (\<lambda>_. True) (set_user_attribute E c token u n v) (\<lambda>_ _. True)"
  unfolding set_user_attribute_def
  by (rule grow.of_bnd, rule gains_graphql [OF assms, where Q = "\<lambda>_ _. True"]) (simp_all add: grow.of_ret)

lemma gains_password:
  assumes "lldap_directory E view"
  shows "gains view (\<lambda>_. True) (boot_set_password E c token u pw) (\<lambda>_ _. True)"
  using assms by (auto simp: brings_def boot_set_password_def run_simps lldap_directory_def grow.refl split: sum.splits)

text \<open>A request that changes nothing leaves the directory as it is.\<close>

lemma leaves_graphql:
  assumes "lldap_directory E view" and "changes_nothing q d"
  shows "leaves view d (boot_graphql E c token q) (\<lambda>_. True)"
  using assms by (auto intro!: leavesI simp: boot_graphql_def run_simps lldap_directory_def split: sum.splits)

text \<open>Both triples of one program.\<close>

lemma leaves_gains:
  assumes "leaves V d m Q" and "gains V (\<lambda>_. True) m R" and "\<And>x. Q x \<Longrightarrow> R x d \<Longrightarrow> Q' x"
  shows "leaves V d m Q'"
proof (rule leavesI)
  fix s r t
  assume at: "V (bo_world s) = d" and run: "m s = (r, t)"
  from leavesD [OF assms(1) run at] grow.bringsD [OF assms(2) run TrueI] at assms(3)
  show "V (bo_world t) = d \<and> (\<forall>x. r = Inr x \<longrightarrow> Q' x)" by auto
qed

lemma leaves_quiet:
  assumes "lldap_directory E view"
  shows "leaves view d (set_user_attribute E c token u n v) (\<lambda>_. True)"
    and "leaves view d (ensure_custom_attributes E c token) (\<lambda>_. True)"
    and "leaves view d (boot_set_password E c token u pw) (\<lambda>_. True)"
    and "leaves view d (lldap_login E c) (\<lambda>_. True)"
proof -
  have ask: "leaves view d (boot_graphql E c token (Set_attribute u n v)) (\<lambda>_. True)"
    and add: "leaves view d (boot_graphql E c token (Add_attribute n v)) (\<lambda>_. True)" for n v
    by (simp_all add: leaves_graphql [OF assms] changes_nothing_def)
  show "leaves view d (set_user_attribute E c token u n v) (\<lambda>_. True)"
    unfolding set_user_attribute_def by (rule leaves_bnd [OF ask leaves_ret]) simp
  have "leaves view d (register_attribute E c token a) (\<lambda>_. True)" for a
    unfolding register_attribute_def
    by (rule leaves_catch, rule leaves_bnd [OF add leaves_ret]) (auto intro: leaves_ret leaves_raise split: exn.splits)
  then show "leaves view d (ensure_custom_attributes E c token) (\<lambda>_. True)"
    unfolding ensure_custom_attributes_def by (rule leaves_loop)
  show "leaves view d (boot_set_password E c token u pw) (\<lambda>_. True)"
    unfolding boot_set_password_def using assms
    by (auto intro!: leavesI simp: run_simps lldap_directory_def split: sum.splits if_splits)
  have same: "view (bo_world (snd (login_attempt E c b s))) = view (bo_world s)" for b s
    using assms
    by (auto simp: login_attempt_def login_try_def run_simps lldap_directory_def split: sum.splits prod.splits)
  have "keeps (\<lambda>s t. view (bo_world t) = view (bo_world s)) (login_loop E c n)" for n
    by (rule boot_login.loop_keeps)
      (auto simp: preorder_rel_def reflp_def transp_def keeps_def same)
  from keepsD [OF this]
  have "view (bo_world t) = view (bo_world s)" if "login_loop E c login_retries s = (r, t)" for s t r
    using that by blast
  then show "leaves view d (lldap_login E c) (\<lambda>_. True)"
    by (auto intro!: leavesI simp: lldap_login_def run_simps split: prod.splits sum.splits)
qed

section \<open>The whole run\<close>

abbreviation webadmin :: json where
  "webadmin \<equiv> J_str ''webadmin''"

definition in_group :: "directory \<Rightarrow> json \<Rightarrow> string \<Rightarrow> bool" where
  "in_group d u g \<longleftrightarrow> (\<exists>i. (i, g) \<in> set (di_groups d) \<and> (u, i) \<in> set (di_members d))"

text \<open>What a run is for.\<close>

definition settled :: "boot_conf \<Rightarrow> directory \<Rightarrow> bool" where
  "settled c d \<longleftrightarrow> (\<forall>g\<in>set (default_groups c). has_group d g) \<and>
     (bc_webadmin_pass c \<noteq> [] \<longrightarrow> webadmin \<in> set (di_users d) \<and> (\<forall>g\<in>set (default_groups c). in_group d webadmin g)) \<and>
     (\<forall>svc\<in>set service_accounts. J_str svc \<in> set (di_users d))"

definition known_ids :: "(string \<times> json) list \<Rightarrow> directory \<Rightarrow> bool" where
  "known_ids ids d \<longleftrightarrow> (\<forall>g i. map_of ids g = Some i \<longrightarrow> (i, g) \<in> set (di_groups d))"

lemma persistent [simp]:
  "persists grown (\<lambda>_. True)" "persists grown (known_ids ids)" "persists grown (\<lambda>d. in_group d u g)"
  "persists grown (\<lambda>d. has_group d g)" "persists grown (\<lambda>d. u \<in> set (di_users d))"
  by (auto simp: persists_def known_ids_def in_group_def grown_def)

lemma persists_conj: "persists G P \<Longrightarrow> persists G Q \<Longrightarrow> persists G (\<lambda>d. P d \<and> Q d)"
  by (auto simp: persists_def)

lemma group_keys:
  "fold_prog (\<lambda>g ids. bnd (m g) (\<lambda>i. ret (dict_set g i ids))) gs ids s = (Inr ids', t) \<Longrightarrow>
   set (map fst ids') = set gs \<union> set (map fst ids)"
proof (induction gs arbitrary: ids s)
  case (Cons g gs)
  then show ?case
    by (auto simp: run_simps simp del: set_map split: prod.splits sum.splits)
      (auto dest!: Cons.IH simp: keys_dict_set simp del: set_map)
qed (simp add: run_simps)

lemma gains_groups:
  assumes "lldap_directory E view"
  shows "gains view (\<lambda>_. True) (ensure_groups E c token) (\<lambda>ids d. known_ids ids d \<and> (\<forall>g\<in>set (default_groups c). has_group d g))"
proof -
  have one: "gains view (known_ids ids) (bnd (ensure_group E c token g) (\<lambda>i. ret (dict_set g i ids))) known_ids" for g ids
  proof (rule grow.of_bnd)
    show "gains view (known_ids ids) (ensure_group E c token g) (\<lambda>i d. (i, g) \<in> set (di_groups d) \<and> known_ids ids d)"
      using grow.keep [OF gains_ensure_group [OF assms], of "known_ids ids" c token g] by simp
  qed (auto intro!: grow.of_ret simp: known_ids_def split: if_splits)
  have "gains view (known_ids []) (ensure_groups E c token) known_ids"
    unfolding ensure_groups_def by (rule grow.of_fold) (rule one)
  note known = this
  have all: "\<forall>g\<in>set (default_groups c). has_group d g"
    if "known_ids ids d" and "ensure_groups E c token s = (Inr ids, t)" for ids d s t
  proof
    fix g assume "g \<in> set (default_groups c)"
    with group_keys [OF that(2) [unfolded ensure_groups_def]] obtain i where "(g, i) \<in> set ids" by fastforce
    then obtain j where "map_of ids g = Some j" by (metis weak_map_of_SomeI)
    with that(1) show "has_group d g" by (force simp: known_ids_def)
  qed
  show ?thesis
  proof (rule grow.bringsI)
    fix s r t
    assume run: "ensure_groups E c token s = (r, t)"
    have "known_ids [] (view (bo_world s))" by (simp add: known_ids_def)
    from grow.bringsD [OF known run this] all run
    show "grown (view (bo_world s)) (view (bo_world t)) \<and> (\<forall>ids. r = Inr ids \<longrightarrow>
        known_ids ids (view (bo_world t)) \<and> (\<forall>g\<in>set (default_groups c). has_group (view (bo_world t)) g))"
      by blast
  qed
qed

lemma gains_join:
  assumes "lldap_directory E view"
  shows "gains view (known_ids ids) (join_group E c token ids u g) (\<lambda>_ d. in_group d u g)"
  unfolding join_group_def
proof (rule grow.of_bnd)
  show "gains view (known_ids ids) (of_sum (id_of ids g)) (\<lambda>i d. (i, g) \<in> set (di_groups d))"
    by (rule grow.of_sums) (auto simp: id_of_def known_ids_def split: option.splits)
  have "persists grown (\<lambda>d. (i, g) \<in> set (di_groups d))" for i by (auto simp: persists_def grown_def)
  from grow.keep [OF gains_add [OF assms] this]
  show "gains view (\<lambda>d. (i, g) \<in> set (di_groups d)) (add_to_group E c token u i) (\<lambda>_ d. in_group d u g)" for i
    by (rule grow.weaken) (auto simp: in_group_def)
qed

lemma gains_webadmin:
  assumes "lldap_directory E view"
  shows "gains view (known_ids ids) (ensure_webadmin E c token ids)
    (\<lambda>_ d. bc_webadmin_pass c \<noteq> [] \<longrightarrow> webadmin \<in> set (di_users d) \<and> (\<forall>g\<in>set (default_groups c). in_group d webadmin g))"
proof (cases "bc_webadmin_pass c = []")
  case False
  let ?U = "\<lambda>d. webadmin \<in> set (di_users d)"
  have user: "gains view (known_ids ids) (ensure_user E c token ''webadmin'' ''Web Admin'')
      (\<lambda>u d. (u = webadmin \<and> ?U d) \<and> known_ids ids d)"
    using grow.keep [OF gains_ensure_user [OF assms], of "known_ids ids" c token "''webadmin''" "''Web Admin''"] by simp
  have pass: "gains view (\<lambda>d. known_ids ids d \<and> ?U d) (boot_set_password E c token ''webadmin'' (bc_webadmin_pass c))
      (\<lambda>_ d. known_ids ids d \<and> ?U d)"
    using grow.keep [OF gains_password [OF assms], of "\<lambda>d. known_ids ids d \<and> ?U d"] by (simp add: persists_conj)
  have ready: "persists grown (\<lambda>d. known_ids ids d \<and> ?U d)" by (simp add: persists_conj)
  from grow.keep [OF gains_join [OF assms] this]
  have admin: "gains view (\<lambda>d. known_ids ids d \<and> ?U d) (join_group E c token ids webadmin ''tak_ROLE_ADMIN'')
      (\<lambda>_ d. known_ids ids d \<and> ?U d \<and> in_group d webadmin ''tak_ROLE_ADMIN'')"
    by (rule grow.weaken) auto
  have all: "gains view (known_ids ids) (for_each (gate_groups c) (join_group E c token ids webadmin))
      (\<lambda>_ d. \<forall>g\<in>set (gate_groups c). in_group d webadmin g)"
    by (rule grow.of_for_each) (simp_all add: gains_join [OF assms])
  have "persists grown (\<lambda>d. ?U d \<and> in_group d webadmin ''tak_ROLE_ADMIN'')" by (simp add: persists_conj)
  from grow.keep [OF all this]
  have gates: "gains view (\<lambda>d. known_ids ids d \<and> ?U d \<and> in_group d webadmin ''tak_ROLE_ADMIN'')
      (for_each (gate_groups c) (join_group E c token ids webadmin))
      (\<lambda>_ d. ?U d \<and> (\<forall>g\<in>set (default_groups c). in_group d webadmin g))"
    by (rule grow.weaken) (auto simp: default_groups_def)
  have attr: "gains view Q (set_user_attribute E c token u n v) (\<lambda>_. Q)" if "persists grown Q" for Q u n v
    using grow.keep [OF gains_attribute [OF assms] that] by simp
  have "gains view (\<lambda>d. (u = webadmin \<and> ?U d) \<and> known_ids ids d)
      (thn (boot_set_password E c token ''webadmin'' (bc_webadmin_pass c))
      (thn (join_group E c token ids u ''tak_ROLE_ADMIN'')
      (thn (for_each (gate_groups c) (join_group E c token ids u))
           (set_user_attribute E c token ''webadmin'' ''fastak_user_type'' ''user''))))
      (\<lambda>_ d. ?U d \<and> (\<forall>g\<in>set (default_groups c). in_group d webadmin g))" for u
  proof (cases "u = webadmin")
    case True
    have "persists grown (\<lambda>d. ?U d \<and> (\<forall>g\<in>set (default_groups c). in_group d webadmin g))"
      by (auto simp: persists_def grown_def in_group_def) blast
    from grow.of_thn [OF pass grow.of_thn [OF admin grow.of_thn [OF gates attr [OF this]]]] True
    show ?thesis by (simp add: conj_commute)
  qed (simp add: brings_def)
  from grow.of_bnd [OF user this] False show ?thesis
    unfolding ensure_webadmin_def by (auto elim: grow.weaken)
qed (simp add: ensure_webadmin_def grow.of_ret)

lemma gains_quiet:
  assumes "\<And>d. leaves V d m (\<lambda>_. True)"
  shows "gains V (\<lambda>_. True) m (\<lambda>_ _. True)"
proof (rule grow.bringsI)
  fix s r t
  assume "m s = (r, t)"
  from leavesD [OF assms [of "V (bo_world s)"] this]
  show "grown (V (bo_world s)) (V (bo_world t)) \<and> (\<forall>x. r = Inr x \<longrightarrow> True)"
    by (simp add: grow.refl)
qed

lemma gains_services:
  assumes "lldap_directory E view"
  shows "gains view (\<lambda>_. True) (for_each service_accounts (\<lambda>svc. bnd (ensure_user E c token svc svc) (\<lambda>_. ret ())))
    (\<lambda>_ d. \<forall>svc\<in>set service_accounts. J_str svc \<in> set (di_users d))"
proof (rule grow.of_for_each)
  show "gains view (\<lambda>_. True) (bnd (ensure_user E c token svc svc) (\<lambda>_. ret ())) (\<lambda>_ d. J_str svc \<in> set (di_users d))" for svc
    by (rule grow.of_bnd [OF gains_ensure_user [OF assms]]) (auto intro: grow.of_ret)
qed simp_all

lemma gains_main:
  assumes "lldap_directory E view"
  shows "gains view (\<lambda>_. True) (bootstrap_main E c) (\<lambda>_. settled c)"
proof -
  let ?all = "\<lambda>d. \<forall>g\<in>set (default_groups c). has_group d g"
  let ?web = "\<lambda>d. bc_webadmin_pass c \<noteq> [] \<longrightarrow>
    webadmin \<in> set (di_users d) \<and> (\<forall>g\<in>set (default_groups c). in_group d webadmin g)"
  have p: "persists grown ?all" "persists grown ?web" "persists grown (settled c)"
    by (auto simp: persists_def settled_def in_group_def grown_def) (blast | force)+
  note quiet = gains_quiet [OF leaves_quiet(1) [OF assms]] gains_quiet [OF leaves_quiet(2) [OF assms]]
    gains_quiet [OF leaves_quiet(4) [OF assms]]
  from grow.keep [OF gains_webadmin [OF assms] p(1)]
  have web: "gains view (\<lambda>d. known_ids ids d \<and> ?all d) (ensure_webadmin E c token ids) (\<lambda>_ d. ?web d \<and> ?all d)"
    for token ids .
  from grow.keep [OF gains_services [OF assms] persists_conj [OF p(2,1)]]
  have svc: "gains view (\<lambda>d. ?web d \<and> ?all d)
      (for_each service_accounts (\<lambda>svc. bnd (ensure_user E c token svc svc) (\<lambda>_. ret ()))) (\<lambda>_. settled c)" for token
    by (rule grow.weaken) (simp_all add: settled_def)
  from grow.keep [OF quiet(1) p(3)]
  have attr: "gains view (settled c) (set_user_attribute E c token u n v) (\<lambda>_. settled c)" for token u n v
    by simp
  show ?thesis
    unfolding bootstrap_main_def
    by (rule grow.of_bnd [OF quiet(3)], rule grow.of_thn [OF quiet(2)], rule grow.of_bnd [OF gains_groups [OF assms]],
        rule grow.of_thn [OF web], rule grow.of_thn [OF svc], rule attr)
qed

section \<open>A second run\<close>

lemma leaves_ensure_group:
  assumes "lldap_directory E view" and "has_group d n"
  shows "leaves view d (ensure_group E c token n) (\<lambda>i. (i, n) \<in> set (di_groups d))"
proof (rule leaves_gains [OF _ gains_ensure_group [OF assms(1)]])
  have create: "leaves view d (boot_graphql E c token (Create_group n)) (\<lambda>_. True)"
    using assms by (simp add: leaves_graphql changes_nothing_def)
  have look: "leaves view d (boot_graphql E c token List_groups) (\<lambda>_. True)"
    by (rule leaves_graphql [OF assms(1)]) (simp add: changes_nothing_def)
  show "leaves view d (ensure_group E c token n) (\<lambda>_. True)"
    unfolding ensure_group_def
  proof (rule leaves_bnd [OF look], rule leaves_bnd [OF leaves_sum], rule TrueI)
    show "leaves view d (case found of Some gid \<Rightarrow> ret gid
      | None \<Rightarrow> bnd (boot_graphql E c token (Create_group n))
          (\<lambda>data. of_sum (andthen (item data ''createGroup'') (\<lambda>g. item g ''id'')))) (\<lambda>_. True)" for found
      by (cases found) (simp_all only: option.case leaves_ret leaves_bnd [OF create leaves_sum])
  qed
qed simp

lemma leaves_ensure_user:
  assumes "lldap_directory E view" and "J_str u \<in> set (di_users d)"
  shows "leaves view d (ensure_user E c token u name) (\<lambda>i. i = J_str u)"
proof (rule leaves_gains [OF _ gains_ensure_user [OF assms(1)]])
  have ask: "leaves view d (boot_graphql E c token (Get_user u)) (\<lambda>_. True)"
    by (rule leaves_graphql [OF assms(1)]) (simp add: changes_nothing_def)
  have look: "leaves view d (existing_user E c token u) (\<lambda>_. True)"
    unfolding existing_user_def
    by (rule leaves_catch, rule leaves_bnd [OF ask leaves_sum])
      (auto intro: leaves_ret leaves_raise split: exn.splits)
  have create: "leaves view d (boot_graphql E c token (Create_user u name m)) (\<lambda>_. True)" for m
    using assms by (simp add: leaves_graphql changes_nothing_def)
  show "leaves view d (ensure_user E c token u name) (\<lambda>_. True)"
    unfolding ensure_user_def
  proof (rule leaves_bnd [OF look])
    show "leaves view d (case found of Some uid \<Rightarrow> ret uid
      | None \<Rightarrow> bnd (boot_graphql E c token (Create_user u name (u @ ''@dummy.example.com''))) (\<lambda>data.
          bnd (of_sum (id_under ''createUser'' data)) (\<lambda>uid. ret (case uid of Some i \<Rightarrow> i | None \<Rightarrow> J_str u)))) (\<lambda>_. True)" for found
      by (cases found) (simp_all only: option.case leaves_ret leaves_bnd [OF create leaves_bnd [OF leaves_sum leaves_ret]])
  qed
qed simp

text \<open>LLDAP's group names are unique, so the id the bootstrap has for a group is the id of the membership.\<close>

lemma leaves_join:
  assumes "lldap_directory E view" and "distinct (map snd (di_groups d))" and "known_ids ids d" and "in_group d u g"
  shows "leaves view d (join_group E c token ids u g) (\<lambda>_. True)"
  unfolding join_group_def
proof (rule leaves_bnd)
  from assms(2) have inj: "inj_on snd (set (di_groups d))" by (simp add: distinct_map)
  have "i = j" if "(i, g) \<in> set (di_groups d)" "(j, g) \<in> set (di_groups d)" for i j
    using inj_onD [OF inj, of "(i, g)" "(j, g)"] that by simp
  with assms(3,4) show "leaves view d (of_sum (id_of ids g)) (\<lambda>i. (u, i) \<in> set (di_members d))"
    by (intro leaves_sum) (auto simp: id_of_def known_ids_def in_group_def split: option.splits)
  show "leaves view d (add_to_group E c token u i) (\<lambda>_. True)" if "(u, i) \<in> set (di_members d)" for i
    unfolding add_to_group_def
    by (rule leaves_bnd [OF leaves_graphql [OF assms(1)] leaves_ret]) (simp_all add: changes_nothing_def that)
qed

lemma leaves_webadmin:
  assumes "lldap_directory E view" and "distinct (map snd (di_groups d))" and "settled c d" and "known_ids ids d"
  shows "leaves view d (ensure_webadmin E c token ids) (\<lambda>_. True)"
proof (cases "bc_webadmin_pass c = []")
  case True
  then show ?thesis unfolding ensure_webadmin_def by (simp add: leaves_ret)
next
  case False
  with assms(3) have user: "webadmin \<in> set (di_users d)"
    and member: "g \<in> set (default_groups c) \<Longrightarrow> in_group d webadmin g" for g
    by (auto simp: settled_def)
  have join: "g \<in> set (default_groups c) \<Longrightarrow> leaves view d (join_group E c token ids webadmin g) (\<lambda>_. True)" for g
    by (rule leaves_join [OF assms(1,2,4) member])
  have gates: "leaves view d (for_each (gate_groups c) (join_group E c token ids webadmin)) (\<lambda>_. True)"
    by (rule leaves_loop, rule join) (simp add: default_groups_def)
  have admin: "leaves view d (join_group E c token ids webadmin ''tak_ROLE_ADMIN'') (\<lambda>_. True)"
    by (rule join) (simp add: default_groups_def)
  note quiet = leaves_quiet [OF assms(1)]
  show ?thesis
    unfolding ensure_webadmin_def if_not_P [OF False]
    by (rule leaves_bnd [OF leaves_ensure_user [OF assms(1) user]], hypsubst)
      (rule leaves_thn [OF quiet(3) leaves_thn [OF admin leaves_thn [OF gates quiet(1)]]])
qed

lemma leaves_groups:
  assumes "lldap_directory E view" and "\<forall>g\<in>set (default_groups c). has_group d g"
  shows "leaves view d (ensure_groups E c token) (\<lambda>ids. known_ids ids d)"
  unfolding ensure_groups_def
proof (rule leaves_fold)
  fix g ids
  assume ids: "known_ids ids d" and "g \<in> set (default_groups c)"
  with leaves_ensure_group [OF assms(1)] assms(2)
  have "leaves view d (ensure_group E c token g) (\<lambda>i. (i, g) \<in> set (di_groups d))" by blast
  then show "leaves view d (bnd (ensure_group E c token g) (\<lambda>i. ret (dict_set g i ids))) (\<lambda>ids. known_ids ids d)"
    by (rule leaves_bnd, intro leaves_ret) (use ids in \<open>auto simp: known_ids_def split: if_splits\<close>)
qed (simp add: known_ids_def)

lemma leaves_main:
  assumes "lldap_directory E view" and "distinct (map snd (di_groups d))" and "settled c d"
  shows "leaves view d (bootstrap_main E c) (\<lambda>_. True)"
proof -
  note quiet = leaves_quiet [OF assms(1)]
  from assms(3) have groups: "\<forall>g\<in>set (default_groups c). has_group d g"
    and users: "svc \<in> set service_accounts \<Longrightarrow> J_str svc \<in> set (di_users d)" for svc by (simp_all add: settled_def)
  have svc: "leaves view d (for_each service_accounts (\<lambda>svc. bnd (ensure_user E c token svc svc) (\<lambda>_. ret ()))) (\<lambda>_. True)" for token
    by (rule leaves_loop, rule leaves_bnd [OF leaves_ensure_user [OF assms(1) users] leaves_ret]) simp_all
  show ?thesis
    unfolding bootstrap_main_def
    by (rule leaves_bnd [OF quiet(4)], rule leaves_thn [OF quiet(2)], rule leaves_bnd [OF leaves_groups [OF assms(1) groups]])
      (rule leaves_thn [OF leaves_webadmin [OF assms] leaves_thn [OF svc quiet(1)]])
qed

text \<open>\<open>graphql\<close> takes an error that says the thing is there for success and returns the reply's null data.
  \<open>ensure_user\<close> expects that; \<open>ensure_group\<close> subscripts it, and the bootstrap ends in a \<open>TypeError\<close> where it
  lost a race for a group.\<close>

lemma swallowed_duplicate_crashes:
  assumes "boot_graphql E c token List_groups s = (Inr data, t)" and "andthen (listed_groups data) (find_group n) = Inr None"
    and "fst (bt_graphql E (bc_lldap_url c) token (Create_group n) (bo_world t)) =
      Inr (J_obj [(''errors'', J_str ''group already exists''), (''data'', J_null)])"
  shows "fst (ensure_group E c token n s) = Inl TypeError"
proof -
  have "graphql_result (bt_show E) (J_obj [(''errors'', J_str ''group already exists''), (''data'', J_null)]) = Inr J_null"
    by (simp add: graphql_result_def as_obj_def jget_def get_or_def) (simp add: says_duplicate_def, code_simp)
  with assms(3) have "fst (boot_graphql E c token (Create_group n) t) = Inr J_null"
    by (simp add: boot_graphql_def run_simps)
  with assms(1,2) show ?thesis
    by (auto simp: ensure_group_def run_simps item_def split: prod.splits sum.splits)
qed

section \<open>A directory that keeps the laws\<close>

text \<open>Groups, users and memberships by name; a group's id is its name.\<close>

type_synonym tiny = "string list \<times> string list \<times> (string \<times> string) list"

fun tiny_view :: "tiny \<Rightarrow> directory" where
  "tiny_view (gs, us, ms) =
     \<lparr>di_groups = map (\<lambda>n. (J_str n, n)) (remdups gs), di_users = map J_str us,
      di_members = map (\<lambda>m. (J_str (fst m), J_str (snd m))) ms\<rparr>"

abbreviation tiny_data :: "jobj \<Rightarrow> exn + json" where
  "tiny_data d \<equiv> Inr (J_obj [(''data'', J_obj d)])"

abbreviation tiny_error :: "string \<Rightarrow> exn + json" where
  "tiny_error m \<equiv> Inr (J_obj [(''errors'', J_str m), (''data'', J_null)])"

fun tiny_graphql :: "string \<Rightarrow> json \<Rightarrow> boot_query \<Rightarrow> tiny \<Rightarrow> (exn + json) \<times> tiny" where
  "tiny_graphql url t List_groups (gs, us, ms) =
     (tiny_data [(''groups'', J_list (map group_entry (di_groups (tiny_view (gs, us, ms)))))], gs, us, ms)"
| "tiny_graphql url t (Create_group n) (gs, us, ms) =
     (if n \<in> set gs then (tiny_error ''already exists'', gs, us, ms)
      else (tiny_data [(''createGroup'', J_obj [(''id'', J_str n)])], n # gs, us, ms))"
| "tiny_graphql url t (Get_user u) (gs, us, ms) =
     (if u \<in> set us then tiny_data [(''user'', J_obj [(''id'', J_str u)])] else tiny_error ''not found'', gs, us, ms)"
| "tiny_graphql url t (Create_user u x y) (gs, us, ms) =
     (if u \<in> set us then (tiny_error ''already exists'', gs, us, ms)
      else (tiny_data [(''createUser'', J_obj [(''id'', J_str u)])], gs, u # us, ms))"
| "tiny_graphql url t (Add_user_to_group (J_str u) (J_str g)) (gs, us, ms) =
     (tiny_data [], gs, us, if (u, g) \<in> set ms then ms else (u, g) # ms)"
| "tiny_graphql url t (Add_user_to_group u g) w = (tiny_error ''bad id'', w)"
| "tiny_graphql url t (Set_attribute u n v) w = (tiny_data [], w)"
| "tiny_graphql url t (Add_attribute n ty) w = (tiny_data [], w)"

definition tiny_lldap :: "tiny boot_env" where
  "tiny_lldap = \<lparr>bt_login = \<lambda>url user pass w. (Inr (J_obj [(''token'', J_str ''t'')]), w), bt_graphql = tiny_graphql,
     bt_set_password = \<lambda>url t user pass w. (Inr (0, []), w), bt_show = \<lambda>j. []\<rparr>"

lemma tiny_says:
  "says_duplicate ''already exists''" "\<not> says_duplicate ''not found''" "\<not> says_duplicate ''bad id''"
  by code_simp+

lemma tiny_keeps_laws: "lldap_directory tiny_lldap tiny_view"
proof -
  have "grown (tiny_view w) (tiny_view (snd (tiny_graphql url t q w))) \<and>
      (changes_nothing q (tiny_view w) \<longrightarrow> tiny_view (snd (tiny_graphql url t q w)) = tiny_view w) \<and>
      (\<forall>rp. fst (tiny_graphql url t q w) = Inr (J_obj rp) \<longrightarrow>
        truthful (\<lambda>j. []) q rp (tiny_view (snd (tiny_graphql url t q w))))" for url t q w
    by (induction url t q w rule: tiny_graphql.induct)
      (auto simp: grown_def changes_nothing_def truthful_def refused_def says_id_def jget_def get_or_def
        tiny_says image_iff, force+)
  moreover have "distinct (map snd (di_groups (tiny_view w)))" for w
    by (cases w) (simp add: comp_def)
  ultimately show ?thesis by (simp add: lldap_directory_def tiny_lldap_def)
qed

definition tiny_environ :: "string \<Rightarrow> string option" where
  "tiny_environ = [''LDAP_ADMIN_PASSWORD'' \<mapsto> ''a'', ''TAK_WEBADMIN_PASSWORD'' \<mapsto> ''b'', ''BACKUP_ADMIN_GROUP'' \<mapsto> ''ops'']"

definition tiny_conf :: boot_conf where
  "tiny_conf = (case read_boot_conf tiny_environ of Inr c \<Rightarrow> c)"

definition tiny_start :: "tiny boot" where
  "tiny_start = \<lparr>bo_world = ([''other''], [''alice''], [(''alice'', ''other'')]), bo_logins = 0, bo_pauses = 0\<rparr>"

lemma tiny_run:
  "fst (bootstrap_main tiny_lldap tiny_conf tiny_start) = Inr ()"
  "bo_world (snd (bootstrap_main tiny_lldap tiny_conf tiny_start)) =
     ([''ops'', ''monitor_admin'', ''tak_ROLE_ADMIN'', ''other''], [''svc_fasttakapi'', ''webadmin'', ''alice''],
      [(''webadmin'', ''ops''), (''webadmin'', ''monitor_admin''), (''webadmin'', ''tak_ROLE_ADMIN''), (''alice'', ''other'')])"
  by code_simp+

section \<open>What it comes to\<close>

text \<open>C7. The bootstrap is idempotent, as it says. However it ends, it has removed nothing from the directory.
  Once it has returned, the gate groups, the service account and, if it has a password, \<open>webadmin\<close> in every
  gate group are there; and from then on a run, whether it returns or fails, leaves the directory as it is.\<close>

theorem bootstrap_settles:
  assumes "lldap_directory E view" and "bootstrap_main E c s = (r, t)"
  shows "grown (view (bo_world s)) (view (bo_world t)) \<and>
    (r = Inr () \<longrightarrow> settled c (view (bo_world t)) \<and>
      (\<forall>u. view (bo_world u) = view (bo_world t) \<longrightarrow>
        view (bo_world (snd (bootstrap_main E c u))) = view (bo_world t)))"
proof -
  from grow.bringsD [OF gains_main [OF assms(1)] assms(2)]
  have run: "grown (view (bo_world s)) (view (bo_world t)) \<and> (r = Inr () \<longrightarrow> settled c (view (bo_world t)))"
    by simp
  have "view (bo_world (snd (bootstrap_main E c u))) = view (bo_world t)"
    if "settled c (view (bo_world t))" "view (bo_world u) = view (bo_world t)" for u
  proof -
    from assms(1) have "distinct (map snd (di_groups (view (bo_world t))))" by (simp add: lldap_directory_def)
    from leavesD [OF leaves_main [OF assms(1) this that(1)] surjective_pairing that(2)] show ?thesis by simp
  qed
  with run show ?thesis by blast
qed

lemma bootstrap_settles_witness:
  "settled tiny_conf (tiny_view (bo_world (snd (bootstrap_main tiny_lldap tiny_conf tiny_start))))"
proof -
  obtain t where run: "bootstrap_main tiny_lldap tiny_conf tiny_start = (Inr (), t)"
    using tiny_run(1) by (metis prod.collapse)
  from bootstrap_settles [OF tiny_keeps_laws run] have "settled tiny_conf (tiny_view (bo_world t))" by blast
  then show ?thesis unfolding run by (simp only: snd_conv)
qed

text \<open>A run of the bootstrap followed by a request of \<open>webadmin\<close> to the monitor.\<close>

definition group_name :: "string \<Rightarrow> bool" where
  "group_name g \<longleftrightarrow> strip g = g \<and> g \<noteq> [] \<and> CHR '','' \<notin> set g"

lemma header_groups_join:
  assumes "\<forall>g\<in>set gs. group_name g"
  shows "set (header_groups (Some (join '','' gs))) = set gs"
proof (cases "gs = []")
  case False
  with assms have "split_on (CHR '','') (join '','' gs) = gs" by (intro split_on_join) (auto simp: group_name_def)
  moreover have "map strip gs = gs" using assms by (simp add: group_name_def map_idI)
  moreover have "filter (\<lambda>g. g \<noteq> []) gs = gs" using assms by (simp add: group_name_def filter_id_conv)
  ultimately show ?thesis by (simp add: header_groups_def)
qed (simp add: header_groups_def strip_def lstrip_def)

lemma strip_default: "strip ''monitor_admin'' = ''monitor_admin''"
  by code_simp

lemma group_agreed:
  "(case envir var of None \<Rightarrow> True | Some g \<Rightarrow> group_name g) \<Longrightarrow>
   required_group envir var admin_group_default = group_from_env envir var"
  by (auto simp: required_group_def admin_group_default_def group_from_env_def env_get_def group_name_def Let_def
      strip_default split: option.splits)

lemma strip_idem: "strip (strip x) = strip x"
proof (cases "strip x = []")
  case False
  have parts: "lstrip x = strip x @ rev (takeWhile is_space (rev (lstrip x)))"
    unfolding strip_def by (metis rev_append rev_rev_ident takeWhile_dropWhile_id)
  with False have "hd (strip x) = hd (lstrip x)" and "lstrip x \<noteq> []" by (metis append_is_Nil_conv hd_append2)+
  then have "\<not> is_space (hd (strip x))" by (simp add: lstrip_def hd_dropWhile)
  with False have l: "lstrip (strip x) = strip x" by (cases "strip x") (simp_all add: lstrip_def)
  show ?thesis unfolding strip_def [of "strip x"] l by (simp add: strip_def dropWhile_idem)
next
  case True
  then show ?thesis by (simp only:) (simp add: strip_def lstrip_def)
qed

text \<open>C8. The bootstrap lets \<open>webadmin\<close> into the monitor. The gate groups may be renamed in the environment, to
  anything that is a name as it stands: not empty, without blanks around it and without a comma. After a run
  that returned with a password for \<open>webadmin\<close>, a request whose \<open>Remote-Groups\<close> header lists \<open>webadmin\<close>'s groups
  passes the gate of every route, with the monitor reading the same variables.\<close>

theorem webadmin_let_in:
  assumes "lldap_directory E view" and "read_boot_conf envir = Inr c" and "bc_webadmin_pass c \<noteq> []"
    and "bootstrap_main E c s = (Inr (), t)"
    and "\<forall>var\<in>{''ADMIN_GROUP'', ''BACKUP_ADMIN_GROUP''}. case envir var of None \<Rightarrow> True | Some g \<Rightarrow> group_name g"
    and "\<forall>g. g \<in> set gs \<longleftrightarrow> in_group (view (bo_world t)) webadmin g" and "\<forall>g\<in>set gs. group_name g"
    and "rq_remote_groups r = Some (join '','' gs)"
  shows "require_admin envir (auth_context_of r) = Inr () \<and>
    require_group envir ''BACKUP_ADMIN_GROUP'' admin_group_default (auth_context_of r) = Inr ()"
proof -
  from grow.bringsD [OF gains_main [OF assms(1)] assms(4)] have "settled c (view (bo_world t))" by simp
  with assms(3) have member: "g \<in> set (gate_groups c) \<Longrightarrow> in_group (view (bo_world t)) webadmin g" for g
    by (auto simp: settled_def default_groups_def)
  from assms(2) have names: "bc_admin_group c = group_from_env envir ''ADMIN_GROUP''"
      "bc_backup_admin_group c = group_from_env envir ''BACKUP_ADMIN_GROUP''"
    by (auto simp: read_boot_conf_def split: option.splits)
  have gates: "bc_admin_group c \<in> set (gate_groups c)" "bc_backup_admin_group c \<in> set (gate_groups c)"
    by (auto simp: gate_groups_def keys_dict_set simp del: set_map)
  have "required_group envir var admin_group_default \<in> set (ac_groups (auth_context_of r))"
    if "var \<in> {''ADMIN_GROUP'', ''BACKUP_ADMIN_GROUP''}" for var
  proof -
    from that assms(5) have "required_group envir var admin_group_default = group_from_env envir var"
      by (intro group_agreed) blast
    with that names gates member assms(6) have "required_group envir var admin_group_default \<in> set gs" by auto
    then show ?thesis by (simp add: auth_context_of_def assms(8) header_groups_join [OF assms(7)])
  qed
  then show ?thesis by (simp add: require_admin_def require_group_def Let_def)
qed

lemma tiny_member: "in_group (tiny_view (gs, us, ms)) (J_str u) g \<longleftrightarrow> g \<in> set gs \<and> (u, g) \<in> set ms"
  by (auto simp: in_group_def image_iff) (metis fst_conv snd_conv)+

lemma tiny_names: "group_name ''ops''" "group_name ''monitor_admin''" "group_name ''tak_ROLE_ADMIN''"
  by code_simp+

lemma webadmin_let_in_witness:
  "require_admin tiny_environ (auth_context_of \<lparr>rq_method = ''GET'', rq_path = ''/api/users'',
     rq_remote_user = Some ''webadmin'', rq_remote_groups = Some ''monitor_admin,ops,tak_ROLE_ADMIN'',
     rq_client = None, rq_body = No_body\<rparr>) = Inr ()"
proof -
  let ?gs = "[''monitor_admin'', ''ops'', ''tak_ROLE_ADMIN'']"
  obtain t where run: "bootstrap_main tiny_lldap tiny_conf tiny_start = (Inr (), t)"
    and w: "bo_world t = bo_world (snd (bootstrap_main tiny_lldap tiny_conf tiny_start))"
    using tiny_run(1) by (metis prod.collapse)
  have conf: "read_boot_conf tiny_environ = Inr tiny_conf" by code_simp
  have pass: "bc_webadmin_pass tiny_conf \<noteq> []" by code_simp
  have vars: "\<forall>var\<in>{''ADMIN_GROUP'', ''BACKUP_ADMIN_GROUP''}.
      case tiny_environ var of None \<Rightarrow> True | Some g \<Rightarrow> group_name g" by (simp add: tiny_environ_def tiny_names)
  have groups: "\<forall>g. g \<in> set ?gs \<longleftrightarrow> in_group (tiny_view (bo_world t)) webadmin g"
    unfolding w tiny_run(2) tiny_member by auto
  have names: "\<forall>g\<in>set ?gs. group_name g" by (simp add: tiny_names)
  show ?thesis
    using webadmin_let_in [OF tiny_keeps_laws conf pass run vars groups names] by simp
qed

text \<open>A name that is not one as it stands gates everybody out: the bootstrap creates the group with the name
  stripped, or the default one, and the monitor asks for the name as it was written.\<close>

lemma unstripped_name_locks_out:
  assumes "environ var = Some g" and "strip g \<noteq> g \<or> g = []"
  shows "group_from_env environ var \<noteq> required_group environ var dflt \<and>
    fst (handle recorded (require_group environ var dflt) r route s) = Inr 403"
proof -
  have "\<forall>h\<in>set (header_groups hd). strip h = h \<and> h \<noteq> []" for hd
    by (auto simp: header_groups_def strip_idem split: option.splits)
  with assms have "g \<notin> set (header_groups (rq_remote_groups r))" by blast
  with assms(1) have "handle recorded (require_group environ var dflt) r route s = (Inr 403, s)"
    by (intro outsider_refused) (simp add: required_group_def)
  with assms show ?thesis
    by (auto simp: group_from_env_def env_get_def required_group_def Let_def strip_idem strip_default)
qed

end
