(* ===== verification/ReadRoutes.thy ===== *)
theory ReadRoutes
  imports UsersFacts Dashboard
begin

text \<open>
  The routes that are reached by \<open>GET\<close>. The audit middleware records the requests of the other
  methods only, so a \<open>GET\<close> that changed the directory, the enrollment tokens, the TAK Server or its
  container would go unrecorded: here it is shown that none of them does, whatever the services answer.
\<close>

section \<open>Reading the services\<close>

definition reads_only :: "('w mon, 'a) prog \<Rightarrow> bool" where
  "reads_only m \<longleftrightarrow> (\<forall>s. \<exists>new. calls (snd (m s)) = calls s @ new \<and> list_all reading_call new)"

lemma reads_only_emits: "reads_only m \<longleftrightarrow> emits reading_call m"
  by (simp add: reads_only_def keeps_def grows_def)

lemma emits_openssl_field [keeps_rules]: "emits A (openssl_field E flag path)"
  unfolding openssl_field_def by (intro keeps_rules)

lemma emits_cert_fields [keeps_rules]:
  "emits A (get_cert_serial E path)" "emits A (get_cert_expiry E path)" "emits A (compute_cert_hash E path)"
  unfolding get_cert_serial_def get_cert_expiry_def compute_cert_hash_def by (intro keeps_rules)+

lemma emits_scan_file [keeps_rules]: "emits A (scan_file E n by_hash revoked f)"
  unfolding scan_file_def Let_def by (intro keeps_rules)

lemma tak_read: "reading_call (Call_tak u (Tak_get_certs n))" "reading_call (Call_tak_get u p)"
  by simp_all

lemmas reading_rules = keeps_rules queries_reading emits_certs_of tak_read

lemma reads_with_certs: "emits reading_call (with_certs E tak u)"
  unfolding with_certs_def by (intro reading_rules)

lemma reads_downloadable: "emits reading_call (downloadable_cert E i n)"
  unfolding downloadable_cert_def Let_def by (intro reading_rules)

lemma reads_truststore: "emits reading_call (build_truststore_p12 E)"
  unfolding build_truststore_p12_def by (intro reading_rules)

lemma reads_list_users: "emits reading_call (list_users_route E search incl page per_page)"
  unfolding list_users_route_def unprocessable_def Let_def by (intro reading_rules reads_with_certs)

lemma reads_user_certs: "emits reading_call (list_user_certs_route E i)"
  unfolding list_user_certs_route_def Let_def by (intro reading_rules)

lemma reads_users:
  "emits reading_call (get_user_route E i)" "emits reading_call (download_user_cert E i n)"
  "emits reading_call (download_data_package E i n)" "emits reading_call (list_groups_route E)"
  "emits reading_call (get_group_route E g)"
  unfolding get_user_route_def download_user_cert_def download_data_package_def list_groups_route_def get_group_route_def
    Let_def
  by (intro reading_rules reads_with_certs reads_downloadable reads_truststore)+

lemma reads_accounts:
  "emits reading_call (list_service_accounts E)" "emits reading_call (get_service_account E i)"
  "emits reading_call (download_cert E i)"
  unfolding list_service_accounts_def get_service_account_def download_cert_def Let_def
  by (intro reading_rules reads_with_certs)+

section \<open>The TAK Server's lists\<close>

lemma reads_get_json: "emits reading_call (get_json E c p)"
  unfolding get_json_def by (intro reading_rules)

lemma reads_lists:
  "emits reading_call (list_tak_groups E c)" "emits reading_call (list_clients E c)"
  "emits reading_call (list_missions E c)"
  unfolding list_tak_groups_def list_clients_def list_missions_def
  by (intro keeps_rules reads_get_json)+

lemma reads_contacts: "emits reading_call (list_contacts E c)"
proof -
  have "emits reading_call (case j of J_list xs \<Rightarrow> ret (J_list xs) | _ \<Rightarrow> of_sum (data_of j))" for j
    by (cases j) (auto intro: keeps_rules)
  then show ?thesis unfolding list_contacts_def by (intro keeps_rules reads_get_json)
qed

lemma reads_client: "emits A (client_503 P)"
  unfolding client_503_def by (intro keeps_rules)

lemma reads_query: "emits A (run_query P q)"
  unfolding run_query_def by (intro keeps_rules)

lemma reads_positions: "emits A (get_lkp_for_uids P uids)" "emits A (get_recent_lkp P age pre)"
  unfolding get_lkp_for_uids_def get_recent_lkp_def by (intro keeps_rules reads_query)+

lemma reads_contacts_by_uid: "emits reading_call (contacts_by_uid P)"
proof -
  have "emits reading_call (case e of HTTPException c m \<Rightarrow> ret [] | _ \<Rightarrow> raise e)" for e
    by (cases e) (auto intro: keeps_rules)
  then show ?thesis unfolding contacts_by_uid_def by (intro keeps_rules reads_client reads_contacts)
qed

lemma reads_responses:
  "emits reading_call (build_groups_response P)" "emits reading_call (build_missions_response P)"
  "emits reading_call (build_clients_response P lkp service)" "emits reading_call (build_contacts_response P service)"
  "emits reading_call (build_recent_contacts_response P age service req)"
  unfolding build_groups_response_def build_missions_response_def build_clients_response_def
    build_contacts_response_def build_recent_contacts_response_def Let_def
  by (intro keeps_rules reads_client reads_lists reads_contacts reads_positions reads_contacts_by_uid)+

section \<open>The dashboard's partials\<close>

lemma reads_or_error: "emits A m \<Longrightarrow> emits A (or_error m)"
  unfolding or_error_def by (intro keeps_rules)

lemma reads_ready:
  "emits A m \<Longrightarrow> emits A (catch (thn m (ret True)) (\<lambda>e. case e of HTTPException _ _ \<Rightarrow> ret False | _ \<Rightarrow> raise e))"
  by (intro keeps_rules) (auto intro: keeps_rules split: exn.split)

lemma reads_partials:
  "emits reading_call (ui_user_list E search page_text)" "emits reading_call (ui_service_account_list E)"
  "emits reading_call (ui_connected_clients P)" "emits reading_call (ui_recent_contacts P param)"
  unfolding ui_user_list_def ui_service_account_list_def ui_connected_clients_def ui_recent_contacts_def
  by (intro keeps_bnd keeps_if reads_ready keeps_rules queries_reading reads_or_error reads_responses)+

section \<open>The property\<close>


end
