(* ===== verification/CotReference.thy ===== *)
theory CotReference
  imports DateTime "HOL-Library.Multiset"
begin

text \<open>
  \<open>scripts/mkdocs-hooks/generate_cot_reference.py\<close>, the hook that writes the reference of the CoT types
  from the registry before the documentation is built. The XML reader is a parameter: the registry is the
  list of the attributes of its \<open>cot\<close> elements. So are the characters beyond the first 256 code points.
\<close>

section \<open>Vocabulary\<close>

record glyphs =
  gl_dash :: string       \<comment> \<open>U+2014\<close>
  gl_bar :: string        \<comment> \<open>U+2502\<close>
  gl_branch :: string     \<comment> \<open>U+2514 U+2500\<close>

text \<open>Code, name and description.\<close>

definition event_types :: "glyphs \<Rightarrow> (string \<times> string \<times> string) list" where
  "event_types g =
     [(''a'', ''Atoms'', ''Actual physical entities '' @ gl_dash g @ '' people, vehicles, aircraft, structures''),
      (''b'', ''Bits'', ''Meta-information about data sources '' @ gl_dash g @ '' imagery, sensor data, routes, mappings''),
      (''c'', ''Capability'', ''Applied to an area '' @ gl_dash g @ '' surveillance, rescue, fires, logistics, communications''),
      (''r'', ''Reservation/Restriction'', ''Area notices '' @ gl_dash g @ '' unsafe zones, contamination, flight restrictions''),
      (''t'', ''Tasking'', ''Requests and orders for service '' @ gl_dash g @ '' surveillance, strike, mensurate''),
      (''u'', ''Map'', ''User-drawn map objects '' @ gl_dash g @ '' drawings, shapes, range and bearing, obstacles''),
      (''y'', ''Reply'', ''Responses to tasking '' @ gl_dash g @ '' ack, status, completion, failure'')]"

definition affiliations :: "(string \<times> string) list" where
  "affiliations =
     [(''p'', ''Pending''), (''u'', ''Unknown''), (''a'', ''Assumed Friend''), (''f'', ''Friend''), (''n'', ''Neutral''),
      (''s'', ''Suspect''), (''h'', ''Hostile''), (''j'', ''Joker''), (''k'', ''Faker''), (''o'', ''None Specified''),
      (''x'', ''Other (DEPRECATED)''), (''.'', ''Wildcard (any affiliation)'')]"

definition battle_dimensions :: "(string \<times> string) list" where
  "battle_dimensions =
     [(''P'', ''Space''), (''A'', ''Air''), (''G'', ''Ground''), (''S'', ''Sea Surface''), (''U'', ''Sea Subsurface''),
      (''X'', ''Other'')]"

section \<open>The registry\<close>

record cot_entry =
  co_code :: string
  co_full :: string
  co_desc :: string
  co_source :: string
  co_notes :: string

text \<open>\<open>elem.get(k, "").strip()\<close>; an element without a code is passed over.\<close>

definition attribute_of :: "(string \<times> string) list \<Rightarrow> string \<Rightarrow> string" where
  "attribute_of elem k = strip (case map_of elem k of None \<Rightarrow> [] | Some v \<Rightarrow> v)"

definition cot_entry_of :: "(string \<times> string) list \<Rightarrow> cot_entry" where
  "cot_entry_of elem =
     \<lparr>co_code = attribute_of elem ''cot'', co_full = attribute_of elem ''full'', co_desc = attribute_of elem ''desc'',
      co_source = attribute_of elem ''source'', co_notes = attribute_of elem ''notes''\<rparr>"

definition parse_registry :: "(string \<times> string) list list \<Rightarrow> cot_entry list" where
  "parse_registry elems = map cot_entry_of (filter (\<lambda>elem. attribute_of elem ''cot'' \<noteq> []) elems)"

text \<open>\<open>tree.setdefault(key, []).append(x)\<close>.\<close>

definition dict_append :: "string \<Rightarrow> 'a \<Rightarrow> (string \<times> 'a list) list \<Rightarrow> (string \<times> 'a list) list" where
  "dict_append k x d = dict_set k ((case map_of d k of None \<Rightarrow> [] | Some xs \<Rightarrow> xs) @ [x]) d"

definition group_key :: "cot_entry \<Rightarrow> string" where
  "group_key e = (case split_on (CHR ''/'') (co_full e) of
     a # b # _ \<Rightarrow> a @ ''/'' @ b
   | a # _ \<Rightarrow> a
   | [] \<Rightarrow> [])"

definition build_tree :: "cot_entry list \<Rightarrow> (string \<times> cot_entry list) list" where
  "build_tree entries = fold (\<lambda>e tree. if co_full e = [] then tree else dict_append (group_key e) e tree) entries []"

section \<open>The decoder\<close>

text \<open>Looking up a code of the fixed list in \<open>AFFILIATIONS\<close> does not fail.\<close>

definition decoder_codes :: "string list" where
  "decoder_codes = [''f'', ''h'', ''n'', ''u'', ''a'', ''p'', ''s'', ''j'', ''k'', ''o'', ''.'']"

abbreviation tick_mark :: char where
  "tick_mark \<equiv> CHR 0x60"

definition coded :: "string \<Rightarrow> string" where
  "coded c = ''| '' @ [tick_mark] @ c @ [tick_mark] @ '' | ''"

definition indent :: "nat \<Rightarrow> string \<Rightarrow> string" where
  "indent n s = replicate n (CHR '' '') @ s"

definition info :: "string \<Rightarrow> string" where
  "info title = ''??? info '' @ [CHR 0x22] @ title @ [CHR 0x22] @ [newline]"

definition write_decoder :: "glyphs \<Rightarrow> string list" where
  "write_decoder g =
     (let bars = (\<lambda>n. concat (replicate n (gl_bar g @ ''     ''))); end = gl_branch g @ '' '' in
      [''## How to Read CoT Type Codes'' @ [newline],
       ''CoT type codes are dash-separated hierarchical strings. Each position'',
       ''narrows the type from general to specific:'' @ [newline],
       replicate 3 tick_mark,
       ''a  -  f  -  G  -  U  -  C  -  I'',
       bars 5 @ end @ ''Infantry'', bars 4 @ end @ ''Combat'', bars 3 @ end @ ''Unit'', bars 2 @ end @ ''Ground'',
       bars 1 @ end @ ''Friendly'', end @ ''Atom (physical entity)'',
       replicate 3 tick_mark @ [newline],
       ''The '' @ [tick_mark] @ ''.'' @ [tick_mark] @ '' in registry entries (e.g., '' @ [tick_mark] @ ''a-.-G'' @ [tick_mark] @
         '') is a wildcard '' @ gl_dash g @ '' the type'',
       ''applies to any affiliation. On the wire, substitute the actual affiliation:'',
       [tick_mark] @ ''a-f-G'' @ [tick_mark] @ '' (friendly), '' @ [tick_mark] @ ''a-h-G'' @ [tick_mark] @
         '' (hostile), etc.'' @ [newline],
       info ''Position 1: Event Type'',
       indent 4 ''| Code | Name | Description |'', indent 4 ''|------|------|-------------|''] @
      map (\<lambda>(c, n, d). indent 4 (coded c @ n @ '' | '' @ d @ '' |'')) (sort_key fst (event_types g)) @
      [[], info ''Position 2: Affiliation (atoms only)'', indent 4 ''| Code | Meaning |'', indent 4 ''|------|---------|''] @
      map (\<lambda>c. indent 4 (coded c @ the (map_of affiliations c) @ '' |'')) decoder_codes @
      [[], info ''Position 3: Battle Dimension (atoms only)'', indent 4 ''| Code | Meaning |'',
       indent 4 ''|------|---------|''] @
      map (\<lambda>(c, n). indent 4 (coded c @ n @ '' |'')) (sort_key fst battle_dimensions) @ [[]])"

section \<open>The registry's pages\<close>

definition type_order :: "string \<Rightarrow> int" where
  "type_order first = (case map_of [(''Atoms'', 0), (''Bits'', 1), (''Capability'', 2), (''Reservation-Restriction'', 3),
     (''Tasking'', 4), (''Map'', 5), (''Reply'', 6)] first of None \<Rightarrow> 99 | Some n \<Rightarrow> n)"

definition group_order :: "string \<Rightarrow> int \<times> string" where
  "group_order name = (type_order (hd (split_on (CHR ''/'') name)), name)"

definition entry_row :: "cot_entry \<Rightarrow> string" where
  "entry_row e = coded (co_code e) @ co_desc e @ '' | '' @ co_source e @ '' |''"

text \<open>A collapsible table: title, head, the entries by their codes, and an empty line.\<close>

definition table :: "nat \<Rightarrow> cot_entry list \<Rightarrow> string list" where
  "table n es =
     [indent n ''| Code | Description | Source |'', indent n ''|------|-------------|--------|''] @
     map (\<lambda>e. indent n (entry_row e)) (sort_key co_code es) @ [[]]"

definition titled :: "glyphs \<Rightarrow> string \<Rightarrow> 'a list \<Rightarrow> string" where
  "titled g name es = info (name @ '' '' @ gl_dash g @ '' '' @ str_of_int (int (length es)) @ '' types'')"

definition subgroup_key :: "cot_entry \<Rightarrow> string" where
  "subgroup_key e = (case split_on (CHR ''/'') (co_full e) of _ # _ # c # _ \<Rightarrow> c | _ \<Rightarrow> ''(General)'')"

definition subgroups :: "cot_entry list \<Rightarrow> (string \<times> cot_entry list) list" where
  "subgroups es = fold (\<lambda>e d. dict_append (subgroup_key e) e d) es []"

definition write_group :: "glyphs \<Rightarrow> string \<times> cot_entry list \<Rightarrow> string list" where
  "write_group g grp = (case grp of (name, es) \<Rightarrow>
     ([newline] @ titled g name es) #
     (if 80 < length es
      then concat (map (\<lambda>(sub, ses). indent 4 (titled g sub ses) # table 8 ses) (sort_key fst (subgroups es)))
      else table 4 es))"

definition write_registry :: "glyphs \<Rightarrow> cot_entry list \<Rightarrow> string list" where
  "write_registry g entries =
     (''## Type Registry'' @ [newline]) #
     concat (map (write_group g) (sort_key (\<lambda>grp. group_order (fst grp)) (build_tree entries)))"

text \<open>\<open>generate\<close>: what is written to \<open>cot-types.md\<close>; \<open>None\<close> where there is no registry.\<close>

definition generate_reference :: "glyphs \<Rightarrow> (string \<times> string) list list option \<Rightarrow> string option" where
  "generate_reference g xml = map_option (\<lambda>elems.
     join [newline]
       ([''# CoT Type Codes'' @ [newline],
         ''A reference for Cursor-on-Target (CoT) type codes used in TAK systems.'',
         ''This is a best-effort compilation '' @ gl_dash g @ '' not an official standard. See'',
         [tick_mark] @ ''docs/reference/cot/CoTtypes.xml'' @ [tick_mark] @ '' for the source registry with full'',
         ''provenance and traceability.'' @ [newline]] @
        write_decoder g @ write_registry g (parse_registry elems) @
        [[newline] @ ''---'' @ [newline],
         ''*Generated at build time from the FastTAK CoT Type Registry'',
         ''(2026 Consolidated Edition).*'']) @ [newline]) xml"

section \<open>Every entry has its row\<close>

lemma mset_dict_append:
  "mset (concat (map snd (dict_append k x d))) = add_mset x (mset (concat (map snd d)))"
  unfolding dict_append_def by (induction d) auto

lemma mset_fold_append:
  "mset (concat (map snd (fold (\<lambda>e d. if P e then dict_append (k e) e d else d) es d))) =
   mset (filter P es) + mset (concat (map snd d))"
  by (induction es arbitrary: d) (simp_all add: mset_dict_append)

lemma mset_tree: "mset (concat (map snd (build_tree es))) = mset (filter (\<lambda>e. co_full e \<noteq> []) es)"
proof -
  have "build_tree es = fold (\<lambda>e d. if co_full e \<noteq> [] then dict_append (group_key e) e d else d) es []"
    unfolding build_tree_def by (rule arg_cong [where f = "\<lambda>f. fold f es []"]) (auto simp: fun_eq_iff)
  then show ?thesis by (simp only: mset_fold_append) simp
qed

lemma mset_subgroups: "mset (concat (map snd (subgroups es))) = mset es"
  using mset_fold_append [of "\<lambda>_. True" subgroup_key es "[]"] by (simp add: subgroups_def)

lemma mset_concat_sorted: "mset (concat (map f (sort_key k xs))) = mset (concat (map f xs))"
  by (simp add: mset_concat flip: sum_mset_sum_list)

text \<open>The rows among the lines, without their indentation.\<close>

definition entry_rows :: "string list \<Rightarrow> string list" where
  "entry_rows ls = filter (\<lambda>l. startswith l (''| '' @ [tick_mark])) (map (dropWhile (\<lambda>c. c = CHR '' '')) ls)"

lemma entry_rows_simps [simp]:
  "entry_rows [] = []" "entry_rows (a @ b) = entry_rows a @ entry_rows b"
  "entry_rows (concat lss) = concat (map entry_rows lss)"
  by (simp_all add: entry_rows_def [abs_def] filter_concat map_concat comp_def)

lemma unindent: "s = [] \<or> hd s \<noteq> CHR '' '' \<Longrightarrow> dropWhile (\<lambda>c. c = CHR '' '') (indent n s) = s"
  by (induction n) (cases s; simp add: indent_def)+

lemma entry_rows_table: "entry_rows (table n es) = map entry_row (sort_key co_code es)"
  by (simp add: entry_rows_def table_def unindent comp_def entry_row_def coded_def)

lemma titled_no_row: "entry_rows (indent n (titled g name es) # ls) = entry_rows ls"
  "entry_rows (([newline] @ titled g name es) # ls) = entry_rows ls"
  by (simp_all add: entry_rows_def unindent titled_def info_def newline_def)

lemma rows_of_group: "mset (entry_rows (write_group g grp)) = image_mset entry_row (mset (snd grp))"
proof (cases grp)
  case (Pair name es)
  have "mset (concat (map (\<lambda>(sub, ses). map entry_row (sort_key co_code ses)) ds)) =
      image_mset entry_row (mset (concat (map snd ds)))" for ds :: "(string \<times> cot_entry list) list"
    by (induction ds) auto
  then have "mset (concat (map (\<lambda>(sub, ses). map entry_row (sort_key co_code ses)) (sort_key fst (subgroups es)))) =
      image_mset entry_row (mset es)"
    by (simp only: mset_concat_sorted mset_subgroups)
  moreover have "entry_rows (concat (map (\<lambda>(sub, ses). indent 4 (titled g sub ses) # table 8 ses) ds)) =
      concat (map (\<lambda>(sub, ses). map entry_row (sort_key co_code ses)) ds)" for ds
    by (induction ds) (auto simp: titled_no_row entry_rows_table simp del: entry_rows_simps(3))
  ultimately show ?thesis
    unfolding Pair write_group_def prod.case titled_no_row snd_conv by (simp add: entry_rows_table del: entry_rows_simps(3))
qed

text \<open>C40. The reference is complete: the rows of its registry are the rows of the entries that have a path,
  each as often as it is in the registry, in however many tables; no entry is lost between the groups and
  no row is invented.\<close>

theorem reference_complete:
  "mset (entry_rows (write_registry g entries)) =
   image_mset entry_row (mset (filter (\<lambda>e. co_full e \<noteq> []) entries))"
proof -
  have title: "entry_rows ((''## Type Registry'' @ [newline]) # ls) = entry_rows ls" for ls
    by (simp add: entry_rows_def)
  have groups: "mset (concat (map (\<lambda>grp. entry_rows (write_group g grp)) ds)) =
      image_mset entry_row (mset (concat (map snd ds)))" for ds
    by (induction ds) (auto simp: rows_of_group)
  have "mset (entry_rows (write_registry g entries)) =
      mset (concat (map (\<lambda>grp. entry_rows (write_group g grp)) (sort_key (\<lambda>grp. group_order (fst grp)) (build_tree entries))))"
    unfolding write_registry_def title by (simp add: comp_def)
  also have "\<dots> = image_mset entry_row (mset (concat (map snd (build_tree entries))))"
    by (simp only: mset_concat_sorted groups)
  finally show ?thesis by (simp only: mset_tree)
qed

end
