(* ===== verification/StateRace.thy ===== *)
theory StateRace
  imports BackupFacts
begin

text \<open>
  Writers of \<open>backup/state.py\<close> that run at the same time. A run writes \<open>last_run\<close> from its thread or from
  the command line, and the download of the key writes \<open>key_downloaded_at\<close> from another; both read the
  file, change one entry and replace the file, and nothing locks it between. A writer is a step machine
  here, one step up to the end of its read and one for its write, and the steps of any number of writers
  interleave.
\<close>

section \<open>Writers\<close>

datatype writer =
    Ready string json                \<comment> \<open>about to set this entry\<close>
  | Holding string json jobj         \<comment> \<open>has read the file\<close>
  | Written
  | Failed

definition advance :: "'w benv \<Rightarrow> writer \<Rightarrow> ('w bmon, writer) prog" where
  "advance E w = (case w of
     Ready k v \<Rightarrow> bnd (read_state E) (\<lambda>current. ret (Holding k v current))
   | Holding k v current \<Rightarrow> bnd (write_state E (dict_set k v current)) (\<lambda>_. ret Written)
   | _ \<Rightarrow> ret w)"

text \<open>The two steps one after the other are the function.\<close>

lemma advance_twice: "bnd (advance E (Ready ''last_run'' v)) (\<lambda>w. bnd (advance E w) (\<lambda>_. ret ())) = write_last_run E v"
  by (auto simp: fun_eq_iff advance_def write_last_run_def run_simps split: prod.splits sum.splits)

inductive race :: "'w benv \<Rightarrow> writer list \<times> 'w bmon \<Rightarrow> writer list \<times> 'w bmon \<Rightarrow> bool" for E where
  race_refl: "race E c c"
| race_step: "race E c (ws, s) \<Longrightarrow> i < length ws \<Longrightarrow> advance E (ws ! i) s = (r, t) \<Longrightarrow>
    race E c (ws[i := (case r of Inl _ \<Rightarrow> Failed | Inr w \<Rightarrow> w)], t)"

section \<open>No interleaving tears the file\<close>

definition state_entries :: "'w bmon \<Rightarrow> (string \<times> json) set" where
  "state_entries s = (case state_file s of None \<Rightarrow> {} | Some f \<Rightarrow>
     (case f_content f of Json (J_obj d) \<Rightarrow> set d | _ \<Rightarrow> {}))"

lemma set_dict_set: "set (dict_set k v d) \<subseteq> insert (k, v) (set d)"
  by (induction k v d rule: dict_set.induct) auto

lemma in_dict_set: "(k, v) \<in> set (dict_set k v d)"
  by (induction k v d rule: dict_set.induct) auto

lemma set_merged: "merged_defaults j = Inr d \<Longrightarrow> \<exists>e. j = J_obj e \<and> set d \<subseteq> set state_defaults \<union> set e"
proof -
  have "set (fold (\<lambda>(k, v). dict_set k v) e acc) \<subseteq> set acc \<union> set e" for e acc :: jobj
    by (induction e arbitrary: acc) (use set_dict_set in \<open>fastforce\<close>)+
  then show "merged_defaults j = Inr d \<Longrightarrow> \<exists>e. j = J_obj e \<and> set d \<subseteq> set state_defaults \<union> set e"
    by (auto simp: merged_defaults_def split: json.splits)
qed

lemma read_state_entries:
  assumes "read_state E s = (Inr d, t)"
  shows "state_file t = state_file s \<and> set d \<subseteq> set state_defaults \<union> state_entries s"
proof
  show "state_file t = state_file s"
    using state_touch [OF touch_read_state [where P = "\<lambda>_. False"] assms] by simp
  show "set d \<subseteq> set state_defaults \<union> state_entries s"
    using assms
    by (auto simp: read_state_def exists_file_def read_content_def run_simps state_entries_def state_file_def has_key_iff
        split: option.splits content.splits if_splits sum.splits prod.splits dest!: set_merged)
qed

text \<open>What holds of the writers and the file in every state of a race of \<open>us\<close> that began in \<open>s0\<close>.\<close>

definition seen :: "(string \<times> json) list \<Rightarrow> 'w bmon \<Rightarrow> (string \<times> json) set" where
  "seen us s0 = set state_defaults \<union> state_entries s0 \<union> set us"

definition whole_after :: "(string \<times> json) list \<Rightarrow> 'w bmon \<Rightarrow> bool \<Rightarrow> 'w bmon \<Rightarrow> bool" where
  "whole_after us s0 written t \<longleftrightarrow> \<not> written \<and> state_file t = state_file s0 \<or>
     (\<exists>d m. state_file t = Some \<lparr>f_content = Json (J_obj d), f_mtime = m\<rparr> \<and> set d \<subseteq> seen us s0 \<and> set us \<inter> set d \<noteq> {})"

fun writer_ok :: "(string \<times> json) list \<Rightarrow> 'w bmon \<Rightarrow> writer \<Rightarrow> bool" where
  "writer_ok us s0 (Ready k v) \<longleftrightarrow> (k, v) \<in> set us"
| "writer_ok us s0 (Holding k v d) \<longleftrightarrow> (k, v) \<in> set us \<and> set d \<subseteq> seen us s0"
| "writer_ok us s0 _ \<longleftrightarrow> True"

lemma whole_entries: "whole_after us s0 b t \<Longrightarrow> state_entries t \<subseteq> seen us s0"
  by (auto simp: whole_after_def state_entries_def seen_def)

lemma whole_same: "whole_after us s0 b s \<Longrightarrow> state_file t = state_file s \<Longrightarrow> whole_after us s0 b t"
  by (simp add: whole_after_def)

lemma advance_ok:
  assumes "advance E w s = (r, t)" and "writer_ok us s0 w" and "whole_after us s0 b s" and "w = Written \<longrightarrow> b"
  defines "w' \<equiv> (case r of Inl _ \<Rightarrow> Failed | Inr w \<Rightarrow> w)"
  shows "writer_ok us s0 w' \<and> whole_after us s0 (b \<or> w' = Written) t"
proof (cases w)
  case (Ready k v)
  show ?thesis
  proof (cases "fst (read_state E s)")
    case (Inl e)
    have "state_file t = state_file s"
      using state_touch [OF touch_read_state [where P = "\<lambda>_. False"] surjective_pairing, of E s] assms(1) Ready Inl
      by (auto simp: advance_def run_simps split: prod.splits)
    with assms Ready Inl show ?thesis
      by (auto simp: advance_def run_simps w'_def intro: whole_same split: prod.splits)
  next
    case (Inr d)
    with assms(1) Ready have "read_state E s = (Inr d, t)" and r: "r = Inr (Holding k v d)"
      by (auto simp: advance_def run_simps split: prod.splits)
    from read_state_entries [OF this(1)] whole_entries [OF assms(3)] assms(2,3) Ready r show ?thesis
      by (auto simp: w'_def seen_def intro: whole_same)
  qed
next
  case (Holding k v d)
  obtain q u where w: "write_state E (dict_set k v d) s = (q, u)" by fastforce
  with assms(1) Holding have u: "t = u" "r = (case q of Inl e \<Rightarrow> Inl e | Inr _ \<Rightarrow> Inr Written)"
    by (auto simp: advance_def run_simps split: sum.splits)
  have "set (dict_set k v d) \<subseteq> seen us s0" "(k, v) \<in> set us \<inter> set (dict_set k v d)"
    using assms(2) Holding set_dict_set [of k v d] in_dict_set [of k v d] by (auto simp: seen_def)
  with write_state_atomic [OF w] u assms(3) show ?thesis
    by (auto simp: w'_def whole_after_def)
qed (use assms in \<open>auto simp: advance_def run_simps w'_def\<close>)

lemma race_ok:
  assumes "race E c c'" and "c = (map (\<lambda>(k, v). Ready k v) us, s0)"
  shows "(\<forall>w\<in>set (fst c'). writer_ok us s0 w) \<and> whole_after us s0 (Written \<in> set (fst c')) (snd c')"
  using assms
proof (induction rule: race.induct)
  case (race_refl c)
  then show ?case by (auto simp: whole_after_def)
next
  case (race_step c ws s i r t)
  let ?w = "case r of Inl _ \<Rightarrow> Failed | Inr w \<Rightarrow> w"
  from race_step have w: "writer_ok us s0 (ws ! i)" "whole_after us s0 (Written \<in> set ws) s"
    "ws ! i = Written \<longrightarrow> Written \<in> set ws" by (auto dest: nth_mem)
  note ok = advance_ok [OF race_step.hyps(3) w]
  have "set (ws[i := ?w]) \<subseteq> insert ?w (set ws)" by (rule set_update_subset_insert)
  with ok race_step show ?case by (auto simp: whole_after_def)
qed

text \<open>C30. However many writers of the state file run at the same time and however their steps interleave and fail,
  the file is never torn: it is untouched, or a whole object in which every entry is a default, an entry it
  had, or one of the entries being written, with at least one of those. It is untouched only while no
  writer has finished.\<close>

theorem interleaved_writes_whole:
  assumes "race E (map (\<lambda>(k, v). Ready k v) us, s) (ws, t)"
  shows "Written \<notin> set ws \<and> state_file t = state_file s \<or>
    (\<exists>d m. state_file t = Some \<lparr>f_content = Json (J_obj d), f_mtime = m\<rparr> \<and>
       set d \<subseteq> set state_defaults \<union> state_entries s \<union> set us \<and> set us \<inter> set d \<noteq> {})"
  using race_ok [OF assms refl] by (simp add: whole_after_def seen_def)


section \<open>An update that is lost\<close>

lemma read_twice:
  assumes "reliable E" and "state_file t = state_file s"
  shows "fst (read_state E t) = fst (read_state E s)"
  using assms
  by (auto simp: read_state_def exists_file_def read_content_def run_simps reliable_def state_file_def has_key_iff
      split: option.splits content.splits)

text \<open>Two writers that both read before either writes: the one that writes last puts back what the other one
  changed, and both return. So the download of a key that meets the end of a run loses one of the two
  entries, the time of the download or the outcome of the run, which then stays \<open>running\<close>.\<close>

lemma update_lost:
  assumes "reliable E" and "state_ok E s"
  shows "\<exists>old t m. fst (read_state E s) = Inr old \<and> race E ([Ready k v, Ready l w], s) ([Written, Written], t) \<and>
    state_file t = Some \<lparr>f_content = Json (J_obj (dict_set l w old)), f_mtime = m\<rparr>"
proof -
  obtain old s1 where r1: "read_state E s = (Inr old, s1)" using read_state_ok [OF assms] by blast
  from read_state_entries [OF r1] read_twice [OF assms(1)] r1
  obtain s2 where r2: "read_state E s1 = (Inr old, s2)" by (metis fst_conv surj_pair)
  obtain s3 where w1: "write_state E (dict_set k v old) s2 = (Inr (), s3)" using write_state_ok [OF assms(1)] by blast
  obtain t where w2: "write_state E (dict_set l w old) s3 = (Inr (), t)" using write_state_ok [OF assms(1)] by blast
  have "race E ([Ready k v, Ready l w], s) ([Holding k v old, Ready l w], s1)"
    using race_step [OF race_refl, of 0 "[Ready k v, Ready l w]" E s] r1 by (simp add: advance_def run_simps)
  from race_step [OF this, of 1] r2
  have "race E ([Ready k v, Ready l w], s) ([Holding k v old, Holding l w old], s2)" by (simp add: advance_def run_simps)
  from race_step [OF this, of 0] w1
  have "race E ([Ready k v, Ready l w], s) ([Written, Holding l w old], s3)" by (simp add: advance_def run_simps)
  from race_step [OF this, of 1] w2
  have "race E ([Ready k v, Ready l w], s) ([Written, Written], t)" by (simp add: advance_def run_simps)
  with write_state_atomic [OF w2] r1 show ?thesis by auto
qed

theorem interleaved_writes_whole_witness:
  "\<exists>t d m. race quiet_env ([Ready ''key_downloaded_at'' (J_str ''t''), Ready ''last_run'' (J_str ''x'')], sample_dir) ([Written, Written], t) \<and>
     state_file t = Some \<lparr>f_content = Json (J_obj d), f_mtime = m\<rparr> \<and>
     set d \<subseteq> set state_defaults \<union> {(''key_downloaded_at'', J_str ''t''), (''last_run'', J_str ''x'')}"
proof -
  have "reliable quiet_env" by (simp add: reliable_def quiet_env_def)
  moreover have none: "state_file sample_dir = None" by code_simp
  moreover have "state_ok quiet_env sample_dir" by (simp add: state_ok_def none)
  ultimately obtain t where
    race: "race quiet_env ([Ready ''key_downloaded_at'' (J_str ''t''), Ready ''last_run'' (J_str ''x'')], sample_dir) ([Written, Written], t)"
    using update_lost by blast
  have "state_entries sample_dir = {}" by (simp add: state_entries_def none)
  with interleaved_writes_whole [of quiet_env "[(''key_downloaded_at'', J_str ''t''), (''last_run'', J_str ''x'')]"
      sample_dir "[Written, Written]" t] race
  show ?thesis by fastforce
qed

end
