(* ===== verification/GroupsFacts.thy ===== *)
theory GroupsFacts
  imports UsersFacts
begin

text \<open>
  What \<open>PUT /api/users/{id}/groups\<close> leaves in the directory. LLDAP enters as a membership relation its
  requests act on, with laws its documentation states.
\<close>

section \<open>The directory\<close>

record membership =
  me_groups :: "group_ref list"
  me_members :: "(string \<times> int) set"

text \<open>What a document may do: a query nothing, an assignment at most what it asks for.\<close>

definition member_step :: "gql \<Rightarrow> membership \<Rightarrow> membership \<Rightarrow> bool" where
  "member_step q d e \<longleftrightarrow> (case q of
     Mut_add_user_to_group u g \<Rightarrow> me_groups e = me_groups d \<and>
       me_members d \<subseteq> me_members e \<and> me_members e \<subseteq> insert (u, g) (me_members d)
   | Mut_remove_user_from_group u g \<Rightarrow> me_groups e = me_groups d \<and>
       me_members d - {(u, g)} \<subseteq> me_members e \<and> me_members e \<subseteq> me_members d
   | _ \<Rightarrow> \<not> is_mutation q \<longrightarrow> e = d)"

text \<open>A reply the client takes for success, and what it says of the directory after it.\<close>

definition accepted :: "gql_reply \<Rightarrow> bool" where
  "accepted rep \<longleftrightarrow> (case rep_errors rep of None \<Rightarrow> True
     | Some m \<Rightarrow> contains (lower m) ''already exists'' \<or> contains (lower m) ''duplicate'')"

definition member_reply :: "gql \<Rightarrow> gql_reply \<Rightarrow> membership \<Rightarrow> bool" where
  "member_reply q rep d \<longleftrightarrow> (case q of
     Query_groups \<Rightarrow> rep_data rep = Null \<or> (\<exists>x. rep_data rep = Val x \<and> d_groups x = Val (me_groups d))
   | Query_user u \<Rightarrow> rep_data rep = Null \<or> (\<exists>x. rep_data rep = Val x \<and> (d_user x = Null \<or>
       (\<exists>usr. d_user x = Val usr \<and> set (luser_groups usr) = {g \<in> set (me_groups d). (u, group_id g) \<in> me_members d})))
   | Mut_add_user_to_group u g \<Rightarrow> (u, g) \<in> me_members d
   | Mut_remove_user_from_group u g \<Rightarrow> (u, g) \<notin> me_members d
   | _ \<Rightarrow> True)"

definition lldap_members :: "'w env \<Rightarrow> ('w \<Rightarrow> membership) \<Rightarrow> bool" where
  "lldap_members E view \<longleftrightarrow>
     (\<forall>url user pass w. view (snd (login_http E url user pass w)) = view w) \<and>
     (\<forall>url b q w. member_step q (view w) (view (snd (graphql_http E url b q w)))) \<and>
     (\<forall>url b q w code rep. fst (graphql_http E url b q w) = Http code (Some rep) \<longrightarrow> 200 \<le> code \<and> code < 300 \<longrightarrow>
        accepted rep \<longrightarrow> member_reply q rep (view (snd (graphql_http E url b q w))))"

lemma member_step_refl [simp]: "member_step q d d"
  by (cases q) (auto simp: member_step_def)

lemma member_step_trans: "member_step q d e \<Longrightarrow> member_step q e f \<Longrightarrow> member_step q d f"
  by (cases q) (auto simp: member_step_def)

abbreviation members_of :: "('w \<Rightarrow> membership) \<Rightarrow> 'w mon \<Rightarrow> membership" where
  "members_of view s \<equiv> view (world s)"

section \<open>One document\<close>

lemma same_login:
  assumes "lldap_members E view" and "login E self s = (r, t)"
  shows "members_of view t = members_of view s"
  using assms
  by (auto simp: login_def self_client_def set_client_def run_simps Let_def lldap_members_def
      split: option.splits sum.splits prod.splits)

lemma same_token:
  assumes "lldap_members E view" and "get_token E self s = (r, t)"
  shows "members_of view t = members_of view s"
  using assms same_login [OF assms(1)]
  by (auto simp: get_token_def self_client_def run_simps split: option.splits sum.splits prod.splits)

lemma graphql_try_members:
  assumes "lldap_members E view" and "graphql_try E self q b s = (r, t)"
  shows "member_step q (members_of view s) (members_of view t) \<and>
    (\<forall>x. r = Inr (Done x) \<longrightarrow> (\<exists>rep. accepted rep \<and> member_reply q rep (members_of view t) \<and> x = data_field rep))"
proof -
  obtain k u where tok: "get_token E self s = (k, u)" by fastforce
  have su: "members_of view u = members_of view s" by (rule same_token [OF assms(1) tok])
  show ?thesis
  proof (cases k)
    case (Inl e)
    with assms(2) tok su show ?thesis by (auto simp: graphql_try_def run_simps)
  next
    case (Inr token)
    show ?thesis
    proof (cases "identity u self")
      case None
      with assms(2) tok su Inr show ?thesis by (auto simp: graphql_try_def run_simps self_client_def)
    next
      case (Some c)
      let ?f = "graphql_http E (ic_lldap_url c @ ''/api/graphql'') (bearer token) q (world u)"
      have step: "member_step q (members_of view u) (view (snd ?f))"
        using assms(1) by (simp add: lldap_members_def)
      have w: "world t = snd ?f"
        using assms(2) tok Inr Some
        by (auto simp: graphql_try_def run_simps self_client_def set_client_def Let_def
            split: sum.splits prod.splits if_splits option.splits)
      have "\<exists>rep. accepted rep \<and> member_reply q rep (view (snd ?f)) \<and> x = data_field rep" if res: "r = Inr (Done x)" for x
      proof -
        obtain code rep where reply: "fst ?f = Http code (Some rep)" "200 \<le> code" "code < 300" and "accepted rep"
            and "x = data_field rep"
          using assms(2) tok Inr Some res
          by (auto simp: graphql_try_def run_simps self_client_def set_client_def Let_def received_def raise_for_status_def
              json_body_def accepted_def split: sum.splits prod.splits if_splits option.splits http.splits)
        moreover from this assms(1) have "member_reply q rep (view (snd ?f))" unfolding lldap_members_def by blast
        ultimately show ?thesis by blast
      qed
      with step su w show ?thesis by simp
    qed
  qed
qed

lemma graphql_members:
  assumes L: "lldap_members E view" and run: "graphql E self q s = (r, t)"
  shows "member_step q (members_of view s) (members_of view t) \<and>
    (\<forall>x. r = Inr x \<longrightarrow> (\<exists>rep. accepted rep \<and> member_reply q rep (members_of view t) \<and> x = data_field rep))"
proof
  have step: "member_step q (members_of view s) (members_of view t)" if "graphql_attempt E self q b s = (r, t)" for b s r t
  proof -
    obtain k u where tried: "graphql_try E self q b s = (k, u)" by fastforce
    with that have "world t = world u"
      by (cases k) (auto simp: graphql_attempt_def run_simps sleep_def split: exn.splits if_splits)
    with graphql_try_members [OF L tried] show ?thesis by simp
  qed
  have "preorder_rel (\<lambda>s t. member_step q (members_of view s) (members_of view t))"
    by (auto simp: preorder_rel_def reflp_def transp_def intro: member_step_trans)
  then have kept: "keeps (\<lambda>s t. member_step q (members_of view s) (members_of view t)) (graphql_loop E self q retries)"
    by (rule gql_retry.loop_keeps) (rule keepsI, rule step)
  obtain k u where loop: "graphql_loop E self q retries s = (k, u)" by fastforce
  with run have "t = u" by (cases k) (auto simp: graphql_def run_simps)
  with keepsD [OF kept loop] show "member_step q (members_of view s) (members_of view t)" by simp
  show "\<forall>x. r = Inr x \<longrightarrow> (\<exists>rep. accepted rep \<and> member_reply q rep (members_of view t) \<and> x = data_field rep)"
  proof (intro allI impI)
    fix x assume r: "r = Inr x"
    obtain y where y: "graphql_loop E self q retries s = (Inr (Some y), t)" "x = y"
      using run r gql_retry.no_fall_through [of E self q 2 s]
      by (auto simp: graphql_def run_simps retries_def numeral_3_eq_3 split: prod.splits sum.splits option.splits)
    have good: "\<exists>rep. accepted rep \<and> member_reply q rep (members_of view t) \<and> x = data_field rep"
      if a: "graphql_attempt E self q b s = (Inr (Done x), t)" for b s x t
    proof -
      from a have "graphql_try E self q b s = (Inr (Done x), t)"
        by (auto simp: graphql_attempt_def run_simps split: prod.splits sum.splits exn.splits if_splits)
      from graphql_try_members [OF L this] show ?thesis by blast
    qed
    show "\<exists>rep. accepted rep \<and> member_reply q rep (members_of view t) \<and> x = data_field rep"
      unfolding y(2)
      by (rule gql_retry.loop_result [where R = "\<lambda>_ x t. \<exists>rep. accepted rep \<and> member_reply q rep (members_of view t) \<and> x = data_field rep",
            OF good _ y(1)])
  qed
qed

lemma graphql_reply:
  assumes "lldap_members E view" and "graphql E self q s = (Inr x, t)"
  shows "\<exists>rep. accepted rep \<and> member_reply q rep (members_of view t) \<and> x = data_field rep"
  using conjunct2 [OF graphql_members [OF assms]] by simp

lemma query_Inr: "query E self q sel s = (Inr y, t) \<Longrightarrow> \<exists>x. graphql E self q s = (Inr x, t) \<and> sel x = Inr y"
  by (auto simp: query_def run_simps split: sum.splits prod.splits)

lemma query_same:
  assumes "lldap_members E view" and "query E self q sel s = (r, t)" and "\<not> is_mutation q"
  shows "members_of view t = members_of view s"
proof -
  obtain k u where g: "graphql E self q s = (k, u)" by fastforce
  with assms(2) have "t = u" by (cases k) (auto simp: query_def run_simps)
  with graphql_members [OF assms(1) g] assms(3) show ?thesis by (cases q) (simp_all add: member_step_def)
qed

lemma query_groups:
  assumes "lldap_members E view" and "query E self Query_groups (data_list d_groups) s = (Inr gs, t)"
  shows "members_of view t = members_of view s \<and> gs = me_groups (members_of view s)"
proof -
  have same: "members_of view t = members_of view s" by (rule query_same [OF assms]) simp
  from query_Inr [OF assms(2)] obtain x where g: "graphql E self Query_groups s = (Inr x, t)" "data_list d_groups x = Inr gs"
    by blast
  from graphql_reply [OF assms(1) g(1)] obtain rep where "member_reply Query_groups rep (members_of view t)" "x = data_field rep"
    by blast
  with g(2) same show ?thesis by (auto simp: member_reply_def data_field_def data_list_def)
qed

lemma query_user_groups:
  assumes "lldap_members E view" and "query E self (Query_user u) (data_user_part luser_groups) s = (Inr cur, t)"
  shows "members_of view t = members_of view s \<and>
    set cur = {g \<in> set (me_groups (members_of view s)). (u, group_id g) \<in> me_members (members_of view s)}"
proof -
  have same: "members_of view t = members_of view s" by (rule query_same [OF assms]) simp
  from query_Inr [OF assms(2)] obtain x where
    g: "graphql E self (Query_user u) s = (Inr x, t)" "data_user_part luser_groups x = Inr cur" by blast
  from graphql_reply [OF assms(1) g(1)] obtain rep where
    "member_reply (Query_user u) rep (members_of view t)" "x = data_field rep" by blast
  then show ?thesis
    using g(2) same
    by (auto simp: member_reply_def data_field_def data_user_part_def split: jfield.splits)
qed

lemma resolve_members:
  assumes "lldap_members E view" and "resolve_username E self i s = (r, t)"
  shows "members_of view t = members_of view s"
proof -
  have self: "keeps (\<lambda>s t. world t = world s) (self_client self)"
    by (rule keepsI) (drule self_client_run, simp)
  have set: "keeps (\<lambda>s t. world t = world s) (set_client self f)" for f
    unfolding set_client_def by (rule keepsI) (auto simp: modify_run)
  have pre: "preorder_rel (\<lambda>s t. world t = world s)" by (auto simp: preorder_rel_def reflp_def transp_def)
  have "keeps (\<lambda>s t. world t = world s) (add_user_ids E self us)" for us
  proof (induction us)
    case (Cons u us)
    then show ?case
      unfolding add_user_ids.simps Let_def
      by (intro keeps_bnd keeps_if keeps_raise keeps_thn pre self set)
  qed (simp add: keeps_ret pre)
  then have add: "world v = world u" if "add_user_ids E self us u = (k, v)" for us u k v
    using keepsD [where I = "\<lambda>s t. world t = world s"] that by blast
  have refresh: "members_of view v = members_of view u" if "refresh_user_id_map E self u = (k, v)" for u k v
  proof -
    obtain q w where qw: "query E self Query_user_ids (data_list d_users) u = (q, w)" by fastforce
    with that have "world v = world w" by (cases q) (auto simp: refresh_user_id_map_def run_simps dest: add)
    with query_same [OF assms(1) qw] show ?thesis by simp
  qed
  obtain k u where ref: "refresh_user_id_map E self s = (k, u)" by fastforce
  from assms(2) have "t = s \<or> world t = world u"
    unfolding resolve_username_def
    by (cases "identity s self"; cases k) (auto simp: run_simps self_client_def ref split: option.splits)
  with refresh [OF ref] show ?thesis by auto
qed

section \<open>Assignments\<close>

text \<open>An assignment touches one membership and nothing else, and a return says it took effect.\<close>

lemma assign_members:
  assumes "lldap_members E view" and "graphql E self q s = (Inr x, t)"
  shows "q = Mut_add_user_to_group u g \<Longrightarrow>
      members_of view t = (members_of view s)\<lparr>me_members := insert (u, g) (me_members (members_of view s))\<rparr>"
    and "q = Mut_remove_user_from_group u g \<Longrightarrow>
      members_of view t = (members_of view s)\<lparr>me_members := me_members (members_of view s) - {(u, g)}\<rparr>"
  using graphql_members [OF assms] by (auto simp: member_step_def member_reply_def intro!: membership.equality)

lemma add_all:
  assumes "lldap_members E view"
    and "for_each gids (\<lambda>gid. thn (graphql E self (Mut_add_user_to_group u gid)) (ret ())) s = (Inr (), t)"
  shows "members_of view t = (members_of view s)\<lparr>me_members := me_members (members_of view s) \<union> (\<lambda>g. (u, g)) ` set gids\<rparr>"
  using assms(2)
proof (induction gids arbitrary: s)
  case (Cons g gids)
  from Cons.prems obtain x v where g: "graphql E self (Mut_add_user_to_group u g) s = (Inr x, v)"
      and rest: "for_each gids (\<lambda>gid. thn (graphql E self (Mut_add_user_to_group u gid)) (ret ())) v = (Inr (), t)"
    unfolding for_each.simps by (elim thnE) (auto simp: ret_run)
  from Cons.IH [OF rest] assign_members(1) [OF assms(1) g refl] show ?case by simp
qed (simp add: run_simps)

lemma remove_all:
  assumes "lldap_members E view"
    and "for_each gids (\<lambda>gid. thn (graphql E self (Mut_remove_user_from_group u gid)) (ret ())) s = (Inr (), t)"
  shows "members_of view t = (members_of view s)\<lparr>me_members := me_members (members_of view s) - (\<lambda>g. (u, g)) ` set gids\<rparr>"
  using assms(2)
proof (induction gids arbitrary: s)
  case (Cons g gids)
  from Cons.prems obtain x v where g: "graphql E self (Mut_remove_user_from_group u g) s = (Inr x, v)"
      and rest: "for_each gids (\<lambda>gid. thn (graphql E self (Mut_remove_user_from_group u gid)) (ret ())) v = (Inr (), t)"
    unfolding for_each.simps by (elim thnE) (auto simp: ret_run)
  have "M - {(u, g)} - Pair u ` set gids = M - Pair u ` set (g # gids)" for M by auto
  moreover from Cons.IH [OF rest] assign_members(2) [OF assms(1) g refl]
  have "members_of view t = (members_of view s)\<lparr>me_members := me_members (members_of view s) - {(u, g)} - Pair u ` set gids\<rparr>"
    by simp
  ultimately show ?case by (simp only:)
qed (simp add: run_simps)

section \<open>Names and ids\<close>

lemma map_of_groups_by_name:
  assumes "inj_on group_display (set gs)"
  shows "map_of (groups_by_name gs) n = Some i \<longleftrightarrow> (\<exists>g\<in>set gs. group_display g = n \<and> group_id g = i)"
  using assms
proof (induction gs rule: rev_induct)
  case (snoc g gs)
  then have "inj_on group_display (set gs)" by (auto simp: inj_on_def)
  with snoc show ?case by (auto simp: groups_by_name_def inj_on_def)
qed (simp add: groups_by_name_def)

lemma keys_groups_by_name: "distinct (map fst (groups_by_name gs))"
  unfolding groups_by_name_def
  by (induction gs rule: rev_induct) (simp_all add: distinct_dict_set)

section \<open>The groups that are set\<close>

text \<open>What a return leaves: of the \<open>tak_\<close> groups exactly the wanted ones that exist, the others as they were.\<close>

definition groups_set :: "string \<Rightarrow> string list \<Rightarrow> membership \<Rightarrow> membership \<Rightarrow> bool" where
  "groups_set u wanted d e \<longleftrightarrow> me_groups e = me_groups d \<and>
     (\<forall>v i. v \<noteq> u \<longrightarrow> ((v, i) \<in> me_members e \<longleftrightarrow> (v, i) \<in> me_members d)) \<and>
     (\<forall>g\<in>set (me_groups d). (u, group_id g) \<in> me_members e \<longleftrightarrow>
        (if startswith (group_display g) ''tak_'' then group_display g \<in> tak_name ` set wanted
         else (u, group_id g) \<in> me_members d))"

lemma tak_name_prefixed: "startswith (tak_name n) ''tak_''"
  by (simp add: tak_name_def)

lemma mem_to_remove: "i \<in> set (groups_to_remove desired current) \<longleftrightarrow>
    (\<exists>n. (n, i) \<in> set current \<and> startswith n ''tak_'' \<and> n \<notin> set desired)"
  by (auto simp: groups_to_remove_def)

lemma mem_to_add: "i \<in> set (groups_to_add desired current names) \<longleftrightarrow>
    (\<exists>n\<in>set desired. map_of current n = None \<and> map_of names n = Some i)"
  by (force simp: groups_to_add_def List.map_filter_def has_key_iff split: if_splits)

lemma set_user_groups_exact_aux:
  assumes L: "lldap_members E view" and "\<And>xs. set (set_iter E xs) = set xs"
    and names: "inj_on group_display (set (me_groups d))" and ids: "inj_on group_id (set (me_groups d))"
    and d: "d = members_of view s" and run: "set_user_groups E self i wanted s = (Inr (), t)"
  shows "\<exists>u v. resolve_username E self i s = (Inr (Some u), v) \<and> groups_set u wanted d (members_of view t)"
proof -
  obtain u v where res: "resolve_username E self i s = (Inr (Some u), v)"
    using run by (auto simp: set_user_groups_def run_simps split: sum.splits prod.splits option.splits)
  have dv: "members_of view v = d" using resolve_members [OF L res] d by simp
  define desired where "desired = set_iter E (remdups (map tak_name wanted))"
  have D: "set desired = tak_name ` set wanted" by (simp add: desired_def assms(2))
  obtain gs v1 where q1: "query E self Query_groups (data_list d_groups) v = (Inr gs, v1)"
    using run res by (auto simp: set_user_groups_def run_simps Let_def split: sum.splits prod.splits)
  obtain cur v2 where q2: "query E self (Query_user u) (data_user_part luser_groups) v1 = (Inr cur, v2)"
    using run res q1 by (auto simp: set_user_groups_def run_simps Let_def split: sum.splits prod.splits)
  let ?cur = "groups_by_name cur" and ?all = "groups_by_name gs"
  from run res q1 q2
  have "thn (for_each (groups_to_remove desired ?cur) (\<lambda>gid. thn (graphql E self (Mut_remove_user_from_group u gid)) (ret ())))
      (for_each (groups_to_add desired ?cur ?all) (\<lambda>gid. thn (graphql E self (Mut_add_user_to_group u gid)) (ret ()))) v2
      = (Inr (), t)"
    unfolding set_user_groups_def desired_def by (simp add: bnd_run of_sum_run Let_def)
  then obtain v3 where
    rm: "for_each (groups_to_remove desired ?cur) (\<lambda>gid. thn (graphql E self (Mut_remove_user_from_group u gid)) (ret ())) v2 = (Inr (), v3)"
    and ad: "for_each (groups_to_add desired ?cur ?all) (\<lambda>gid. thn (graphql E self (Mut_add_user_to_group u gid)) (ret ())) v3 = (Inr (), t)"
    by (auto elim!: thnE)
  have gs: "gs = me_groups d" and d1: "members_of view v1 = d" using query_groups [OF L q1] dv by simp_all
  have cur: "set cur = {g \<in> set (me_groups d). (u, group_id g) \<in> me_members d}" and d2: "members_of view v2 = d"
    using query_user_groups [OF L q2] d1 by simp_all
  have e: "members_of view t = d\<lparr>me_members := me_members d - Pair u ` set (groups_to_remove desired ?cur) \<union>
      Pair u ` set (groups_to_add desired ?cur ?all)\<rparr>"
    using add_all [OF L ad] remove_all [OF L rm] d2 by simp
  have cur_inj: "inj_on group_display (set cur)" using names cur by (auto simp: inj_on_def)
  have in_cur: "(n, i) \<in> set ?cur \<longleftrightarrow> (\<exists>g\<in>set cur. group_display g = n \<and> group_id g = i)" for n i
    using map_of_groups_by_name [OF cur_inj, of n i] keys_groups_by_name [of cur] by (metis map_of_eq_Some_iff)
  have none_cur: "map_of ?cur n = None \<longleftrightarrow> (\<forall>g\<in>set cur. group_display g \<noteq> n)" for n
    using map_of_groups_by_name [OF cur_inj, of n] by (metis not_Some_eq)
  have main: "(u, group_id g) \<in> me_members (members_of view t) \<longleftrightarrow>
      (if startswith (group_display g) ''tak_'' then group_display g \<in> tak_name ` set wanted else (u, group_id g) \<in> me_members d)"
    if g: "g \<in> set (me_groups d)" for g
  proof -
    have rem: "group_id g \<in> set (groups_to_remove desired ?cur) \<longleftrightarrow>
        (u, group_id g) \<in> me_members d \<and> startswith (group_display g) ''tak_'' \<and> group_display g \<notin> tak_name ` set wanted"
      unfolding mem_to_remove in_cur D cur using g ids by (auto simp: inj_on_def)
    have add: "group_id g \<in> set (groups_to_add desired ?cur ?all) \<longleftrightarrow>
        group_display g \<in> tak_name ` set wanted \<and> (u, group_id g) \<notin> me_members d"
    proof -
      have n: "group_display h = group_display g \<longleftrightarrow> h = g" and i: "group_id h = group_id g \<longleftrightarrow> h = g"
        if "h \<in> set (me_groups d)" for h
        using inj_on_eq_iff [OF names that g] inj_on_eq_iff [OF ids that g] .
      have all: "map_of ?all n = Some (group_id g) \<longleftrightarrow> n = group_display g" for n
        unfolding gs map_of_groups_by_name [OF names] using i g by blast
      have none: "map_of ?cur (group_display g) = None \<longleftrightarrow> (u, group_id g) \<notin> me_members d"
        unfolding none_cur cur using n g by blast
      show ?thesis unfolding mem_to_add D all using none by metis
    qed
    have "(u, group_id g) \<in> me_members (members_of view t) \<longleftrightarrow>
        (u, group_id g) \<in> me_members d \<and> group_id g \<notin> set (groups_to_remove desired ?cur) \<or>
        group_id g \<in> set (groups_to_add desired ?cur ?all)"
      unfolding e by (simp add: image_iff)
    moreover have "startswith (group_display g) ''tak_''" if "group_display g \<in> tak_name ` set wanted"
      using that tak_name_prefixed by auto
    ultimately show ?thesis unfolding rem add by argo
  qed
  have "\<forall>v i. v \<noteq> u \<longrightarrow> ((v, i) \<in> me_members (members_of view t) \<longleftrightarrow> (v, i) \<in> me_members d)"
    unfolding e by auto
  moreover have "me_groups (members_of view t) = me_groups d" unfolding e by simp
  ultimately have "groups_set u wanted d (members_of view t)"
    unfolding groups_set_def by (intro conjI ballI main)
  with res show ?thesis by blast
qed

text \<open>C6. Setting a user's groups is exact. LLDAP is any directory in which a query changes no
  membership, an assignment changes at most the one membership it names, and an accepted reply tells the
  state after it; group names and ids are unique. If \<open>set_user_groups\<close> returns, the id stood for a user
  \<open>u\<close>, and then \<open>u\<close> is in exactly the wanted ones of the \<open>tak_\<close> groups that exist, \<open>u\<close>'s other
  groups are as before, every other user's groups are as before, and no group came or went: whatever
  retries, re-authentication and cache refresh happened on the way, and in whatever order Python
  walks the set of names.\<close>

theorem set_user_groups_exact:
  assumes "lldap_members E view" and "\<And>xs. set (set_iter E xs) = set xs"
    and "inj_on group_display (set (me_groups (view (world s))))" and "inj_on group_id (set (me_groups (view (world s))))"
    and "set_user_groups E self i wanted s = (Inr (), t)"
  shows "\<exists>u v. resolve_username E self i s = (Inr (Some u), v) \<and>
    groups_set u wanted (view (world s)) (view (world t))"
  by (rule set_user_groups_exact_aux [OF assms(1-4) refl assms(5)])

section \<open>A directory that keeps the laws\<close>

definition in_group :: "sample \<Rightarrow> string \<Rightarrow> int \<Rightarrow> bool" where
  "in_group w u gid \<longleftrightarrow> (\<exists>x\<in>set (sw_users w). luser_id x = u \<and> (\<exists>g\<in>set (luser_groups x). group_id g = gid))"

definition sample_members :: "sample \<Rightarrow> membership" where
  "sample_members w = \<lparr>me_groups = sw_groups w, me_members = {(u, g). in_group w u g}\<rparr>"

definition member_lldap :: "gql \<Rightarrow> sample \<Rightarrow> gql_reply http \<times> sample" where
  "member_lldap q w = (case q of
     Query_user_ids \<Rightarrow> (reply_ok (no_data\<lparr>d_users := Val (sw_users w)\<rparr>), w)
   | Query_groups \<Rightarrow> (reply_ok (no_data\<lparr>d_groups := Val (sw_groups w)\<rparr>), w)
   | Query_user un \<Rightarrow> (case List.find (\<lambda>u. luser_id u = un) (sw_users w) of
        None \<Rightarrow> (reply_error ''Entity not found'', w)
      | Some u \<Rightarrow> (reply_ok (no_data\<lparr>d_user :=
          Val (u\<lparr>luser_groups := filter (\<lambda>g. in_group w un (group_id g)) (sw_groups w)\<rparr>)\<rparr>), w))
   | Mut_add_user_to_group un gid \<Rightarrow>
       if un \<in> luser_id ` set (sw_users w) \<and> gid \<in> group_id ` set (sw_groups w)
       then (reply_ok no_data, w\<lparr>sw_users := map (map_groups un (add_group_ref (sw_groups w) gid)) (sw_users w)\<rparr>)
       else (reply_error ''Entity not found'', w)
   | Mut_remove_user_from_group un gid \<Rightarrow>
       (reply_ok no_data, w\<lparr>sw_users := map (map_groups un (filter (\<lambda>g. group_id g \<noteq> gid))) (sw_users w)\<rparr>)
   | _ \<Rightarrow> (reply_error ''Not supported'', w))"

definition member_env :: "settings \<Rightarrow> sample env" where
  "member_env st = (sample_env st)\<lparr>graphql_http := \<lambda>_ _ q w. member_lldap q w\<rparr>"

lemma in_group_map:
  "in_group (w\<lparr>sw_users := map (map_groups un f) (sw_users w)\<rparr>) u gid \<longleftrightarrow>
    (\<exists>x\<in>set (sw_users w). luser_id x = u \<and>
      (\<exists>g\<in>set (if u = un then f (luser_groups x) else luser_groups x). group_id g = gid))"
proof -
  have "luser_id (map_groups un f x) = luser_id x"
      "luser_groups (map_groups un f x) = (if luser_id x = un then f (luser_groups x) else luser_groups x)" for x
    by (simp_all add: map_groups_def)
  then show ?thesis unfolding in_group_def by auto
qed

lemma add_group_ids:
  assumes "gid \<in> group_id ` set all"
  shows "(\<exists>g\<in>set (add_group_ref all gid gs). group_id g = i) \<longleftrightarrow> (\<exists>g\<in>set gs. group_id g = i) \<or> i = gid"
  using assms by (auto simp: add_group_ref_def)

lemma in_group_added:
  assumes "gid \<in> group_id ` set (sw_groups w)"
  shows "in_group (w\<lparr>sw_users := map (map_groups un (add_group_ref (sw_groups w) gid)) (sw_users w)\<rparr>) u g \<longleftrightarrow>
    in_group w u g \<or> u = un \<and> g = gid \<and> un \<in> luser_id ` set (sw_users w)"
  unfolding in_group_map unfolding in_group_def
  by (cases "u = un") (auto simp: add_group_ids [OF assms])

lemma in_group_removed:
  "in_group (w\<lparr>sw_users := map (map_groups un (filter (\<lambda>g. group_id g \<noteq> gid))) (sw_users w)\<rparr>) u g \<longleftrightarrow>
    in_group w u g \<and> \<not> (u = un \<and> g = gid)"
  unfolding in_group_map unfolding in_group_def by (cases "u = un") auto

lemma member_lldap_step: "member_step q (sample_members w) (sample_members (snd (member_lldap q w)))"
  by (cases q) (auto simp: member_lldap_def member_step_def sample_members_def in_group_added in_group_removed
      reply_ok_def split: option.splits)

lemma find_name: "List.find (\<lambda>u. luser_id u = un) us = Some u \<Longrightarrow> luser_id u = un"
  by (auto simp: find_Some_iff)

lemma member_lldap_reply:
  assumes "fst (member_lldap q w) = Http code (Some rep)" and "accepted rep"
  shows "member_reply q rep (sample_members (snd (member_lldap q w)))"
proof (cases q)
  case (Query_user un)
  with assms show ?thesis
    by (auto simp: member_lldap_def member_reply_def sample_members_def reply_ok_def reply_error_def accepted_def
        no_data_def split: option.splits)
next
  case (Mut_add_user_to_group un gid)
  have "\<not> accepted \<lparr>rep_errors = Some ''Entity not found'', rep_data = Null\<rparr>" by (simp add: accepted_def) code_simp
  with Mut_add_user_to_group assms show ?thesis
    by (auto simp: member_lldap_def member_reply_def sample_members_def reply_ok_def reply_error_def in_group_added
        split: if_splits)
next
  case (Mut_remove_user_from_group un gid)
  with assms show ?thesis
    by (auto simp: member_lldap_def member_reply_def sample_members_def reply_ok_def in_group_removed)
qed (use assms in \<open>auto simp: member_lldap_def member_reply_def sample_members_def reply_ok_def no_data_def\<close>)

lemma member_env_laws: "lldap_members (member_env st) sample_members"
  using member_lldap_step member_lldap_reply
  by (simp add: lldap_members_def member_env_def sample_env_def)

text \<open>\<open>bob\<close> of \<open>tak_Blue\<close> and \<open>staff\<close> is set to \<open>Red\<close> and a group that does not exist.\<close>

theorem set_user_groups_exact_witness:
  "\<exists>u v. resolve_username (member_env default_settings) Users_router 3 (sample_state [] sample_world) = (Inr (Some u), v) \<and>
    groups_set u [''Red'', ''Green''] (sample_members sample_world)
      (sample_members (world (snd (set_user_groups (member_env default_settings) Users_router 3 [''Red'', ''Green'']
        (sample_state [] sample_world)))))"
proof -
  let ?run = "set_user_groups (member_env default_settings) Users_router 3 [''Red'', ''Green''] (sample_state [] sample_world)"
  have "?run = (Inr (), snd ?run)" unfolding prod_eq_iff by (simp only: fst_conv snd_conv simp_thms) code_simp
  moreover have "set (set_iter (member_env default_settings) xs) = set xs" for xs
    by (simp add: member_env_def sample_env_def)
  moreover have "inj_on group_display (set (me_groups (sample_members (world (sample_state [] sample_world)))))"
      and "inj_on group_id (set (me_groups (sample_members (world (sample_state [] sample_world)))))"
    by (auto simp: sample_members_def sample_state_def sample_world_def)
  ultimately show ?thesis
    using set_user_groups_exact [OF member_env_laws, where s = "sample_state [] sample_world" and self = Users_router
        and i = 3 and wanted = "[''Red'', ''Green'']" and t = "snd ?run"] by (simp add: sample_state_def)
qed

section \<open>The hidden group\<close>

lemma user_or_404_members:
  assumes "lldap_members E view" and "user_or_404 E i s = (r, t)"
  shows "members_of view t = members_of view s"
proof -
  let ?I = "\<lambda>s t. members_of view t = members_of view s"
  have pre: "preorder_rel ?I" by (auto simp: preorder_rel_def reflp_def transp_def)
  have "keeps ?I (get_identity E)"
    by (rule keepsI) (auto simp: get_identity_def run_simps split: option.splits if_splits)
  moreover have "keeps ?I (resolve_username E self i)" for self by (rule keepsI) (rule resolve_members [OF assms(1)])
  moreover have "keeps ?I (query E self (Query_user n) sel)" for self n and sel :: "gql_data option \<Rightarrow> exn + 'b"
    by (rule keepsI) (rule query_same [OF assms(1)], assumption, simp)
  moreover have "keeps ?I (self_client self)" for self by (rule keepsI) (drule self_client_run, simp)
  moreover have "keeps ?I (set_client self f)" for self f
    unfolding set_client_def by (rule keepsI) (auto simp: modify_run)
  ultimately have "keeps ?I (user_or_404 E i)"
    unfolding user_or_404_def get_user_def format_user_def
    by (intro keeps_bnd keeps_thn keeps_if keeps_ret keeps_raise pre) (auto split: option.splits intro!: keeps_bnd keeps_thn keeps_if keeps_ret keeps_raise pre)
  from keepsD [OF this assms(2)] show ?thesis .
qed

lemma not_in_image: "(\<And>x. x \<in> A \<Longrightarrow> f x \<noteq> c) \<Longrightarrow> c \<notin> f ` A"
  by auto

text \<open>The group list leaves \<open>tak_ROLE_ADMIN\<close> out, so a request that names it is answered with 400, and one
  that does not takes it away: no request through this route keeps an administrator's role.\<close>

lemma role_admin_lost:
  assumes L: "lldap_members E view" and "\<And>xs. set (set_iter E xs) = set xs"
    and "inj_on group_display (set (me_groups (view (world s))))" and "inj_on group_id (set (me_groups (view (world s))))"
    and run: "set_user_groups_route E i wanted s = (Inr (), t)"
    and g: "g \<in> set (me_groups (view (world s)))" "group_display g = ''tak_ROLE_ADMIN''"
    and other: "\<And>h. h \<in> set (me_groups (view (world s))) \<Longrightarrow> group_display h \<noteq> ''tak_tak_ROLE_ADMIN''"
  shows "\<exists>u v w. resolve_username E Users_router i v = (Inr (Some u), w) \<and> (u, group_id g) \<notin> me_members (view (world t))"
proof -
  obtain usr s1 where u: "user_or_404 E i s = (Inr usr, s1)"
    using run by (auto simp: set_user_groups_route_def run_simps split: prod.splits sum.splits)
  have d1: "members_of view s1 = members_of view s" by (rule user_or_404_members [OF L u])
  have "\<exists>s2. members_of view s2 = members_of view s1 \<and> set_user_groups E Users_router i wanted s2 = (Inr (), t) \<and>
      ''tak_ROLE_ADMIN'' \<notin> tak_name ` set wanted"
  proof (cases "wanted = []")
    case True
    with run u show ?thesis by (auto simp: set_user_groups_route_def run_simps Let_def split: if_splits)
  next
    case False
    from run u False obtain existing s2 where
      ls: "list_groups E Users_router s1 = (Inr existing, s2)" and "missing_groups wanted existing = []"
      and set: "set_user_groups E Users_router i wanted s2 = (Inr (), t)"
      by (auto simp: set_user_groups_route_def run_simps Let_def split: if_splits prod.splits sum.splits)
    from ls obtain gs where q: "query E Users_router Query_groups (data_list d_groups) s1 = (Inr gs, s2)"
      and ex: "existing = [\<lparr>g_id = group_id g, g_name = drop 4 (group_display g)\<rparr>. g \<leftarrow> gs,
        startswith (group_display g) ''tak_'' \<and> group_display g \<noteq> ''tak_ROLE_ADMIN'']"
      by (auto simp: list_groups_def run_simps split: prod.splits sum.splits)
    have gs: "members_of view s2 = members_of view s1" "gs = me_groups (members_of view s)"
      using query_groups [OF L q] d1 by simp_all
    have "tak_name n \<noteq> ''tak_ROLE_ADMIN''" if n: "n \<in> set wanted" for n
    proof
      assume bad: "tak_name n = ''tak_ROLE_ADMIN''"
      from n \<open>missing_groups wanted existing = []\<close> have "n \<in> g_name ` set existing"
        by (auto simp: missing_groups_def filter_empty_conv)
      then obtain h where h: "h \<in> set gs" "startswith (group_display h) ''tak_''" "group_display h \<noteq> ''tak_ROLE_ADMIN''"
          "n = drop 4 (group_display h)"
        by (auto simp: ex)
      then have "group_display h = ''tak_'' @ n" by (auto simp: startswith_iff)
      moreover have "n = ''ROLE_ADMIN'' \<or> n = ''tak_ROLE_ADMIN''"
        using bad unfolding tak_name_def by (cases "startswith n ''tak_''") simp_all
      ultimately have "group_display h = ''tak_tak_ROLE_ADMIN''" using h(3) by auto
      with other h(1) gs(2) show False by blast
    qed
    then have "''tak_ROLE_ADMIN'' \<notin> tak_name ` set wanted" by (rule not_in_image)
    with gs(1) set show ?thesis by blast
  qed
  then obtain s2 where d2: "members_of view s2 = members_of view s"
    and set: "set_user_groups E Users_router i wanted s2 = (Inr (), t)" and "''tak_ROLE_ADMIN'' \<notin> tak_name ` set wanted"
    using d1 by auto
  moreover obtain n v where n: "resolve_username E Users_router i s2 = (Inr (Some n), v)" and "groups_set n wanted (members_of view s2) (members_of view t)"
    using set_user_groups_exact_aux [OF L assms(2) _ _ refl set] assms(3,4) d2 by auto
  ultimately have "(n, group_id g) \<notin> me_members (members_of view t)" using g by (auto simp: groups_set_def)
  with n show ?thesis by blast
qed

end
