(* ===== verification/Spec2Isabelle.thy ===== *)
theory Spec2Isabelle
  imports UsersFacts Alerts BackupFacts App BootstrapFacts ReadRoutes CotReference StateRace GroupsFacts
begin

text \<open>
  The FastTAK monitor (\<open>src/monitor/app\<close>), the web application that runs beside a TAK Server: it manages
  its users and their certificates in an LLDAP directory, polls the health of the installation and
  alerts, takes backups, and shows all of it on a dashboard; and the one-shot container
  \<open>src/init-identity\<close> that prepares the directory before the monitor starts.

  \<^bold>\<open>How the program is modelled.\<close> A function that touches anything outside itself is a program
  \<open>('s, 'a) prog\<close>, a state transformer that returns or raises (\<open>Prelude\<close>): an exception is the left
  side of a sum, \<open>catch\<close> and \<open>always\<close> are \<open>try\<close> with \<open>except\<close> and \<open>finally\<close>, \<open>for_each\<close>, \<open>collect\<close> and
  \<open>fold_prog\<close> are loops. Everything outside the repository is a parameter: an environment record
  holds one function per service (\<open>env\<close> in \<open>World\<close> for LLDAP, the proxy, the TAK Server and Docker,
  \<open>penv\<close> in \<open>Database\<close> for the probes' services and PostgreSQL, \<open>henv\<close> in \<open>Alerts\<close> for clock, mail and
  SMS, \<open>benv\<close> in \<open>BackupStore\<close> for the file system and the programs a backup runs), each of which may
  answer or fail as the type of its reply allows. The state keeps the module-level variables of the
  program and the log of the calls made, so that a theorem can say what was called in which order.

  \<^bold>\<open>The parts.\<close>
  \<^item> \<open>PyStr\<close>, \<open>Json\<close>, \<open>DateTime\<close>: the methods of Python's strings, JSON values and the calendar, as far as the
    program uses them. Characters are the first 256 code points.
  \<^item> \<open>Config\<close> is \<open>config.py\<close>; \<open>MonConfig\<close> is \<open>monitoring_config.py\<close> with the shipped \<open>thresholds.yml\<close>.
  \<^item> \<open>World\<close>, \<open>Retry\<close>, \<open>DockerClient\<close>, \<open>Identity\<close>: the calls to other services, the retry loop as a locale,
    \<open>docker_client.py\<close>, and every method of \<open>api/users/identity.py\<close>. \<open>IdentityFacts\<close> and \<open>IdentityTrace\<close> hold
    what each method may call, what it leaves of the client, and what a return implies was called.
  \<^item> \<open>CertGen\<close>, \<open>TakServer\<close>, \<open>Enrollment\<close>, \<open>Users\<close>, \<open>ServiceAccounts\<close>: certificates, the TAK Server's client
    and the routes for users and service accounts; \<open>UsersFacts\<close> has their properties. \<open>GroupsFacts\<close> states
    LLDAP's requests as steps of a membership relation and shows what setting a user's groups leaves of it.
    \<open>Offboarding\<close> is the
    TTL check of \<open>scheduler.py\<close> and one contract, a locale, for the three places that deactivate an
    account, revoke its certificates and record it.
  \<^item> \<open>Evaluator\<close>, \<open>Alerts\<close>, \<open>Database\<close>, \<open>Probes\<close>, \<open>Polling\<close>: \<open>evaluator.py\<close>, \<open>store.py\<close> and \<open>api/alerts\<close>, \<open>db.py\<close>
    and \<open>fastak_db.py\<close>, \<open>api/health\<close>, and the polls and the start of \<open>scheduler.py\<close>. \<open>ProbeFacts\<close> shows what
    each probe can report, \<open>PollingFacts\<close> refines a poll to the update of a board of statuses.
  \<^item> \<open>HealthApi\<close>, \<open>EventsApi\<close>, \<open>TakApi\<close>: the routes of \<open>api/health\<close>, \<open>api/ops\<close>, \<open>api/events\<close> and \<open>api/tak\<close>, with
    their properties.
  \<^item> \<open>AuditLog\<close>: \<open>audit.py\<close> and \<open>api/auth_deps.py\<close>.
  \<^item> \<open>BackupStore\<close>, \<open>BackupRun\<close>, \<open>BackupApi\<close>: \<open>backup/\<close> and \<open>api/backup\<close>; \<open>BackupFacts\<close> has their properties. The
    backup directory is a dictionary of files in the state. \<open>StateRace\<close> lets the writers of its state file
    interleave.
  \<^item> \<open>Dashboard\<close>, \<open>DashboardFacts\<close>: what \<open>dashboard/routes.py\<close> hands to its templates.
  \<^item> \<open>App\<close>: \<open>main.py\<close>, that is the start of the monitor, the table of routes with their gates, and the way of a
    request through the middlewares.
  \<^item> \<open>Bootstrap\<close>: \<open>init-identity/bootstrap.py\<close>. \<open>BootstrapFacts\<close> states what LLDAP's requests do to a directory
    and shows what the bootstrap adds and what it leaves as it is, by the rules of \<open>Triples\<close>: what a program
    does to a part of the world, stated once in a locale over the relation it moves along.
  \<^item> \<open>ReadRoutes\<close>: the routes of \<open>users\<close>, \<open>service_accounts\<close>, \<open>tak\<close> and the dashboard that are reached by \<open>GET\<close>.
  \<^item> \<open>CotReference\<close>: the hook \<open>scripts/mkdocs-hooks\<close> that writes a page of the documentation.

  \<^bold>\<open>What is shown.\<close> That an account is never recorded as revoked while a certificate of it is valid for
  all the program knows, on any of the three paths and whatever fails; that no outsider reaches a
  route, and no \<open>GET\<close>, which the audit passes over, changes anything outside; that each poll is one update of a board on which the cache, the engine, the summary and the
  dashboard agree; that the shipped thresholds make no poll fail; that notifications keep their
  distance over all interleavings of polls; that retention keeps the newest backups and no sequence
  of operations loses the key; that the bootstrap is idempotent and lets the administrator in; that setting a user's groups sets exactly those; that the written formats (URLs, attributes, CSV, names, connection
  strings) are read back as they were.

  \<^bold>\<open>Bounds.\<close> No definition uses fuel: the retry loops recurse on the attempts left, of which there are
  three (sixty for the bootstrap's login), and every other loop runs over a list. Integers are unbounded as in Python, but for the
  bytes of a digest, which are words.

  \<^bold>\<open>Not modelled.\<close> Logging; the templates and their rendering; the framework's reading of requests beyond
  routes and request models; the cryptography (openssl, TLS, age, the Java key store), XML and YAML
  parsers, which are parameters; the scheduler's timing, a run of which is a sequence of polls.
  Threads interleave between the operations modelled, not inside them, but for the writers of the backups'
  state file, whose reads and writes interleave in \<open>StateRace\<close>.
\<close>

end
